(* ===== verification/Prelude.thy ===== *)
theory Prelude
  imports Main "HOL-Library.Word" "HOL-Library.AList"
begin

text \<open>
  The vocabulary every component shares: Go's error values, results of fallible calls,
  calls that act on the outside world, and Go's \<^verbatim>\<open>map[string]string\<close>.

  \<^item> \<open>go_error\<close> is an \<^verbatim>\<open>error\<close> value. \<open>Errorf\<close> and \<open>Wrapf\<close> are \<^verbatim>\<open>fmt.Errorf\<close> without and
    with a \<^verbatim>\<open>%w\<close> operand (the format and its other operands are kept as they are in the source),
    \<open>Sentinel\<close> is a package level \<^verbatim>\<open>errors.New\<close> value compared by identity, and \<open>External\<close>
    is an error of the operating system, a driver or a service, known by its text.
  \<^item> \<open>'a res\<close> is what a call returns: a value, an error, or a run-time panic.
  \<^item> \<open>('a, 'w) action\<close> is a call that reads and changes a world of type \<open>'w\<close>.
\<close>

named_theorems res_simps "rewriting of results and actions"
named_theorems go_defs "definitions unfolded when a concrete call is evaluated"

section \<open>Errors and results\<close>

datatype go_error =
    Sentinel string
  | External string
  | Errorf string "string list"
  | Wrapf string "string list" go_error

text \<open>\<^verbatim>\<open>errors.Is\<close>: the error itself or one it wraps.\<close>

fun errors_is :: "go_error \<Rightarrow> go_error \<Rightarrow> bool" where
  "errors_is (Wrapf f as e) t = (Wrapf f as e = t \<or> errors_is e t)"
| "errors_is e t = (e = t)"

text \<open>
  The text an error prints, as far as the source searches it: the only search is for a
  fragment of a service's own message, so the formatted operands are rendered in order.
\<close>

fun error_text :: "go_error \<Rightarrow> string" where
  "error_text (Sentinel s) = s"
| "error_text (External s) = s"
| "error_text (Errorf f as) = f @ concat as"
| "error_text (Wrapf f as e) = f @ concat as @ error_text e"

lemma errors_is_refl [simp]: "errors_is e e"
  by (cases e) auto

lemma errors_is_wrap: "errors_is e t \<Longrightarrow> errors_is (Wrapf f as e) t"
  by simp

datatype 'a res = Ok 'a | Err go_error | Panic string

primrec is_ok :: "'a res \<Rightarrow> bool" where
  "is_ok (Ok a) = True"
| "is_ok (Err e) = False"
| "is_ok (Panic p) = False"

lemma is_ok_iff: "is_ok r \<longleftrightarrow> (\<exists>a. r = Ok a)"
  by (cases r) auto

definition bind_res :: "'a res \<Rightarrow> ('a \<Rightarrow> 'b res) \<Rightarrow> 'b res" where
  "bind_res r f = (case r of Ok a \<Rightarrow> f a | Err e \<Rightarrow> Err e | Panic p \<Rightarrow> Panic p)"

lemma bind_res_simps [simp, res_simps]:
  "bind_res (Ok a) f = f a"
  "bind_res (Err e) f = Err e"
  "bind_res (Panic p) f = Panic p"
  by (simp_all add: bind_res_def)

lemma bind_res_eq_Ok: "bind_res r f = Ok b \<longleftrightarrow> (\<exists>a. r = Ok a \<and> f a = Ok b)"
  by (cases r) auto

text \<open>Wrapping the error of a call, \<^verbatim>\<open>fmt.Errorf("...: %w", err)\<close>, and leaving a value alone.\<close>

definition wrap_err :: "string \<Rightarrow> string list \<Rightarrow> 'a res \<Rightarrow> 'a res" where
  "wrap_err f as r = (case r of Err e \<Rightarrow> Err (Wrapf f as e) | Ok a \<Rightarrow> Ok a | Panic p \<Rightarrow> Panic p)"

lemma wrap_err_simps [simp, res_simps]:
  "wrap_err f as (Ok a) = Ok a"
  "wrap_err f as (Err e) = Err (Wrapf f as e)"
  "wrap_err f as (Panic p) = Panic p"
  by (simp_all add: wrap_err_def)

lemma wrap_err_eq_Ok [simp]: "wrap_err f as r = Ok a \<longleftrightarrow> r = Ok a"
  by (cases r) auto

section \<open>Actions on a world\<close>

type_synonym ('a, 'w) action = "'w \<Rightarrow> 'a res \<times> 'w"

definition ret :: "'a \<Rightarrow> ('a, 'w) action" where
  "ret a w = (Ok a, w)"

definition fail :: "go_error \<Rightarrow> ('a, 'w) action" where
  "fail e w = (Err e, w)"

definition lift_res :: "'a res \<Rightarrow> ('a, 'w) action" where
  "lift_res r w = (r, w)"

text \<open>\<^verbatim>\<open>x, err := m; if err != nil { return err }; f(x)\<close>\<close>

definition bind :: "('a, 'w) action \<Rightarrow> ('a \<Rightarrow> ('b, 'w) action) \<Rightarrow> ('b, 'w) action" where
  "bind m f w = (case m w of
       (Ok a, w1) \<Rightarrow> f a w1
     | (Err e, w1) \<Rightarrow> (Err e, w1)
     | (Panic p, w1) \<Rightarrow> (Panic p, w1))"

text \<open>\<^verbatim>\<open>x, err := m\<close> followed by code that looks at \<^verbatim>\<open>err\<close> itself.\<close>

definition try_catch :: "('a, 'w) action \<Rightarrow> (go_error \<Rightarrow> ('b, 'w) action) \<Rightarrow>
    ('a \<Rightarrow> ('b, 'w) action) \<Rightarrow> ('b, 'w) action" where
  "try_catch m h f w = (case m w of
       (Ok a, w1) \<Rightarrow> f a w1
     | (Err e, w1) \<Rightarrow> h e w1
     | (Panic p, w1) \<Rightarrow> (Panic p, w1))"

text \<open>\<^verbatim>\<open>_ = m\<close>: the result is dropped, a panic is not.\<close>

definition ignore :: "('a, 'w) action \<Rightarrow> (unit, 'w) action" where
  "ignore m w = (case m w of (Panic p, w1) \<Rightarrow> (Panic p, w1) | (_, w1) \<Rightarrow> (Ok (), w1))"

text \<open>\<^verbatim>\<open>defer d\<close>: the deferred call runs whatever the body returns, panics included.\<close>

definition with_defer :: "('w \<Rightarrow> 'w) \<Rightarrow> ('a, 'w) action \<Rightarrow> ('a, 'w) action" where
  "with_defer d m w = (case m w of (r, w1) \<Rightarrow> (r, d w1))"

definition wrap :: "string \<Rightarrow> string list \<Rightarrow> ('a, 'w) action \<Rightarrow> ('a, 'w) action" where
  "wrap f as m w = (case m w of (r, w1) \<Rightarrow> (wrap_err f as r, w1))"

text \<open>\<^verbatim>\<open>for _, x := range xs { if err := f(x); err != nil { return err } }\<close>\<close>

fun foreach :: "('a \<Rightarrow> (unit, 'w) action) \<Rightarrow> 'a list \<Rightarrow> (unit, 'w) action" where
  "foreach f [] = ret ()"
| "foreach f (x # xs) = bind (f x) (\<lambda>_. foreach f xs)"

lemma ret_simp [simp, res_simps]: "ret a w = (Ok a, w)"
  and fail_simp [simp, res_simps]: "fail e w = (Err e, w)"
  and lift_res_simp [simp, res_simps]: "lift_res r w = (r, w)"
  by (simp_all add: ret_def fail_def lift_res_def)

lemma bind_ret [simp]: "bind (ret a) f = f a"
  by (rule ext) (simp add: bind_def)

lemma bind_fail [simp]: "bind (fail e) f = fail e"
  by (rule ext) (simp add: bind_def)

lemma bind_Pair [simp]:
  "bind (Pair (Ok a)) f = f a"
  "bind (Pair (Err e)) f = Pair (Err e)"
  "bind (Pair (Panic p)) f = Pair (Panic p)"
  by (rule ext, simp add: bind_def)+

lemma bind_Ok: "m w = (Ok a, w1) \<Longrightarrow> bind m f w = f a w1"
  and bind_Err: "m w = (Err e, w1) \<Longrightarrow> bind m f w = (Err e, w1)"
  and bind_Panic: "m w = (Panic p, w1) \<Longrightarrow> bind m f w = (Panic p, w1)"
  by (simp_all add: bind_def)

lemmas bind_steps = bind_Ok bind_Err bind_Panic

lemma bind_eq_Ok:
  "bind m f w = (Ok b, w') \<longleftrightarrow> (\<exists>a w1. m w = (Ok a, w1) \<and> f a w1 = (Ok b, w'))"
  by (auto simp: bind_def split: prod.splits res.splits)

lemma bind_assoc: "bind (bind m f) g = bind m (\<lambda>a. bind (f a) g)"
  by (rule ext) (auto simp: bind_def split: prod.splits res.splits)

lemma bind_cong [fundef_cong]:
  "m = m' \<Longrightarrow> w = w' \<Longrightarrow> (\<And>a w1. m' w' = (Ok a, w1) \<Longrightarrow> f a w1 = f' a w1) \<Longrightarrow>
   bind m f w = bind m' f' w'"
  by (auto simp: bind_def split: prod.splits res.splits)

lemma try_catch_Ok: "m w = (Ok a, w1) \<Longrightarrow> try_catch m h f w = f a w1"
  and try_catch_Err: "m w = (Err e, w1) \<Longrightarrow> try_catch m h f w = h e w1"
  and try_catch_Panic: "m w = (Panic p, w1) \<Longrightarrow> try_catch m h f w = (Panic p, w1)"
  by (simp_all add: try_catch_def)

lemma with_defer_simp: "m w = (r, w1) \<Longrightarrow> with_defer d m w = (r, d w1)"
  by (simp add: with_defer_def)

lemma ignore_Ok: "m w = (Ok a, w1) \<Longrightarrow> ignore m w = (Ok (), w1)"
  and ignore_Err: "m w = (Err e, w1) \<Longrightarrow> ignore m w = (Ok (), w1)"
  by (simp_all add: ignore_def)

lemma wrap_eq_Ok [simp]: "wrap f as m w = (Ok a, w') \<longleftrightarrow> m w = (Ok a, w')"
  by (auto simp: wrap_def split: prod.splits)

lemma wrap_Ok: "m w = (Ok a, w1) \<Longrightarrow> wrap f as m w = (Ok a, w1)"
  and wrap_Err: "m w = (Err e, w1) \<Longrightarrow> wrap f as m w = (Err (Wrapf f as e), w1)"
  by (simp_all add: wrap_def)

lemma foreach_append: "foreach f (xs @ ys) = bind (foreach f xs) (\<lambda>_. foreach f ys)"
  by (induction xs) (simp_all add: bind_assoc)

text \<open>
  A loop whose body keeps an invariant keeps it, on whichever iteration it stops.
\<close>

lemma foreach_invariant:
  assumes "P w" and "\<And>x w. x \<in> set xs \<Longrightarrow> P w \<Longrightarrow> P (snd (f x w))"
  shows "P (snd (foreach f xs w))"
  using assms
proof (induction xs arbitrary: w)
  case Nil
  then show ?case by simp
next
  case (Cons x xs)
  obtain r w1 where fx: "f x w = (r, w1)" by (cases "f x w")
  have w1: "P w1" using Cons.prems(2)[of x w] Cons.prems(1) fx by simp
  have rest: "P (snd (foreach f xs w1))" by (rule Cons.IH[OF w1]) (simp add: Cons.prems(2))
  show ?case using fx w1 rest by (cases r) (simp_all add: bind_def)
qed

text \<open>\<open>preserves P m\<close>: whatever the call returns, the world keeps \<open>P\<close>.\<close>

definition preserves :: "('w \<Rightarrow> bool) \<Rightarrow> ('a, 'w) action \<Rightarrow> bool" where
  "preserves P m \<longleftrightarrow> (\<forall>w. P w \<longrightarrow> P (snd (m w)))"

lemma preservesI: "(\<And>w. P w \<Longrightarrow> P (snd (m w))) \<Longrightarrow> preserves P m"
  and preservesD: "preserves P m \<Longrightarrow> P w \<Longrightarrow> P (snd (m w))"
  by (auto simp: preserves_def)

named_theorems keeps "calls that preserve a predicate of the world"

lemma preserves_ret [keeps, intro]: "preserves P (ret a)"
  and preserves_fail [keeps, intro]: "preserves P (fail e)"
  and preserves_lift_res [keeps, intro]: "preserves P (lift_res r)"
  by (simp_all add: preserves_def)

lemma preserves_bind [keeps, intro]:
  assumes "preserves P m" and "\<And>a. preserves P (f a)"
  shows "preserves P (bind m f)"
proof (rule preservesI)
  fix w assume w: "P w"
  obtain r w1 where m: "m w = (r, w1)" by (cases "m w")
  have "P w1" using preservesD[OF assms(1) w] m by simp
  then show "P (snd (bind m f w))"
    using m preservesD[OF assms(2)] by (cases r) (simp_all add: bind_def)
qed

lemma preserves_try_catch [keeps, intro]:
  assumes "preserves P m" and "\<And>e. preserves P (h e)" and "\<And>a. preserves P (f a)"
  shows "preserves P (try_catch m h f)"
proof (rule preservesI)
  fix w assume w: "P w"
  obtain r w1 where m: "m w = (r, w1)" by (cases "m w")
  have "P w1" using preservesD[OF assms(1) w] m by simp
  then show "P (snd (try_catch m h f w))"
    using m preservesD[OF assms(2)] preservesD[OF assms(3)]
    by (cases r) (simp_all add: try_catch_def)
qed

lemma preserves_wrap [keeps, intro]: "preserves P m \<Longrightarrow> preserves P (wrap f as m)"
  by (auto simp: preserves_def wrap_def split: prod.splits)

lemma preserves_ignore [keeps, intro]: "preserves P m \<Longrightarrow> preserves P (ignore m)"
  by (auto simp: preserves_def ignore_def split: prod.splits res.splits)

lemma preserves_with_defer [keeps, intro]:
  "preserves P m \<Longrightarrow> (\<And>w. P w \<Longrightarrow> P (d w)) \<Longrightarrow> preserves P (with_defer d m)"
  by (auto simp: preserves_def with_defer_def split: prod.splits)

lemma preserves_foreach [keeps, intro]:
  "(\<And>x. preserves P (f x)) \<Longrightarrow> preserves P (foreach f xs)"
  by (auto simp: preserves_def intro: foreach_invariant)

lemma preserves_if [keeps]:
  "(b \<Longrightarrow> preserves P x) \<Longrightarrow> (\<not> b \<Longrightarrow> preserves P y) \<Longrightarrow> preserves P (if b then x else y)"
  by simp

lemma preserves_case_option [keeps]:
  "preserves P m \<Longrightarrow> (\<And>a. preserves P (f a)) \<Longrightarrow> preserves P (case x of None \<Rightarrow> m | Some a \<Rightarrow> f a)"
  by (cases x) simp_all

lemma preserves_case_list [keeps]:
  "preserves P m \<Longrightarrow> (\<And>a as. preserves P (f a as)) \<Longrightarrow> preserves P (case x of [] \<Rightarrow> m | a # as \<Rightarrow> f a as)"
  by (cases x) simp_all

lemma preserves_case_res [keeps]:
  "(\<And>a. preserves P (f a)) \<Longrightarrow> (\<And>e. preserves P (g e)) \<Longrightarrow> (\<And>q. preserves P (h q)) \<Longrightarrow>
   preserves P (case x of Ok a \<Rightarrow> f a | Err e \<Rightarrow> g e | Panic q \<Rightarrow> h q)"
  by (cases x) simp_all

lemma preserves_case_prod [keeps]:
  "(\<And>a b. preserves P (f a b)) \<Longrightarrow> preserves P (case x of (a, b) \<Rightarrow> f a b)"
  by (cases x) simp

lemma preserves_Let [keeps]: "(\<And>a. preserves P (f a)) \<Longrightarrow> preserves P (Let x f)"
  by (simp add: Let_def)

text \<open>A call whose argument is read from the world.\<close>

lemma preserves_reader: "(\<And>a. preserves P (m a)) \<Longrightarrow> preserves P (\<lambda>w. m (f w) w)"
  by (simp add: preserves_def)

section \<open>Calls that may not return\<close>

text \<open>\<open>None\<close> is a call that runs forever; the other calls are used in it through \<open>may\<close>.\<close>

type_synonym ('a, 'w) maybe_action = "'w \<Rightarrow> ('a res \<times> 'w) option"

definition may :: "('a, 'w) action \<Rightarrow> ('a, 'w) maybe_action" where
  "may m w = Some (m w)"

definition may_try :: "('a, 'w) maybe_action \<Rightarrow> (go_error \<Rightarrow> ('b, 'w) maybe_action) \<Rightarrow>
    ('a \<Rightarrow> ('b, 'w) maybe_action) \<Rightarrow> ('b, 'w) maybe_action" where
  "may_try m h f w = (case m w of
       None \<Rightarrow> None
     | Some (Ok a, w1) \<Rightarrow> f a w1
     | Some (Err e, w1) \<Rightarrow> h e w1
     | Some (Panic p, w1) \<Rightarrow> Some (Panic p, w1))"

definition may_bind :: "('a, 'w) maybe_action \<Rightarrow> ('a \<Rightarrow> ('b, 'w) maybe_action) \<Rightarrow> ('b, 'w) maybe_action" where
  "may_bind m f = may_try m (\<lambda>e. may (fail e)) f"

lemma may_simp [simp]: "may m w = Some (m w)"
  by (simp add: may_def)

lemma may_try_None: "m w = None \<Longrightarrow> may_try m h f w = None"
  and may_try_Ok: "m w = Some (Ok a, w1) \<Longrightarrow> may_try m h f w = f a w1"
  and may_try_Err: "m w = Some (Err e, w1) \<Longrightarrow> may_try m h f w = h e w1"
  and may_try_Panic: "m w = Some (Panic p, w1) \<Longrightarrow> may_try m h f w = Some (Panic p, w1)"
  by (simp_all add: may_try_def)

lemma may_bind_Ok: "m w = Some (Ok a, w1) \<Longrightarrow> may_bind m f w = f a w1"
  and may_bind_Err: "m w = Some (Err e, w1) \<Longrightarrow> may_bind m f w = Some (Err e, w1)"
  by (simp_all add: may_bind_def may_try_def)

lemma may_bind_eq_Ok:
  "may_bind m f w = Some (Ok b, w') \<longleftrightarrow> (\<exists>a w1. m w = Some (Ok a, w1) \<and> f a w1 = Some (Ok b, w'))"
  by (auto simp: may_bind_def may_try_def split: option.splits prod.splits res.splits)

section \<open>Functional options\<close>

text \<open>
  \<^verbatim>\<open>for _, o := range options { if err := o(&cfg); err != nil { return nil, err } }\<close>: an option
  changes a configuration, may read the world, and may fail.
\<close>

type_synonym ('c, 'w) go_option = "'c \<Rightarrow> 'w \<Rightarrow> 'c res"

fun apply_options :: "('c, 'w) go_option list \<Rightarrow> ('c, 'w) go_option" where
  "apply_options [] c w = Ok c"
| "apply_options (opt # opts) c w = bind_res (opt c w) (\<lambda>c'. apply_options opts c' w)"

lemma apply_options_append:
  "apply_options (xs @ ys) c w = bind_res (apply_options xs c w) (\<lambda>c'. apply_options ys c' w)"
proof (induction xs arbitrary: c)
  case Nil
  then show ?case by simp
next
  case (Cons opt xs)
  then show ?case by (cases "opt c w") simp_all
qed

text \<open>An option that keeps a field keeps it through any sequence of such options.\<close>

lemma apply_options_keeps:
  assumes "apply_options opts c w = Ok c'"
    and "\<And>opt d d'. opt \<in> set opts \<Longrightarrow> opt d w = Ok d' \<Longrightarrow> f d' = f d"
  shows "f c' = f c"
  using assms
proof (induction opts arbitrary: c)
  case Nil
  then show ?case by simp
next
  case (Cons opt opts)
  then show ?case by (auto simp: bind_res_eq_Ok) (metis list.set_intros)
qed

section \<open>Go maps\<close>

text \<open>
  \<^verbatim>\<open>map[string]string\<close> as an association list with distinct keys. A read of an absent key
  is Go's zero value; the order of the list stands for one of the orders a \<^verbatim>\<open>range\<close> loop may take.
\<close>

type_synonym gomap = "(string \<times> string) list"

definition gm_get :: "gomap \<Rightarrow> string \<Rightarrow> string" where
  "gm_get m k = (case map_of m k of None \<Rightarrow> '''' | Some v \<Rightarrow> v)"

definition gm_set :: "string \<Rightarrow> string \<Rightarrow> gomap \<Rightarrow> gomap" where
  "gm_set k v m = AList.update k v m"

text \<open>\<^verbatim>\<open>for k, v := range src { dst[k] = v }\<close>\<close>

definition gm_merge :: "gomap \<Rightarrow> gomap \<Rightarrow> gomap" where
  "gm_merge dst src = fold (\<lambda>(k, v). gm_set k v) src dst"

lemma map_of_gm_set: "map_of (gm_set k v m) = (map_of m)(k \<mapsto> v)"
  by (simp add: gm_set_def update_conv')

lemma gm_get_set: "gm_get (gm_set k v m) k' = (if k' = k then v else gm_get m k')"
  by (simp add: gm_get_def map_of_gm_set)

lemma distinct_gm_set [simp]: "distinct (map fst m) \<Longrightarrow> distinct (map fst (gm_set k v m))"
  by (simp add: gm_set_def distinct_update)

lemma map_of_gm_merge:
  "distinct (map fst src) \<Longrightarrow> map_of (gm_merge dst src) = map_of dst ++ map_of src"
proof (induction src arbitrary: dst)
  case Nil
  then show ?case by (simp add: gm_merge_def)
next
  case (Cons p src)
  obtain k v where p: "p = (k, v)" by (cases p)
  have k: "k \<notin> dom (map_of src)" using Cons.prems p by (simp add: dom_map_of_conv_image_fst)
  have "gm_merge dst (p # src) = gm_merge (gm_set k v dst) src" by (simp add: gm_merge_def p)
  also have "map_of \<dots> = (map_of dst)(k \<mapsto> v) ++ map_of src"
    using Cons p by (simp add: map_of_gm_set)
  also have "\<dots> = map_of dst ++ (map_of src)(k \<mapsto> v)"
    using k by (metis map_add_upd map_add_upd_left)
  also have "(map_of src)(k \<mapsto> v) = map_of (p # src)"
    by (rule ext) (simp add: p)
  finally show ?case .
qed

lemma distinct_gm_merge [simp]:
  "distinct (map fst dst) \<Longrightarrow> distinct (map fst (gm_merge dst src))"
  by (induction src arbitrary: dst) (auto simp: gm_merge_def)

section \<open>Machine integers\<close>

type_synonym u32 = "32 word"
type_synonym u64 = "64 word"

end
