(* ===== verification/GoStrings.thy ===== *)
theory GoStrings
  imports Prelude
begin

text \<open>
  The functions of Go's package \<^verbatim>\<open>strings\<close> that the program calls. A Go string is a sequence
  of bytes, and a HOL \<^typ>\<open>char\<close> is a byte, so a Go string is a \<^typ>\<open>string\<close>.

  Case mapping and white space are Unicode notions in Go. Both are used in this program on strings
  that are then compared with ASCII text only, and the few non-ASCII code points for which that
  comparison can come out true are written out as their UTF-8 bytes below.
\<close>

section \<open>Prefixes, suffixes, substrings\<close>

definition hasPrefix :: "string \<Rightarrow> string \<Rightarrow> bool" where
  "hasPrefix s p \<longleftrightarrow> take (length p) s = p"

definition hasSuffix :: "string \<Rightarrow> string \<Rightarrow> bool" where
  "hasSuffix s p \<longleftrightarrow> length p \<le> length s \<and> drop (length s - length p) s = p"

definition trimPrefix :: "string \<Rightarrow> string \<Rightarrow> string" where
  "trimPrefix s p = (if hasPrefix s p then drop (length p) s else s)"

definition trimSuffix :: "string \<Rightarrow> string \<Rightarrow> string" where
  "trimSuffix s p = (if hasSuffix s p then take (length s - length p) s else s)"

fun contains :: "string \<Rightarrow> string \<Rightarrow> bool" where
  "contains [] p = (p = [])"
| "contains (c # s) p = (hasPrefix (c # s) p \<or> contains s p)"

text \<open>\<^verbatim>\<open>strings.Index\<close>, with \<open>None\<close> for -1.\<close>

fun index_of :: "string \<Rightarrow> string \<Rightarrow> nat option" where
  "index_of [] p = (if p = [] then Some 0 else None)"
| "index_of (c # s) p = (if hasPrefix (c # s) p then Some 0 else map_option Suc (index_of s p))"

lemma hasPrefix_iff: "hasPrefix s p \<longleftrightarrow> (\<exists>r. s = p @ r)"
  by (metis append_eq_conv_conj append_take_drop_id hasPrefix_def)

lemma hasPrefix_append [simp]: "hasPrefix (p @ r) p"
  by (simp add: hasPrefix_def)

lemma hasPrefix_Nil [simp]: "hasPrefix s []"
  by (simp add: hasPrefix_def)

lemma hasPrefix_Nil2 [simp]: "hasPrefix [] p \<longleftrightarrow> p = []"
  by (auto simp: hasPrefix_def)

lemma hasPrefix_Cons [simp]: "hasPrefix (c # s) (d # p) \<longleftrightarrow> c = d \<and> hasPrefix s p"
  by (auto simp: hasPrefix_def)

lemma hasSuffix_iff: "hasSuffix s p \<longleftrightarrow> (\<exists>r. s = r @ p)"
proof
  assume "hasSuffix s p"
  then have "s = take (length s - length p) s @ p"
    by (metis append_take_drop_id hasSuffix_def)
  then show "\<exists>r. s = r @ p" by blast
qed (auto simp: hasSuffix_def)

lemma trimPrefix_append [simp]: "trimPrefix (p @ s) p = s"
  by (simp add: trimPrefix_def)

lemma trimSuffix_append [simp]: "trimSuffix (s @ p) p = s"
  by (auto simp: trimSuffix_def hasSuffix_iff)

lemma contains_iff: "contains s p \<longleftrightarrow> (\<exists>a b. s = a @ p @ b)"
proof (induction s)
  case Nil
  then show ?case by simp
next
  case (Cons c s)
  have "(\<exists>a b. c # s = a @ p @ b) \<longleftrightarrow> (\<exists>b. c # s = p @ b) \<or> (\<exists>a b. s = a @ p @ b)" (is "?l \<longleftrightarrow> ?r")
  proof
    assume ?l
    then obtain a b where "c # s = a @ p @ b" by blast
    then show ?r by (cases a) auto
  next
    assume ?r
    then show ?l by (metis append_Cons append_Nil)
  qed
  with Cons show ?case by (simp add: hasPrefix_iff)
qed

section \<open>Replacing, splitting, joining\<close>

text \<open>\<^verbatim>\<open>strings.ReplaceAll\<close> for a non-empty \<open>old\<close>, the only use in the program.\<close>

function replaceAll :: "string \<Rightarrow> string \<Rightarrow> string \<Rightarrow> string" where
  "replaceAll s old new =
     (if old = [] \<or> s = [] then s
      else if hasPrefix s old then new @ replaceAll (drop (length old) s) old new
      else hd s # replaceAll (tl s) old new)"
  by pat_completeness auto
termination
proof (relation "measure (\<lambda>(s, old, new). length s)", goal_cases)
  case 1
  show ?case by simp
next
  case (2 s old new)
  then show ?case by (cases s; cases old) auto
next
  case (3 s old new)
  then show ?case by (cases s) auto
qed

declare replaceAll.simps [simp del]

lemma replaceAll_Nil [simp]: "replaceAll [] old new = []"
  by (subst replaceAll.simps) simp

text \<open>Text without the first byte of the pattern is left alone, and so is the text after it.\<close>

lemma replaceAll_skip:
  "o1 \<notin> set a \<Longrightarrow> replaceAll (a @ s) (o1 # os) new = a @ replaceAll s (o1 # os) new"
proof (induction a)
  case Nil
  then show ?case by simp
next
  case (Cons c a)
  then show ?case
    by (subst replaceAll.simps) auto
qed

lemma replaceAll_hit:
  "replaceAll ((o1 # os) @ s) (o1 # os) new = new @ replaceAll s (o1 # os) new"
  by (subst replaceAll.simps) (simp add: hasPrefix_iff)

lemma replaceAll_id: "o1 \<notin> set s \<Longrightarrow> replaceAll s (o1 # os) new = s"
  using replaceAll_skip[of o1 s "[]" os new] by simp

text \<open>A byte that is not in the pattern cuts a search in two.\<close>

lemma contains_subset: "contains s p \<Longrightarrow> set p \<subseteq> set s"
  by (auto simp: contains_iff)

lemma contains_cut:
  assumes "c \<notin> set p"
  shows "contains (a @ c # b) p \<longleftrightarrow> contains a p \<or> contains b p"
proof
  assume "contains (a @ c # b) p"
  then obtain x y where xy: "a @ c # b = x @ p @ y" by (auto simp: contains_iff)
  then consider us where "a = x @ us" "us @ c # b = p @ y" | us where "a @ us = x" "c # b = us @ p @ y"
    by (auto simp: append_eq_append_conv2)
  then show "contains a p \<or> contains b p"
  proof cases
    case (1 us)
    then consider v where "us = p @ v" | v where "us @ v = p" "c # b = v @ y"
      by (auto simp: append_eq_append_conv2)
    then show ?thesis
    proof cases
      case (1 v)
      with \<open>a = x @ us\<close> have "a = x @ p @ v" by simp
      then show ?thesis unfolding contains_iff by blast
    next
      case (2 v)
      then have "v = []" using assms by (cases v) auto
      with 2 \<open>a = x @ us\<close> have "a = x @ p @ []" by simp
      then show ?thesis unfolding contains_iff by blast
    qed
  next
    case (2 us)
    show ?thesis
    proof (cases us)
      case Nil
      then have "p = []" using 2 assms by (cases p) auto
      then show ?thesis unfolding contains_iff by auto
    next
      case (Cons u v)
      then have "b = v @ p @ y" using 2 by simp
      then show ?thesis unfolding contains_iff by blast
    qed
  qed
next
  assume "contains a p \<or> contains b p"
  then show "contains (a @ c # b) p"
  proof
    assume "contains a p"
    then obtain x y where "a = x @ p @ y" by (auto simp: contains_iff)
    then have "a @ c # b = x @ p @ (y @ c # b)" by simp
    then show ?thesis unfolding contains_iff by blast
  next
    assume "contains b p"
    then obtain x y where "b = x @ p @ y" by (auto simp: contains_iff)
    then have "a @ c # b = (a @ c # x) @ p @ y" by simp
    then show ?thesis unfolding contains_iff by blast
  qed
qed

lemma replaceAll_no_match: "\<not> contains s old \<Longrightarrow> replaceAll s old new = s"
proof (induction s)
  case Nil
  then show ?case by simp
next
  case (Cons c s)
  then show ?case by (subst replaceAll.simps) auto
qed

text \<open>A match right after a byte that is not in the pattern is the next one to be replaced.\<close>

lemma replaceAll_after:
  assumes "c \<notin> set old" and "\<not> contains a old" and "old \<noteq> []"
  shows "replaceAll (a @ c # s) old new = a @ c # replaceAll s old new"
  using assms(2)
proof (induction a)
  case Nil
  have "\<not> hasPrefix (c # s) old" using assms by (cases old) auto
  then show ?case using assms(3) by (subst replaceAll.simps) simp
next
  case (Cons d a)
  have "\<not> hasPrefix (d # a @ c # s) old"
  proof
    assume "hasPrefix (d # a @ c # s) old"
    then obtain r where r: "(d # a) @ c # s = old @ r" by (auto simp: hasPrefix_iff)
    then consider v where "d # a = old @ v" | v where "(d # a) @ v = old" "c # s = v @ r"
      unfolding append_eq_append_conv2 by metis
    then show False
    proof cases
      case (1 v)
      then have "contains (d # a) old" unfolding contains_iff by (metis append_Nil)
      then show False using Cons.prems by simp
    next
      case (2 v)
      then have "v = []" using assms(1) by (cases v) auto
      then have "d # a = [] @ old @ []" using 2 by simp
      then have "contains (d # a) old" unfolding contains_iff by blast
      then show False using Cons.prems by simp
    qed
  qed
  then show ?case using Cons assms(3) by (subst replaceAll.simps) simp
qed

text \<open>\<^verbatim>\<open>strings.Split\<close> at a separator of one byte.\<close>

fun splitOn :: "char \<Rightarrow> string \<Rightarrow> string list" where
  "splitOn c [] = [[]]"
| "splitOn c (x # s) =
     (if x = c then [] # splitOn c s
      else (case splitOn c s of [] \<Rightarrow> [[x]] | p # ps \<Rightarrow> (x # p) # ps))"

fun join :: "string \<Rightarrow> string list \<Rightarrow> string" where
  "join sep [] = []"
| "join sep [x] = x"
| "join sep (x # y # xs) = x @ sep @ join sep (y # xs)"

lemma splitOn_nonempty [simp]: "splitOn c s \<noteq> []"
  by (induction s) (auto split: list.splits)

lemma splitOn_none: "c \<notin> set s \<Longrightarrow> splitOn c s = [s]"
  by (induction s) auto

lemma splitOn_append: "c \<notin> set a \<Longrightarrow> splitOn c (a @ c # s) = a # splitOn c s"
  by (induction a) auto

lemma splitOn_join:
  "xs \<noteq> [] \<Longrightarrow> (\<And>x. x \<in> set xs \<Longrightarrow> c \<notin> set x) \<Longrightarrow> splitOn c (join [c] xs) = xs"
  by (induction "[c]" xs rule: join.induct) (auto simp: splitOn_none splitOn_append)

lemma join_Cons: "xs \<noteq> [] \<Longrightarrow> join sep (x # xs) = x @ sep @ join sep xs"
  by (cases xs) auto

lemma join_splitOn: "join [c] (splitOn c s) = s"
proof (induction s)
  case Nil
  then show ?case by simp
next
  case (Cons x s)
  obtain p ps where sp: "splitOn c s = p # ps" by (cases "splitOn c s") auto
  have "join [c] (p # ps) = s" using Cons sp by simp
  then show ?case using sp by (cases ps) auto
qed

lemma splitOn_pieces: "x \<in> set (splitOn c s) \<Longrightarrow> c \<notin> set x"
proof (induction s arbitrary: x)
  case Nil
  then show ?case by simp
next
  case (Cons d s)
  obtain p ps where sp: "splitOn c s = p # ps" by (cases "splitOn c s") auto
  show ?case using Cons sp by (auto split: if_splits)
qed

lemma join_append:
  "xs \<noteq> [] \<Longrightarrow> ys \<noteq> [] \<Longrightarrow> join sep (xs @ ys) = join sep xs @ sep @ join sep ys"
proof (induction xs)
  case Nil
  then show ?case by simp
next
  case (Cons x xs)
  then show ?case by (cases xs) (auto simp: join_Cons)
qed

lemma set_join: "set (join sep xs) \<subseteq> (\<Union>x\<in>set xs. set x) \<union> set sep"
  by (induction sep xs rule: join.induct) auto

section \<open>White space\<close>

text \<open>The UTF-8 encodings of the code points for which \<^verbatim>\<open>unicode.IsSpace\<close> holds.\<close>

definition space_runes :: "string list" where
  "space_runes =
     [[CHR 0x09], [CHR 0x0A], [CHR 0x0B], [CHR 0x0C], [CHR 0x0D], [CHR 0x20],
      [CHR 0xC2, CHR 0x85], [CHR 0xC2, CHR 0xA0], [CHR 0xE1, CHR 0x9A, CHR 0x80],
      [CHR 0xE2, CHR 0x80, CHR 0x80], [CHR 0xE2, CHR 0x80, CHR 0x81], [CHR 0xE2, CHR 0x80, CHR 0x82],
      [CHR 0xE2, CHR 0x80, CHR 0x83], [CHR 0xE2, CHR 0x80, CHR 0x84], [CHR 0xE2, CHR 0x80, CHR 0x85],
      [CHR 0xE2, CHR 0x80, CHR 0x86], [CHR 0xE2, CHR 0x80, CHR 0x87], [CHR 0xE2, CHR 0x80, CHR 0x88],
      [CHR 0xE2, CHR 0x80, CHR 0x89], [CHR 0xE2, CHR 0x80, CHR 0x8A], [CHR 0xE2, CHR 0x80, CHR 0xA8],
      [CHR 0xE2, CHR 0x80, CHR 0xA9], [CHR 0xE2, CHR 0x80, CHR 0xAF], [CHR 0xE2, CHR 0x81, CHR 0x9F],
      [CHR 0xE3, CHR 0x80, CHR 0x80]]"

text \<open>Drop one listed sequence from the front, as often as one is there.\<close>

definition strip_one :: "string list \<Rightarrow> string \<Rightarrow> string option" where
  "strip_one ps s = (case filter (\<lambda>p. hasPrefix s p) ps of [] \<Rightarrow> None | p # _ \<Rightarrow> Some (drop (length p) s))"

fun strip_fuel :: "nat \<Rightarrow> string list \<Rightarrow> string \<Rightarrow> string" where
  "strip_fuel 0 ps s = s"
| "strip_fuel (Suc n) ps s = (case strip_one ps s of None \<Rightarrow> s | Some s' \<Rightarrow> strip_fuel n ps s')"

text \<open>
  Every listed sequence is non-empty, so as many rounds as there are bytes are enough.
\<close>

definition trimLeft :: "string \<Rightarrow> string" where
  "trimLeft s = strip_fuel (length s) space_runes s"

definition trimRight :: "string \<Rightarrow> string" where
  "trimRight s = rev (strip_fuel (length s) (map rev space_runes) (rev s))"

definition trimSpace :: "string \<Rightarrow> string" where
  "trimSpace s = trimRight (trimLeft s)"

lemma strip_one_None: "strip_one ps s = None \<longleftrightarrow> (\<forall>p\<in>set ps. \<not> hasPrefix s p)"
  by (auto simp: strip_one_def filter_empty_conv filter_eq_Cons_iff split: list.splits)

lemma strip_one_shorter:
  assumes "strip_one ps s = Some s'" and "[] \<notin> set ps"
  shows "length s' < length s"
proof -
  from assms(1) obtain p qs where "filter (\<lambda>p. hasPrefix s p) ps = p # qs"
    and s': "s' = drop (length p) s"
    by (auto simp: strip_one_def split: list.splits)
  then have "p \<in> set ps" "hasPrefix s p" by (auto simp: filter_eq_Cons_iff)
  with s' show ?thesis using assms(2) by (cases p; cases s) auto
qed

lemma strip_fuel_enough:
  "length s \<le> n \<Longrightarrow> [] \<notin> set ps \<Longrightarrow> strip_one ps (strip_fuel n ps s) = None"
proof (induction n arbitrary: s)
  case 0
  then show ?case by (auto simp: strip_one_None)
next
  case (Suc n)
  show ?case
  proof (cases "strip_one ps s")
    case None
    then show ?thesis by simp
  next
    case (Some s')
    with strip_one_shorter[OF Some] Suc show ?thesis by simp
  qed
qed

lemma strip_fuel_id: "strip_one ps s = None \<Longrightarrow> strip_fuel n ps s = s"
  by (cases n) auto

lemma trimSpace_id:
  assumes "\<And>p. p \<in> set space_runes \<Longrightarrow> \<not> hasPrefix s p \<and> \<not> hasPrefix (rev s) (rev p)"
  shows "trimSpace s = s"
  using assms by (simp add: trimSpace_def trimLeft_def trimRight_def strip_fuel_id strip_one_None)

section \<open>Case\<close>

text \<open>
  \<^verbatim>\<open>strings.ToLower\<close> as far as a comparison with ASCII text can tell. U+0130 and U+212A are the
  only code points beyond ASCII whose lower case is an ASCII letter (i and k); every other byte
  beyond ASCII stays beyond ASCII.
\<close>

definition lower_char :: "char \<Rightarrow> char" where
  "lower_char c = (let n = of_char c :: nat in if 65 \<le> n \<and> n \<le> 90 then char_of (n + 32) else c)"

fun toLower :: "string \<Rightarrow> string" where
  "toLower (a # b # c # s) =
     (if a = CHR 0xC4 \<and> b = CHR 0xB0 then CHR ''i'' # toLower (c # s)
      else if a = CHR 0xE2 \<and> b = CHR 0x84 \<and> c = CHR 0xAA then CHR ''k'' # toLower s
      else lower_char a # toLower (b # c # s))"
| "toLower [a, b] = (if a = CHR 0xC4 \<and> b = CHR 0xB0 then ''i'' else [lower_char a, lower_char b])"
| "toLower [a] = [lower_char a]"
| "toLower [] = []"

text \<open>
  \<^verbatim>\<open>strings.EqualFold\<close> against ASCII text: simple folding adds U+017F (to s) and U+212A (to k).
\<close>

fun fold_case :: "string \<Rightarrow> string" where
  "fold_case (a # b # c # s) =
     (if a = CHR 0xC5 \<and> b = CHR 0xBF then CHR ''s'' # fold_case (c # s)
      else if a = CHR 0xE2 \<and> b = CHR 0x84 \<and> c = CHR 0xAA then CHR ''k'' # fold_case s
      else lower_char a # fold_case (b # c # s))"
| "fold_case [a, b] = (if a = CHR 0xC5 \<and> b = CHR 0xBF then ''s'' else [lower_char a, lower_char b])"
| "fold_case [a] = [lower_char a]"
| "fold_case [] = []"

definition equalFold :: "string \<Rightarrow> string \<Rightarrow> bool" where
  "equalFold s t \<longleftrightarrow> fold_case s = fold_case t"

lemmas [go_defs] = hasPrefix_def hasSuffix_def trimPrefix_def trimSuffix_def replaceAll.simps
  strip_one_def trimLeft_def trimRight_def trimSpace_def space_runes_def lower_char_def equalFold_def

end
