(* ===== verification/World.thy ===== *)
theory World
  imports GoStrings
begin

text \<open>
  The outside world of the program: the operating system, the docker daemon and the postgres,
  redis and mongodb servers. None of their code is in the repository, so each is a record of
  functions that the definitions of the components take as an argument, over a world type \<open>'w\<close>
  nothing is assumed about. Calls that only read have type \<open>'w \<Rightarrow> \<dots>\<close>; calls that act are
  \<open>('a, 'w) action\<close>. What a theorem relies on is stated as a hypothesis on these functions
  (the \<open>\<dots>_doc\<close> predicates of the component theories).

  Contexts are not passed on: a cancelled or expired context shows as an error of the call that
  was given it. Log output is not part of the world.
\<close>

section \<open>Operating system\<close>

datatype walk_event = WalkEntry string string bool | WalkErr go_error

text \<open>
  \<open>walkDir\<close> lists the calls \<^verbatim>\<open>filepath.WalkDir\<close> makes to its callback: path, base name and
  whether the entry is a directory, or the error it was called with. \<open>waitDone\<close> is
  \<^verbatim>\<open><-ctx.Done()\<close>: the world once a signal cancelled the context, \<open>None\<close> if that never happens;
  \<open>waitTick\<close> is a \<^verbatim>\<open>select\<close> between the end of a context (\<open>True\<close>) and the next tick.
\<close>

record 'w os_api =
  getenv :: "'w \<Rightarrow> string \<Rightarrow> string"
  setenv :: "string \<Rightarrow> string \<Rightarrow> (unit, 'w) action"
  getwd :: "'w \<Rightarrow> string res"
  nowNano :: "'w \<Rightarrow> nat \<times> 'w"
  randInt20 :: "(nat, 'w) action"
  randIntn :: "nat \<Rightarrow> 'w \<Rightarrow> nat \<times> 'w"
  listenTCP :: "string \<Rightarrow> (unit, 'w) action"
  closeListener :: "string \<Rightarrow> (unit, 'w) action"
  canDial :: "string \<Rightarrow> 'w \<Rightarrow> bool"
  statIsDir :: "string \<Rightarrow> 'w \<Rightarrow> bool res"
  readFile :: "string \<Rightarrow> 'w \<Rightarrow> string res"
  walkDir :: "string \<Rightarrow> 'w \<Rightarrow> walk_event list"
  mkdirTemp :: "string \<Rightarrow> string \<Rightarrow> (string, 'w) action"
  mkdirAll :: "string \<Rightarrow> (unit, 'w) action"
  createFile :: "string \<Rightarrow> (unit, 'w) action"
  copyTo :: "string \<Rightarrow> string \<Rightarrow> (unit, 'w) action"
  removeAll :: "string \<Rightarrow> 'w \<Rightarrow> 'w"
  waitDone :: "'w \<Rightarrow> 'w option"
  waitTick :: "'w \<Rightarrow> bool \<times> 'w"

section \<open>Docker\<close>

record port_binding =
  ContainerPort :: string
  HostIP :: string
  HostPort :: string

record container_config =
  cc_Name :: string
  cc_Image :: string
  cc_Cmd :: "string list"
  cc_Env :: "string list"
  cc_Labels :: gomap
  cc_PortBindings :: "port_binding list"
  cc_ExtraHosts :: "string list"

record container_summary =
  cs_ID :: string
  cs_Names :: "string list"
  cs_Labels :: gomap

text \<open>
  \<open>parsePortSpecs\<close> is \<^verbatim>\<open>nat.ParsePortSpecs\<close> of the docker libraries; \<open>dk_pull\<close> is the
  pull request together with reading its whole answer.
\<close>

record 'w docker_api =
  dk_client :: "(unit, 'w) action"
  parsePortSpecs :: "string list \<Rightarrow> port_binding list res"
  dk_imageInspect :: "string \<Rightarrow> (unit, 'w) action"
  dk_pull :: "string \<Rightarrow> (unit, 'w) action"
  dk_create :: "container_config \<Rightarrow> (string, 'w) action"
  dk_start :: "string \<Rightarrow> (unit, 'w) action"
  dk_list :: "string list \<Rightarrow> (container_summary list, 'w) action"
  dk_remove :: "string \<Rightarrow> (unit, 'w) action"
  dk_execCreate :: "string \<Rightarrow> string list \<Rightarrow> (string, 'w) action"
  dk_execAttach :: "string \<Rightarrow> (string, 'w) action"

section \<open>Database servers\<close>

text \<open>\<^verbatim>\<open>database/sql\<close> with the postgres driver. Connections and transactions are numbered handles.\<close>

record 'w pg_api =
  sql_open :: "string \<Rightarrow> (nat, 'w) action"
  sql_ping :: "nat \<Rightarrow> (unit, 'w) action"
  sql_close :: "nat \<Rightarrow> 'w \<Rightarrow> 'w"
  sql_exec :: "nat \<Rightarrow> string \<Rightarrow> string list \<Rightarrow> (unit, 'w) action"
  sql_begin :: "nat \<Rightarrow> (nat, 'w) action"
  tx_exec :: "nat \<Rightarrow> string \<Rightarrow> (unit, 'w) action"
  tx_rollback :: "nat \<Rightarrow> (unit, 'w) action"
  tx_commit :: "nat \<Rightarrow> (unit, 'w) action"

text \<open>
  The redigo client. \<open>rd_call\<close> is \<^verbatim>\<open>redis.call\<close> inside a Lua script, \<open>rd_script\<close> sends a
  script, whose effect is given as an action, to the server, and \<open>rd_eval\<close> sends the text of a
  user's script.
\<close>

datatype reply = RInt int | RBulk string | RStatus string | RNil | RArr "reply list"

record 'w redis_api =
  rd_dial :: "string \<Rightarrow> (nat, 'w) action"
  rd_close :: "nat \<Rightarrow> 'w \<Rightarrow> 'w"
  rd_do :: "nat \<Rightarrow> string list \<Rightarrow> (reply, 'w) action"
  rd_call :: "nat \<Rightarrow> string list \<Rightarrow> (reply, 'w) action"
  rd_script :: "nat \<Rightarrow> (reply, 'w) action \<Rightarrow> (reply, 'w) action"
  rd_eval :: "nat \<Rightarrow> string \<Rightarrow> (reply, 'w) action"

text \<open>The mongo driver; \<open>json_docs\<close> is \<^verbatim>\<open>json.Unmarshal\<close> into a slice of documents.\<close>

record 'w mongo_api =
  mg_connect :: "string \<Rightarrow> (nat, 'w) action"
  mg_ping :: "nat \<Rightarrow> (unit, 'w) action"
  mg_disconnect :: "nat \<Rightarrow> 'w \<Rightarrow> 'w"
  mg_drop :: "nat \<Rightarrow> string \<Rightarrow> (unit, 'w) action"
  mg_insertMany :: "nat \<Rightarrow> string \<Rightarrow> string \<Rightarrow> string list \<Rightarrow> (unit, 'w) action"
  json_docs :: "string \<Rightarrow> string list res"

record 'w sys =
  os :: "'w os_api"
  docker :: "'w docker_api"
  pgs :: "'w pg_api"
  rds :: "'w redis_api"
  mgs :: "'w mongo_api"

text \<open>Reading the world inside an action.\<close>

definition ask :: "('w \<Rightarrow> 'a res) \<Rightarrow> ('a, 'w) action" where
  "ask f w = (f w, w)"

definition pure_step :: "('w \<Rightarrow> 'a \<times> 'w) \<Rightarrow> ('a, 'w) action" where
  "pure_step f w = (case f w of (a, w1) \<Rightarrow> (Ok a, w1))"

lemma ask_simp [simp, res_simps]: "ask f w = (f w, w)"
  by (simp add: ask_def)

lemma preserves_ask [keeps, intro]: "preserves P (ask f)"
  by (simp add: preserves_def)

definition DeadlineExceeded :: go_error where
  "DeadlineExceeded = Sentinel ''context deadline exceeded''"

definition ErrNotExist :: go_error where
  "ErrNotExist = Sentinel ''file does not exist''"

definition inside_docker :: "'w sys \<Rightarrow> 'w \<Rightarrow> bool" where
  "inside_docker S w \<longleftrightarrow> getenv (os S) w ''DBCTL_INSIDE_DOCKER'' = ''true''"

end
