(* ===== verification/GoStrconv.thy ===== *)
theory GoStrconv
  imports GoStrings
begin

text \<open>
  Go's package \<^verbatim>\<open>strconv\<close>: decimal formatting and parsing of unsigned and signed integers and
  booleans, with the errors \<^verbatim>\<open>ErrSyntax\<close> and \<^verbatim>\<open>ErrRange\<close>, and the two round trips the
  program relies on (a port written by \<^verbatim>\<open>Itoa\<close> or \<^verbatim>\<open>FormatUint\<close> and read by \<^verbatim>\<open>ParseUint\<close>, an
  index written by \<^verbatim>\<open>Itoa\<close> and read by \<^verbatim>\<open>Atoi\<close>).
\<close>

section \<open>Decimal digits\<close>

definition is_digit :: "char \<Rightarrow> bool" where
  "is_digit c \<longleftrightarrow> (let n = of_char c :: nat in 48 \<le> n \<and> n \<le> 57)"

definition digit_val :: "char \<Rightarrow> nat" where
  "digit_val c = of_char c - 48"

definition digit_char :: "nat \<Rightarrow> char" where
  "digit_char d = char_of (48 + d)"

lemma digit_char_props:
  assumes "d < 10"
  shows "is_digit (digit_char d)" and "digit_val (digit_char d) = d"
proof -
  have "of_char (digit_char d) = (48 + d :: nat)"
    using assms by (simp add: digit_char_def of_char_of)
  then show "is_digit (digit_char d)" and "digit_val (digit_char d) = d"
    using assms by (simp_all add: is_digit_def digit_val_def Let_def)
qed

lemma is_digit_not:
  "\<not> is_digit (CHR '':'')" "\<not> is_digit (CHR ''/'')" "\<not> is_digit (CHR ''%'')"
  "\<not> is_digit (CHR ''@'')" "\<not> is_digit (CHR ''?'')" "\<not> is_digit (CHR ''#'')"
  "\<not> is_digit (CHR ''-'')" "\<not> is_digit (CHR ''+'')" "\<not> is_digit (CHR '']'')"
  "\<not> is_digit (CHR ''['')" "\<not> is_digit (CHR ''.'')" "\<not> is_digit (CHR ''v'')"
  by (simp_all add: is_digit_def)

section \<open>Formatting\<close>

text \<open>\<^verbatim>\<open>FormatUint(n, 10)\<close>\<close>

fun formatUint :: "nat \<Rightarrow> string" where
  "formatUint n = (if n < 10 then [digit_char n] else formatUint (n div 10) @ [digit_char (n mod 10)])"

declare formatUint.simps [simp del]

definition itoa :: "int \<Rightarrow> string" where
  "itoa i = (if i < 0 then CHR ''-'' # formatUint (nat (- i)) else formatUint (nat i))"

section \<open>Parsing\<close>

definition err_syntax :: go_error where
  "err_syntax = Sentinel ''invalid syntax''"

definition err_range :: go_error where
  "err_range = Sentinel ''value out of range''"

fun parse_digits :: "nat \<Rightarrow> nat \<Rightarrow> string \<Rightarrow> nat res" where
  "parse_digits bound n [] = Ok n"
| "parse_digits bound n (c # s) =
     (if \<not> is_digit c then Err err_syntax
      else if bound \<le> 10 * n + digit_val c then Err err_range
      else parse_digits bound (10 * n + digit_val c) s)"

text \<open>\<^verbatim>\<open>ParseUint(s, 10, bits)\<close>\<close>

definition parseUint :: "nat \<Rightarrow> string \<Rightarrow> nat res" where
  "parseUint bits s = (if s = [] then Err err_syntax else parse_digits (2 ^ bits) 0 s)"

text \<open>\<^verbatim>\<open>Atoi\<close> on a 64-bit machine: an optional sign, then digits.\<close>

definition atoi :: "string \<Rightarrow> int res" where
  "atoi s =
     (let neg = (s \<noteq> [] \<and> hd s = CHR ''-'');
          body = (if s \<noteq> [] \<and> (hd s = CHR ''-'' \<or> hd s = CHR ''+'') then tl s else s)
      in bind_res (parseUint 64 body) (\<lambda>n.
           if \<not> neg \<and> 2 ^ 63 \<le> n then Err err_range
           else if neg \<and> 2 ^ 63 < n then Err err_range
           else Ok (if neg then - int n else int n)))"

definition parseBool :: "string \<Rightarrow> bool res" where
  "parseBool s =
     (if s \<in> set [''1'', ''t'', ''T'', ''TRUE'', ''true'', ''True''] then Ok True
      else if s \<in> set [''0'', ''f'', ''F'', ''FALSE'', ''false'', ''False''] then Ok False
      else Err err_syntax)"

section \<open>Round trips\<close>

lemma formatUint_digits: "\<forall>c \<in> set (formatUint n). is_digit c"
proof (induction n rule: formatUint.induct)
  case (1 n)
  then show ?case
    by (subst formatUint.simps) (auto simp: digit_char_props(1))
qed

lemma formatUint_nonempty [simp]: "formatUint n \<noteq> []"
  by (subst formatUint.simps) simp

lemma formatUint_0: "formatUint 0 = ''0''"
  by code_simp

lemma parse_digits_append:
  "parse_digits b n (s @ t) = bind_res (parse_digits b n s) (\<lambda>m. parse_digits b m t)"
  by (induction s arbitrary: n) auto

lemma parse_formatUint: "n < b \<Longrightarrow> parse_digits b 0 (formatUint n) = Ok n"
proof (induction n rule: formatUint.induct)
  case (1 n)
  show ?case
  proof (cases "n < 10")
    case True
    with 1 show ?thesis by (subst formatUint.simps) (simp add: digit_char_props)
  next
    case False
    with 1 have "parse_digits b 0 (formatUint (n div 10)) = Ok (n div 10)" by simp
    with False 1(2) show ?thesis
      by (subst formatUint.simps) (simp add: parse_digits_append digit_char_props)
  qed
qed

lemma parseUint_formatUint [simp]: "n < 2 ^ bits \<Longrightarrow> parseUint bits (formatUint n) = Ok n"
  by (simp add: parseUint_def parse_formatUint)

lemma parse_digits_bound: "parse_digits b n s = Ok m \<Longrightarrow> n < b \<Longrightarrow> m < b"
  by (induction s arbitrary: n) (auto split: if_splits)

lemma parseUint_bound: "parseUint bits s = Ok n \<Longrightarrow> n < 2 ^ bits"
  by (auto simp: parseUint_def split: if_splits dest: parse_digits_bound)

lemma parse_digits_is_digits: "parse_digits b n s = Ok m \<Longrightarrow> \<forall>c \<in> set s. is_digit c"
  by (induction s arbitrary: n) (auto split: if_splits)

lemma formatUint_head: "\<exists>c s. formatUint n = c # s \<and> is_digit c"
  using formatUint_digits[of n] formatUint_nonempty[of n] by (cases "formatUint n") auto

lemma formatUint_inj:
  assumes "formatUint m = formatUint n"
  shows "m = n"
proof -
  define b where "b = Suc (max m n)"
  have "parse_digits b 0 (formatUint m) = Ok m" "parse_digits b 0 (formatUint n) = Ok n"
    by (rule parse_formatUint; simp add: b_def)+
  then have "Ok m = (Ok n :: nat res)" unfolding assms by (rule trans[OF sym])
  then show ?thesis by simp
qed

lemma atoi_formatUint: "n < 2 ^ 63 \<Longrightarrow> atoi (formatUint n) = Ok (int n)"
proof -
  assume n: "n < 2 ^ 63"
  obtain c s where cs: "formatUint n = c # s" "is_digit c" using formatUint_head by blast
  then have "c \<noteq> CHR ''-''" "c \<noteq> CHR ''+''" using is_digit_not by auto
  moreover have "parseUint 64 (c # s) = Ok n" using n parseUint_formatUint[of n 64] cs(1) by simp
  ultimately show ?thesis using n cs(1) by (simp add: atoi_def)
qed

lemma atoi_itoa: "0 \<le> i \<Longrightarrow> i < 2 ^ 63 \<Longrightarrow> atoi (itoa i) = Ok i"
  using atoi_formatUint[of "nat i"] by (simp add: itoa_def nat_less_iff)

lemma formatUint_no: "c \<in> set (formatUint n) \<Longrightarrow> \<not> is_digit d \<Longrightarrow> c \<noteq> d"
  using formatUint_digits by blast

lemmas [go_defs] = is_digit_def digit_val_def digit_char_def formatUint.simps itoa_def
  err_syntax_def err_range_def parseUint_def atoi_def parseBool_def

lemma length_formatUint: "n < 10 ^ Suc k \<Longrightarrow> length (formatUint n) \<le> Suc k"
proof (induction k arbitrary: n)
  case 0
  then show ?case by (subst formatUint.simps) simp
next
  case (Suc k)
  then have "n div 10 < 10 ^ Suc k" by (simp add: less_mult_imp_div_less)
  with Suc.IH[of "n div 10"] show ?case by (subst formatUint.simps) auto
qed

end
