(* ===== verification/Utils.thy ===== *)
theory Utils
  imports World GoStrconv "HOL-Library.List_Lexorder" "HOL-Library.Char_ord"
begin

text \<open>
  \<^verbatim>\<open>internal/utils/utils.go\<close>: membership tests, the hash of a list of names, and the search
  for a free port. \<^verbatim>\<open>sort.Strings\<close> orders by bytes, which is the lexicographic order on
  \<^typ>\<open>string\<close>. The search loops until a port is free, so it is a partial function: \<open>None\<close>
  means that it does not return.
\<close>

section \<open>Definitions\<close>

fun Contain :: "string list \<Rightarrow> string \<Rightarrow> string \<Rightarrow> bool" where
  "Contain [] target alias = False"
| "Contain (s # src) target alias = (if s = target \<or> s = alias then True else Contain src target alias)"

fun OneOf :: "string \<Rightarrow> string list \<Rightarrow> bool" where
  "OneOf s [] = False"
| "OneOf s (l # list) = (if s = l then True else OneOf s list)"

text \<open>
  \<^verbatim>\<open>fmt.Sprintf("%x", list)\<close> of a string slice: each element in hexadecimal, separated by
  blanks, in brackets; and \<^verbatim>\<open>%x\<close> of bytes.
\<close>

definition hex_lower :: "nat \<Rightarrow> char" where
  "hex_lower n = (if n < 10 then char_of (48 + n) else char_of (87 + n))"

definition hex_string :: "string \<Rightarrow> string" where
  "hex_string s = concat (map (\<lambda>c. [hex_lower (of_char c div 16), hex_lower (of_char c mod 16)]) s)"

definition sprint_hex_list :: "string list \<Rightarrow> string" where
  "sprint_hex_list xs = ''['' @ join '' '' (map hex_string xs) @ '']''"

text \<open>\<open>sha\<close> is \<^verbatim>\<open>sha256.Sum256\<close>.\<close>

definition GetListHash :: "(string \<Rightarrow> string) \<Rightarrow> string list \<Rightarrow> string" where
  "GetListHash sha list = hex_string (sha (sprint_hex_list (sort list)))"

definition minPort :: nat where
  "minPort = 1024"

definition maxPort :: nat where
  "maxPort = 65535"

definition GetRandomPort :: "'w sys \<Rightarrow> 'w \<Rightarrow> nat \<times> 'w" where
  "GetRandomPort S w = (case randIntn (os S) (maxPort - minPort + 1) w of (r, w1) \<Rightarrow> (r + minPort, w1))"

text \<open>A failing close of the probing listener panics in a deferred call.\<close>

definition IsPortAvailable :: "'w sys \<Rightarrow> nat \<Rightarrow> (bool, 'w) action" where
  "IsPortAvailable S port =
     try_catch (listenTCP (os S) ('':'' @ formatUint port))
       (\<lambda>_. ret False)
       (\<lambda>_ w. case closeListener (os S) ('':'' @ formatUint port) w of
           (Ok _, w1) \<Rightarrow> (Ok True, w1)
         | (Err e, w1) \<Rightarrow> (Panic (error_text e), w1)
         | (Panic p, w1) \<Rightarrow> (Panic p, w1))"

partial_function (option) available_loop ::
  "'w sys \<Rightarrow> nat \<Rightarrow> 'w \<Rightarrow> (nat res \<times> 'w) option" where
  "available_loop S port w =
     (case IsPortAvailable S port w of
        (Ok free, w1) \<Rightarrow>
          if free then Some (Ok port, w1)
          else (case GetRandomPort S w1 of (port', w2) \<Rightarrow> available_loop S port' w2)
      | (Err e, w1) \<Rightarrow> Some (Err e, w1)
      | (Panic p, w1) \<Rightarrow> Some (Panic p, w1))"

definition GetAvailablePort :: "'w sys \<Rightarrow> 'w \<Rightarrow> (nat res \<times> 'w) option" where
  "GetAvailablePort S w = (case GetRandomPort S w of (port, w1) \<Rightarrow> available_loop S port w1)"

section \<open>Membership\<close>

lemma OneOf_iff [simp]: "OneOf s xs \<longleftrightarrow> s \<in> set xs"
  by (induction xs) auto

lemma Contain_iff [simp]: "Contain src target alias \<longleftrightarrow> target \<in> set src \<or> alias \<in> set src"
  by (induction src) auto

section \<open>The port search\<close>

text \<open>What \<^verbatim>\<open>rand.Intn\<close> documents: a value below its bound.\<close>

definition rand_doc :: "'w sys \<Rightarrow> bool" where
  "rand_doc S \<longleftrightarrow> (\<forall>n w. 0 < n \<longrightarrow> fst (randIntn (os S) n w) < n)"

lemma GetRandomPort_range:
  assumes "rand_doc S" and "GetRandomPort S w = (p, w1)"
  shows "minPort \<le> p \<and> p \<le> maxPort"
proof -
  obtain r w2 where r: "randIntn (os S) (maxPort - minPort + 1) w = (r, w2)"
    by (cases "randIntn (os S) (maxPort - minPort + 1) w")
  have "fst (randIntn (os S) (maxPort - minPort + 1) w) < maxPort - minPort + 1"
    using assms(1) by (simp add: rand_doc_def)
  with r assms(2) show ?thesis by (auto simp: GetRandomPort_def minPort_def maxPort_def)
qed

lemma IsPortAvailable_no_Err: "IsPortAvailable S p w \<noteq> (Err e, w1)"
  by (auto simp: IsPortAvailable_def try_catch_def split: prod.splits res.splits)

text \<open>
  The search returns once a candidate is free: \<open>free_after S n port w\<close> says that the candidates
  before the \<open>n\<close>-th are taken and that one is free.
\<close>

fun free_after :: "'w sys \<Rightarrow> nat \<Rightarrow> nat \<Rightarrow> 'w \<Rightarrow> bool" where
  "free_after S 0 port w = (fst (IsPortAvailable S port w) = Ok True)"
| "free_after S (Suc n) port w =
     (case IsPortAvailable S port w of (r, w1) \<Rightarrow> r = Ok False \<and>
       (case GetRandomPort S w1 of (port', w2) \<Rightarrow> free_after S n port' w2))"

lemma available_loop_total:
  assumes "free_after S n port w"
    and "rand_doc S" and "minPort \<le> port" and "port \<le> maxPort"
  shows "\<exists>p w0 w'. available_loop S port w = Some (Ok p, w') \<and> minPort \<le> p \<and> p \<le> maxPort \<and>
    IsPortAvailable S p w0 = (Ok True, w')"
  using assms
proof (induction n arbitrary: port w)
  case 0
  then obtain w' where "IsPortAvailable S port w = (Ok True, w')"
    by (cases "IsPortAvailable S port w") auto
  then show ?case using 0 by (subst available_loop.simps) auto
next
  case (Suc n)
  obtain w1 where a: "IsPortAvailable S port w = (Ok False, w1)"
    using Suc.prems(1) by (cases "IsPortAvailable S port w") auto
  obtain port' w2 where g: "GetRandomPort S w1 = (port', w2)" by (cases "GetRandomPort S w1")
  have "free_after S n port' w2" using Suc.prems(1) a g by simp
  moreover have "minPort \<le> port' \<and> port' \<le> maxPort" using GetRandomPort_range[OF Suc.prems(2) g] .
  ultimately have "\<exists>p w0 w'. available_loop S port' w2 = Some (Ok p, w') \<and> minPort \<le> p \<and>
      p \<le> maxPort \<and> IsPortAvailable S p w0 = (Ok True, w')"
    using Suc.IH Suc.prems(2) by blast
  then show ?case using a g by (subst available_loop.simps) simp
qed

end
