(* ===== verification/GoURL.thy ===== *)
theory GoURL
  imports GoStrconv
begin

text \<open>
  Go's package \<^verbatim>\<open>net/url\<close>: percent encoding in the modes the program uses, \<^verbatim>\<open>url.Parse\<close> and
  \<^verbatim>\<open>URL.String\<close>, and \<^verbatim>\<open>net.JoinHostPort\<close>. The lemmas at the end are the round trips the
  components rest on: unescaping undoes escaping, and parsing a printed database URI gives back
  its user, password, port and path.
\<close>

section \<open>Percent encoding\<close>

datatype url_mode = EncodePath | EncodePathSegment | EncodeHost | EncodeZone
  | EncodeUserPassword | EncodeQueryComponent

definition is_alnum :: "char \<Rightarrow> bool" where
  "is_alnum c \<longleftrightarrow> (let n = of_char c :: nat in
     97 \<le> n \<and> n \<le> 122 \<or> 65 \<le> n \<and> n \<le> 90 \<or> 48 \<le> n \<and> n \<le> 57)"

definition host_marks :: string where
  "host_marks = [CHR ''!'', CHR ''$'', CHR ''&'', CHR 0x27, CHR ''('', CHR '')'', CHR ''*'', CHR ''+'',
     CHR '','', CHR '';'', CHR ''='', CHR '':'', CHR ''['', CHR '']'', CHR ''<'', CHR ''>'', CHR 0x22]"

definition unreserved_marks :: string where
  "unreserved_marks = ''-_.~''"

definition reserved_marks :: string where
  "reserved_marks = ''$&+,/:;=?@''"

definition shouldEscape :: "char \<Rightarrow> url_mode \<Rightarrow> bool" where
  "shouldEscape c mode =
     (if is_alnum c then False
      else if mode \<in> {EncodeHost, EncodeZone} \<and> c \<in> set host_marks then False
      else if c \<in> set unreserved_marks then False
      else if c \<in> set reserved_marks then
        (case mode of
           EncodePath \<Rightarrow> c = CHR ''?''
         | EncodePathSegment \<Rightarrow> c \<in> set ''/;,?''
         | EncodeUserPassword \<Rightarrow> c \<in> set ''@/?:''
         | _ \<Rightarrow> True)
      else True)"

lemmas url_chars = host_marks_def unreserved_marks_def reserved_marks_def is_alnum_def

lemma alnum_not_escaped [simp]: "is_alnum c \<Longrightarrow> \<not> shouldEscape c mode"
  by (simp add: shouldEscape_def)

definition hex_digit :: "nat \<Rightarrow> char" where
  "hex_digit n = (if n < 10 then char_of (48 + n) else char_of (55 + n))"

definition ishex :: "char \<Rightarrow> bool" where
  "ishex c \<longleftrightarrow> (let n = of_char c :: nat in
     48 \<le> n \<and> n \<le> 57 \<or> 97 \<le> n \<and> n \<le> 102 \<or> 65 \<le> n \<and> n \<le> 70)"

definition unhex :: "char \<Rightarrow> nat" where
  "unhex c = (let n = of_char c :: nat in
     if 48 \<le> n \<and> n \<le> 57 then n - 48 else if 97 \<le> n \<and> n \<le> 102 then n - 87
     else if 65 \<le> n \<and> n \<le> 70 then n - 55 else 0)"

definition escape_char :: "url_mode \<Rightarrow> char \<Rightarrow> string" where
  "escape_char mode c =
     (if \<not> shouldEscape c mode then [c]
      else if c = CHR '' '' \<and> mode = EncodeQueryComponent then ''+''
      else [CHR ''%'', hex_digit (of_char c div 16), hex_digit (of_char c mod 16)])"

definition escape :: "url_mode \<Rightarrow> string \<Rightarrow> string" where
  "escape mode s = concat (map (escape_char mode) s)"

definition err_escape :: go_error where
  "err_escape = Sentinel ''invalid URL escape''"

definition err_host :: go_error where
  "err_host = Sentinel ''invalid character in host name''"

text \<open>The guards on a percent sequence in a host: only \<^verbatim>\<open>%25\<close> and bytes beyond ASCII.\<close>

definition bad_triple :: "url_mode \<Rightarrow> char \<Rightarrow> char \<Rightarrow> bool" where
  "bad_triple mode a b \<longleftrightarrow>
     (mode = EncodeHost \<and> unhex a < 8 \<and> \<not> (a = CHR ''2'' \<and> b = CHR ''5'')) \<or>
     (mode = EncodeZone \<and> \<not> (a = CHR ''2'' \<and> b = CHR ''5'') \<and>
        (let v = char_of (16 * unhex a + unhex b) in v \<noteq> CHR '' '' \<and> shouldEscape v EncodeHost))"

fun unescape :: "url_mode \<Rightarrow> string \<Rightarrow> string res" where
  "unescape mode [] = Ok []"
| "unescape mode (c # s) =
     (if c = CHR ''%'' then
        (case s of
           a # b # r \<Rightarrow>
             if \<not> ishex a \<or> \<not> ishex b \<or> bad_triple mode a b then Err err_escape
             else bind_res (unescape mode r) (\<lambda>t. Ok (char_of (16 * unhex a + unhex b) # t))
         | _ \<Rightarrow> Err err_escape)
      else if c = CHR ''+'' \<and> mode = EncodeQueryComponent
        then bind_res (unescape mode s) (\<lambda>t. Ok (CHR '' '' # t))
      else if mode \<in> {EncodeHost, EncodeZone} \<and> of_char c < (128 :: nat) \<and> shouldEscape c mode
        then Err err_host
      else bind_res (unescape mode s) (\<lambda>t. Ok (c # t)))"

abbreviation pathEscape :: "string \<Rightarrow> string" where
  "pathEscape \<equiv> escape EncodePathSegment"

abbreviation pathUnescape :: "string \<Rightarrow> string res" where
  "pathUnescape \<equiv> unescape EncodePathSegment"

abbreviation queryEscape :: "string \<Rightarrow> string" where
  "queryEscape \<equiv> escape EncodeQueryComponent"

section \<open>Unescaping undoes escaping\<close>

lemma hex_digit_props:
  assumes "n < 16"
  shows "ishex (hex_digit n)" "unhex (hex_digit n) = n" "is_alnum (hex_digit n)"
proof -
  have "of_char (hex_digit n) = (if n < 10 then 48 + n else 55 + n :: nat)"
    using assms by (simp add: hex_digit_def of_char_of)
  then show "ishex (hex_digit n)" "unhex (hex_digit n) = n" "is_alnum (hex_digit n)"
    using assms by (auto simp: ishex_def unhex_def is_alnum_def Let_def)
qed

lemma of_char_256: "(of_char c :: nat) < 256"
  by simp

lemma nibbles: "(of_char c div 16 :: nat) < 16" "(of_char c mod 16 :: nat) < 16"
  using of_char_256[of c] by (simp_all add: div_less_iff_less_mult)

lemma hex_pair: "char_of (16 * (of_char c div 16) + of_char c mod 16 :: nat) = c"
  by simp

lemma shouldEscape_percent: "shouldEscape (CHR ''%'') mode"
  by (simp add: shouldEscape_def url_chars)

lemma shouldEscape_plus_query: "shouldEscape (CHR ''+'') EncodeQueryComponent"
  by (simp add: shouldEscape_def url_chars)

lemma unescape_escape_char:
  assumes "mode \<notin> {EncodeHost, EncodeZone}"
  shows "unescape mode (escape_char mode c @ s) = bind_res (unescape mode s) (\<lambda>t. Ok (c # t))"
proof (cases "shouldEscape c mode")
  case False
  then have "c \<noteq> CHR ''%''" and "\<not> (c = CHR ''+'' \<and> mode = EncodeQueryComponent)"
    using shouldEscape_percent shouldEscape_plus_query by auto
  with False assms show ?thesis by (auto simp: escape_char_def)
next
  case True
  have lt: "(of_char c div 16 :: nat) < 16" "(of_char c mod 16 :: nat) < 16"
    by (rule nibbles)+
  have "\<not> bad_triple mode a b" for a b using assms by (auto simp: bad_triple_def)
  with True assms show ?thesis
    by (auto simp: escape_char_def hex_digit_props[OF lt(1)] hex_digit_props[OF lt(2)] hex_pair)
qed

lemma unescape_escape:
  "mode \<notin> {EncodeHost, EncodeZone} \<Longrightarrow> unescape mode (escape mode s) = Ok s"
proof (induction s)
  case Nil
  then show ?case by (simp add: escape_def)
next
  case (Cons c s)
  then show ?case
    using unescape_escape_char[of mode c "escape mode s"] by (simp add: escape_def)
qed

text \<open>What can occur in escaped text.\<close>

lemma set_escape_char:
  assumes "x \<in> set (escape_char mode c)" and "mode \<noteq> EncodeQueryComponent"
  shows "\<not> shouldEscape x mode \<or> x = CHR ''%''"
proof -
  have lt: "(of_char c div 16 :: nat) < 16" "(of_char c mod 16 :: nat) < 16"
    by (rule nibbles)+
  show ?thesis
    using assms hex_digit_props(3)[OF lt(1)] hex_digit_props(3)[OF lt(2)]
    by (auto simp: escape_char_def split: if_splits)
qed

lemma set_escape:
  "x \<in> set (escape mode s) \<Longrightarrow> mode \<noteq> EncodeQueryComponent \<Longrightarrow>
   \<not> shouldEscape x mode \<or> x = CHR ''%''"
  by (auto simp: escape_def dest: set_escape_char)

lemma escape_unreserved: "\<forall>c\<in>set s. \<not> shouldEscape c mode \<Longrightarrow> escape mode s = s"
  by (induction s) (auto simp: escape_def escape_char_def)

lemma unescape_plain:
  "\<forall>c\<in>set s. \<not> shouldEscape c mode \<Longrightarrow> mode \<noteq> EncodeQueryComponent \<Longrightarrow> unescape mode s = Ok s"
proof (induction s)
  case Nil
  then show ?case by simp
next
  case (Cons c s)
  moreover have "c \<noteq> CHR ''%''" using Cons.prems shouldEscape_percent by auto
  ultimately show ?case by simp
qed

section \<open>URLs\<close>

record url =
  Scheme :: string
  Opaque :: string
  User :: "(string \<times> string option) option"
  Host :: string
  Path :: string
  RawQuery :: string
  Fragment :: string

definition empty_url :: url where
  "empty_url = \<lparr>Scheme = '''', Opaque = '''', User = None, Host = '''', Path = '''',
     RawQuery = '''', Fragment = ''''\<rparr>"

definition joinHostPort :: "string \<Rightarrow> string \<Rightarrow> string" where
  "joinHostPort host port =
     (if CHR '':'' \<in> set host then ''['' @ host @ '']:'' @ port else host @ '':'' @ port)"

text \<open>\<^verbatim>\<open>URL.String\<close> of a URL whose raw path and fragment are not set.\<close>

definition userinfo_string :: "string \<times> string option \<Rightarrow> string" where
  "userinfo_string ui = escape EncodeUserPassword (fst ui) @
     (case snd ui of None \<Rightarrow> [] | Some p \<Rightarrow> '':'' @ escape EncodeUserPassword p)"

text \<open>\<^verbatim>\<open>EscapedPath\<close>\<close>

definition path_text :: "string \<Rightarrow> string" where
  "path_text path = (if path = ''*'' then ''*'' else escape EncodePath path)"

definition url_string :: "url \<Rightarrow> string" where
  "url_string u =
     (if Scheme u \<noteq> [] then Scheme u @ '':'' else []) @
     (if Opaque u \<noteq> [] then Opaque u
      else
        (if Scheme u \<noteq> [] \<or> Host u \<noteq> [] \<or> User u \<noteq> None then
           (if Host u \<noteq> [] \<or> Path u \<noteq> [] \<or> User u \<noteq> None then ''//'' else []) @
           (case User u of None \<Rightarrow> [] | Some ui \<Rightarrow> userinfo_string ui @ ''@'') @
           escape EncodeHost (Host u)
         else []) @
        (let p = path_text (Path u)
         in (if p \<noteq> [] \<and> hd p \<noteq> CHR ''/'' \<and> Host u \<noteq> [] then ''/'' else []) @ p)) @
     (if RawQuery u \<noteq> [] then ''?'' @ RawQuery u else [])"

text \<open>\<^verbatim>\<open>strings.Cut\<close> at the first and splitting at the last occurrence of a byte.\<close>

definition str_cut :: "char \<Rightarrow> string \<Rightarrow> string \<times> string" where
  "str_cut c s = (takeWhile (\<lambda>x. x \<noteq> c) s, drop 1 (dropWhile (\<lambda>x. x \<noteq> c) s))"

definition cut_last :: "char \<Rightarrow> string \<Rightarrow> (string \<times> string) option" where
  "cut_last c s =
     (if c \<in> set s then
        Some (rev (drop 1 (dropWhile (\<lambda>x. x \<noteq> c) (rev s))), rev (takeWhile (\<lambda>x. x \<noteq> c) (rev s)))
      else None)"

lemma str_cut_append: "c \<notin> set a \<Longrightarrow> str_cut c (a @ c # b) = (a, b)"
  by (simp add: str_cut_def takeWhile_append dropWhile_append)

lemma str_cut_none: "c \<notin> set s \<Longrightarrow> str_cut c s = (s, [])"
proof -
  assume "c \<notin> set s"
  then have "\<forall>x\<in>set s. x \<noteq> c" by auto
  then show ?thesis
    by (simp add: str_cut_def takeWhile_eq_all_conv[THEN iffD2] dropWhile_eq_Nil_conv[THEN iffD2])
qed

lemma cut_last_append: "c \<notin> set b \<Longrightarrow> cut_last c (a @ c # b) = Some (a, b)"
  by (simp add: cut_last_def takeWhile_append dropWhile_append)

lemma cut_last_none: "c \<notin> set s \<Longrightarrow> cut_last c s = None"
  by (simp add: cut_last_def)

definition is_ctl :: "char \<Rightarrow> bool" where
  "is_ctl c \<longleftrightarrow> (let n = of_char c :: nat in n < 32 \<or> n = 127)"

definition is_alpha :: "char \<Rightarrow> bool" where
  "is_alpha c \<longleftrightarrow> (let n = of_char c :: nat in 97 \<le> n \<and> n \<le> 122 \<or> 65 \<le> n \<and> n \<le> 90)"

fun getScheme :: "string \<Rightarrow> string \<Rightarrow> string \<Rightarrow> (string \<times> string) res" where
  "getScheme raw acc [] = Ok ('''', raw)"
| "getScheme raw acc (c # s) =
     (if is_alpha c then getScheme raw (acc @ [c]) s
      else if is_digit c \<or> c \<in> set ''+-.'' then
        (if acc = [] then Ok ('''', raw) else getScheme raw (acc @ [c]) s)
      else if c = CHR '':'' then
        (if acc = [] then Err (Errorf ''missing protocol scheme'' []) else Ok (acc, s))
      else Ok ('''', raw))"

definition validOptionalPort :: "string \<Rightarrow> bool" where
  "validOptionalPort p \<longleftrightarrow> p = [] \<or> (hd p = CHR '':'' \<and> (\<forall>c\<in>set (tl p). is_digit c))"

definition userinfo_marks :: string where
  "userinfo_marks = [CHR ''-'', CHR ''.'', CHR ''_'', CHR '':'', CHR ''~'', CHR ''!'', CHR ''$'', CHR ''&'',
     CHR 0x27, CHR ''('', CHR '')'', CHR ''*'', CHR ''+'', CHR '','', CHR '';'', CHR ''='', CHR ''%'', CHR ''@'']"

definition validUserinfo :: "string \<Rightarrow> bool" where
  "validUserinfo s \<longleftrightarrow> (\<forall>c\<in>set s. is_alnum c \<or> c \<in> set userinfo_marks)"

text \<open>The port check and decoding of a host without brackets, and of a bracketed IPv6 literal.\<close>

definition parseHost :: "string \<Rightarrow> string res" where
  "parseHost host =
     (if hasPrefix host ''['' then
        (case cut_last (CHR '']'') host of
           None \<Rightarrow> Err (Errorf ''missing ']' in host'' [])
         | Some (h, colonPort) \<Rightarrow>
             if \<not> validOptionalPort colonPort then Err (Errorf ''invalid port %q after host'' [colonPort])
             else (case index_of h ''%25'' of
                 Some z \<Rightarrow> bind_res (unescape EncodeHost (take z host)) (\<lambda>h1.
                   bind_res (unescape EncodeZone (drop z h)) (\<lambda>h2.
                   bind_res (unescape EncodeHost ('']'' @ colonPort)) (\<lambda>h3. Ok (h1 @ h2 @ h3))))
               | None \<Rightarrow> unescape EncodeHost host))
      else (case cut_last (CHR '':'') host of
           Some (_, p) \<Rightarrow>
             if \<not> validOptionalPort (CHR '':'' # p)
             then Err (Errorf ''invalid port %q after host'' [CHR '':'' # p])
             else unescape EncodeHost host
         | None \<Rightarrow> unescape EncodeHost host))"

definition parseUserinfo :: "string \<Rightarrow> (string \<times> string option) res" where
  "parseUserinfo ui =
     (if \<not> validUserinfo ui then Err (Errorf ''net/url: invalid userinfo'' [])
      else if CHR '':'' \<notin> set ui
        then bind_res (unescape EncodeUserPassword ui) (\<lambda>n. Ok (n, None))
      else let (n, p) = str_cut (CHR '':'') ui in
        bind_res (unescape EncodeUserPassword n) (\<lambda>n'.
        bind_res (unescape EncodeUserPassword p) (\<lambda>p'. Ok (n', Some p'))))"

definition parseAuthority :: "string \<Rightarrow> ((string \<times> string option) option \<times> string) res" where
  "parseAuthority a =
     (case cut_last (CHR ''@'') a of
        None \<Rightarrow> bind_res (parseHost a) (\<lambda>h. Ok (None, h))
      | Some (ui, host) \<Rightarrow>
          bind_res (parseHost host) (\<lambda>h.
          bind_res (parseUserinfo ui) (\<lambda>u. Ok (Some u, h))))"

text \<open>The authority and the path of a hierarchical URL, after its scheme and query are cut off.\<close>

definition parseHier :: "string \<Rightarrow> string \<Rightarrow> string \<Rightarrow> url res" where
  "parseHier scheme rest query =
     (let u = empty_url\<lparr>Scheme := scheme, RawQuery := query\<rparr>
      in if (scheme \<noteq> [] \<or> \<not> hasPrefix rest ''///'') \<and> hasPrefix rest ''//'' then
           (let a = takeWhile (\<lambda>c. c \<noteq> CHR ''/'') (drop 2 rest);
                p = dropWhile (\<lambda>c. c \<noteq> CHR ''/'') (drop 2 rest)
            in bind_res (parseAuthority a) (\<lambda>(user, host).
               bind_res (unescape EncodePath p) (\<lambda>path.
                 Ok (u\<lparr>User := user, Host := host, Path := path\<rparr>))))
         else bind_res (unescape EncodePath rest) (\<lambda>path. Ok (u\<lparr>Path := path\<rparr>)))"

definition parse_raw :: "string \<Rightarrow> url res" where
  "parse_raw raw =
     (if \<exists>c\<in>set raw. is_ctl c
        then Err (Errorf ''net/url: invalid control character in URL'' [])
      else if raw = ''*'' then Ok (empty_url\<lparr>Path := ''*''\<rparr>)
      else bind_res (getScheme raw [] raw) (\<lambda>(scheme0, rest0).
        let scheme = toLower scheme0;
            (rest, query) = str_cut (CHR ''?'') rest0
        in if \<not> hasPrefix rest ''/'' \<and> scheme \<noteq> []
             then Ok (empty_url\<lparr>Scheme := scheme, Opaque := rest, RawQuery := query\<rparr>)
           else if \<not> hasPrefix rest ''/'' \<and> CHR '':'' \<in> set (fst (str_cut (CHR ''/'') rest))
             then Err (Errorf ''first path segment in URL cannot contain colon'' [])
           else parseHier scheme rest query))"

definition url_parse :: "string \<Rightarrow> url res" where
  "url_parse rawURL =
     (let (raw, frag) = str_cut (CHR ''#'') rawURL
      in bind_res (parse_raw raw) (\<lambda>u.
         bind_res (unescape EncodePath frag) (\<lambda>f. Ok (u\<lparr>Fragment := f\<rparr>))))"

definition url_port :: "url \<Rightarrow> string" where
  "url_port u =
     (case cut_last (CHR '':'') (Host u) of
        Some (_, p) \<Rightarrow> if \<forall>c\<in>set p. is_digit c then p else []
      | None \<Rightarrow> [])"

section \<open>Parsing a printed database URI\<close>

text \<open>
  The URIs the program prints have a scheme of letters, an optional user with an optional
  password, a host of unreserved characters with a decimal port, and a path that is not rooted.
\<close>

definition host_char :: "char \<Rightarrow> bool" where
  "host_char c \<longleftrightarrow> is_alnum c \<or> c = CHR ''.'' \<or> c = CHR ''-''"

definition db_uri :: "string \<Rightarrow> (string \<times> string option) option \<Rightarrow> string \<Rightarrow> nat \<Rightarrow> string \<Rightarrow> string \<Rightarrow> url" where
  "db_uri sc user host port path query =
     empty_url\<lparr>Scheme := sc, User := user, Host := host @ '':'' @ formatUint port,
       Path := path, RawQuery := query\<rparr>"

text \<open>The bytes that separate the parts of a URL never occur inside an escaped part.\<close>

definition separators :: string where
  "separators = ''/?#@:''"

lemma ctl_escaped:
  assumes "is_ctl c"
  shows "shouldEscape c mode"
proof -
  have "\<not> is_alnum c" using assms by (auto simp: is_ctl_def is_alnum_def Let_def)
  moreover have "\<forall>x\<in>set (host_marks @ unreserved_marks @ reserved_marks). \<not> is_ctl x"
    by (simp add: url_chars is_ctl_def)
  then have "c \<notin> set host_marks" "c \<notin> set unreserved_marks" "c \<notin> set reserved_marks"
    using assms by auto
  ultimately show ?thesis by (simp add: shouldEscape_def)
qed

lemma not_ctl_percent: "\<not> is_ctl (CHR ''%'')"
  by (simp add: is_ctl_def)

lemma escape_no_ctl: "c \<in> set (escape mode s) \<Longrightarrow> mode \<noteq> EncodeQueryComponent \<Longrightarrow> \<not> is_ctl c"
  using set_escape ctl_escaped not_ctl_percent by blast

lemma user_separators_escaped: "\<forall>x\<in>set separators. shouldEscape x EncodeUserPassword \<and> x \<noteq> CHR ''%''"
  by (simp add: separators_def shouldEscape_def url_chars)

lemma escape_user_no_sep: "c \<in> set (escape EncodeUserPassword s) \<Longrightarrow> c \<notin> set separators"
  using set_escape[of c EncodeUserPassword s] user_separators_escaped by blast

lemma path_marks_escaped: "shouldEscape (CHR ''?'') EncodePath" "shouldEscape (CHR ''#'') EncodePath"
  by (simp_all add: shouldEscape_def url_chars)

lemma escape_path_no_sep: "c \<in> set (escape EncodePath s) \<Longrightarrow> c \<noteq> CHR ''?'' \<and> c \<noteq> CHR ''#''"
  using set_escape[of c EncodePath s] path_marks_escaped by auto

lemma unescaped_user_valid:
  assumes "\<not> shouldEscape c EncodeUserPassword"
  shows "is_alnum c \<or> c \<in> set userinfo_marks"
proof -
  have "is_alnum c \<or> c \<in> set unreserved_marks \<or> c \<in> set reserved_marks \<and> c \<notin> set ''@/?:''"
    using assms by (simp add: shouldEscape_def split: if_splits)
  moreover have "set unreserved_marks \<subseteq> set userinfo_marks"
    and "set reserved_marks \<subseteq> set userinfo_marks \<union> set ''@/?:''"
    by (simp_all add: unreserved_marks_def reserved_marks_def userinfo_marks_def)
  ultimately show ?thesis by blast
qed

lemma escape_user_valid: "validUserinfo (escape EncodeUserPassword s)"
  unfolding validUserinfo_def
proof
  fix c assume "c \<in> set (escape EncodeUserPassword s)"
  then have "\<not> shouldEscape c EncodeUserPassword \<or> c = CHR ''%''" by (rule set_escape) simp
  moreover have "CHR ''%'' \<in> set userinfo_marks" by (simp add: userinfo_marks_def)
  ultimately show "is_alnum c \<or> c \<in> set userinfo_marks"
    using unescaped_user_valid[of c] by blast
qed

lemma alnum_no_sep:
  assumes "is_alnum c"
  shows "c \<notin> set separators" "\<not> is_ctl c" "c \<noteq> CHR ''[''"
proof -
  have "\<forall>x\<in>set (CHR ''['' # separators). \<not> is_alnum x" by (simp add: separators_def is_alnum_def)
  then show "c \<notin> set separators" "c \<noteq> CHR ''[''" using assms by auto
  show "\<not> is_ctl c" using assms ctl_escaped alnum_not_escaped by blast
qed

lemma host_char_props:
  assumes "host_char c"
  shows "c \<notin> set separators" "\<not> is_ctl c" "\<not> shouldEscape c EncodeHost" "c \<noteq> CHR ''[''"
proof -
  have "\<forall>x\<in>set ''.-''. x \<notin> set separators \<and> \<not> is_ctl x \<and> \<not> shouldEscape x EncodeHost \<and> x \<noteq> CHR ''[''"
    by (simp add: separators_def is_ctl_def shouldEscape_def url_chars)
  then show "c \<notin> set separators" "\<not> is_ctl c" "\<not> shouldEscape c EncodeHost" "c \<noteq> CHR ''[''"
    using assms alnum_no_sep[of c] alnum_not_escaped[of c]
    unfolding host_char_def by (metis list.set_intros(1,2))+
qed

lemma digit_host_char: "is_digit c \<Longrightarrow> host_char c"
  by (auto simp: is_digit_def host_char_def is_alnum_def Let_def)

lemma getScheme_letters:
  "\<forall>c\<in>set s. is_alpha c \<Longrightarrow> acc @ s \<noteq> [] \<Longrightarrow>
   getScheme raw acc (s @ CHR '':'' # r) = Ok (acc @ s, r)"
proof (induction s arbitrary: acc)
  case Nil
  then show ?case by (simp add: is_alpha_def is_digit_def)
next
  case (Cons c s)
  then show ?case by simp
qed

text \<open>The bytes that end an authority or change how the rest of a URL is read.\<close>

definition clean_byte :: "char \<Rightarrow> bool" where
  "clean_byte c \<longleftrightarrow> c \<noteq> CHR ''/'' \<and> c \<noteq> CHR ''?'' \<and> c \<noteq> CHR ''#'' \<and> \<not> is_ctl c"

definition clean_bytes :: "string \<Rightarrow> bool" where
  "clean_bytes s \<longleftrightarrow> (\<forall>c\<in>set s. clean_byte c)"

lemma clean_bytes_simps [simp]:
  "clean_bytes []"
  "clean_bytes (c # s) \<longleftrightarrow> clean_byte c \<and> clean_bytes s"
  "clean_bytes (a @ b) \<longleftrightarrow> clean_bytes a \<and> clean_bytes b"
  by (auto simp: clean_bytes_def)

lemma clean_byte_marks [simp]: "clean_byte (CHR '':'')" "clean_byte (CHR ''@'')"
  by (simp_all add: clean_byte_def is_ctl_def)

lemma clean_byte_sep: "c \<notin> set separators \<Longrightarrow> \<not> is_ctl c \<Longrightarrow> clean_byte c"
  by (simp add: clean_byte_def separators_def)

lemma clean_bytes_user [simp]: "clean_bytes (escape EncodeUserPassword s)"
  unfolding clean_bytes_def
  using escape_user_no_sep[of _ s] escape_no_ctl[of _ EncodeUserPassword s] clean_byte_sep
  by blast

lemma clean_bytes_userinfo [simp]: "clean_bytes (userinfo_string ui)"
  by (simp add: userinfo_string_def split: option.splits)

lemma clean_bytes_host: "\<forall>c\<in>set h. host_char c \<Longrightarrow> clean_bytes h"
  unfolding clean_bytes_def using host_char_props clean_byte_sep by blast

lemma formatUint_host: "\<forall>c\<in>set (formatUint n). host_char c"
  using formatUint_digits[of n] digit_host_char by blast

lemma host_char_no_colon: "\<forall>c\<in>set h. host_char c \<Longrightarrow> CHR '':'' \<notin> set h \<and> CHR ''@'' \<notin> set h"
  using host_char_props(1) by (fastforce simp: separators_def)

text \<open>The host and port of a database URI.\<close>

definition hostport :: "string \<Rightarrow> nat \<Rightarrow> string" where
  "hostport host port = host @ '':'' @ formatUint port"

lemma parseHost_hostport:
  assumes "host \<noteq> []" and h: "\<forall>c\<in>set host. host_char c"
  shows "parseHost (hostport host port) = Ok (hostport host port)"
proof -
  have nb: "\<not> hasPrefix (hostport host port) ''[''"
    using assms host_char_props(4) by (cases host) (auto simp: hostport_def)
  have cl: "cut_last (CHR '':'') (hostport host port) = Some (host, formatUint port)"
    using cut_last_append[of "CHR '':''" "formatUint port" host]
      host_char_no_colon[OF formatUint_host[of port]] by (simp add: hostport_def)
  have colon: "\<not> shouldEscape (CHR '':'') EncodeHost" by (simp add: shouldEscape_def url_chars)
  have "\<forall>c\<in>set (hostport host port). \<not> shouldEscape c EncodeHost"
    using h formatUint_host[of port] host_char_props(3) colon by (auto simp: hostport_def)
  then have "unescape EncodeHost (hostport host port) = Ok (hostport host port)"
    by (rule unescape_plain) simp
  then show ?thesis
    using nb cl formatUint_digits[of port] by (simp add: parseHost_def validOptionalPort_def)
qed

lemma parseUserinfo_string: "parseUserinfo (userinfo_string ui) = Ok ui"
proof -
  obtain n p where ui: "ui = (n, p)" by (cases ui)
  have nc: "CHR '':'' \<notin> set (escape EncodeUserPassword n)"
    using escape_user_no_sep[of "CHR '':''" n] by (auto simp: separators_def)
  have colon: "CHR '':'' \<in> set userinfo_marks" by (simp add: userinfo_marks_def)
  have v: "validUserinfo (userinfo_string ui)"
    using escape_user_valid[of n] escape_user_valid colon
    by (auto simp: ui userinfo_string_def validUserinfo_def split: option.splits)
  show ?thesis
  proof (cases p)
    case None
    with v nc show ?thesis
      by (simp add: parseUserinfo_def ui userinfo_string_def unescape_escape)
  next
    case (Some q)
    with v nc show ?thesis
      by (simp add: parseUserinfo_def ui userinfo_string_def unescape_escape str_cut_append)
  qed
qed

definition authority :: "(string \<times> string option) option \<Rightarrow> string \<Rightarrow> nat \<Rightarrow> string" where
  "authority user host port =
     (case user of None \<Rightarrow> [] | Some ui \<Rightarrow> userinfo_string ui @ ''@'') @ hostport host port"

lemma parseAuthority_authority:
  assumes "host \<noteq> []" and h: "\<forall>c\<in>set host. host_char c"
  shows "parseAuthority (authority user host port) = Ok (user, hostport host port)"
proof -
  have at: "CHR ''@'' \<notin> set (hostport host port)"
    using host_char_no_colon[OF h] host_char_no_colon[OF formatUint_host[of port]]
    by (simp add: hostport_def)
  show ?thesis
    using parseHost_hostport[OF assms, of port]
    by (cases user)
       (simp_all add: authority_def parseAuthority_def cut_last_none[OF at] cut_last_append[OF at]
          parseUserinfo_string)
qed

lemma clean_bytes_authority:
  "\<forall>c\<in>set host. host_char c \<Longrightarrow> clean_bytes (authority user host port)"
  using clean_bytes_host[of host] clean_bytes_host[OF formatUint_host[of port]]
  by (simp add: authority_def hostport_def split: option.splits)

lemma parseHier_authority:
  assumes "sc \<noteq> []" and "host \<noteq> []" and h: "\<forall>c\<in>set host. host_char c"
    and p: "unescape EncodePath p = Ok path"
  shows "parseHier sc (''//'' @ authority user host port @ ''/'' @ p) query =
    Ok (empty_url\<lparr>Scheme := sc, RawQuery := query, User := user, Host := hostport host port,
          Path := CHR ''/'' # path\<rparr>)"
proof -
  let ?a = "authority user host port"
  have na: "CHR ''/'' \<notin> set ?a" using clean_bytes_authority[OF h]     by (auto simp: clean_bytes_def clean_byte_def)
  then have tw: "takeWhile (\<lambda>c. c \<noteq> CHR ''/'') (?a @ ''/'' @ p) = ?a"
    and dw: "dropWhile (\<lambda>c. c \<noteq> CHR ''/'') (?a @ ''/'' @ p) = ''/'' @ p"
    by (simp_all add: takeWhile_append dropWhile_append)
  show ?thesis
    using assms(1) tw dw p parseAuthority_authority[OF assms(2) h]
    by (simp add: parseHier_def)
qed



lemma path_text_props:
  assumes "path \<noteq> []" and "hd path \<noteq> CHR ''/''"
  shows "unescape EncodePath (path_text path) = Ok path"
    and "path_text path \<noteq> []" and "hd (path_text path) \<noteq> CHR ''/''"
    and "\<forall>c\<in>set (path_text path). c \<noteq> CHR ''?'' \<and> c \<noteq> CHR ''#'' \<and> \<not> is_ctl c"
proof -
  obtain x xs where path: "path = x # xs" using assms(1) by (cases path) auto
  show "unescape EncodePath (path_text path) = Ok path"
    by (simp add: path_text_def unescape_escape)
  have "escape EncodePath path = escape_char EncodePath x @ escape EncodePath xs"
    by (simp add: path escape_def)
  moreover have "escape_char EncodePath x \<noteq> []" "hd (escape_char EncodePath x) \<noteq> CHR ''/''"
    using assms(2) path by (auto simp: escape_char_def)
  ultimately show "path_text path \<noteq> []" "hd (path_text path) \<noteq> CHR ''/''"
    by (auto simp: path_text_def)
  show "\<forall>c\<in>set (path_text path). c \<noteq> CHR ''?'' \<and> c \<noteq> CHR ''#'' \<and> \<not> is_ctl c"
    using escape_path_no_sep[of _ path] escape_no_ctl[of _ EncodePath path]
    by (auto simp: path_text_def is_ctl_def)
qed

lemma url_string_db_uri:
  assumes "sc \<noteq> []" and "host \<noteq> []" and "path \<noteq> []" and "hd path \<noteq> CHR ''/''"
    and h: "\<forall>c\<in>set host. host_char c"
  shows "url_string (db_uri sc user host port path query) =
    sc @ CHR '':'' # ''//'' @ authority user host port @ ''/'' @ path_text path @
    (if query \<noteq> [] then ''?'' @ query else [])"
proof -
  have colon: "\<not> shouldEscape (CHR '':'') EncodeHost" by (simp add: shouldEscape_def url_chars)
  have "escape EncodeHost (hostport host port) = hostport host port"
    using h formatUint_host[of port] host_char_props(3) colon
    by (intro escape_unreserved) (auto simp: hostport_def)
  then have e: "escape EncodeHost (host @ CHR '':'' # formatUint port) = host @ CHR '':'' # formatUint port"
    by (simp add: hostport_def)
  show ?thesis
    using assms path_text_props(2,3)[OF assms(3,4)]
    by (simp add: url_string_def db_uri_def empty_url_def authority_def hostport_def e
        Let_def split: option.splits)
qed

text \<open>The parts of a database URI that decide how it is read back.\<close>

definition uri_ok :: "string \<Rightarrow> string \<Rightarrow> string \<Rightarrow> string \<Rightarrow> bool" where
  "uri_ok sc host path query \<longleftrightarrow>
     sc \<noteq> [] \<and> (\<forall>c\<in>set sc. is_alpha c) \<and> toLower sc = sc \<and>
     host \<noteq> [] \<and> (\<forall>c\<in>set host. host_char c) \<and> path \<noteq> [] \<and> hd path \<noteq> CHR ''/'' \<and>
     (\<forall>c\<in>set query. c \<noteq> CHR ''#'' \<and> \<not> is_ctl c)"

lemma alpha_clean: "is_alpha c \<Longrightarrow> c \<noteq> CHR ''#'' \<and> \<not> is_ctl c"
  by (auto simp: is_alpha_def is_ctl_def Let_def)

lemma url_parse_db_uri:
  assumes ok: "uri_ok sc host path query"
  shows "url_parse (url_string (db_uri sc user host port path query)) =
    Ok ((db_uri sc user host port path query)\<lparr>Path := CHR ''/'' # path\<rparr>)"
proof -
  let ?q = "if query \<noteq> [] then ''?'' @ query else []"
  let ?rest = "''//'' @ authority user host port @ ''/'' @ path_text path"
  let ?raw = "sc @ CHR '':'' # ?rest @ ?q"
  have sc: "sc \<noteq> []" "\<forall>c\<in>set sc. is_alpha c" "toLower sc = sc"
    and host: "host \<noteq> []" "\<forall>c\<in>set host. host_char c"
    and path: "path \<noteq> []" "hd path \<noteq> CHR ''/''"
    and query: "\<forall>c\<in>set query. c \<noteq> CHR ''#'' \<and> \<not> is_ctl c"
    using ok by (auto simp: uri_ok_def)
  note p = path_text_props[OF path]
  have str: "url_string (db_uri sc user host port path query) = ?raw"
    using url_string_db_uri[OF sc(1) host(1) path host(2)] by simp
  have auth: "\<forall>c\<in>set (authority user host port). c \<noteq> CHR ''#'' \<and> c \<noteq> CHR ''?'' \<and> \<not> is_ctl c"
    using clean_bytes_authority[OF host(2)] by (auto simp: clean_bytes_def clean_byte_def)
  have all: "\<forall>c\<in>set ?raw. c \<noteq> CHR ''#'' \<and> \<not> is_ctl c"
  proof -
    have "\<forall>c\<in>set sc. c \<noteq> CHR ''#'' \<and> \<not> is_ctl c" using sc(2) alpha_clean by blast
    moreover have "\<not> is_ctl (CHR '':'')" "\<not> is_ctl (CHR ''/'')" "\<not> is_ctl (CHR ''?'')"
      by (simp_all add: is_ctl_def)
    ultimately show ?thesis using auth p(4) query by (cases "query = []") (simp_all add: ball_Un)
  qed
  have nq: "CHR ''?'' \<notin> set ?rest" using auth p(4) by auto
  have "CHR ''#'' \<notin> set ?raw" using all by blast
  then have frag: "str_cut (CHR ''#'') ?raw = (?raw, [])" by (rule str_cut_none)
  have star: "?raw \<noteq> ''*''"
  proof
    assume eq: "?raw = ''*''"
    have "CHR '':'' \<in> set ?raw" by simp
    then have "CHR '':'' \<in> set ''*''" unfolding eq .
    then show False by simp
  qed
  have gs: "getScheme ?raw [] ?raw = Ok (sc, ?rest @ ?q)"
    using getScheme_letters[OF sc(2), of "[]" ?raw "?rest @ ?q"] sc(1) by simp
  have cq: "str_cut (CHR ''?'') (?rest @ ?q) = (?rest, query)"
    using nq by (cases "query = []") (simp_all add: str_cut_none str_cut_append[of _ ?rest, simplified])
  have "parse_raw ?raw = parseHier sc ?rest query"
    using all star gs cq sc(3) by (simp add: parse_raw_def)
  also have "\<dots> = Ok ((db_uri sc user host port path query)\<lparr>Path := CHR ''/'' # path\<rparr>)"
    using parseHier_authority[OF sc(1) host p(1)]
    by (simp add: db_uri_def empty_url_def hostport_def)
  finally have pr: "parse_raw ?raw = \<dots>" .
  show ?thesis
    unfolding str url_parse_def frag Let_def prod.case pr
    by (simp add: db_uri_def empty_url_def)
qed

lemma url_port_db_uri: "url_port ((db_uri sc user host port path query)\<lparr>Path := p\<rparr>) = formatUint port"
proof -
  have "CHR '':'' \<notin> set (formatUint port)" using host_char_no_colon[OF formatUint_host] by blast
  from cut_last_append[OF this, of host] show ?thesis
    using formatUint_digits[of port] by (simp add: url_port_def db_uri_def)
qed

lemma db_uri_fields [simp]:
  "User ((db_uri sc user host port path query)\<lparr>Path := p\<rparr>) = user"
  "Path ((db_uri sc user host port path query)\<lparr>Path := p\<rparr>) = p"
  by (simp_all add: db_uri_def)

section \<open>Rewriting the host\<close>

text \<open>
  The program rewrites \<^verbatim>\<open>host.docker.internal\<close> in a URI it hands out. The name is looked for in
  the whole text; where only the host is called so, the host alone changes.
\<close>

definition docker_host :: string where
  "docker_host = ''host.docker.internal''"

lemma docker_host_no_sep: "\<forall>c\<in>set separators. c \<notin> set docker_host"
  by (simp add: separators_def docker_host_def)

lemma docker_host_no_digit: "\<forall>c\<in>set docker_host. \<not> is_digit c"
  by (simp add: docker_host_def is_digit_def)

lemma no_docker_host:
  assumes "\<forall>c\<in>set s. is_digit c \<or> c \<in> set separators"
  shows "\<not> contains s docker_host"
proof
  assume "contains s docker_host"
  then have "CHR ''h'' \<in> set s" using contains_subset[of s docker_host] by (auto simp: docker_host_def)
  then have "is_digit (CHR ''h'') \<or> CHR ''h'' \<in> set separators" using assms by blast
  then show False by (simp add: is_digit_def separators_def)
qed

definition user_text :: "(string \<times> string option) option \<Rightarrow> string" where
  "user_text user = (case user of None \<Rightarrow> [] | Some ui \<Rightarrow> userinfo_string ui)"

definition tail_text :: "string \<Rightarrow> string \<Rightarrow> string" where
  "tail_text path query = path_text path @ (if query \<noteq> [] then ''?'' @ query else [])"

lemma url_string_replace_host:
  assumes "uri_ok sc docker_host path query" and "uri_ok sc host path query"
    and nsc: "\<not> contains sc docker_host" and nu: "\<not> contains (user_text user) docker_host"
    and nt: "\<not> contains (tail_text path query) docker_host"
  shows "replaceAll (url_string (db_uri sc user docker_host port path query)) docker_host host =
    url_string (db_uri sc user host port path query)"
proof -
  let ?pre = "sc @ CHR '':'' # CHR ''/'' # CHR ''/'' # (case user of None \<Rightarrow> [] | Some ui \<Rightarrow> userinfo_string ui @ ''@'')"
  let ?post = "CHR '':'' # formatUint port @ CHR ''/'' # tail_text path query"
  have sep: "CHR '':'' \<notin> set docker_host" "CHR ''/'' \<notin> set docker_host" "CHR ''@'' \<notin> set docker_host"
    by (simp_all add: docker_host_def)
  have ne: "docker_host \<noteq> []" by (simp add: docker_host_def)
  have nil: "\<not> contains [] docker_host" using ne by simp
  have np: "\<not> hasPrefix (CHR ''/'' # b) docker_host" for b by (simp add: docker_host_def)
  have hit: "replaceAll (docker_host @ s) docker_host host = host @ replaceAll s docker_host host" for s
    unfolding docker_host_def by (rule replaceAll_hit)
  have post: "\<not> contains ?post docker_host"
    using nt nil no_docker_host[of "formatUint port"] formatUint_digits[of port]
      contains_cut[OF sep(1), of "[]"] contains_cut[OF sep(2), of "formatUint port"] by auto
  have pre: "\<exists>a c. ?pre = a @ [c] \<and> c \<notin> set docker_host \<and> \<not> contains a docker_host"
  proof (cases user)
    case None
    have "\<not> contains (sc @ CHR '':'' # CHR ''/'' # []) docker_host"
      using nsc nil contains_cut[OF sep(1), of sc "''/''"] contains_cut[OF sep(2), of "[]" "[]"] by simp
    then show ?thesis using None sep(2) by (intro exI[of _ "sc @ '':/''"] exI[of _ "CHR ''/''"]) simp
  next
    case (Some ui)
    have "\<not> contains (sc @ CHR '':'' # CHR ''/'' # CHR ''/'' # userinfo_string ui) docker_host"
      using nsc nu Some contains_cut[OF sep(1), of sc] np by (simp add: user_text_def)
    then show ?thesis
      using Some sep(3) by (intro exI[of _ "sc @ ''://'' @ userinfo_string ui"] exI[of _ "CHR ''@''"]) simp
  qed
  then obtain a c where ac: "?pre = a @ [c]" and c: "c \<notin> set docker_host" "\<not> contains a docker_host" by blast
  have form: "url_string (db_uri sc user h port path query) = ?pre @ h @ ?post"
    if "uri_ok sc h path query" for h
    using url_string_db_uri[of sc h path user port query] that
    by (simp add: uri_ok_def authority_def hostport_def tail_text_def)
  have "replaceAll (?pre @ docker_host @ ?post) docker_host host = ?pre @ host @ ?post"
    unfolding ac using replaceAll_after[OF c ne, of "docker_host @ ?post" host] hit[of ?post]
      replaceAll_no_match[OF post, of host] by simp
  then show ?thesis by (simp only: form[OF assms(1)] form[OF assms(2)])
qed

end
