(* ===== verification/Container.thy ===== *)
theory Container
  imports Utils GoURL
begin

text \<open>
  \<^verbatim>\<open>internal/container\<close>: the labels and listen address of models.go and the docker calls of
  docker_rest.go. The docker client library is the record \<open>docker\<close> of the world; \<open>docker_doc\<close>
  states what its documentation promises about listing, creating, starting and removing.
\<close>

section \<open>models.go\<close>

definition LabelType :: string where "LabelType = ''dbctl_type''"
definition LabelCustom :: string where "LabelCustom = ''dbctl_custom''"
definition LabelPort :: string where "LabelPort = ''dbctl_port''"
definition LabelUser :: string where "LabelUser = ''dbctl_user''"
definition LabelPass :: string where "LabelPass = ''dbctl_pass''"
definition LabelName :: string where "LabelName = ''dbctl_name''"
definition LabelManagedBy :: string where "LabelManagedBy = ''managed_by''"
definition LabelDBctl :: string where "LabelDBctl = ''dbctl''"
definition EnvListen :: string where "EnvListen = ''DBCTL_LISTEN''"
definition LoopbackAddress :: string where "LoopbackAddress = ''127.0.0.1''"

lemmas label_defs = LabelType_def LabelCustom_def LabelPort_def LabelUser_def LabelPass_def
  LabelName_def LabelManagedBy_def LabelDBctl_def

definition ListenAddress :: "'w sys \<Rightarrow> 'w \<Rightarrow> string" where
  "ListenAddress S w =
     (let addr = trimSpace (getenv (os S) w EnvListen)
      in if addr \<noteq> '''' then addr else LoopbackAddress)"

definition IsPublic :: "'w sys \<Rightarrow> 'w \<Rightarrow> bool" where
  "IsPublic S w =
     (let addr = ListenAddress S w
      in addr \<noteq> LoopbackAddress \<and> addr \<noteq> ''localhost'' \<and> addr \<noteq> ''::1'')"

definition PortSpec :: "'w sys \<Rightarrow> 'w \<Rightarrow> string \<Rightarrow> string \<Rightarrow> string" where
  "PortSpec S w hostPort containerPort = ListenAddress S w @ '':'' @ hostPort @ '':'' @ containerPort"

record Container =
  ct_ID :: string
  ct_Name :: string
  ct_Labels :: gomap

record CreateRequest =
  cr_Name :: string
  cr_Image :: string
  cr_ExposedPorts :: "string list"
  cr_Cmd :: "string list"
  cr_Env :: gomap
  cr_Labels :: gomap

section \<open>docker_rest.go\<close>

definition isPortFree :: "'w sys \<Rightarrow> 'w \<Rightarrow> string \<Rightarrow> bool" where
  "isPortFree S w port \<longleftrightarrow> \<not> canDial (os S) (joinHostPort '''' port) w"

definition PullImage :: "'w sys \<Rightarrow> string \<Rightarrow> (unit, 'w) action" where
  "PullImage S img =
     bind (dk_client (docker S)) (\<lambda>_.
     try_catch (dk_imageInspect (docker S) img)
       (\<lambda>_. dk_pull (docker S) img)
       (\<lambda>_. ret ()))"

definition StartContainer :: "'w sys \<Rightarrow> string \<Rightarrow> (unit, 'w) action" where
  "StartContainer S cid = bind (dk_client (docker S)) (\<lambda>_. dk_start (docker S) cid)"

definition RemoveContainer :: "'w sys \<Rightarrow> string \<Rightarrow> (unit, 'w) action" where
  "RemoveContainer S cid = bind (dk_client (docker S)) (\<lambda>_. dk_remove (docker S) cid)"

definition TerminateByID :: "'w sys \<Rightarrow> string \<Rightarrow> (unit, 'w) action" where
  "TerminateByID S cid = RemoveContainer S cid"

definition Terminate :: "'w sys \<Rightarrow> Container \<Rightarrow> (unit, 'w) action" where
  "Terminate S c = TerminateByID S (ct_ID c)"

text \<open>The first taken host port, in the order the port map is walked.\<close>

fun check_ports :: "'w sys \<Rightarrow> port_binding list \<Rightarrow> 'w \<Rightarrow> unit res" where
  "check_ports S [] w = Ok ()"
| "check_ports S (b # bs) w =
     (if \<not> isPortFree S w (HostPort b)
      then Err (Errorf ''port: '%s' is already taken'' [HostPort b])
      else check_ports S bs w)"

definition container_labels :: "CreateRequest \<Rightarrow> gomap" where
  "container_labels params = gm_merge [(LabelManagedBy, LabelDBctl)] (cr_Labels params)"

definition container_config_of :: "CreateRequest \<Rightarrow> port_binding list \<Rightarrow> container_config" where
  "container_config_of params bindings =
     \<lparr>cc_Name = cr_Name params, cc_Image = cr_Image params, cc_Cmd = cr_Cmd params,
      cc_Env = map (\<lambda>(k, v). k @ ''='' @ v) (cr_Env params),
      cc_Labels = container_labels params, cc_PortBindings = bindings,
      cc_ExtraHosts = [''host.docker.internal:host-gateway'']\<rparr>"

definition CreateContainer :: "'w sys \<Rightarrow> CreateRequest \<Rightarrow> (string, 'w) action" where
  "CreateContainer S params =
     bind (dk_client (docker S)) (\<lambda>_.
     bind (lift_res (parsePortSpecs (docker S) (cr_ExposedPorts params))) (\<lambda>bindings.
     bind (ask (check_ports S bindings)) (\<lambda>_.
     dk_create (docker S) (container_config_of params bindings))))"

text \<open>
  \<^verbatim>\<open>Run\<close> returns the container together with the error when starting it failed; every caller
  drops it, so the error alone is the result here and the container stays in the world.
\<close>

definition Run :: "'w sys \<Rightarrow> CreateRequest \<Rightarrow> (Container, 'w) action" where
  "Run S req =
     bind (PullImage S (cr_Image req)) (\<lambda>_.
     bind (CreateContainer S req) (\<lambda>cid.
     bind (StartContainer S cid) (\<lambda>_.
     ret \<lparr>ct_ID = cid, ct_Name = cr_Name req, ct_Labels = []\<rparr>)))"

fun list_containers :: "container_summary list \<Rightarrow> Container list res" where
  "list_containers [] = Ok []"
| "list_containers (c # cs) =
     (case cs_Names c of
        [] \<Rightarrow> Panic ''index out of range''
      | name # _ \<Rightarrow> bind_res (list_containers cs) (\<lambda>out.
          Ok (\<lparr>ct_ID = cs_ID c, ct_Name = name, ct_Labels = cs_Labels c\<rparr> # out)))"

definition label_filters :: "gomap \<Rightarrow> string list" where
  "label_filters labels =
     (LabelManagedBy @ ''='' @ LabelDBctl) # map (\<lambda>(k, v). k @ ''='' @ v) labels"

definition List :: "'w sys \<Rightarrow> gomap \<Rightarrow> (Container list, 'w) action" where
  "List S labels =
     bind (dk_client (docker S)) (\<lambda>_.
     bind (dk_list (docker S) (label_filters labels)) (\<lambda>containers.
     lift_res (list_containers containers)))"

definition CreateExec :: "'w sys \<Rightarrow> string \<Rightarrow> string list \<Rightarrow> (string, 'w) action" where
  "CreateExec S containerID cmd =
     bind (dk_client (docker S)) (\<lambda>_. dk_execCreate (docker S) containerID cmd)"

definition StartExec :: "'w sys \<Rightarrow> string \<Rightarrow> (string, 'w) action" where
  "StartExec S execID = bind (dk_client (docker S)) (\<lambda>_. dk_execAttach (docker S) execID)"

definition RunExec :: "'w sys \<Rightarrow> string \<Rightarrow> string list \<Rightarrow> (string, 'w) action" where
  "RunExec S containerID cmd = bind (CreateExec S containerID cmd) (\<lambda>execID. StartExec S execID)"

section \<open>What docker documents\<close>

text \<open>
  The part of the daemon's state the program can observe: the running containers, and the
  configuration of every container that was created.
\<close>

record docker_view =
  dv_running :: "container_summary list"
  dv_created :: "string \<rightharpoonup> container_config"

definition label_match :: "string \<Rightarrow> container_summary \<Rightarrow> bool" where
  "label_match f c = (case str_cut (CHR ''='') f of (k, v) \<Rightarrow> map_of (cs_Labels c) k = Some v)"

definition running_summary :: "string \<Rightarrow> container_config \<Rightarrow> container_summary" where
  "running_summary cid cfg =
     \<lparr>cs_ID = cid, cs_Names = [''/'' @ cc_Name cfg], cs_Labels = cc_Labels cfg\<rparr>"

text \<open>
  A daemon that is reachable: a client connects; a list call answers with the running containers
  that carry all the labels asked for; create records the configuration under a fresh id; start
  makes a created container run; ids are unique, and a forced remove takes the running container
  with that id away.
\<close>

definition docker_doc :: "'w sys \<Rightarrow> ('w \<Rightarrow> docker_view) \<Rightarrow> bool" where
  "docker_doc S V \<longleftrightarrow>
     (\<forall>w. \<exists>w1. dk_client (docker S) w = (Ok (), w1) \<and> V w1 = V w) \<and>
     (\<forall>w fs. \<exists>w1. dk_list (docker S) fs w =
         (Ok (filter (\<lambda>c. \<forall>f\<in>set fs. label_match f c) (dv_running (V w))), w1) \<and> V w1 = V w) \<and>
     (\<forall>w c. c \<in> set (dv_running (V w)) \<longrightarrow> cs_Names c \<noteq> []) \<and>
     (\<forall>w cfg cid w1. dk_create (docker S) cfg w = (Ok cid, w1) \<longrightarrow>
         cid \<notin> dom (dv_created (V w)) \<and> cid \<notin> cs_ID ` set (dv_running (V w)) \<and>
         V w1 = (V w)\<lparr>dv_created := (dv_created (V w))(cid \<mapsto> cfg)\<rparr>) \<and>
     (\<forall>w cid cfg w1. dk_start (docker S) cid w = (Ok (), w1) \<longrightarrow> dv_created (V w) cid = Some cfg \<longrightarrow>
         cid \<notin> cs_ID ` set (dv_running (V w)) \<longrightarrow>
         V w1 = (V w)\<lparr>dv_running := dv_running (V w) @ [running_summary cid cfg]\<rparr>) \<and>
     (\<forall>w. distinct (map cs_ID (dv_running (V w)))) \<and>
     (\<forall>w cid. cid \<in> cs_ID ` set (dv_running (V w)) \<longrightarrow>
         (\<exists>w1. dk_remove (docker S) cid w = (Ok (), w1) \<and>
            V w1 = (V w)\<lparr>dv_running := filter (\<lambda>c. cs_ID c \<noteq> cid) (dv_running (V w)),
              dv_created := (dv_created (V w))(cid := None)\<rparr>))"

lemma docker_client:
  "docker_doc S V \<Longrightarrow> \<exists>w1. dk_client (docker S) w = (Ok (), w1) \<and> V w1 = V w"
  by (rule docker_doc_def[THEN iffD1, THEN conjunct1, rule_format])

lemma docker_list:
  "docker_doc S V \<Longrightarrow> \<exists>w1. dk_list (docker S) fs w =
     (Ok (filter (\<lambda>c. \<forall>f\<in>set fs. label_match f c) (dv_running (V w))), w1) \<and> V w1 = V w"
  by (rule docker_doc_def[THEN iffD1, THEN conjunct2, THEN conjunct1, rule_format])

lemma docker_names: "docker_doc S V \<Longrightarrow> c \<in> set (dv_running (V w)) \<Longrightarrow> cs_Names c \<noteq> []"
  by (rule docker_doc_def[THEN iffD1, THEN conjunct2, THEN conjunct2, THEN conjunct1, rule_format])

lemma docker_create:
  "docker_doc S V \<Longrightarrow> dk_create (docker S) cfg w = (Ok cid, w1) \<Longrightarrow>
     cid \<notin> dom (dv_created (V w)) \<and> cid \<notin> cs_ID ` set (dv_running (V w)) \<and>
     V w1 = (V w)\<lparr>dv_created := (dv_created (V w))(cid \<mapsto> cfg)\<rparr>"
  by (rule docker_doc_def[THEN iffD1, THEN conjunct2, THEN conjunct2, THEN conjunct2, THEN conjunct1, rule_format])

lemma docker_start:
  "docker_doc S V \<Longrightarrow> dk_start (docker S) cid w = (Ok (), w1) \<Longrightarrow> dv_created (V w) cid = Some cfg \<Longrightarrow>
     cid \<notin> cs_ID ` set (dv_running (V w)) \<Longrightarrow>
     V w1 = (V w)\<lparr>dv_running := dv_running (V w) @ [running_summary cid cfg]\<rparr>"
  by (rule docker_doc_def[THEN iffD1, THEN conjunct2, THEN conjunct2, THEN conjunct2, THEN conjunct2, THEN conjunct1, rule_format])

lemma docker_distinct: "docker_doc S V \<Longrightarrow> distinct (map cs_ID (dv_running (V w)))"
  by (rule docker_doc_def[THEN iffD1, THEN conjunct2, THEN conjunct2, THEN conjunct2, THEN conjunct2, THEN conjunct2, THEN conjunct1, rule_format])

lemma docker_remove:
  "docker_doc S V \<Longrightarrow> cid \<in> cs_ID ` set (dv_running (V w)) \<Longrightarrow>
     \<exists>w1. dk_remove (docker S) cid w = (Ok (), w1) \<and>
       V w1 = (V w)\<lparr>dv_running := filter (\<lambda>c. cs_ID c \<noteq> cid) (dv_running (V w)),
         dv_created := (dv_created (V w))(cid := None)\<rparr>"
  by (rule docker_doc_def[THEN iffD1, THEN conjunct2, THEN conjunct2, THEN conjunct2, THEN conjunct2, THEN conjunct2, THEN conjunct2, rule_format])

section \<open>Listing\<close>

definition to_container :: "container_summary \<Rightarrow> Container" where
  "to_container c = \<lparr>ct_ID = cs_ID c, ct_Name = hd (cs_Names c), ct_Labels = cs_Labels c\<rparr>"

lemma list_containers_Ok:
  "\<forall>c\<in>set cs. cs_Names c \<noteq> [] \<Longrightarrow> list_containers cs = Ok (map to_container cs)"
  by (induction cs) (auto simp: to_container_def split: list.splits)

text \<open>Keys of this program hold no \<^verbatim>\<open>=\<close>, so a filter text stands for one key and one value.\<close>

definition plain_keys :: "gomap \<Rightarrow> bool" where
  "plain_keys labels \<longleftrightarrow> (\<forall>(k, v)\<in>set labels. CHR ''='' \<notin> set k)"

definition carries :: "gomap \<Rightarrow> gomap \<Rightarrow> bool" where
  "carries have_labels want \<longleftrightarrow>
     map_of have_labels LabelManagedBy = Some LabelDBctl \<and>
     (\<forall>(k, v)\<in>set want. map_of have_labels k = Some v)"

lemma label_filters_match:
  assumes "plain_keys labels"
  shows "(\<forall>f\<in>set (label_filters labels). label_match f c) \<longleftrightarrow> carries (cs_Labels c) labels"
proof -
  have "label_match (LabelManagedBy @ ''='' @ LabelDBctl) c \<longleftrightarrow>
      map_of (cs_Labels c) LabelManagedBy = Some LabelDBctl"
    using str_cut_append[of "CHR ''=''" LabelManagedBy LabelDBctl]
    by (simp add: label_match_def LabelManagedBy_def)
  moreover have "label_match (k @ ''='' @ v) c \<longleftrightarrow> map_of (cs_Labels c) k = Some v"
    if "(k, v) \<in> set labels" for k v
    using assms that str_cut_append[of "CHR ''=''" k v] by (auto simp: plain_keys_def label_match_def)
  ultimately show ?thesis by (fastforce simp: label_filters_def carries_def)
qed

lemma List_doc:
  assumes "docker_doc S V" and "plain_keys labels"
  shows "\<exists>w1. List S labels w =
    (Ok (map to_container (filter (\<lambda>c. carries (cs_Labels c) labels) (dv_running (V w)))), w1) \<and> V w1 = V w"
proof -
  obtain w1 where c: "dk_client (docker S) w = (Ok (), w1)" and v1: "V w1 = V w"
    using docker_client[OF assms(1)] by blast
  let ?cs = "filter (\<lambda>c. carries (cs_Labels c) labels) (dv_running (V w))"
  obtain w2 where l: "dk_list (docker S) (label_filters labels) w1 = (Ok ?cs, w2)" and v2: "V w2 = V w"
    using docker_list[OF assms(1), of "label_filters labels" w1] v1
    unfolding label_filters_match[OF assms(2)] by auto
  have "list_containers ?cs = Ok (map to_container ?cs)"
    using docker_names[OF assms(1), of _ w] by (intro list_containers_Ok) auto
  then show ?thesis using c l v2 by (simp add: List_def bind_def)
qed

section \<open>Creating and running\<close>

lemma check_ports_Ok: "check_ports S bs w = Ok () \<longleftrightarrow> (\<forall>b\<in>set bs. isPortFree S w (HostPort b))"
  by (induction bs) auto

lemma CreateContainer_Ok:
  assumes "CreateContainer S params w = (Ok cid, w')"
  shows "\<exists>bindings w1. parsePortSpecs (docker S) (cr_ExposedPorts params) = Ok bindings \<and>
    (\<forall>b\<in>set bindings. isPortFree S w1 (HostPort b)) \<and>
    dk_client (docker S) w = (Ok (), w1) \<and>
    dk_create (docker S) (container_config_of params bindings) w1 = (Ok cid, w')"
  using assms by (auto simp: CreateContainer_def bind_eq_Ok check_ports_Ok)

lemma container_labels_map:
  "distinct (map fst (cr_Labels params)) \<Longrightarrow>
   map_of (container_labels params) = [LabelManagedBy \<mapsto> LabelDBctl] ++ map_of (cr_Labels params)"
  by (simp add: container_labels_def map_of_gm_merge)

text \<open>A container that \<^verbatim>\<open>Run\<close> brought up is running with the labels it was asked to carry.\<close>

lemma Run_doc:
  assumes doc: "docker_doc S V" and run: "Run S req w = (Ok c, w')"
    and pull: "\<And>w. V (snd (dk_imageInspect (docker S) (cr_Image req) w)) = V w"
      "\<And>w. V (snd (dk_pull (docker S) (cr_Image req) w)) = V w"
  shows "\<exists>bindings. dv_running (V w') = dv_running (V w) @
     [running_summary (ct_ID c) (container_config_of req bindings)] \<and>
     ct_ID c \<notin> cs_ID ` set (dv_running (V w))"
proof -
  obtain w1 cid w2 where p: "PullImage S (cr_Image req) w = (Ok (), w1)"
    and cc: "CreateContainer S req w1 = (Ok cid, w2)"
    and st: "StartContainer S cid w2 = (Ok (), w')" and c: "ct_ID c = cid"
    using run by (auto simp: Run_def bind_eq_Ok)
  have "preserves (\<lambda>w'. V w' = V w) (dk_client (docker S))"
    using docker_client[OF doc] by (metis preservesI snd_conv)
  moreover have "preserves (\<lambda>w'. V w' = V w) (dk_imageInspect (docker S) (cr_Image req))"
    "preserves (\<lambda>w'. V w' = V w) (dk_pull (docker S) (cr_Image req))"
    using pull by (auto intro: preservesI)
  ultimately have "preserves (\<lambda>w'. V w' = V w) (PullImage S (cr_Image req))"
    unfolding PullImage_def by (intro preserves_bind preserves_try_catch preserves_ret)
  then have v1: "V w1 = V w" using preservesD[of "\<lambda>w'. V w' = V w" _ w] p by fastforce
  obtain bindings w3 where cl: "dk_client (docker S) w1 = (Ok (), w3)"
    and cr: "dk_create (docker S) (container_config_of req bindings) w3 = (Ok cid, w2)"
    using CreateContainer_Ok[OF cc] by blast
  have v3: "V w3 = V w" using docker_client[OF doc, of w1] cl v1 by auto
  from docker_create[OF doc cr] v3 have fresh: "cid \<notin> cs_ID ` set (dv_running (V w))"
    and v2: "V w2 = (V w)\<lparr>dv_created := (dv_created (V w))(cid \<mapsto> container_config_of req bindings)\<rparr>"
    by auto
  obtain w4 where cl4: "dk_client (docker S) w2 = (Ok (), w4)"
    and s4: "dk_start (docker S) cid w4 = (Ok (), w')"
    using st by (auto simp: StartContainer_def bind_eq_Ok)
  have v4: "V w4 = V w2" using docker_client[OF doc, of w2] cl4 by auto
  from docker_start[OF doc s4, of "container_config_of req bindings"] v4 v2 fresh
  have "dv_running (V w') = dv_running (V w) @ [running_summary cid (container_config_of req bindings)]"
    by simp
  with fresh c show ?thesis by blast
qed

section \<open>Removing\<close>

lemma TerminateByID_doc:
  assumes "docker_doc S V" and "cid \<in> cs_ID ` set (dv_running (V w))"
  shows "\<exists>w1. TerminateByID S cid w = (Ok (), w1) \<and>
    dv_running (V w1) = filter (\<lambda>c. cs_ID c \<noteq> cid) (dv_running (V w))"
proof -
  obtain w1 where c: "dk_client (docker S) w = (Ok (), w1)" and v: "V w1 = V w"
    using docker_client[OF assms(1)] by blast
  have t: "TerminateByID S cid w = dk_remove (docker S) cid w1"
    using c by (simp add: TerminateByID_def RemoveContainer_def bind_def)
  show ?thesis using docker_remove[OF assms(1), of cid w1] assms(2) t v by auto
qed

text \<open>Removing a list of running containers one after the other leaves the others.\<close>

lemma terminate_each_doc:
  assumes "docker_doc S V" and "distinct ids" and "set ids \<subseteq> cs_ID ` set (dv_running (V w))"
  shows "\<exists>w1. foreach (TerminateByID S) ids w = (Ok (), w1) \<and>
    dv_running (V w1) = filter (\<lambda>c. cs_ID c \<notin> set ids) (dv_running (V w))"
  using assms(2,3)
proof (induction ids arbitrary: w)
  case Nil
  then show ?case by simp
next
  case (Cons cid ids)
  obtain w1 where t: "TerminateByID S cid w = (Ok (), w1)"
    and r1: "dv_running (V w1) = filter (\<lambda>c. cs_ID c \<noteq> cid) (dv_running (V w))"
    using TerminateByID_doc[OF assms(1), of cid w] Cons.prems(2) by auto
  have "set ids \<subseteq> cs_ID ` set (dv_running (V w1))"
  proof
    fix x assume x: "x \<in> set ids"
    then obtain c where "c \<in> set (dv_running (V w))" "cs_ID c = x" using Cons.prems(2) by auto
    then show "x \<in> cs_ID ` set (dv_running (V w1))" using x Cons.prems(1) r1 by auto
  qed
  with Cons.IH[of w1] Cons.prems(1) obtain w2 where
    "foreach (TerminateByID S) ids w1 = (Ok (), w2)"
    "dv_running (V w2) = filter (\<lambda>c. cs_ID c \<notin> set ids) (dv_running (V w1))" by auto
  then show ?case using t r1 by (auto simp: bind_def intro!: filter_cong)
qed

end
