(* ===== verification/Database.thy ===== *)
theory Database
  imports Container
begin

text \<open>
  \<^verbatim>\<open>internal/database/database.go\<close>: the names of the database types, the labels that record on a
  container how to reach the instance in it, and the lookup of a running instance by type and label.
\<close>

section \<open>Types, labels, instances\<close>

definition TypePostgres :: string where "TypePostgres = ''postgres''"
definition TypeRedis :: string where "TypeRedis = ''redis''"
definition TypeMongoDB :: string where "TypeMongoDB = ''mongodb''"
definition LabelPostgres :: string where "LabelPostgres = ''postgres''"
definition LabelPGWeb :: string where "LabelPGWeb = ''pgweb''"
definition LabelRedis :: string where "LabelRedis = ''redis''"
definition LabelMongoDB :: string where "LabelMongoDB = ''mongodb''"
definition LabelMongoExpress :: string where "LabelMongoExpress = ''mongoexpress''"

lemmas type_defs = TypePostgres_def TypeRedis_def TypeMongoDB_def LabelPostgres_def LabelRedis_def
  LabelMongoDB_def LabelPGWeb_def LabelMongoExpress_def

datatype Status = Running | Stoped

definition InstanceLabels :: "string \<Rightarrow> string \<Rightarrow> gomap" where
  "InstanceLabels dbType label =
     (let labels = [(LabelType, dbType)]
      in if label \<noteq> '''' then gm_set LabelCustom label labels else labels)"

definition ConnectionLabels :: "string \<Rightarrow> string \<Rightarrow> string \<Rightarrow> u32 \<Rightarrow> gomap" where
  "ConnectionLabels user pass name port =
     [(LabelPort, formatUint (unat port)), (LabelUser, user), (LabelPass, pass), (LabelName, name)]"

record Instance =
  in_ID :: string
  in_Type :: string
  in_Label :: string
  in_Port :: u32
  in_User :: string
  in_Pass :: string
  in_Name :: string

record Info =
  if_ID :: string
  if_Type :: string
  if_Status :: Status

record CreateDBRequest =
  rq_Migrations :: string
  rq_Fixtures :: string
  rq_WithDefaultMigrations :: bool

definition ErrNoInstance :: go_error where
  "ErrNoInstance = Sentinel ''no running instance found''"

definition ErrAmbiguousInstance :: go_error where
  "ErrAmbiguousInstance = Sentinel ''more than one running instance''"

text \<open>The instance a single found container describes; a bad port label is an error.\<close>

definition instance_of :: "string \<Rightarrow> Container \<Rightarrow> Instance res" where
  "instance_of dbType c =
     (let out = \<lparr>in_ID = ct_ID c, in_Type = dbType, in_Label = gm_get (ct_Labels c) LabelCustom,
                 in_Port = 0, in_User = gm_get (ct_Labels c) LabelUser,
                 in_Pass = gm_get (ct_Labels c) LabelPass, in_Name = gm_get (ct_Labels c) LabelName\<rparr>;
          p = gm_get (ct_Labels c) LabelPort
      in if p \<noteq> '''' then
           (case parseUint 32 p of
              Ok port \<Rightarrow> Ok (out\<lparr>in_Port := word_of_nat port\<rparr>)
            | Err e \<Rightarrow> Err (Wrapf ''instance %s has an invalid port label %q: %w'' [ct_Name c, p] e)
            | Panic q \<Rightarrow> Panic q)
         else Ok out)"

definition FindInstance :: "'w sys \<Rightarrow> string \<Rightarrow> string \<Rightarrow> (Instance, 'w) action" where
  "FindInstance S dbType label =
     bind (List S (InstanceLabels dbType label)) (\<lambda>found.
     case found of
       [] \<Rightarrow>
         if label \<noteq> '''' then
           fail (Wrapf (''%w: no %s instance labelled %q, start one with 'dbctl start %s --label %s'' @ [CHR 0x27])
             [dbType, label, dbType, label] ErrNoInstance)
         else fail (Wrapf (''%w: no %s instance, start one with 'dbctl start %s'' @ [CHR 0x27]) [dbType, dbType] ErrNoInstance)
     | [c] \<Rightarrow> lift_res (instance_of dbType c)
     | _ \<Rightarrow> fail (Wrapf ''%w: %d %s instances are running, pass --label to pick one: %s''
         [formatUint (length found), dbType,
          join '', '' (map (\<lambda>c. ct_Name c @ '' (label '' @ gm_get (ct_Labels c) LabelCustom @ '')'') found)]
         ErrAmbiguousInstance))"

text \<open>The loop of \<^verbatim>\<open>FindInstances\<close>; the result maps a type to its instance.\<close>

fun find_instances_loop :: "'w sys \<Rightarrow> string \<Rightarrow> string list \<Rightarrow> (string \<times> Instance) list \<Rightarrow>
    ((string \<times> Instance) list, 'w) action" where
  "find_instances_loop S label [] out = ret out"
| "find_instances_loop S label (dbType # ts) out =
     try_catch (FindInstance S dbType label)
       (\<lambda>e. if errors_is e ErrNoInstance \<or> errors_is e ErrAmbiguousInstance
            then find_instances_loop S label ts out else fail e)
       (\<lambda>instance. find_instances_loop S label ts (AList.update dbType instance out))"

definition FindInstances :: "'w sys \<Rightarrow> string \<Rightarrow> ((string \<times> Instance) list, 'w) action" where
  "FindInstances S label = find_instances_loop S label [TypePostgres, TypeRedis, TypeMongoDB] []"

text \<open>
  The labels every \<^verbatim>\<open>startUsingDocker\<close> puts on the container: the type, the connection details,
  and the user's label when there is one.
\<close>

definition start_labels :: "string \<Rightarrow> string \<Rightarrow> string \<Rightarrow> string \<Rightarrow> u32 \<Rightarrow> string \<Rightarrow> gomap" where
  "start_labels dbType user pass name port label =
     (let labels = gm_merge [(LabelType, dbType)] (ConnectionLabels user pass name port)
      in if label \<noteq> '''' then gm_set LabelCustom label labels else labels)"

section \<open>Lookup\<close>

lemma plain_keys_InstanceLabels: "plain_keys (InstanceLabels t l)"
  by (simp add: plain_keys_def InstanceLabels_def Let_def gm_set_def label_defs)

text \<open>The running containers an instance lookup looks at.\<close>

definition matching :: "docker_view \<Rightarrow> string \<Rightarrow> string \<Rightarrow> container_summary list" where
  "matching v dbType label = filter (\<lambda>c. carries (cs_Labels c) (InstanceLabels dbType label)) (dv_running v)"

lemma carries_InstanceLabels:
  "carries ls (InstanceLabels t l) \<longleftrightarrow>
     map_of ls LabelManagedBy = Some LabelDBctl \<and> map_of ls LabelType = Some t \<and>
     (l \<noteq> '''' \<longrightarrow> map_of ls LabelCustom = Some l)"
  by (auto simp: carries_def InstanceLabels_def Let_def gm_set_def label_defs)

text \<open>What \<^verbatim>\<open>FindInstance\<close> answers, by the number of matching containers.\<close>

definition find_result :: "docker_view \<Rightarrow> string \<Rightarrow> string \<Rightarrow> Instance res \<Rightarrow> bool" where
  "find_result v dbType label r \<longleftrightarrow>
     (case matching v dbType label of
        [] \<Rightarrow> (\<exists>e. r = Err e \<and> errors_is e ErrNoInstance)
      | [c] \<Rightarrow> r = instance_of dbType (to_container c)
      | _ \<Rightarrow> (\<exists>e. r = Err e \<and> errors_is e ErrAmbiguousInstance))"

lemma FindInstance_doc:
  assumes "docker_doc S V"
  shows "\<exists>r w1. FindInstance S dbType label w = (r, w1) \<and> V w1 = V w \<and> find_result (V w) dbType label r"
proof -
  let ?m = "matching (V w) dbType label"
  obtain w1 where l: "List S (InstanceLabels dbType label) w = (Ok (map to_container ?m), w1)"
    and v: "V w1 = V w"
    using List_doc[OF assms plain_keys_InstanceLabels, of dbType label w] by (auto simp: matching_def)
  show ?thesis
  proof (cases ?m)
    case Nil
    with l v show ?thesis
      by (simp add: FindInstance_def bind_def find_result_def)
  next
    case (Cons c cs)
    show ?thesis
    proof (cases cs)
      case Nil
      with Cons l v show ?thesis
        by (simp add: FindInstance_def bind_def find_result_def)
    next
      case (Cons d ds)
      with \<open>?m = c # cs\<close> l v show ?thesis
        by (simp add: FindInstance_def bind_def find_result_def)
    qed
  qed
qed

text \<open>The labels written at start read back as the connection details they were made from.\<close>

lemma gm_get_start_labels:
  "gm_get (start_labels t user pass name port label) LabelPort = formatUint (unat port)"
  "gm_get (start_labels t user pass name port label) LabelUser = user"
  "gm_get (start_labels t user pass name port label) LabelPass = pass"
  "gm_get (start_labels t user pass name port label) LabelName = name"
  "gm_get (start_labels t user pass name port label) LabelCustom = label"
  "gm_get (start_labels t user pass name port label) LabelType = t"
  by (simp_all add: start_labels_def gm_merge_def ConnectionLabels_def gm_set_def Let_def
      gm_get_def label_defs)

lemma distinct_start_labels [simp]: "distinct (map fst (start_labels t user pass name port label))"
  unfolding start_labels_def Let_def by (auto intro!: distinct_gm_set distinct_gm_merge)

lemma managed_not_start_label:
  "map_of (start_labels t user pass name port label) LabelManagedBy = None"
  by (simp add: start_labels_def gm_merge_def ConnectionLabels_def gm_set_def Let_def label_defs)

lemma map_of_start_labels:
  "map_of (start_labels t user pass name port label) LabelType = Some t"
  "label \<noteq> '''' \<Longrightarrow> map_of (start_labels t user pass name port label) LabelCustom = Some label"
  by (simp_all add: start_labels_def gm_merge_def ConnectionLabels_def gm_set_def Let_def label_defs)

lemma instance_of_start_labels:
  assumes "\<And>k. k \<noteq> LabelManagedBy \<Longrightarrow>
      map_of (ct_Labels c) k = map_of (start_labels t user pass name port label) k"
  shows "instance_of t c = Ok \<lparr>in_ID = ct_ID c, in_Type = t, in_Label = label, in_Port = port,
     in_User = user, in_Pass = pass, in_Name = name\<rparr>"
proof -
  have g: "gm_get (ct_Labels c) k = gm_get (start_labels t user pass name port label) k"
    if "k \<noteq> LabelManagedBy" for k using assms[OF that] by (simp add: gm_get_def)
  have "LabelPort \<noteq> LabelManagedBy" "LabelUser \<noteq> LabelManagedBy" "LabelPass \<noteq> LabelManagedBy"
    "LabelName \<noteq> LabelManagedBy" "LabelCustom \<noteq> LabelManagedBy"
    by (simp_all add: label_defs)
  moreover have "parseUint 32 (formatUint (unat port)) = Ok (unat port)"
    using unsigned_less[of port] by (intro parseUint_formatUint) simp
  ultimately show ?thesis
    by (simp add: instance_of_def g gm_get_start_labels Let_def)
qed

section \<open>The instance that was started is the one that is found\<close>

lemma carries_container_labels:
  assumes "cr_Labels req = start_labels t user pass name port label"
  shows "carries (container_labels req) (InstanceLabels t label)"
    and "k \<noteq> LabelManagedBy \<Longrightarrow> map_of (container_labels req) k = map_of (start_labels t user pass name port label) k"
proof -
  have m: "map_of (container_labels req) = [LabelManagedBy \<mapsto> LabelDBctl] ++ map_of (start_labels t user pass name port label)"
    using container_labels_map[of req] assms by simp
  show "map_of (container_labels req) k = map_of (start_labels t user pass name port label) k" if "k \<noteq> LabelManagedBy"
    using that by (simp add: m map_add_def split: option.splits)
  have "LabelType \<noteq> LabelManagedBy" "LabelCustom \<noteq> LabelManagedBy" by (simp_all add: label_defs)
  then show "carries (container_labels req) (InstanceLabels t label)"
    unfolding carries_InstanceLabels m
    by (auto simp: map_add_def managed_not_start_label map_of_start_labels)
qed

lemma started_found:
  assumes doc: "docker_doc S V" and run: "Run S req w = (Ok c, w1)"
    and l: "cr_Labels req = start_labels t user pass name port label"
    and pull: "\<And>w. V (snd (dk_imageInspect (docker S) (cr_Image req) w)) = V w"
      "\<And>w. V (snd (dk_pull (docker S) (cr_Image req) w)) = V w"
    and none: "matching (V w) t label = []"
  shows "\<exists>w2. FindInstance S t label w1 = (Ok \<lparr>in_ID = ct_ID c, in_Type = t, in_Label = label, in_Port = port,
     in_User = user, in_Pass = pass, in_Name = name\<rparr>, w2)"
proof -
  obtain bs where r: "dv_running (V w1) = dv_running (V w) @ [running_summary (ct_ID c) (container_config_of req bs)]"
    using Run_doc[OF doc run pull] by blast
  let ?c = "running_summary (ct_ID c) (container_config_of req bs)"
  have ls: "cs_Labels ?c = container_labels req" "cs_ID ?c = ct_ID c"
    by (simp_all add: running_summary_def container_config_of_def)
  have "matching (V w1) t label = [?c]"
    using none carries_container_labels(1)[OF l] by (simp add: matching_def r ls)
  then obtain res w2 where "FindInstance S t label w1 = (res, w2)" "res = instance_of t (to_container ?c)"
    using FindInstance_doc[OF doc, of t label w1] by (auto simp: find_result_def)
  moreover have "instance_of t (to_container ?c) = Ok \<lparr>in_ID = ct_ID (to_container ?c), in_Type = t, in_Label = label,
      in_Port = port, in_User = user, in_Pass = pass, in_Name = name\<rparr>"
    by (rule instance_of_start_labels) (simp add: to_container_def ls carries_container_labels(2)[OF l])
  ultimately show ?thesis using ls by (simp add: to_container_def)
qed

end
