(* ===== verification/Pool.thy ===== *)
theory Pool
  imports Prelude
begin

text \<open>
  The contract of a pool of numbered databases, as \<^verbatim>\<open>acquireDBIndex\<close> and \<^verbatim>\<open>RemoveDB\<close> of the
  redis component promise it to the clients of the api server: an acquired index was free, is
  marked as handed out, and is free again once it is released. The clients' side is proved here
  from the contract alone; the redis component interprets the locale.
\<close>

section \<open>Clients of a pool\<close>

text \<open>
  Any number of clients share the pool. A step is one of them acquiring an index or giving one it
  holds back; which client moves is not determined. The second component lists the indexes held.
\<close>

inductive pool_run ::
  "('s \<Rightarrow> nat res \<times> 's) \<Rightarrow> (nat \<Rightarrow> 's \<Rightarrow> unit res \<times> 's) \<Rightarrow> 's \<Rightarrow> 's \<Rightarrow> nat list \<Rightarrow> bool"
  for acquire :: "'s \<Rightarrow> nat res \<times> 's" and release :: "nat \<Rightarrow> 's \<Rightarrow> unit res \<times> 's" and s0 :: 's
where
  run_init: "pool_run acquire release s0 s0 []"
| run_acquire: "pool_run acquire release s0 s held \<Longrightarrow> acquire s = (Ok i, s') \<Longrightarrow>
     pool_run acquire release s0 s' (i # held)"
| run_refused: "pool_run acquire release s0 s held \<Longrightarrow> acquire s = (Err e, s') \<Longrightarrow>
     pool_run acquire release s0 s' held"
| run_release: "pool_run acquire release s0 s held \<Longrightarrow> i \<in> set held \<Longrightarrow> release i s = (Ok (), s') \<Longrightarrow>
     pool_run acquire release s0 s' (remove1 i held)"

inductive_cases pool_run_held: "pool_run acquire release s0 s (i # held)"

section \<open>The contract\<close>

text \<open>
  \<open>ok e s\<close> says that the environment \<open>e\<close> behaves as documented and that the state \<open>s\<close> is one
  the pool can be in; \<open>claimed\<close> is the set of indexes marked as handed out and \<open>cap\<close> one more
  than the largest index.
\<close>

locale index_pool =
  fixes ok :: "'e \<Rightarrow> 's \<Rightarrow> bool"
    and acquire :: "'e \<Rightarrow> 's \<Rightarrow> nat res \<times> 's"
    and release :: "'e \<Rightarrow> nat \<Rightarrow> 's \<Rightarrow> unit res \<times> 's"
    and claimed :: "'e \<Rightarrow> 's \<Rightarrow> nat set"
    and cap :: "'e \<Rightarrow> nat"
  assumes acquire_Ok: "ok e s \<Longrightarrow> acquire e s = (Ok i, s') \<Longrightarrow>
      ok e s' \<and> 0 < i \<and> i < cap e \<and> i \<notin> claimed e s \<and> claimed e s' = insert i (claimed e s)"
    and acquire_Err: "ok e s \<Longrightarrow> acquire e s = (Err x, s') \<Longrightarrow>
      ok e s' \<and> claimed e s' = claimed e s \<and> {0<..<cap e} \<subseteq> claimed e s"
    and acquire_returns: "ok e s \<Longrightarrow> fst (acquire e s) \<noteq> Panic p"
    and release_Ok: "ok e s \<Longrightarrow> 0 < i \<Longrightarrow> i < cap e \<Longrightarrow>
      \<exists>s'. release e i s = (Ok (), s') \<and> ok e s' \<and> claimed e s' = claimed e s - {i}"
begin

text \<open>
  The invariant of a shared pool: what is held was marked, every index is held at most once, and
  nothing else was marked since the start.
\<close>

definition held_ok :: "'e \<Rightarrow> 's \<Rightarrow> 's \<Rightarrow> nat list \<Rightarrow> bool" where
  "held_ok e s0 s held \<longleftrightarrow>
     ok e s \<and> distinct held \<and> set held \<subseteq> {0<..<cap e} \<and> set held \<inter> claimed e s0 = {} \<and>
     claimed e s = claimed e s0 \<union> set held"

lemma held_ok_run:
  assumes "pool_run (acquire e) (release e) s0 s held" and "ok e s0"
  shows "held_ok e s0 s held"
  using assms
proof (induction rule: pool_run.induct)
  case run_init
  then show ?case by (simp add: held_ok_def)
next
  case (run_acquire s held i s')
  then show ?case using acquire_Ok[of e s i s'] by (auto simp: held_ok_def)
next
  case (run_refused s held x s')
  then show ?case using acquire_Err[of e s x s'] by (auto simp: held_ok_def)
next
  case (run_release s held i s')
  then have h: "held_ok e s0 s held" by simp
  then have "0 < i" "i < cap e" using run_release.hyps(2) by (auto simp: held_ok_def)
  with release_Ok[of e s i] run_release.hyps(3) h
  have "ok e s'" "claimed e s' = claimed e s - {i}" by (auto simp: held_ok_def)
  with h run_release.hyps(2) show ?case
    by (auto simp: held_ok_def distinct_remove1 set_remove1_eq)
qed

text \<open>No two clients ever hold the same index.\<close>

lemma run_distinct: "pool_run (acquire e) (release e) s0 s held \<Longrightarrow> ok e s0 \<Longrightarrow> distinct held"
  using held_ok_run by (auto simp: held_ok_def)

text \<open>A pool refuses only when all of its indexes are held, by the run or from before.\<close>

lemma run_full:
  assumes "pool_run (acquire e) (release e) s0 s held" and "ok e s0" and "acquire e s = (Err x, s')"
  shows "set held = {0<..<cap e} - claimed e s0"
proof -
  have h: "held_ok e s0 s held" using held_ok_run assms(1,2) by blast
  then have "ok e s" by (simp add: held_ok_def)
  then have "{0<..<cap e} \<subseteq> claimed e s" using acquire_Err assms(3) by blast
  with h show ?thesis unfolding held_ok_def by blast
qed

text \<open>A client can always acquire after one index was given back.\<close>

lemma release_then_acquire:
  assumes "ok e s" and "0 < i" and "i < cap e" and "release e i s = (r, s')"
  shows "\<exists>j s''. acquire e s' = (Ok j, s'')"
proof -
  have ok': "ok e s'" and c: "i \<notin> claimed e s'" using release_Ok[OF assms(1-3)] assms(4) by auto
  obtain r2 s2 where a: "acquire e s' = (r2, s2)" by (cases "acquire e s'")
  show ?thesis
  proof (cases r2)
    case (Err x)
    then have "{0<..<cap e} \<subseteq> claimed e s'" using acquire_Err[OF ok', of x s2] a by simp
    then have "i \<in> claimed e s'" using assms(2,3) by (simp add: subset_iff)
    with c show ?thesis by contradiction
  next
    case (Panic p)
    with acquire_returns[OF ok', of p] a show ?thesis by simp
  qed (use a in blast)
qed

end

end
