(* ===== verification/GoPath.thy ===== *)
theory GoPath
  imports GoStrings
begin

text \<open>
  Go's package \<^verbatim>\<open>path/filepath\<close> on Unix, where \<^verbatim>\<open>FromSlash\<close> and \<^verbatim>\<open>ToSlash\<close> are the identity
  and \<^verbatim>\<open>path.Join\<close>, \<^verbatim>\<open>path.Base\<close> agree with their \<^verbatim>\<open>filepath\<close> counterparts. \<^verbatim>\<open>Clean\<close> is
  the stack machine of the library: empty and \<^verbatim>\<open>.\<close> elements are dropped and \<^verbatim>\<open>..\<close> takes back
  the element before it, except at the root and after leading \<^verbatim>\<open>..\<close> elements.
\<close>

section \<open>Definitions\<close>

abbreviation slash :: char where
  "slash \<equiv> CHR ''/''"

definition isAbs :: "string \<Rightarrow> bool" where
  "isAbs p \<longleftrightarrow> p \<noteq> [] \<and> hd p = slash"

fun clean_stack :: "bool \<Rightarrow> string list \<Rightarrow> string list \<Rightarrow> string list" where
  "clean_stack rooted st [] = rev st"
| "clean_stack rooted st (c # cs) =
     (if c = '''' \<or> c = ''.'' then clean_stack rooted st cs
      else if c = ''..'' then
        (case st of
           [] \<Rightarrow> clean_stack rooted (if rooted then [] else [''..'']) cs
         | t # ts \<Rightarrow> clean_stack rooted (if t = ''..'' then ''..'' # st else ts) cs)
      else clean_stack rooted (c # st) cs)"

definition path_comps :: "string \<Rightarrow> string list" where
  "path_comps p = clean_stack (isAbs p) [] (splitOn slash p)"

definition path_clean :: "string \<Rightarrow> string" where
  "path_clean p =
     (if p = [] then ''.''
      else if isAbs p then slash # join ''/'' (path_comps p)
      else if path_comps p = [] then ''.'' else join ''/'' (path_comps p))"

definition path_join :: "string \<Rightarrow> string \<Rightarrow> string" where
  "path_join a b =
     (if a \<noteq> [] then path_clean (a @ ''/'' @ b)
      else if b \<noteq> [] then path_clean b else [])"

definition path_base :: "string \<Rightarrow> string" where
  "path_base p =
     (let s = rev (dropWhile (\<lambda>c. c = slash) (rev p))
      in if p = [] then ''.'' else if s = [] then ''/'' else last (splitOn slash s))"

definition path_dir :: "string \<Rightarrow> string" where
  "path_dir p = path_clean (rev (dropWhile (\<lambda>c. c \<noteq> slash) (rev p)))"

definition path_ext :: "string \<Rightarrow> string" where
  "path_ext p =
     (let b = last (splitOn slash p)
      in if CHR ''.'' \<in> set b then CHR ''.'' # rev (takeWhile (\<lambda>c. c \<noteq> CHR ''.'') (rev b)) else [])"

text \<open>\<^verbatim>\<open>filepath.Abs\<close>, given the working directory.\<close>

definition path_abs :: "string \<Rightarrow> string \<Rightarrow> string" where
  "path_abs wd p = (if isAbs p then path_clean p else path_join wd p)"

fun strip_common :: "string list \<Rightarrow> string list \<Rightarrow> string list \<times> string list" where
  "strip_common (b # bs) (t # ts) = (if b = t then strip_common bs ts else (b # bs, t # ts))"
| "strip_common bs ts = (bs, ts)"

definition path_rel :: "string \<Rightarrow> string \<Rightarrow> string res" where
  "path_rel base targ =
     (if path_clean base = path_clean targ then Ok ''.''
      else if isAbs base \<noteq> isAbs targ
        then Err (Errorf ''Rel: can't make %s relative to %s'' [targ, base])
      else let (bs, ts) = strip_common (path_comps base)
                 (if path_clean targ = ''.'' then [''.''] else path_comps targ)
        in if bs \<noteq> [] \<and> hd bs = ''..''
           then Err (Errorf ''Rel: can't make %s relative to %s'' [targ, base])
           else Ok (join ''/'' (map (\<lambda>_. ''..'') bs @ ts)))"

section \<open>Clean\<close>

text \<open>An element that names an entry: not empty, not \<^verbatim>\<open>.\<close>, not \<^verbatim>\<open>..\<close>, without a separator.\<close>

definition plain :: "string \<Rightarrow> bool" where
  "plain c \<longleftrightarrow> c \<noteq> '''' \<and> c \<noteq> ''.'' \<and> c \<noteq> ''..'' \<and> slash \<notin> set c"

lemma clean_stack_plain:
  "\<forall>c\<in>set cs. plain c \<Longrightarrow> clean_stack r st cs = rev st @ cs"
  by (induction cs arbitrary: st) (auto simp: plain_def)

lemma clean_stack_append_plain:
  "\<forall>c\<in>set ns. plain c \<Longrightarrow> clean_stack r st (cs @ ns) = clean_stack r st cs @ ns"
  by (induction cs arbitrary: st) (auto simp: clean_stack_plain split: list.splits)

text \<open>The stack of a rooted path holds plain elements only.\<close>

lemma clean_stack_rooted:
  assumes "\<forall>c\<in>set st. plain c" and "\<forall>c\<in>set cs. slash \<notin> set c"
  shows "\<forall>c\<in>set (clean_stack True st cs). plain c"
  using assms
proof (induction cs arbitrary: st)
  case Nil
  then show ?case by simp
next
  case (Cons c cs)
  then have sl: "\<forall>c\<in>set cs. slash \<notin> set c" by simp
  consider "c = '''' \<or> c = ''.''" | "c = ''..''" | "plain c"
    using Cons.prems(2) by (auto simp: plain_def)
  then show ?case
  proof cases
    case 1
    then show ?thesis using Cons.IH[OF Cons.prems(1) sl] by auto
  next
    case 2
    have "\<forall>c\<in>set (tl st). plain c" using Cons.prems(1) by (cases st) auto
    from Cons.IH[OF this sl] show ?thesis
      using 2 Cons.prems(1) by (cases st) (auto simp: plain_def)
  next
    case 3
    then have "\<forall>d\<in>set (c # st). plain d" using Cons.prems(1) by simp
    from Cons.IH[OF this sl] show ?thesis using 3 by (simp add: plain_def)
  qed
qed

text \<open>The stack of a relative path is plain elements on top of some leading \<^verbatim>\<open>..\<close>.\<close>

definition updown :: "string list \<Rightarrow> bool" where
  "updown xs \<longleftrightarrow> (\<exists>k ns. xs = replicate k ''..'' @ ns \<and> (\<forall>c\<in>set ns. plain c))"

lemma updown_snoc: "updown xs \<Longrightarrow> plain c \<Longrightarrow> updown (xs @ [c])"
  by (fastforce simp: updown_def)

lemma updown_pop:
  assumes "updown (xs @ [t])" and "t \<noteq> ''..''"
  shows "updown xs"
proof -
  obtain k ns where x: "xs @ [t] = replicate k ''..'' @ ns" "\<forall>c\<in>set ns. plain c"
    using assms(1) by (auto simp: updown_def)
  show ?thesis
  proof (cases ns rule: rev_cases)
    case Nil
    then have "t \<in> set (replicate k ''..'')" using x(1) by (metis append_Nil2 last_in_set last_snoc snoc_eq_iff_butlast)
    then show ?thesis using assms(2) by (simp split: if_splits)
  next
    case (snoc ms m)
    with x have "xs = replicate k ''..'' @ ms" "\<forall>c\<in>set ms. plain c" by simp_all
    then show ?thesis by (auto simp: updown_def)
  qed
qed

lemma updown_dots:
  assumes "updown (xs @ [''..''])"
  shows "updown (xs @ [''..'', ''..''])"
proof -
  obtain k ns where x: "xs @ [''..''] = replicate k ''..'' @ ns" "\<forall>c\<in>set ns. plain c"
    using assms by (auto simp: updown_def)
  have "ns = []"
  proof (cases ns rule: rev_cases)
    case (snoc ms m)
    with x show ?thesis by (simp add: plain_def)
  qed
  with x have "xs @ [''..'', ''..''] = replicate (Suc k) ''..'' @ []"
    by (metis append_Cons append_Nil append_assoc append_Nil2 replicate_Suc replicate_append_same)
  then show ?thesis unfolding updown_def by (metis empty_iff empty_set)
qed

lemma clean_stack_relative:
  assumes "updown (rev st)" and "\<forall>c\<in>set cs. slash \<notin> set c"
  shows "updown (clean_stack False st cs)"
  using assms
proof (induction cs arbitrary: st)
  case Nil
  then show ?case by simp
next
  case (Cons c cs)
  have sl: "\<forall>c\<in>set cs. slash \<notin> set c" using Cons.prems(2) by simp
  consider "c = '''' \<or> c = ''.''" | "c = ''..''" "st = []"
    | t ts where "c = ''..''" "st = t # ts" "t = ''..''"
    | t ts where "c = ''..''" "st = t # ts" "t \<noteq> ''..''" | "plain c"
    using Cons.prems(2) by (cases st) (auto simp: plain_def)
  then show ?case
  proof cases
    case 1
    then show ?thesis using Cons.IH[OF Cons.prems(1) sl] by auto
  next
    case 2
    have "updown (rev [''..''])" unfolding updown_def by (rule exI[of _ 1], rule exI[of _ "[]"]) simp
    from Cons.IH[OF this sl] show ?thesis using 2 by simp
  next
    case (3 t ts)
    then have "updown (rev (''..'' # st))" using Cons.prems(1) updown_dots[of "rev ts"] by simp
    from Cons.IH[OF this sl] show ?thesis using 3 by simp
  next
    case (4 t ts)
    then have "updown (rev ts)" using Cons.prems(1) updown_pop[of "rev ts" t] by simp
    from Cons.IH[OF this sl] show ?thesis using 4 by simp
  next
    case 5
    then have "updown (rev (c # st))" using Cons.prems(1) updown_snoc[of "rev st" c] by simp
    from Cons.IH[OF this sl] show ?thesis using 5 by (simp add: plain_def)
  qed
qed

lemma path_comps_rooted: "isAbs p \<Longrightarrow> \<forall>c\<in>set (path_comps p). plain c"
  using clean_stack_rooted[of "[]" "splitOn slash p"]
  by (auto simp: path_comps_def splitOn_pieces)

lemma path_comps_relative: "\<not> isAbs p \<Longrightarrow> updown (path_comps p)"
  using clean_stack_relative[of "[]" "splitOn slash p"]
  by (auto simp: path_comps_def splitOn_pieces updown_def)

section \<open>Clean relative names\<close>

text \<open>
  A clean relative name that does not start with \<^verbatim>\<open>..\<close> is plain elements joined by
  separators, and such a name is what \<^verbatim>\<open>Clean\<close> returns unchanged.
\<close>

definition rel_name :: "string \<Rightarrow> bool" where
  "rel_name n \<longleftrightarrow> (\<forall>c\<in>set (splitOn slash n). plain c)"

lemma isAbs_append: "a \<noteq> [] \<Longrightarrow> isAbs (a @ b) = isAbs a"
  by (simp add: isAbs_def)

lemma not_rel_name [simp]: "\<not> rel_name []" "\<not> rel_name (slash # s)"
  by (simp_all add: rel_name_def plain_def)

lemma rel_name_nonempty: "rel_name n \<Longrightarrow> n \<noteq> []"
  by (cases n) simp_all

lemma rel_name_not_abs: "rel_name n \<Longrightarrow> \<not> isAbs n"
  by (cases n) (auto simp: isAbs_def)

lemma path_clean_rel_name: "rel_name n \<Longrightarrow> path_clean n = n"
  using rel_name_nonempty[of n] rel_name_not_abs[of n] join_splitOn[of slash n]
  by (simp add: path_clean_def path_comps_def clean_stack_plain rel_name_def)

lemma rel_name_join:
  assumes "cs \<noteq> []" and "\<forall>c\<in>set cs. plain c"
  shows "rel_name (join ''/'' cs)"
  using assms splitOn_join[of cs slash] by (auto simp: rel_name_def plain_def)

lemma path_clean_cases:
  "path_clean p = ''.'' \<or> isAbs (path_clean p) \<or> (\<exists>r. path_clean p = ''..'' @ r) \<or> rel_name (path_clean p)"
proof (cases "isAbs p")
  case True
  then show ?thesis by (auto simp: path_clean_def isAbs_def)
next
  case False
  obtain k ns where cs: "path_comps p = replicate k ''..'' @ ns" "\<forall>c\<in>set ns. plain c"
    using path_comps_relative[OF False] by (auto simp: updown_def)
  show ?thesis
  proof (cases "path_comps p = [] \<or> p = []")
    case True
    then show ?thesis using False by (auto simp: path_clean_def)
  next
    case nonempty: False
    then have pc: "path_clean p = join ''/'' (path_comps p)" using False by (simp add: path_clean_def)
    show ?thesis
    proof (cases k)
      case 0
      then show ?thesis using cs nonempty pc rel_name_join[of ns] by simp
    next
      case (Suc k')
      then have "\<exists>r. join ''/'' (path_comps p) = ''..'' @ r"
        using cs by (cases "replicate k' ''..'' @ ns") (auto simp: join_Cons)
      then show ?thesis unfolding pc by blast
    qed
  qed
qed

text \<open>The splitting of a path at a separator goes element-wise.\<close>

lemma splitOn_slash_append:
  "splitOn c (a @ c # b) = splitOn c a @ splitOn c b"
proof (induction a)
  case Nil
  then show ?case by simp
next
  case (Cons x a)
  then show ?case by (cases "splitOn c a") auto
qed

text \<open>Joining a clean relative name below a clean absolute directory.\<close>

lemma path_join_below:
  assumes "isAbs dst" and "path_clean dst = dst" and "dst \<noteq> ''/''" and "rel_name n"
  shows "path_join dst n = dst @ ''/'' @ n"
proof -
  have ne: "dst \<noteq> []" and n: "n \<noteq> []" using assms(1) rel_name_nonempty[OF assms(4)] by (auto simp: isAbs_def)
  have abs: "isAbs (dst @ ''/'' @ n)" using ne assms(1) by (simp add: isAbs_append)
  have dst: "dst = slash # join ''/'' (path_comps dst)"
    using assms(1,2) ne by (simp add: path_clean_def)
  have d: "path_comps dst \<noteq> []" using dst assms(3) by auto
  have "path_comps (dst @ ''/'' @ n) = clean_stack True [] (splitOn slash dst @ splitOn slash n)"
    using abs by (simp add: path_comps_def splitOn_slash_append)
  also have "\<dots> = path_comps dst @ splitOn slash n"
    using clean_stack_append_plain[of "splitOn slash n" True "[]" "splitOn slash dst"]
      assms(1,4) by (simp add: path_comps_def rel_name_def)
  finally have "path_clean (dst @ ''/'' @ n) = slash # join ''/'' (path_comps dst @ splitOn slash n)"
    using abs ne by (simp add: path_clean_def)
  also have "\<dots> = (slash # join ''/'' (path_comps dst)) @ ''/'' @ join ''/'' (splitOn slash n)"
    using d by (simp add: join_append)
  also have "\<dots> = dst @ ''/'' @ n" using dst join_splitOn[of slash n] by simp
  finally show ?thesis using ne by (simp add: path_join_def)
qed

text \<open>A clean absolute directory other than the root.\<close>

definition clean_dir :: "string \<Rightarrow> bool" where
  "clean_dir d \<longleftrightarrow> isAbs d \<and> path_clean d = d \<and> d \<noteq> ''/''"

lemma strip_common_append: "strip_common xs (xs @ ys) = ([], ys)"
  by (induction xs) auto

lemma path_rel_below:
  assumes "clean_dir d" and "rel_name n"
  shows "path_rel d (path_join d n) = Ok n"
proof -
  have d: "isAbs d" "path_clean d = d" "d \<noteq> ''/''" "d \<noteq> []" using assms(1) by (auto simp: clean_dir_def isAbs_def)
  have j: "path_join d n = d @ ''/'' @ n" by (rule path_join_below[OF d(1-3) assms(2)])
  have abs: "isAbs (d @ ''/'' @ n)" using d by (simp add: isAbs_append)
  have "path_comps (d @ ''/'' @ n) = path_comps d @ splitOn slash n"
    using abs d(1) clean_stack_append_plain[of "splitOn slash n" True "[]" "splitOn slash d"] assms(2)
    by (simp add: path_comps_def splitOn_slash_append rel_name_def)
  then have s: "strip_common (path_comps d) (path_comps (d @ ''/'' @ n)) = ([], splitOn slash n)"
    by (simp add: strip_common_append)
  have c: "path_clean (d @ ''/'' @ n) = d @ ''/'' @ n" using j d(4) by (simp add: path_join_def)
  have "d @ ''/'' @ n \<noteq> ''.''" using abs by (auto simp: isAbs_def)
  then show ?thesis
    unfolding j path_rel_def c d(2) using abs d(1) s join_splitOn[of slash n] by simp
qed

lemmas [go_defs] = isAbs_def path_comps_def path_clean_def path_join_def path_base_def
  path_dir_def path_ext_def path_abs_def path_rel_def

end
