(* ===== verification/Files.thy ===== *)
theory Files
  imports Utils GoPath "HOL-Library.Multiset"
begin

text \<open>
  What the three \<^verbatim>\<open>getFiles\<close> functions (postgres, redis, mongodb) share: the callback they give
  to \<^verbatim>\<open>filepath.WalkDir\<close>, which collects the paths of the entries that are not directories and
  whose name passes a test, and stops at the first error. The locale states their common
  contract and proves what every user of it relies on.
\<close>

fun walk_files :: "(string \<Rightarrow> bool) \<Rightarrow> walk_event list \<Rightarrow> string list res" where
  "walk_files keep [] = Ok []"
| "walk_files keep (WalkErr e # evs) = Err e"
| "walk_files keep (WalkEntry p name isDir # evs) =
     (if isDir \<or> \<not> keep name then walk_files keep evs
      else bind_res (walk_files keep evs) (\<lambda>out. Ok (p # out)))"

definition no_walk_error :: "walk_event list \<Rightarrow> bool" where
  "no_walk_error evs \<longleftrightarrow> (\<forall>e. WalkErr e \<notin> set evs)"

definition kept_paths :: "(string \<Rightarrow> bool) \<Rightarrow> walk_event list \<Rightarrow> string set" where
  "kept_paths keep evs = {p. \<exists>name. WalkEntry p name False \<in> set evs \<and> keep name}"

lemma walk_files_Ok:
  "walk_files keep evs = Ok out \<longleftrightarrow> no_walk_error evs \<and>
     out = concat (map (\<lambda>ev. case ev of WalkEntry p name d \<Rightarrow> if d \<or> \<not> keep name then [] else [p]
                                      | WalkErr e \<Rightarrow> []) evs)"
  by (induction keep evs arbitrary: out rule: walk_files.induct)
     (auto simp: no_walk_error_def bind_res_eq_Ok)

lemma set_walk_files: "walk_files keep evs = Ok out \<Longrightarrow> set out = kept_paths keep evs"
  by (force simp: walk_files_Ok kept_paths_def split: walk_event.splits if_splits)

section \<open>The contract of a file lister\<close>

locale file_lister =
  fixes getFiles :: "'w sys \<Rightarrow> string \<Rightarrow> 'w \<Rightarrow> string list res"
    and keep :: "string \<Rightarrow> bool"
  assumes list_empty: "getFiles S [] w = Ok []"
    and list_dir: "path \<noteq> [] \<Longrightarrow> statIsDir (os S) path w = Ok True \<Longrightarrow> getwd (os S) w = Ok wd \<Longrightarrow>
      getFiles S path w =
        bind_res (walk_files keep (walkDir (os S) (path_abs wd path) w)) (\<lambda>out. Ok (sort out))"
    and list_file: "path \<noteq> [] \<Longrightarrow> statIsDir (os S) path w = Ok False \<Longrightarrow> getFiles S path w = Ok [path]"
begin

lemma dir_sorted:
  assumes "path \<noteq> []" and "statIsDir (os S) path w = Ok True" and "getwd (os S) w = Ok wd"
    and "getFiles S path w = Ok out"
  shows "sorted out \<and> set out = kept_paths keep (walkDir (os S) (path_abs wd path) w)"
proof -
  obtain fs where "walk_files keep (walkDir (os S) (path_abs wd path) w) = Ok fs" and "out = sort fs"
    using assms(4) unfolding list_dir[OF assms(1-3)] by (auto simp: bind_res_eq_Ok)
  then show ?thesis using set_walk_files by simp
qed

text \<open>The order in which the directory is walked does not show in the result.\<close>

lemma walk_order:
  assumes "path \<noteq> []" and "statIsDir (os S) path w = Ok True" and "getwd (os S) w = Ok wd"
    and "no_walk_error (walkDir (os S) (path_abs wd path) w)"
    and "mset evs = mset (walkDir (os S) (path_abs wd path) w)"
    and "walk_files keep evs = Ok out"
  shows "getFiles S path w = Ok (sort out)"
proof -
  let ?f = "\<lambda>ev. case ev of WalkEntry p name d \<Rightarrow> if d \<or> \<not> keep name then [] else [p] | WalkErr e \<Rightarrow> []"
  let ?evs = "walkDir (os S) (path_abs wd path) w"
  obtain out2 where o2: "walk_files keep ?evs = Ok out2"
    using assms(4) by (auto simp: walk_files_Ok)
  have "mset (concat (map ?f xs)) = (\<Sum>x\<in>#mset xs. mset (?f x))" for xs
    by (induction xs) auto
  then have "mset out = mset out2" using assms(5,6) o2 by (metis walk_files_Ok)
  then have "sort out = sort out2" by (metis mset_sort properties_for_sort sorted_sort)
  then show ?thesis using list_dir[OF assms(1-3)] o2 by simp
qed

end

text \<open>\<^verbatim>\<open>filepath.Abs\<close> reads the working directory for a relative path only.\<close>

definition Abs :: "'w sys \<Rightarrow> string \<Rightarrow> 'w \<Rightarrow> string res" where
  "Abs S path w = (if isAbs path then Ok (path_clean path)
     else bind_res (getwd (os S) w) (\<lambda>wd. Ok (path_join wd path)))"

lemma Abs_getwd: "getwd (os S) w = Ok wd \<Longrightarrow> Abs S path w = Ok (path_abs wd path)"
  by (simp add: Abs_def path_abs_def)

end
