(* ===== verification/GoUtf8.thy ===== *)
theory GoUtf8
  imports GoStrings
begin

text \<open>
  Runes and their UTF-8 encoding, as Go's \<^verbatim>\<open>for _, r := range s\<close> and
  \<^verbatim>\<open>strings.Builder.WriteRune\<close> see them. A Go string is a list of bytes; a byte sequence that is
  not valid UTF-8 is read as U+FFFD, one byte at a time.
\<close>

section \<open>Definitions\<close>

definition RuneError :: nat where
  "RuneError = 65533"

definition valid_rune :: "nat \<Rightarrow> bool" where
  "valid_rune r \<longleftrightarrow> r < 55296 \<or> (57344 \<le> r \<and> r < 1114112)"

definition byte :: "nat \<Rightarrow> char" where
  "byte n = char_of n"

definition encode_valid :: "nat \<Rightarrow> string" where
  "encode_valid r =
     (if r < 128 then [byte r]
      else if r < 2048 then [byte (192 + r div 64), byte (128 + r mod 64)]
      else if r < 65536 then
        [byte (224 + r div 4096), byte (128 + r div 64 mod 64), byte (128 + r mod 64)]
      else [byte (240 + r div 262144), byte (128 + r div 4096 mod 64),
            byte (128 + r div 64 mod 64), byte (128 + r mod 64)])"

definition encode_rune :: "nat \<Rightarrow> string" where
  "encode_rune r = encode_valid (if valid_rune r then r else RuneError)"

definition is_cont :: "char \<Rightarrow> bool" where
  "is_cont c \<longleftrightarrow> 128 \<le> (of_char c :: nat) \<and> (of_char c :: nat) < 192"

definition cont_bits :: "char \<Rightarrow> nat" where
  "cont_bits c = of_char c - 128"

text \<open>The rune at the start of a string that begins with byte \<open>c\<close>, and its width less one.\<close>

definition decode_first :: "char \<Rightarrow> string \<Rightarrow> nat \<times> nat" where
  "decode_first c s =
     (let b = (of_char c :: nat) in
      if b < 128 then (b, 0)
      else if 194 \<le> b \<and> b < 224 then
        (case s of
           c1 # _ \<Rightarrow> if is_cont c1 then ((b - 192) * 64 + cont_bits c1, 1) else (RuneError, 0)
         | _ \<Rightarrow> (RuneError, 0))
      else if 224 \<le> b \<and> b < 240 then
        (case s of
           c1 # c2 # _ \<Rightarrow>
             let r = (b - 224) * 4096 + cont_bits c1 * 64 + cont_bits c2
             in if is_cont c1 \<and> is_cont c2 \<and> 2048 \<le> r \<and> valid_rune r then (r, 2) else (RuneError, 0)
         | _ \<Rightarrow> (RuneError, 0))
      else if 240 \<le> b \<and> b < 245 then
        (case s of
           c1 # c2 # c3 # _ \<Rightarrow>
             let r = (b - 240) * 262144 + cont_bits c1 * 4096 + cont_bits c2 * 64 + cont_bits c3
             in if is_cont c1 \<and> is_cont c2 \<and> is_cont c3 \<and> 65536 \<le> r \<and> valid_rune r then (r, 3)
                else (RuneError, 0)
         | _ \<Rightarrow> (RuneError, 0))
      else (RuneError, 0))"

function runes :: "string \<Rightarrow> nat list" where
  "runes [] = []"
| "runes (c # s) = (case decode_first c s of (r, n) \<Rightarrow> r # runes (drop n s))"
  by pat_completeness auto
termination by (relation "measure length") auto

definition of_runes :: "nat list \<Rightarrow> string" where
  "of_runes rs = concat (map encode_rune rs)"

definition ascii :: "string \<Rightarrow> nat list" where
  "ascii s = map of_char s"

text \<open>\<^verbatim>\<open>unicode.IsSpace\<close>\<close>

definition rune_isSpace :: "nat \<Rightarrow> bool" where
  "rune_isSpace r \<longleftrightarrow> (9 \<le> r \<and> r \<le> 13) \<or> r = 32 \<or> r = 133 \<or> r = 160 \<or> r = 5760 \<or>
     (8192 \<le> r \<and> r \<le> 8202) \<or> r = 8232 \<or> r = 8233 \<or> r = 8239 \<or> r = 8287 \<or> r = 12288"

section \<open>Round trip\<close>

lemma of_char_byte [simp]: "n < 256 \<Longrightarrow> (of_char (byte n) :: nat) = n"
  by (simp add: byte_def)

lemma is_cont_byte [simp]: "is_cont (byte (128 + n mod 64))" "cont_bits (byte (128 + n mod 64)) = n mod 64"
proof -
  have "n mod 64 < 64" by simp
  then have "128 + n mod 64 < 256" "n mod 64 < 64" by linarith+
  then have "of_char (byte (128 + n mod 64)) = 128 + n mod 64" by simp
  then show "is_cont (byte (128 + n mod 64))" "cont_bits (byte (128 + n mod 64)) = n mod 64"
    using \<open>n mod 64 < 64\<close> by (simp_all add: is_cont_def cont_bits_def)
qed

lemma decode_encode:
  assumes "valid_rune r"
  shows "\<exists>c s. encode_valid r = c # s \<and> decode_first c (s @ rest) = (r, length s)"
proof -
  have dm2: "r div 64 * 64 + r mod 64 = r" by simp
  have d: "r div 4096 = r div 64 div 64" "r div 262144 = r div 4096 div 64"
    by (simp_all add: div_mult2_eq[symmetric])
  have m: "n div 64 * 64 + n mod 64 = n" for n :: nat by simp
  have dm3: "r div 4096 * 4096 + r div 64 mod 64 * 64 + r mod 64 = r"
    using m[of r] m[of "r div 64"] unfolding d(1) by linarith
  have dm4: "r div 262144 * 262144 + r div 4096 mod 64 * 4096 + r div 64 mod 64 * 64 + r mod 64 = r"
    using dm3 m[of "r div 4096"] unfolding d(2) by linarith
  consider "r < 128" | "128 \<le> r" "r < 2048" | "2048 \<le> r" "r < 65536" | "65536 \<le> r" by linarith
  then show ?thesis
  proof cases
    case 1
    then show ?thesis by (simp add: encode_valid_def decode_first_def)
  next
    case 2
    then have "r div 64 < 32" "2 \<le> r div 64" by (auto simp: div_le_mono less_mult_imp_div_less)
    then show ?thesis
      using 2 dm2 by (simp add: encode_valid_def decode_first_def Let_def not_less) arith
  next
    case 3
    then have "224 + r div 4096 < 240" by auto
    then show ?thesis using 3 dm3 assms by (simp add: encode_valid_def decode_first_def Let_def)
  next
    case 4
    then have "240 + r div 262144 < 245" using assms by (auto simp: valid_rune_def)
    then show ?thesis using 4 dm4 assms by (simp add: encode_valid_def decode_first_def Let_def)
  qed
qed

lemma runes_encode: "valid_rune r \<Longrightarrow> runes (encode_rune r @ s) = r # runes s"
  using decode_encode[of r s] by (auto simp: encode_rune_def)

theorem runes_of_runes: "list_all valid_rune rs \<Longrightarrow> runes (of_runes rs) = rs"
  by (induction rs) (simp_all add: of_runes_def runes_encode)

lemma of_runes_append [simp]: "of_runes (xs @ ys) = of_runes xs @ of_runes ys"
  and of_runes_Nil [simp]: "of_runes [] = []"
  by (simp_all add: of_runes_def)

lemma runes_app_valid: "list_all valid_rune rs \<Longrightarrow> runes (of_runes rs @ s) = rs @ runes s"
  by (induction rs) (simp_all add: of_runes_def runes_encode)

text \<open>On 7-bit text a rune is a byte.\<close>

definition is_ascii :: "string \<Rightarrow> bool" where
  "is_ascii s \<longleftrightarrow> (\<forall>c\<in>set s. (of_char c :: nat) < 128)"

lemma runes_ascii: "is_ascii s \<Longrightarrow> runes s = map of_char s"
  by (induction s) (simp_all add: is_ascii_def decode_first_def)

lemma of_runes_ascii: "is_ascii s \<Longrightarrow> of_runes (map of_char s) = s"
  by (induction s)
     (simp_all add: is_ascii_def of_runes_def encode_rune_def encode_valid_def valid_rune_def byte_def)

lemma decode_first_valid: "decode_first c s = (r, n) \<Longrightarrow> valid_rune r"
  by (auto simp: decode_first_def valid_rune_def RuneError_def Let_def is_cont_def cont_bits_def
      split: if_splits list.splits)

lemma runes_valid: "list_all valid_rune (runes s)"
  by (induction s rule: runes.induct) (auto simp: decode_first_valid split: prod.splits)

lemma encode_ascii: "r < 128 \<Longrightarrow> encode_rune r = [char_of r]"
  by (simp add: encode_rune_def valid_rune_def encode_valid_def byte_def)

end
