(* ===== verification/RedisFixtures.thy ===== *)
theory RedisFixtures
  imports Files GoUtf8
begin

text \<open>
  \<^verbatim>\<open>internal/database/redis/fixtures.go\<close>: the fixture files of a redis database, the splitting of
  a command line into its arguments, and running the commands of a file one line at a time.
\<close>

section \<open>Definitions\<close>

text \<open>redigo's \<^verbatim>\<open>ErrNil\<close>, compared by identity.\<close>

definition redis_ErrNil :: go_error where
  "redis_ErrNil = Sentinel ''redigo: nil returned''"

definition isNil :: "go_error \<Rightarrow> bool" where
  "isNil err \<longleftrightarrow> err = redis_ErrNil"

text \<open>
  The loop of \<^verbatim>\<open>splitCommand\<close> over the runes of the line: the arguments so far, the one being
  read, the open quote (0 for none) and whether an argument was started.
\<close>

type_synonym split_state = "string list \<times> string \<times> nat \<times> bool"

fun split_loop :: "nat list \<Rightarrow> split_state \<Rightarrow> split_state" where
  "split_loop [] st = st"
| "split_loop (r # rs) (args, current, quote, started) =
     (if quote \<noteq> 0 then
        if r = quote then split_loop rs (args, current, 0, started)
        else split_loop rs (args, current @ encode_rune r, quote, started)
      else if r = 39 \<or> r = 34 then split_loop rs (args, current, r, True)
      else if rune_isSpace r then
        if started then split_loop rs (args @ [current], [], quote, False)
        else split_loop rs (args, current, quote, started)
      else split_loop rs (args, current @ encode_rune r, quote, True))"

definition splitCommand :: "string \<Rightarrow> string list res" where
  "splitCommand line =
     (case split_loop (runes line) ([], [], 0, False) of (args, current, quote, started) \<Rightarrow>
        if quote \<noteq> 0 then Err (Errorf ''unbalanced %q in %q'' [encode_rune quote, line])
        else if started then Ok (args @ [current])
        else Ok args)"

text \<open>The loop of \<^verbatim>\<open>applyCommands\<close>, from line \<open>i\<close> on.\<close>

fun apply_lines :: "'w sys \<Rightarrow> nat \<Rightarrow> nat \<Rightarrow> string list \<Rightarrow> (unit, 'w) action" where
  "apply_lines S conn i [] = ret ()"
| "apply_lines S conn i (l # ls) =
     (let line = trimSpace l in
      if line = '''' \<or> hasPrefix line ''#'' then apply_lines S conn (i + 1) ls
      else case splitCommand line of
        Err e \<Rightarrow> fail (Wrapf ''line %d: %w'' [formatUint (i + 1)] e)
      | Panic p \<Rightarrow> lift_res (Panic p)
      | Ok [] \<Rightarrow> apply_lines S conn (i + 1) ls
      | Ok (cmd # params) \<Rightarrow>
          try_catch (rd_do (rds S) conn (cmd # params))
            (\<lambda>e. if isNil e then apply_lines S conn (i + 1) ls
                 else fail (Wrapf ''line %d (%s): %w'' [formatUint (i + 1), cmd] e))
            (\<lambda>_. apply_lines S conn (i + 1) ls))"

definition applyCommands :: "'w sys \<Rightarrow> nat \<Rightarrow> string \<Rightarrow> (unit, 'w) action" where
  "applyCommands S conn content = apply_lines S conn 0 (splitOn (CHR 0x0A) content)"

definition apply_fixture :: "'w sys \<Rightarrow> nat \<Rightarrow> string \<Rightarrow> (unit, 'w) action" where
  "apply_fixture S conn f =
     bind (wrap ''read fixture file (%s) failed: %w'' [f] (ask (readFile (os S) f))) (\<lambda>content.
     if equalFold (path_ext f) ''.lua'' then
       try_catch (rd_eval (rds S) conn content)
         (\<lambda>e. if isNil e then ret () else fail (Wrapf ''applying fixture file (%s) failed: %w'' [f] e))
         (\<lambda>_. ret ())
     else wrap ''applying fixture file (%s) failed: %w'' [f] (applyCommands S conn content))"

definition rs_applyFixtures :: "'w sys \<Rightarrow> nat \<Rightarrow> string list \<Rightarrow> (unit, 'w) action" where
  "rs_applyFixtures S conn files = foreach (apply_fixture S conn) files"

definition rs_keep :: "string \<Rightarrow> bool" where
  "rs_keep name \<longleftrightarrow> OneOf (toLower (path_ext name)) [''.redis'', ''.txt'', ''.lua'']"

definition rs_getFiles :: "'w sys \<Rightarrow> string \<Rightarrow> 'w \<Rightarrow> string list res" where
  "rs_getFiles S path w =
     (if length path = 0 then Ok []
      else bind_res (wrap_err ''get path information failed, %w'' [] (statIsDir (os S) path w)) (\<lambda>isDir.
        if \<not> isDir then Ok [path]
        else bind_res (Abs S path w) (\<lambda>absPath.
          bind_res (walk_files rs_keep (walkDir (os S) absPath w)) (\<lambda>out. Ok (sort out)))))"

interpretation rs_files: file_lister rs_getFiles rs_keep
  by unfold_locales (simp_all add: rs_getFiles_def Abs_getwd)

section \<open>Splitting a command line\<close>

text \<open>
  A quoted argument may hold anything but its quote; a bare one is not empty and holds no quote
  and no white space.
\<close>

datatype arg_style = Bare | Quoted nat

fun arg_ok :: "arg_style \<times> nat list \<Rightarrow> bool" where
  "arg_ok (Bare, rs) = (rs \<noteq> [] \<and> list_all valid_rune rs \<and> (\<forall>r\<in>set rs. \<not> rune_isSpace r \<and> r \<noteq> 34 \<and> r \<noteq> 39))"
| "arg_ok (Quoted q, rs) = (list_all valid_rune rs \<and> (q = 34 \<or> q = 39) \<and> q \<notin> set rs)"

fun arg_runes :: "arg_style \<times> nat list \<Rightarrow> nat list" where
  "arg_runes (Bare, rs) = rs"
| "arg_runes (Quoted q, rs) = q # rs @ [q]"

fun command_line :: "(arg_style \<times> nat list) list \<Rightarrow> nat list" where
  "command_line [] = []"
| "command_line [a] = arg_runes a"
| "command_line (a # as) = arg_runes a @ 32 # command_line as"

lemma split_bare:
  "\<forall>r\<in>set rs. \<not> rune_isSpace r \<and> r \<noteq> 34 \<and> r \<noteq> 39 \<Longrightarrow>
   split_loop (rs @ rest) (args, current, 0, started) =
   split_loop rest (args, current @ of_runes rs, 0, started \<or> rs \<noteq> [])"
  by (induction rs arbitrary: current started) (auto simp: of_runes_def)

lemma split_in_quote:
  "q \<noteq> 0 \<Longrightarrow> q \<notin> set rs \<Longrightarrow>
   split_loop (rs @ q # rest) (args, current, q, started) =
   split_loop rest (args, current @ of_runes rs, 0, started)"
  by (induction rs arbitrary: current) (auto simp: of_runes_def)

lemma split_arg:
  assumes "arg_ok a"
  shows "split_loop (arg_runes a @ rest) (args, [], 0, False) =
    split_loop rest (args, of_runes (snd a), 0, True)"
proof (cases a rule: arg_ok.cases)
  case (1 rs)
  then show ?thesis using assms split_bare[of rs rest args "[]" False] by simp
next
  case (2 q rs)
  then show ?thesis using assms split_in_quote[of q rs rest args "[]" True] by auto
qed

lemma split_command_line:
  assumes "\<forall>a\<in>set as. arg_ok a" and "as \<noteq> []"
  shows "split_loop (command_line as) (args, [], 0, False) =
    (args @ map (of_runes \<circ> snd) (butlast as), of_runes (snd (last as)), 0, True)"
  using assms
proof (induction as arbitrary: args rule: command_line.induct)
  case (2 a)
  then show ?case using split_arg[of a "[]" args] by simp
next
  case (3 a b bs)
  have "split_loop (command_line (a # b # bs)) (args, [], 0, False) =
      split_loop (32 # command_line (b # bs)) (args, of_runes (snd a), 0, True)"
    using 3(2) split_arg[of a _ args] by simp
  also have "\<dots> = split_loop (command_line (b # bs)) (args @ [of_runes (snd a)], [], 0, False)"
    by (simp add: rune_isSpace_def)
  also have "\<dots> = (args @ of_runes (snd a) # map (of_runes \<circ> snd) (butlast (b # bs)),
      of_runes (snd (last (b # bs))), 0, True)"
    using 3(1)[of "args @ [of_runes (snd a)]"] 3(2) by simp
  finally show ?case by simp
qed simp

lemma valid_marks: "valid_rune 32" "valid_rune 34" "valid_rune 39"
  by (simp_all add: valid_rune_def)

lemma arg_runes_valid: "arg_ok a \<Longrightarrow> list_all valid_rune (arg_runes a)"
  by (cases a rule: arg_ok.cases) (auto simp: valid_marks)

lemma command_line_valid: "\<forall>a\<in>set as. arg_ok a \<Longrightarrow> list_all valid_rune (command_line as)"
  by (induction as rule: command_line.induct) (simp_all add: arg_runes_valid valid_marks)

lemma splitCommand_command_line:
  assumes "\<forall>a\<in>set as. arg_ok a"
  shows "splitCommand (of_runes (command_line as)) = Ok (map (of_runes \<circ> snd) as)"
proof (cases "as = []")
  case False
  then have "map (of_runes \<circ> snd) (butlast as) @ [of_runes (snd (last as))] = map (of_runes \<circ> snd) as"
    using append_butlast_last_id[of as] by (metis (no_types, lifting) comp_apply list.simps(8) list.simps(9) map_append)
  then show ?thesis
    using split_command_line[OF assms False, of "[]"] runes_of_runes[OF command_line_valid[OF assms]]
    by (simp add: splitCommand_def)
qed (simp add: splitCommand_def)

text \<open>A line that opens a quote and never closes it is refused.\<close>

lemma split_open_quote:
  "q \<noteq> 0 \<Longrightarrow> q \<notin> set rs \<Longrightarrow>
   split_loop rs (args, current, q, started) = (args, current @ of_runes rs, q, started)"
  by (induction rs arbitrary: current) (auto simp: of_runes_def)

lemma splitCommand_unbalanced:
  assumes "\<forall>r\<in>set pre. r \<noteq> 34 \<and> r \<noteq> 39" and "q = 34 \<or> q = 39" and "q \<notin> set rs"
    and "list_all valid_rune (pre @ rs)"
  shows "\<exists>e. splitCommand (of_runes (pre @ q # rs)) = Err e"
proof -
  have "\<exists>args cur st. split_loop (pre @ rest) (args0, cur0, 0, st0) = split_loop rest (args, cur, 0, st)"
    for rest args0 cur0 st0
    using assms(1) by (induction pre arbitrary: args0 cur0 st0) (auto)
  then obtain args cur st where
    "split_loop (pre @ q # rs) ([], [], 0, False) = split_loop (q # rs) (args, cur, 0, st)" by blast
  also have "\<dots> = (args, cur @ of_runes rs, q, True)"
    using assms(2,3) split_open_quote[of q rs args cur True] by auto
  moreover have "runes (of_runes (pre @ q # rs)) = pre @ q # rs"
    using assms(2,4) by (intro runes_of_runes) (auto simp: valid_rune_def)
  ultimately show ?thesis using assms(2) by (auto simp: splitCommand_def)
qed

section \<open>Running a file\<close>

text \<open>
  The commands of a file: every line that is not blank and not a comment, split into arguments.
\<close>

definition command_of_line :: "string \<Rightarrow> string list res" where
  "command_of_line l =
     (let line = trimSpace l
      in if line = '''' \<or> hasPrefix line ''#'' then Ok [] else splitCommand line)"

definition send :: "'w sys \<Rightarrow> nat \<Rightarrow> string list \<Rightarrow> (unit, 'w) action" where
  "send S conn args =
     (if args = [] then ret ()
      else try_catch (rd_do (rds S) conn args) (\<lambda>e. if isNil e then ret () else fail e) (\<lambda>_. ret ()))"

text \<open>A file whose lines all parse sends its commands in order and stops at the first that fails.\<close>

lemma apply_lines_send:
  assumes "list_all2 (\<lambda>l args. command_of_line l = Ok args) ls cmds"
  shows "snd (apply_lines S conn i ls w) = snd (foreach (send S conn) cmds w) \<and>
    (is_ok (fst (apply_lines S conn i ls w)) \<longleftrightarrow> is_ok (fst (foreach (send S conn) cmds w)))"
  using assms
proof (induction ls cmds arbitrary: i w rule: list_all2_induct)
  case Nil
  then show ?case by simp
next
  case (Cons l ls args cmds)
  show ?case
  proof (cases "trimSpace l = '''' \<or> hasPrefix (trimSpace l) ''#'' \<or> args = []")
    case True
    with Cons show ?thesis by (auto simp: command_of_line_def Let_def send_def)
  next
    case False
    then obtain cmd params where a: "args = cmd # params" by (cases args) auto
    have "splitCommand (trimSpace l) = Ok (cmd # params)"
      using Cons.hyps(1) False a by (auto simp: command_of_line_def Let_def)
    then show ?thesis
      using False a Cons.IH
      by (auto simp: Let_def send_def try_catch_def bind_def split: prod.splits res.splits)
  qed
qed

text \<open>The commands before a line that does not parse have been sent when it is reported.\<close>

lemma apply_lines_bad:
  assumes "list_all2 (\<lambda>l args. command_of_line l = Ok args) ls cmds"
    and "foreach (send S conn) cmds w = (Ok (), w1)" and "command_of_line bad = Err e"
  shows "apply_lines S conn i (ls @ bad # rest) w =
    (Err (Wrapf ''line %d: %w'' [formatUint (i + length ls + 1)] e), w1)"
  using assms
proof (induction ls cmds arbitrary: i w rule: list_all2_induct)
  case Nil
  then show ?case by (auto simp: command_of_line_def Let_def split: if_splits)
next
  case (Cons l ls args cmds)
  show ?case
  proof (cases "trimSpace l = '''' \<or> hasPrefix (trimSpace l) ''#'' \<or> args = []")
    case True
    with Cons show ?thesis by (auto simp: command_of_line_def Let_def send_def)
  next
    case False
    then obtain cmd params where a: "args = cmd # params" by (cases args) auto
    have "splitCommand (trimSpace l) = Ok (cmd # params)"
      using Cons.hyps(1) False a by (auto simp: command_of_line_def Let_def)
    then show ?thesis
      using False a Cons.IH Cons.prems
      by (auto simp: Let_def send_def try_catch_def bind_def split: prod.splits res.splits if_splits)
  qed
qed

end
