(* ===== verification/Redis.thy ===== *)
theory Redis
  imports Database Pool RedisFixtures
begin

text \<open>
  \<^verbatim>\<open>internal/database/redis\<close>: config.go and redis.go. A redis server offers numbered databases;
  the ones handed out are recorded as keys of database 0. The redigo client is the record \<open>rds\<close>
  of the world and \<open>redis_doc\<close> states what redis documents of the few commands used; the helpers
  \<^verbatim>\<open>Int\<close> and \<^verbatim>\<open>Strings\<close> of redigo are translated from the vendored source.
\<close>

section \<open>config.go\<close>

record rs_config =
  rs_pass :: string
  rs_user :: string
  rs_port :: u32
  rs_dbIndex :: int
  rs_version :: string
  rs_label :: string
  rs_detached :: bool
  rs_fixtureFiles :: "string list"

definition rs_supportedDockerVersions :: gomap where
  "rs_supportedDockerVersions = [(''7.0.4'', ''redis:7.0.4-bullseye'')]"

definition rs_WithFixtures :: "'w sys \<Rightarrow> string \<Rightarrow> (rs_config, 'w) go_option" where
  "rs_WithFixtures S path c w =
     bind_res (wrap_err ''read fixtures failed: %w'' [] (rs_getFiles S path w))
       (\<lambda>files. Ok (c\<lparr>rs_fixtureFiles := files\<rparr>))"

definition rs_WithHost :: "string \<Rightarrow> string \<Rightarrow> int \<Rightarrow> u32 \<Rightarrow> (rs_config, 'w) go_option" where
  "rs_WithHost user pass dbIndex port c w =
     Ok (c\<lparr>rs_user := user, rs_pass := pass, rs_port := port, rs_dbIndex := dbIndex\<rparr>)"

definition rs_WithURI :: "string \<Rightarrow> (rs_config, 'w) go_option" where
  "rs_WithURI uri c w =
     (if uri = '''' then Ok c
      else bind_res (wrap_err ''parse database uri failed: %w'' [] (url_parse uri)) (\<lambda>u.
        let c1 = (case User u of
                    None \<Rightarrow> c
                  | Some (name, pw) \<Rightarrow>
                      let c0 = (if name \<noteq> '''' then c\<lparr>rs_user := name\<rparr> else c)
                      in case pw of Some pass \<Rightarrow> c0\<lparr>rs_pass := pass\<rparr> | None \<Rightarrow> c0);
            p = url_port u
        in if p \<noteq> '''' then
             bind_res (wrap_err ''invalid port in database uri %q: %w'' [uri] (parseUint 32 p))
               (\<lambda>port. Ok (c1\<lparr>rs_port := word_of_nat port\<rparr>))
           else Ok c1))"

definition rs_WithLabel :: "string \<Rightarrow> (rs_config, 'w) go_option" where
  "rs_WithLabel label c w = Ok (c\<lparr>rs_label := label\<rparr>)"

definition rs_getVersions :: "string list" where
  "rs_getVersions = map fst rs_supportedDockerVersions"

definition rs_WithVersion :: "string \<Rightarrow> (rs_config, 'w) go_option" where
  "rs_WithVersion version c w =
     (let vv = trimSpace version in
      if vv = '''' then Ok (c\<lparr>rs_version := ''7.0.4''\<rparr>)
      else if vv \<in> set rs_getVersions then Ok (c\<lparr>rs_version := version\<rparr>)
      else Err (Errorf ''seleced redis version (%s) is not supported, select one of: %s''
                  [vv, join '','' rs_getVersions]))"

definition getRedisImage :: "string \<Rightarrow> string" where
  "getRedisImage version =
     (case map_of rs_supportedDockerVersions version of Some v \<Rightarrow> v | None \<Rightarrow> ''redis:7.0.4-bullseye'')"

section \<open>redis.go: configuration and addresses\<close>

definition rs_defaultDatabaseCount :: int where "rs_defaultDatabaseCount = 16"
definition rs_DefaultPort :: u32 where "rs_DefaultPort = 16379"
definition rs_DefaultUser :: string where "rs_DefaultUser = ''''"
definition rs_DefaultPass :: string where "rs_DefaultPass = ''''"
definition indexKeyPrefix :: string where "indexKeyPrefix = ''dbctl:db:''"

record Redis =
  rs_containerID :: string
  rs_cfg :: rs_config

definition rs_default :: rs_config where
  "rs_default = \<lparr>rs_pass = rs_DefaultPass, rs_user = rs_DefaultUser, rs_port = rs_DefaultPort,
     rs_dbIndex = 0, rs_version = ''7.0.4'', rs_label = '''', rs_detached = False, rs_fixtureFiles = []\<rparr>"

definition rs_New :: "(rs_config, 'w) go_option list \<Rightarrow> 'w \<Rightarrow> Redis res" where
  "rs_New options w =
     bind_res (apply_options options rs_default w) (\<lambda>c. Ok \<lparr>rs_containerID = '''', rs_cfg = c\<rparr>)"

definition rs_addr :: "'w sys \<Rightarrow> 'w \<Rightarrow> string" where
  "rs_addr S w = (if inside_docker S w then ''host.docker.internal'' else ''localhost'')"

definition rs_userInfo :: "rs_config \<Rightarrow> (string \<times> string option) option" where
  "rs_userInfo c =
     (if rs_user c \<noteq> '''' \<and> rs_pass c \<noteq> '''' then Some (rs_user c, Some (rs_pass c))
      else if rs_user c \<noteq> '''' then Some (rs_user c, None)
      else None)"

definition rs_URI :: "'w sys \<Rightarrow> Redis \<Rightarrow> 'w \<Rightarrow> string" where
  "rs_URI S p w =
     url_string (empty_url\<lparr>Scheme := ''redis'', User := rs_userInfo (rs_cfg p),
       Host := joinHostPort (rs_addr S w) (formatUint (unat (rs_port (rs_cfg p)))),
       Path := itoa (rs_dbIndex (rs_cfg p))\<rparr>)"

definition rs_noAuthURI :: "'w sys \<Rightarrow> Redis \<Rightarrow> 'w \<Rightarrow> string" where
  "rs_noAuthURI S p w =
     url_string (empty_url\<lparr>Scheme := ''redis'',
       Host := joinHostPort (rs_addr S w) (formatUint (unat (rs_port (rs_cfg p)))), Path := ''0''\<rparr>)"

definition rs_adminURI :: "'w sys \<Rightarrow> Redis \<Rightarrow> 'w \<Rightarrow> string" where
  "rs_adminURI S p w =
     (case rs_New [rs_WithHost (rs_user (rs_cfg p)) (rs_pass (rs_cfg p)) 0 (rs_port (rs_cfg p))] w of
        Ok admin \<Rightarrow> rs_URI S admin w
      | _ \<Rightarrow> rs_URI S p w)"

definition rs_hostURI :: "'w sys \<Rightarrow> 'w \<Rightarrow> string \<Rightarrow> string" where
  "rs_hostURI S w uri =
     (if inside_docker S w then replaceAll uri ''host.docker.internal'' ''localhost'' else uri)"

section \<open>redis.go: databases\<close>

text \<open>redigo's \<^verbatim>\<open>Int\<close> and \<^verbatim>\<open>Strings\<close>; an error reply is an error of the call.\<close>

definition redigo_Int :: "reply \<Rightarrow> int res" where
  "redigo_Int r =
     (case r of
        RInt i \<Rightarrow> Ok i
      | RBulk s \<Rightarrow> atoi s
      | RNil \<Rightarrow> Err redis_ErrNil
      | _ \<Rightarrow> Err (Errorf ''redigo: unexpected type for Int, got type %T'' []))"

fun redigo_strings :: "reply list \<Rightarrow> string list res" where
  "redigo_strings [] = Ok []"
| "redigo_strings (r # rs) =
     bind_res (case r of
         RNil \<Rightarrow> Ok ''''
       | RBulk s \<Rightarrow> Ok s
       | RStatus s \<Rightarrow> Ok s
       | _ \<Rightarrow> Err (Errorf ''redigo: unexpected element type for Strings, got type %T'' []))
       (\<lambda>s. bind_res (redigo_strings rs) (\<lambda>ss. Ok (s # ss)))"

definition redigo_Strings :: "reply \<Rightarrow> string list res" where
  "redigo_Strings r =
     (case r of
        RArr rs \<Rightarrow> redigo_strings rs
      | RNil \<Rightarrow> Err redis_ErrNil
      | _ \<Rightarrow> Err (Errorf ''redigo: unexpected type for %s, got type %T'' [''Strings'']))"

definition databaseCount :: "'w sys \<Rightarrow> nat \<Rightarrow> (int, 'w) action" where
  "databaseCount S conn =
     try_catch (bind (rd_do (rds S) conn [''CONFIG'', ''GET'', ''databases'']) (lift_res \<circ> redigo_Strings))
       (\<lambda>_. ret rs_defaultDatabaseCount)
       (\<lambda>values.
          if length values \<noteq> 2 then ret rs_defaultDatabaseCount
          else case atoi (values ! 1) of
            Ok n \<Rightarrow> if n < 2 then ret rs_defaultDatabaseCount else ret n
          | Err _ \<Rightarrow> ret rs_defaultDatabaseCount
          | Panic q \<Rightarrow> lift_res (Panic q))"

text \<open>
  The Lua script of \<^verbatim>\<open>acquireDBIndex\<close>, from the list of the indexes still to be tried. A failing
  \<^verbatim>\<open>redis.call\<close> aborts the script, as a failing call aborts an action.
\<close>

fun acquire_script :: "'w sys \<Rightarrow> nat \<Rightarrow> string \<Rightarrow> nat list \<Rightarrow> (reply, 'w) action" where
  "acquire_script S conn prefix [] = ret (RInt (-1))"
| "acquire_script S conn prefix (index # is) =
     bind (rd_call (rds S) conn [''SETNX'', prefix @ formatUint index, ''1'']) (\<lambda>r.
     if r = RInt 1 then
       bind (rd_call (rds S) conn [''SELECT'', formatUint index]) (\<lambda>_.
       bind (rd_call (rds S) conn [''FLUSHDB'']) (\<lambda>_.
       bind (rd_call (rds S) conn [''SELECT'', ''0'']) (\<lambda>_.
       ret (RInt (int index)))))
     else acquire_script S conn prefix is)"

definition acquireDBIndex :: "'w sys \<Rightarrow> nat \<Rightarrow> (int, 'w) action" where
  "acquireDBIndex S conn =
     bind (databaseCount S conn) (\<lambda>count.
     bind (rd_script (rds S) conn (acquire_script S conn indexKeyPrefix [1..<nat count])) (\<lambda>r.
     bind (lift_res (redigo_Int r)) (\<lambda>index.
     if index < 0 then
       fail (Errorf ''no free redis database left, all %d indexes of this instance are in use, remove the databases you no longer need''
         [itoa (count - 1)])
     else ret index)))"

definition rs_applyFixturesTo :: "'w sys \<Rightarrow> string \<Rightarrow> string list \<Rightarrow> (unit, 'w) action" where
  "rs_applyFixturesTo S uri files =
     (if files = [] then ret ()
      else bind (rd_dial (rds S) uri) (\<lambda>conn.
        with_defer (rd_close (rds S) conn) (rs_applyFixtures S conn files)))"

definition rs_CreateDB :: "'w sys \<Rightarrow> Redis \<Rightarrow> CreateDBRequest option \<Rightarrow> (string, 'w) action" where
  "rs_CreateDB S p req =
     bind (\<lambda>w. rd_dial (rds S) (rs_adminURI S p w) w) (\<lambda>conn.
     with_defer (rd_close (rds S) conn) (
     bind (acquireDBIndex S conn) (\<lambda>dbIndex.
     bind (ask (rs_New [rs_WithHost (rs_user (rs_cfg p)) (rs_pass (rs_cfg p)) dbIndex (rs_port (rs_cfg p))]))
       (\<lambda>newDB.
     bind (case req of
             Some rq \<Rightarrow>
               if rq_Fixtures rq \<noteq> '''' then
                 bind (wrap ''read fixtures failed: %w'' [] (ask (rs_getFiles S (rq_Fixtures rq)))) (\<lambda>files.
                 \<lambda>w. rs_applyFixturesTo S (rs_URI S newDB w) files w)
               else ret ()
           | None \<Rightarrow> ret ()) (\<lambda>_.
     ask (\<lambda>w. Ok (rs_hostURI S w (rs_URI S newDB w))))))))"

text \<open>
  The Lua script of \<^verbatim>\<open>RemoveDB\<close>. Lua prints a number beyond 10 to the 14th with an exponent; no server has
  such an index, so its SELECT is refused either way and nothing else runs.
\<close>

definition release_script :: "'w sys \<Rightarrow> nat \<Rightarrow> int \<Rightarrow> string \<Rightarrow> (reply, 'w) action" where
  "release_script S conn dbIndex prefix =
     bind (rd_call (rds S) conn [''SELECT'', itoa dbIndex]) (\<lambda>_.
     bind (rd_call (rds S) conn [''FLUSHDB'']) (\<lambda>_.
     bind (rd_call (rds S) conn [''SELECT'', ''0'']) (\<lambda>_.
     bind (rd_call (rds S) conn [''DEL'', prefix @ itoa dbIndex]) (\<lambda>_.
     ret RNil))))"

definition rs_uri_index :: "string \<Rightarrow> int res" where
  "rs_uri_index uri =
     bind_res (url_parse uri) (\<lambda>u.
     wrap_err ''uri %q does not contain a database index: %w'' [uri] (atoi (trimPrefix (Path u) ''/'')))"

definition rs_RemoveDB :: "'w sys \<Rightarrow> Redis \<Rightarrow> string \<Rightarrow> (unit, 'w) action" where
  "rs_RemoveDB S p uri =
     bind (lift_res (rs_uri_index uri)) (\<lambda>dbIndex.
     if dbIndex = 0 then ret ()
     else bind (\<lambda>w. rd_dial (rds S) (rs_adminURI S p w) w) (\<lambda>conn.
       with_defer (rd_close (rds S) conn) (
       try_catch (rd_script (rds S) conn (release_script S conn dbIndex indexKeyPrefix))
         (\<lambda>e. if errors_is e redis_ErrNil then ret () else fail e)
         (\<lambda>_. ret ()))))"

section \<open>redis.go: life cycle\<close>

definition rs_setAuth :: "'w sys \<Rightarrow> Redis \<Rightarrow> string \<Rightarrow> (unit, 'w) action" where
  "rs_setAuth S p uri =
     (if rs_user (rs_cfg p) = '''' \<and> rs_pass (rs_cfg p) = '''' then ret ()
      else bind (rd_dial (rds S) uri) (\<lambda>conn.
        bind (rd_do (rds S) conn
          ([''ACL'', ''SETUSER'', rs_user (rs_cfg p)] @
           (if rs_pass (rs_cfg p) \<noteq> '''' then [''on'', ''>'' @ rs_pass (rs_cfg p)] else []) @
           [''~*'', ''&*'', ''+@all''])) (\<lambda>_. ret ())))"

text \<open>One turn of the loop is one tick: a dial, and the time until the next one.\<close>

partial_function (option) rs_WaitForStart :: "'w sys \<Rightarrow> Redis \<Rightarrow> 'w \<Rightarrow> (unit res \<times> 'w) option" where
  "rs_WaitForStart S p w =
     (case rd_dial (rds S) (rs_noAuthURI S p w) w of
        (Ok conn, w1) \<Rightarrow> Some (Ok (), rd_close (rds S) conn w1)
      | (Err e, w1) \<Rightarrow> if e = DeadlineExceeded then Some (Err e, w1) else rs_WaitForStart S p w1
      | (Panic q, w1) \<Rightarrow> Some (Panic q, w1))"

definition rs_pick_port :: "'w sys \<Rightarrow> Redis \<Rightarrow> (Redis, 'w) maybe_action" where
  "rs_pick_port S p =
     (if rs_port (rs_cfg p) = 0 then
        may_bind (GetAvailablePort S) (\<lambda>n.
          may (ret (p\<lparr>rs_cfg := (rs_cfg p)\<lparr>rs_port := word_of_nat n\<rparr>\<rparr>)))
      else may (ret p))"

definition rs_create_request :: "'w sys \<Rightarrow> Redis \<Rightarrow> nat \<Rightarrow> nat \<Rightarrow> 'w \<Rightarrow> CreateRequest" where
  "rs_create_request S p now rnd w =
     \<lparr>cr_Name = ''dbctl_rs_'' @ formatUint (now div 1000000000) @ ''_'' @ formatUint rnd,
      cr_Image = getRedisImage (rs_version (rs_cfg p)),
      cr_ExposedPorts = [PortSpec S w (formatUint (unat (rs_port (rs_cfg p)))) ''6379/tcp''],
      cr_Cmd = [''redis-server'', ''--save'', '''', ''--databases'', ''2000''],
      cr_Env = [],
      cr_Labels = start_labels LabelRedis (rs_user (rs_cfg p)) (rs_pass (rs_cfg p)) ''''
        (rs_port (rs_cfg p)) (rs_label (rs_cfg p))\<rparr>"

text \<open>
  \<^verbatim>\<open>startUsingDocker\<close> returns a function that removes the container, given here by the container,
  or nil (\<open>None\<close>), and an error; both are kept because its caller looks at both.
\<close>

definition rs_startUsingDocker ::
  "'w sys \<Rightarrow> Redis \<Rightarrow> (Redis \<times> Container option \<times> go_error option, 'w) maybe_action" where
  "rs_startUsingDocker S p =
     may_try (may (randInt20 (os S))) (\<lambda>e. may (ret (p, None, Some e))) (\<lambda>rnd.
     may_try (rs_pick_port S p) (\<lambda>e. may (ret (p, None, Some e))) (\<lambda>p.
     may_try (may (bind (pure_step (nowNano (os S))) (\<lambda>now w. Run S (rs_create_request S p now rnd w) w)))
       (\<lambda>e. may (ret (p, None, Some e))) (\<lambda>c.
     may_try (rs_WaitForStart S p) (\<lambda>e. may (ret (p, None, Some e))) (\<lambda>_.
     may (try_catch (\<lambda>w. rs_setAuth S p (rs_noAuthURI S p w) w)
       (\<lambda>e. ret (p, Some c, Some e))
       (\<lambda>_. ret (p, Some c, None)))))))"

text \<open>A call of a nil function value is a run-time panic.\<close>

definition rs_close :: "'w sys \<Rightarrow> Container option \<Rightarrow> (unit, 'w) action" where
  "rs_close S closeFunc =
     (case closeFunc of
        Some c \<Rightarrow> Terminate S c
      | None \<Rightarrow> lift_res (Panic ''invalid memory address or nil pointer dereference''))"

definition rs_Start :: "'w sys \<Rightarrow> Redis \<Rightarrow> bool \<Rightarrow> (Redis, 'w) maybe_action" where
  "rs_Start S p detach =
     may_bind (rs_startUsingDocker S p) (\<lambda>(p, closeFunc, err).
     case err of
       Some e \<Rightarrow> may (bind (ignore (rs_close S closeFunc)) (\<lambda>_. fail e))
     | None \<Rightarrow>
         may_try (may (\<lambda>w. rs_applyFixturesTo S (rs_URI S p w) (rs_fixtureFiles (rs_cfg p)) w))
           (\<lambda>e. may (bind (ignore (rs_close S closeFunc)) (\<lambda>_. fail e)))
           (\<lambda>_.
             let p = p\<lparr>rs_cfg := (rs_cfg p)\<lparr>rs_detached := detach\<rparr>\<rparr> in
             if detach then may (ret p)
             else (\<lambda>w. case waitDone (os S) w of
                 None \<Rightarrow> None
               | Some w1 \<Rightarrow> may (bind (rs_close S closeFunc) (\<lambda>_. ret p)) w1)))"

definition rs_Stop :: "'w sys \<Rightarrow> Redis \<Rightarrow> (unit, 'w) action" where
  "rs_Stop S p = TerminateByID S (rs_containerID p)"

definition rs_Instances :: "'w sys \<Rightarrow> string \<Rightarrow> (Info list, 'w) action" where
  "rs_Instances S label =
     bind (List S (InstanceLabels LabelRedis label)) (\<lambda>l.
     ret (map (\<lambda>c. \<lparr>if_ID = ct_ID c, if_Type = ct_Name c, if_Status = Running\<rparr>) l))"

end
