(* ===== verification/Postgres.thy ===== *)
theory Postgres
  imports Database Files
begin

text \<open>
  \<^verbatim>\<open>internal/database/postgres\<close>: config.go and pg.go. \<^verbatim>\<open>database/sql\<close> with the postgres driver is
  the record \<open>pgs\<close> of the world, and \<^verbatim>\<open>sha256\<close> a function of the definitions that hash.
  A nil and an empty list of migration files are the same here: the only caller that can pass an
  empty list passes a nil one.
\<close>

section \<open>config.go\<close>

record pg_config =
  pg_pass :: string
  pg_user :: string
  pg_name :: string
  pg_port :: u32
  pg_version :: string
  pg_label :: string
  pg_withUI :: bool
  pg_migrationsFiles :: "string list"
  pg_fixtureFiles :: "string list"

definition pg_supportedVersions :: gomap where
  "pg_supportedVersions =
     [(''10.3.2'', ''postgis/postgis:10-3.2-alpine''),
      (''11.2.5'', ''postgis/postgis:11-2.5-alpine''),
      (''11.3.2'', ''postgis/postgis:11-3.2-alpine''),
      (''12.3.2'', ''postgis/postgis:12-3.2-alpine''),
      (''13-3.1'', ''odidev/postgis:13-3.1-alpine''),
      (''13.3.2'', ''postgis/postgis:13-3.2-alpine''),
      (''14.3.2'', ''postgis/postgis:14-3.2-alpine'')]"

definition pg_DefaultPort :: u32 where "pg_DefaultPort = 15432"
definition pg_DefaultUser :: string where "pg_DefaultUser = ''postgres''"
definition pg_DefaultPass :: string where "pg_DefaultPass = ''postgres''"
definition pg_DefaultName :: string where "pg_DefaultName = ''postgres''"
definition DefaultTemplate :: string where "DefaultTemplate = ''dbctl_template''"
definition pg_DefaultVersion :: string where "pg_DefaultVersion = ''14.3.2''"

definition pg_WithUI :: "bool \<Rightarrow> (pg_config, 'w) go_option" where
  "pg_WithUI withUI c w = Ok (c\<lparr>pg_withUI := withUI\<rparr>)"

definition pg_WithLabel :: "string \<Rightarrow> (pg_config, 'w) go_option" where
  "pg_WithLabel label c w = Ok (c\<lparr>pg_label := label\<rparr>)"

definition pg_WithHost :: "string \<Rightarrow> string \<Rightarrow> string \<Rightarrow> u32 \<Rightarrow> (pg_config, 'w) go_option" where
  "pg_WithHost user pass name port c w =
     Ok (c\<lparr>pg_user := user, pg_pass := pass, pg_name := name, pg_port := port\<rparr>)"

definition pg_WithURI :: "string \<Rightarrow> (pg_config, 'w) go_option" where
  "pg_WithURI uri c w =
     (if uri = '''' then Ok c
      else bind_res (wrap_err ''parse database uri failed: %w'' [] (url_parse uri)) (\<lambda>u.
        let c1 = (case User u of
                    None \<Rightarrow> c
                  | Some (name, pw) \<Rightarrow>
                      let c0 = (if name \<noteq> '''' then c\<lparr>pg_user := name\<rparr> else c)
                      in case pw of Some pass \<Rightarrow> c0\<lparr>pg_pass := pass\<rparr> | None \<Rightarrow> c0);
            p = url_port u
        in if p \<noteq> '''' then
             bind_res (wrap_err ''invalid port in database uri %q: %w'' [uri] (parseUint 32 p))
               (\<lambda>port. Ok (c1\<lparr>pg_port := word_of_nat port\<rparr>))
           else Ok c1))"

definition pg_getVersions :: "string list" where
  "pg_getVersions = map fst pg_supportedVersions"

definition pg_WithVersion :: "string \<Rightarrow> (pg_config, 'w) go_option" where
  "pg_WithVersion version c w =
     (let vv = trimSpace version in
      if vv = '''' then Ok (c\<lparr>pg_version := pg_DefaultVersion\<rparr>)
      else if vv \<in> set pg_getVersions then Ok (c\<lparr>pg_version := version\<rparr>)
      else Err (Errorf ''seleced postgres version (%s) is not supported, select one of: %s''
                  [vv, join '','' pg_getVersions]))"

definition getPostGisImage :: "string \<Rightarrow> string" where
  "getPostGisImage version =
     (case map_of pg_supportedVersions version of Some v \<Rightarrow> v | None \<Rightarrow> ''odidev/postgis:13-3.1-alpine'')"

definition MigrationFiles :: "string list \<Rightarrow> string list" where
  "MigrationFiles files = filter (\<lambda>f. \<not> hasSuffix (toLower f) ''down.sql'') files"

definition pg_keep :: "string \<Rightarrow> bool" where
  "pg_keep name \<longleftrightarrow> equalFold (path_ext name) ''.sql''"

definition pg_getFiles :: "'w sys \<Rightarrow> string \<Rightarrow> 'w \<Rightarrow> string list res" where
  "pg_getFiles S path w =
     (if length path = 0 then Ok []
      else bind_res (wrap_err ''get path information failed, %w'' [] (statIsDir (os S) path w)) (\<lambda>isDir.
        if \<not> isDir then
          (if statIsDir (os S) path w = Err ErrNotExist then Err (Errorf ''file %s not exit'' [path])
           else Ok [path])
        else bind_res (Abs S path w) (\<lambda>absPath.
          bind_res (walk_files pg_keep (walkDir (os S) absPath w)) (\<lambda>out. Ok (sort out)))))"

definition pg_WithMigrations :: "'w sys \<Rightarrow> string \<Rightarrow> (pg_config, 'w) go_option" where
  "pg_WithMigrations S path c w =
     bind_res (wrap_err ''read migraions failed: %w'' [] (pg_getFiles S path w))
       (\<lambda>files. Ok (c\<lparr>pg_migrationsFiles := pg_migrationsFiles c @ MigrationFiles files\<rparr>))"

definition pg_WithFixtures :: "'w sys \<Rightarrow> string \<Rightarrow> (pg_config, 'w) go_option" where
  "pg_WithFixtures S path c w =
     bind_res (wrap_err ''read fixtures failed: %w'' [] (pg_getFiles S path w))
       (\<lambda>files. Ok (c\<lparr>pg_fixtureFiles := files\<rparr>))"

text \<open>The bytes \<^verbatim>\<open>templateName\<close> writes to the hash, one file after the other.\<close>

fun template_bytes :: "'w sys \<Rightarrow> string \<Rightarrow> string list \<Rightarrow> 'w \<Rightarrow> string res" where
  "template_bytes S absRoot [] w = Ok []"
| "template_bytes S absRoot (f # fs) w =
     bind_res (wrap_err ''read migration file (%s) failed: %w'' [f] (readFile (os S) f w)) (\<lambda>b.
     let name = (case path_rel absRoot f of Ok n \<Rightarrow> n | _ \<Rightarrow> path_base f)
     in bind_res (template_bytes S absRoot fs w) (\<lambda>rest. Ok (name @ b @ rest)))"

definition templateName :: "(string \<Rightarrow> string) \<Rightarrow> 'w sys \<Rightarrow> string \<Rightarrow> string list \<Rightarrow> 'w \<Rightarrow> string res" where
  "templateName sha S root files w =
     bind_res (Abs S root w) (\<lambda>absRoot.
     bind_res (template_bytes S absRoot files w) (\<lambda>bytes.
     Ok (''dbctl_tpl_'' @ take 32 (hex_string (sha bytes)))))"

section \<open>pg.go: configuration, addresses, identifiers\<close>

definition errDatabaseNotExists :: go_error where
  "errDatabaseNotExists = Sentinel ''database does not exist''"

record Postgres =
  pg_containerID :: string
  pg_cfg :: pg_config

definition pg_default :: pg_config where
  "pg_default = \<lparr>pg_pass = pg_DefaultPass, pg_user = pg_DefaultUser, pg_name = pg_DefaultName,
     pg_port = pg_DefaultPort, pg_version = pg_DefaultVersion, pg_label = '''', pg_withUI = False,
     pg_migrationsFiles = [], pg_fixtureFiles = []\<rparr>"

definition pg_New :: "(pg_config, 'w) go_option list \<Rightarrow> 'w \<Rightarrow> Postgres res" where
  "pg_New options w =
     bind_res (apply_options options pg_default w) (\<lambda>c. Ok \<lparr>pg_containerID = '''', pg_cfg = c\<rparr>)"

definition pg_URI :: "'w sys \<Rightarrow> Postgres \<Rightarrow> 'w \<Rightarrow> string" where
  "pg_URI S p w =
     (let addr = (if inside_docker S w then ''host.docker.internal'' else ''localhost'')
      in url_string (empty_url\<lparr>Scheme := ''postgres'',
           User := Some (pg_user (pg_cfg p), Some (pg_pass (pg_cfg p))),
           Host := joinHostPort addr (formatUint (unat (pg_port (pg_cfg p)))),
           Path := pg_name (pg_cfg p), RawQuery := ''sslmode=disable''\<rparr>))"

definition pg_hostURI :: "'w sys \<Rightarrow> 'w \<Rightarrow> string \<Rightarrow> string" where
  "pg_hostURI S w uri =
     (if inside_docker S w then replaceAll uri ''host.docker.internal'' ''localhost'' else uri)"

definition quoteIdentifier :: "string \<Rightarrow> string" where
  "quoteIdentifier name = [CHR 0x22] @ replaceAll name [CHR 0x22] [CHR 0x22, CHR 0x22] @ [CHR 0x22]"

section \<open>pg.go: statements\<close>

definition dbConnect :: "'w sys \<Rightarrow> string \<Rightarrow> (nat, 'w) action" where
  "dbConnect S uri =
     bind (sql_open (pgs S) uri) (\<lambda>conn. bind (sql_ping (pgs S) conn) (\<lambda>_. ret conn))"

text \<open>A body that runs on the given connection, or on one opened for it and closed after it.\<close>

definition on_conn :: "'w sys \<Rightarrow> nat option \<Rightarrow> ('w \<Rightarrow> string) \<Rightarrow> (nat \<Rightarrow> ('a, 'w) action) \<Rightarrow> ('a, 'w) action" where
  "on_conn S conn uri body =
     (case conn of
        Some c \<Rightarrow> body c
      | None \<Rightarrow> bind (\<lambda>w. dbConnect S (uri w) w) (\<lambda>c. with_defer (sql_close (pgs S) c) (body c)))"

definition applyInTx :: "'w sys \<Rightarrow> nat \<Rightarrow> string \<Rightarrow> (unit, 'w) action" where
  "applyInTx S conn stmt =
     bind (sql_begin (pgs S) conn) (\<lambda>tx.
     try_catch (tx_exec (pgs S) tx stmt)
       (\<lambda>e. bind (ignore (tx_rollback (pgs S) tx)) (\<lambda>_. fail e))
       (\<lambda>_. tx_commit (pgs S) tx))"

definition apply_file :: "'w sys \<Rightarrow> nat \<Rightarrow> string \<Rightarrow> (unit, 'w) action" where
  "apply_file S c f =
     bind (wrap ''read file (%s) failed: %w'' [f] (ask (readFile (os S) f))) (\<lambda>b.
     wrap ''applying file (%s) failed: %w'' [f] (applyInTx S c b))"

definition applySQL :: "'w sys \<Rightarrow> nat option \<Rightarrow> string list \<Rightarrow> string \<Rightarrow> (unit, 'w) action" where
  "applySQL S conn stmts uri = on_conn S conn (\<lambda>_. uri) (\<lambda>c. foreach (apply_file S c) stmts)"

definition RunMigrations :: "'w sys \<Rightarrow> nat option \<Rightarrow> string list \<Rightarrow> string \<Rightarrow> (unit, 'w) action" where
  "RunMigrations S conn migrationsFiles uri =
     (if migrationsFiles = [] then ret () else applySQL S conn migrationsFiles uri)"

definition pg_ApplyFixtures :: "'w sys \<Rightarrow> nat option \<Rightarrow> string list \<Rightarrow> string \<Rightarrow> (unit, 'w) action" where
  "pg_ApplyFixtures S conn fixtureFiles uri =
     (if length fixtureFiles = 0 then ret () else applySQL S conn fixtureFiles uri)"

definition pg_applyFixturesFromDir :: "'w sys \<Rightarrow> nat option \<Rightarrow> string \<Rightarrow> string \<Rightarrow> (unit, 'w) action" where
  "pg_applyFixturesFromDir S conn dir uri =
     (if dir = '''' then ret ()
      else bind (wrap ''read fixtures failed: %w'' [] (ask (pg_getFiles S dir))) (\<lambda>files.
        applySQL S conn files uri))"

definition createDatabase :: "'w sys \<Rightarrow> nat \<Rightarrow> string \<Rightarrow> (unit, 'w) action" where
  "createDatabase S conn name =
     wrap ''create database failed: %w'' []
       (sql_exec (pgs S) conn (''create database '' @ quoteIdentifier name) [])"

definition createDatabaseWithTemplate ::
  "'w sys \<Rightarrow> Postgres \<Rightarrow> nat option \<Rightarrow> string \<Rightarrow> string \<Rightarrow> (unit, 'w) action" where
  "createDatabaseWithTemplate S p conn name template =
     on_conn S conn (pg_URI S p) (\<lambda>c.
       try_catch (sql_exec (pgs S) c
           (''create database '' @ quoteIdentifier name @ '' with template '' @ quoteIdentifier template) [])
         (\<lambda>e. if contains (error_text e) ''does not exist'' then fail errDatabaseNotExists
              else fail (Wrapf ''create database with template failed: %w'' [] e))
         (\<lambda>_. ret ()))"

section \<open>pg.go: databases\<close>

definition createDatabaseFromMigrations :: "(string \<Rightarrow> string) \<Rightarrow> 'w sys \<Rightarrow> Postgres \<Rightarrow> nat \<Rightarrow> string \<Rightarrow>
    string \<Rightarrow> string \<Rightarrow> (unit, 'w) action" where
  "createDatabaseFromMigrations sha S p conn dbName dbURI migrationsPath =
     bind (wrap ''read migraions failed: %w'' [] (ask (pg_getFiles S migrationsPath))) (\<lambda>files.
     let migrationFiles = MigrationFiles files in
     if length migrationFiles = 0 then createDatabase S conn dbName
     else bind (ask (templateName sha S migrationsPath migrationFiles)) (\<lambda>template.
       try_catch (createDatabaseWithTemplate S p (Some conn) dbName template)
         (\<lambda>e. if \<not> errors_is e errDatabaseNotExists then fail e
              else bind (createDatabase S conn dbName) (\<lambda>_.
                bind (RunMigrations S None migrationFiles dbURI) (\<lambda>_.
                ignore (createDatabaseWithTemplate S p (Some conn) template dbName))))
         (\<lambda>_. ret ())))"

text \<open>The \<^verbatim>\<open>switch\<close> of \<^verbatim>\<open>CreateDB\<close> that makes the new database.\<close>

definition pg_make :: "(string \<Rightarrow> string) \<Rightarrow> 'w sys \<Rightarrow> Postgres \<Rightarrow> CreateDBRequest \<Rightarrow> nat \<Rightarrow> string \<Rightarrow> string \<Rightarrow>
    (unit, 'w) action" where
  "pg_make sha S p req conn dbName newURI =
     (if rq_WithDefaultMigrations req then
        try_catch (createDatabaseWithTemplate S p (Some conn) dbName DefaultTemplate)
          (\<lambda>e. if errors_is e errDatabaseNotExists
               then fail (Wrapf ''default template database %q not found, start the instance with migrations first: %w''
                 [DefaultTemplate] e)
               else fail e)
          (\<lambda>_. ret ())
      else if length (rq_Migrations req) = 0 then createDatabase S conn dbName
      else createDatabaseFromMigrations sha S p conn dbName newURI (rq_Migrations req))"

definition pg_CreateDB :: "(string \<Rightarrow> string) \<Rightarrow> 'w sys \<Rightarrow> Postgres \<Rightarrow> CreateDBRequest \<Rightarrow> (string, 'w) action" where
  "pg_CreateDB sha S p req =
     bind (\<lambda>w. dbConnect S (pg_URI S p w) w) (\<lambda>conn.
     with_defer (sql_close (pgs S) conn) (
     bind (pure_step (nowNano (os S))) (\<lambda>now.
     let dbName = ''dbctl_'' @ formatUint now in
     bind (ask (pg_New [pg_WithHost (pg_user (pg_cfg p)) (pg_pass (pg_cfg p)) dbName (pg_port (pg_cfg p))]))
       (\<lambda>newDB.
     bind (ask (\<lambda>w. Ok (pg_URI S newDB w))) (\<lambda>newURI.
     bind (pg_make sha S p req conn dbName newURI) (\<lambda>_.
     bind (if length (rq_Fixtures req) \<noteq> 0 then pg_applyFixturesFromDir S None (rq_Fixtures req) newURI
           else ret ()) (\<lambda>_.
     ask (\<lambda>w. Ok (pg_hostURI S w newURI)))))))))"

definition pg_uri_name :: "string \<Rightarrow> string res" where
  "pg_uri_name uri =
     bind_res (url_parse uri) (\<lambda>u.
     let dbName = trimPrefix (Path u) ''/''
     in if dbName = '''' then Err (Errorf ''uri %q does not contain a database name'' [uri]) else Ok dbName)"

definition terminate_stmt :: string where
  "terminate_stmt = ''select pg_terminate_backend(pid) from pg_stat_activity where datname = $1 and pid <> pg_backend_pid()''"

definition pg_RemoveDB :: "'w sys \<Rightarrow> Postgres \<Rightarrow> string \<Rightarrow> (unit, 'w) action" where
  "pg_RemoveDB S p uri =
     bind (lift_res (pg_uri_name uri)) (\<lambda>dbName.
     bind (\<lambda>w. dbConnect S (pg_URI S p w) w) (\<lambda>conn.
     with_defer (sql_close (pgs S) conn) (
     bind (wrap ''terminating connections to database %q failed: %w'' [dbName]
       (sql_exec (pgs S) conn terminate_stmt [dbName])) (\<lambda>_.
     wrap ''drop database failed: %w'' []
       (sql_exec (pgs S) conn (''drop database if exists '' @ quoteIdentifier dbName) [])))))"

section \<open>pg.go: life cycle\<close>

partial_function (option) pg_WaitForStart :: "'w sys \<Rightarrow> Postgres \<Rightarrow> 'w \<Rightarrow> (unit res \<times> 'w) option" where
  "pg_WaitForStart S p w =
     (case dbConnect S (pg_URI S p w) w of
        (Ok conn, w1) \<Rightarrow> Some (Ok (), sql_close (pgs S) conn w1)
      | (Err e, w1) \<Rightarrow> if errors_is e DeadlineExceeded then Some (Err e, w1) else pg_WaitForStart S p w1
      | (Panic q, w1) \<Rightarrow> Some (Panic q, w1))"

definition pg_pick_port :: "'w sys \<Rightarrow> Postgres \<Rightarrow> (Postgres, 'w) maybe_action" where
  "pg_pick_port S p =
     (if pg_port (pg_cfg p) = 0 then
        may_bind (GetAvailablePort S) (\<lambda>n.
          may (ret (p\<lparr>pg_cfg := (pg_cfg p)\<lparr>pg_port := word_of_nat n\<rparr>\<rparr>)))
      else may (ret p))"

definition pg_create_request :: "'w sys \<Rightarrow> Postgres \<Rightarrow> nat \<Rightarrow> nat \<Rightarrow> 'w \<Rightarrow> CreateRequest" where
  "pg_create_request S p now rnd w =
     \<lparr>cr_Name = ''dbctl_pg_'' @ formatUint (now div 1000000000) @ ''_'' @ formatUint rnd,
      cr_Image = getPostGisImage (pg_version (pg_cfg p)),
      cr_ExposedPorts = [PortSpec S w (formatUint (unat (pg_port (pg_cfg p)))) ''5432/tcp''],
      cr_Cmd = [''postgres'', ''-c'', ''fsync=off'', ''-c'', ''synchronous_commit=off'', ''-c'', ''full_page_writes=off''],
      cr_Env = [(''POSTGRES_PASSWORD'', pg_pass (pg_cfg p)), (''POSTGRES_USER'', pg_user (pg_cfg p)),
        (''POSTGRES_DB'', pg_name (pg_cfg p))],
      cr_Labels = start_labels LabelPostgres (pg_user (pg_cfg p)) (pg_pass (pg_cfg p)) (pg_name (pg_cfg p))
        (pg_port (pg_cfg p)) (pg_label (pg_cfg p))\<rparr>"

text \<open>Its caller uses the function that removes the container, here the container, only on success.\<close>

definition pg_startUsingDocker :: "'w sys \<Rightarrow> Postgres \<Rightarrow> (Postgres \<times> Container, 'w) maybe_action" where
  "pg_startUsingDocker S p =
     may_bind (may (randInt20 (os S))) (\<lambda>rnd.
     may_bind (pg_pick_port S p) (\<lambda>p.
     may_bind (may (bind (pure_step (nowNano (os S))) (\<lambda>now w. Run S (pg_create_request S p now rnd w) w))) (\<lambda>c.
     let p = p\<lparr>pg_containerID := ct_ID c\<rparr> in
     may_bind (pg_WaitForStart S p) (\<lambda>_. may (ret (p, c))))))"

definition pg_runUI :: "'w sys \<Rightarrow> Postgres \<Rightarrow> (Container, 'w) action" where
  "pg_runUI S p =
     bind (randInt20 (os S)) (\<lambda>rnd.
     bind (pure_step (nowNano (os S))) (\<lambda>now w.
     Run S \<lparr>cr_Name = ''dbctl_pgweb_'' @ formatUint (now div 1000000000) @ ''_'' @ formatUint rnd,
        cr_Image = ''sosedoff/pgweb:latest'',
        cr_ExposedPorts = [PortSpec S w ''8081'' ''8081''], cr_Cmd = [],
        cr_Env = [(''PGWEB_DATABASE_URL'', replaceAll (pg_URI S p w) ''localhost'' ''host.docker.internal'')],
        cr_Labels = [(LabelType, LabelPGWeb)]\<rparr> w))"

definition pg_Start :: "'w sys \<Rightarrow> Postgres \<Rightarrow> bool \<Rightarrow> (Postgres, 'w) maybe_action" where
  "pg_Start S p detach =
     may_bind (pg_startUsingDocker S p) (\<lambda>(p, c).
     may_bind (may (\<lambda>w. RunMigrations S None (pg_migrationsFiles (pg_cfg p)) (pg_URI S p w) w)) (\<lambda>_.
     may_bind (may (if pg_migrationsFiles (pg_cfg p) \<noteq> [] then
         bind (ignore (createDatabaseWithTemplate S p None DefaultTemplate (pg_name (pg_cfg p)))) (\<lambda>_.
         \<lambda>w. pg_ApplyFixtures S None (pg_fixtureFiles (pg_cfg p)) (pg_URI S p w) w)
       else ret ())) (\<lambda>_.
     may_bind (if pg_withUI (pg_cfg p) then
         may (try_catch (pg_runUI S p) (\<lambda>e. bind (ignore (Terminate S c)) (\<lambda>_. fail e)) (\<lambda>u. ret (Some u)))
       else may (ret None)) (\<lambda>ui.
     if detach then may (ret p)
     else (\<lambda>w. case waitDone (os S) w of
         None \<Rightarrow> None
       | Some w1 \<Rightarrow>
           may (bind (case ui of Some u \<Rightarrow> Terminate S u | None \<Rightarrow> ret ()) (\<lambda>_.
                bind (Terminate S c) (\<lambda>_. ret p))) w1)))))"

definition pg_Stop :: "'w sys \<Rightarrow> Postgres \<Rightarrow> (unit, 'w) action" where
  "pg_Stop S p = TerminateByID S (pg_containerID p)"

definition pg_Instances :: "'w sys \<Rightarrow> string \<Rightarrow> (Info list, 'w) action" where
  "pg_Instances S label =
     bind (List S (InstanceLabels LabelPostgres label)) (\<lambda>l.
     ret (map (\<lambda>c. \<lparr>if_ID = ct_ID c, if_Type = ct_Name c, if_Status = Running\<rparr>) l))"

interpretation pg_files: file_lister pg_getFiles pg_keep
  by unfold_locales (simp_all add: pg_getFiles_def Abs_getwd)

end
