(* ===== verification/Mongodb.thy ===== *)
theory Mongodb
  imports Database Files
begin

text \<open>
  \<^verbatim>\<open>internal/database/mongodb\<close>: config.go and mongodb.go. The driver is the record \<open>mgs\<close> of the
  world; a database is created by its first use, so creating one is choosing a name and applying
  the scripts to it.
\<close>

section \<open>config.go\<close>

record mdb_config =
  mdb_user :: string
  mdb_pass :: string
  mdb_name :: string
  mdb_port :: u32
  mdb_version :: string
  mdb_label :: string
  mdb_withUI :: bool
  mdb_migrationsFiles :: "string list"
  mdb_fixtureFiles :: "string list"

definition mdb_supportedVersions :: gomap where
  "mdb_supportedVersions = [(''6.0'', ''mongo:6.0''), (''7.0'', ''mongo:7.0'')]"

definition mdb_WithUI :: "bool \<Rightarrow> (mdb_config, 'w) go_option" where
  "mdb_WithUI withUI c w = Ok (c\<lparr>mdb_withUI := withUI\<rparr>)"

definition mdb_WithLabel :: "string \<Rightarrow> (mdb_config, 'w) go_option" where
  "mdb_WithLabel label c w = Ok (c\<lparr>mdb_label := label\<rparr>)"

definition mdb_WithHost :: "string \<Rightarrow> string \<Rightarrow> string \<Rightarrow> u32 \<Rightarrow> (mdb_config, 'w) go_option" where
  "mdb_WithHost user pass name port c w =
     Ok (c\<lparr>mdb_user := user, mdb_pass := pass, mdb_name := name, mdb_port := port\<rparr>)"

definition mdb_WithURI :: "string \<Rightarrow> (mdb_config, 'w) go_option" where
  "mdb_WithURI uri c w =
     (if uri = '''' then Ok c
      else bind_res (wrap_err ''parse database uri failed: %w'' [] (url_parse uri)) (\<lambda>u.
        let c1 = (case User u of
                    None \<Rightarrow> c
                  | Some (name, pw) \<Rightarrow>
                      let c0 = (if name \<noteq> '''' then c\<lparr>mdb_user := name\<rparr> else c)
                      in case pw of Some pass \<Rightarrow> c0\<lparr>mdb_pass := pass\<rparr> | None \<Rightarrow> c0);
            p = url_port u
        in if p \<noteq> '''' then
             bind_res (wrap_err ''invalid port in database uri %q: %w'' [uri] (parseUint 32 p))
               (\<lambda>port. Ok (c1\<lparr>mdb_port := word_of_nat port\<rparr>))
           else Ok c1))"

definition mdb_getVersions :: "string list" where
  "mdb_getVersions = map fst mdb_supportedVersions"

definition mdb_WithVersion :: "string \<Rightarrow> (mdb_config, 'w) go_option" where
  "mdb_WithVersion version c w =
     (let vv = trimSpace version in
      if vv = '''' then Ok (c\<lparr>mdb_version := ''7.0''\<rparr>)
      else if vv \<in> set mdb_getVersions then Ok (c\<lparr>mdb_version := version\<rparr>)
      else Err (Errorf ''selected MongoDB version (%s) is not supported, select one of: %s''
                  [vv, join '','' mdb_getVersions]))"

definition mdb_keep :: "string \<Rightarrow> bool" where
  "mdb_keep name \<longleftrightarrow> OneOf (toLower (path_ext name)) [''.js'', ''.json'']"

definition mdb_getFiles :: "'w sys \<Rightarrow> string \<Rightarrow> 'w \<Rightarrow> string list res" where
  "mdb_getFiles S path w =
     (if length path = 0 then Ok []
      else bind_res (wrap_err ''get path information failed, %w'' [] (statIsDir (os S) path w)) (\<lambda>isDir.
        if \<not> isDir then
          (if statIsDir (os S) path w = Err ErrNotExist then Err (Errorf ''file %s not exit'' [path])
           else Ok [path])
        else bind_res (Abs S path w) (\<lambda>absPath.
          bind_res (walk_files mdb_keep (walkDir (os S) absPath w)) (\<lambda>out. Ok (sort out)))))"

definition mdb_WithMigrations :: "'w sys \<Rightarrow> string \<Rightarrow> (mdb_config, 'w) go_option" where
  "mdb_WithMigrations S path c w =
     bind_res (wrap_err ''read migrations failed: %w'' [] (mdb_getFiles S path w))
       (\<lambda>files. Ok (c\<lparr>mdb_migrationsFiles := files\<rparr>))"

definition mdb_WithFixtures :: "'w sys \<Rightarrow> string \<Rightarrow> (mdb_config, 'w) go_option" where
  "mdb_WithFixtures S path c w =
     bind_res (wrap_err ''read fixtures failed: %w'' [] (mdb_getFiles S path w))
       (\<lambda>files. Ok (c\<lparr>mdb_fixtureFiles := files\<rparr>))"

definition getMongoDBImage :: "string \<Rightarrow> string" where
  "getMongoDBImage version =
     (case map_of mdb_supportedVersions version of Some v \<Rightarrow> v | None \<Rightarrow> ''mongo:7.0'')"

section \<open>mongodb.go: configuration and addresses\<close>

definition mdb_DefaultPort :: u32 where "mdb_DefaultPort = 27017"
definition mdb_DefaultUser :: string where "mdb_DefaultUser = ''mongodb''"
definition mdb_DefaultPass :: string where "mdb_DefaultPass = ''mongodb''"
definition mdb_DefaultName :: string where "mdb_DefaultName = ''admin''"

record MongoDB =
  mdb_containerID :: string
  mdb_cfg :: mdb_config

definition mdb_default :: mdb_config where
  "mdb_default = \<lparr>mdb_user = mdb_DefaultUser, mdb_pass = mdb_DefaultPass, mdb_name = mdb_DefaultName,
     mdb_port = mdb_DefaultPort, mdb_version = ''7.0'', mdb_label = '''', mdb_withUI = False,
     mdb_migrationsFiles = [], mdb_fixtureFiles = []\<rparr>"

definition mdb_New :: "(mdb_config, 'w) go_option list \<Rightarrow> 'w \<Rightarrow> MongoDB res" where
  "mdb_New options w =
     bind_res (apply_options options mdb_default w) (\<lambda>c. Ok \<lparr>mdb_containerID = '''', mdb_cfg = c\<rparr>)"

definition mdb_URI :: "'w sys \<Rightarrow> MongoDB \<Rightarrow> 'w \<Rightarrow> string" where
  "mdb_URI S m w =
     (let addr = (if inside_docker S w then ''host.docker.internal'' else ''localhost'');
          host = joinHostPort addr (formatUint (unat (mdb_port (mdb_cfg m))))
      in ''mongodb://'' @ queryEscape (mdb_user (mdb_cfg m)) @ '':'' @ queryEscape (mdb_pass (mdb_cfg m)) @
         ''@'' @ host @ ''/'' @ mdb_name (mdb_cfg m))"

definition mdb_connect :: "'w sys \<Rightarrow> MongoDB \<Rightarrow> (nat, 'w) action" where
  "mdb_connect S m =
     bind (\<lambda>w. mg_connect (mgs S) (mdb_URI S m w) w) (\<lambda>client.
     try_catch (mg_ping (mgs S) client)
       (\<lambda>e w. (Err e, mg_disconnect (mgs S) client w))
       (\<lambda>_. ret client))"

section \<open>mongodb.go: scripts\<close>

text \<open>A \<^verbatim>\<open>%w\<close> operand that is nil wraps nothing.\<close>

definition applyJSScript :: "'w sys \<Rightarrow> nat \<Rightarrow> string \<Rightarrow> string \<Rightarrow> (unit, 'w) action" where
  "applyJSScript S client dbName scriptPath =
     bind (wrap ''failed to read script file: %w'' [] (ask (readFile (os S) scriptPath))) (\<lambda>content.
     let ext = toLower (path_ext scriptPath) in
     if ext = ''.js'' then
       try_catch (List S [(LabelType, LabelMongoDB)])
         (\<lambda>e. fail (Wrapf ''failed to find MongoDB container: %w'' [] e))
         (\<lambda>containers. case containers of
             [] \<Rightarrow> fail (Errorf ''failed to find MongoDB container: %w'' [])
           | c # _ \<Rightarrow>
               bind (wrap ''failed to execute script: %w'' []
                 (RunExec S (ct_ID c) [''mongosh'', ''--username'', mdb_DefaultUser, ''--password'', mdb_DefaultPass,
                    ''--authenticationDatabase'', ''admin'', dbName, ''--eval'', content])) (\<lambda>output.
               if contains (toLower output) ''error'' \<or> contains (toLower output) ''exception''
               then fail (Errorf ''script execution error: %s'' [output])
               else ret ()))
     else if ext = ''.json'' then
       (let collName = trimSuffix (path_base scriptPath) ext in
        bind (wrap ''failed to parse JSON file: %w'' [] (lift_res (json_docs (mgs S) content))) (\<lambda>documents.
        if documents \<noteq> [] then
          wrap ''failed to insert documents: %w'' [] (mg_insertMany (mgs S) client dbName collName documents)
        else ret ()))
     else fail (Errorf ''unsupported script file type: %s'' [ext]))"

definition mdb_apply_all :: "'w sys \<Rightarrow> nat \<Rightarrow> string \<Rightarrow> string \<Rightarrow> string list \<Rightarrow> (unit, 'w) action" where
  "mdb_apply_all S client dbName fmt files =
     foreach (\<lambda>file. wrap fmt [file] (applyJSScript S client dbName file)) files"

definition mdb_runMigrations :: "'w sys \<Rightarrow> MongoDB \<Rightarrow> (unit, 'w) action" where
  "mdb_runMigrations S m =
     (if length (mdb_migrationsFiles (mdb_cfg m)) = 0 then ret ()
      else bind (mdb_connect S m) (\<lambda>client.
        with_defer (mg_disconnect (mgs S) client)
          (mdb_apply_all S client (mdb_name (mdb_cfg m)) ''failed to apply migration %s: %w''
            (mdb_migrationsFiles (mdb_cfg m)))))"

definition mdb_applyFixtures :: "'w sys \<Rightarrow> MongoDB \<Rightarrow> (unit, 'w) action" where
  "mdb_applyFixtures S m =
     (if length (mdb_fixtureFiles (mdb_cfg m)) = 0 then ret ()
      else bind (mdb_connect S m) (\<lambda>client.
        with_defer (mg_disconnect (mgs S) client)
          (mdb_apply_all S client (mdb_name (mdb_cfg m)) ''failed to apply fixture %s: %w''
            (mdb_fixtureFiles (mdb_cfg m)))))"

definition mdb_applyMigrationsFromDir :: "'w sys \<Rightarrow> nat \<Rightarrow> string \<Rightarrow> string \<Rightarrow> (unit, 'w) action" where
  "mdb_applyMigrationsFromDir S client dbName dir =
     (if dir = '''' then ret ()
      else bind (wrap ''read migrations failed: %w'' [] (ask (mdb_getFiles S dir))) (\<lambda>files.
        mdb_apply_all S client dbName ''failed to apply migration %s: %w'' files))"

definition mdb_applyFixturesFromDir :: "'w sys \<Rightarrow> nat \<Rightarrow> string \<Rightarrow> string \<Rightarrow> (unit, 'w) action" where
  "mdb_applyFixturesFromDir S client dbName dir =
     (if dir = '''' then ret ()
      else bind (wrap ''read fixtures failed: %w'' [] (ask (mdb_getFiles S dir))) (\<lambda>files.
        mdb_apply_all S client dbName ''failed to apply fixture %s: %w'' files))"

section \<open>mongodb.go: databases\<close>

text \<open>\<^verbatim>\<open>newDB, _ := New(WithHost(...))\<close>: the option never fails.\<close>

definition mdb_CreateDB :: "'w sys \<Rightarrow> MongoDB \<Rightarrow> CreateDBRequest \<Rightarrow> (string, 'w) action" where
  "mdb_CreateDB S m req =
     bind (wrap ''connect to MongoDB failed: %w'' [] (mdb_connect S m)) (\<lambda>client.
     with_defer (mg_disconnect (mgs S) client) (
     bind (pure_step (nowNano (os S))) (\<lambda>now.
     let dbName = ''dbctl_'' @ formatUint now in
     bind (ask (mdb_New [mdb_WithHost (mdb_user (mdb_cfg m)) (mdb_pass (mdb_cfg m)) dbName (mdb_port (mdb_cfg m))]))
       (\<lambda>newDB.
     bind (ask (\<lambda>w. Ok (mdb_URI S newDB w))) (\<lambda>newURI.
     bind (if length (rq_Migrations req) > 0 then
             wrap ''applying migrations failed: %w'' [] (mdb_applyMigrationsFromDir S client dbName (rq_Migrations req))
           else ret ()) (\<lambda>_.
     bind (if length (rq_Fixtures req) > 0 then
             wrap ''applying fixtures failed: %w'' [] (mdb_applyFixturesFromDir S client dbName (rq_Fixtures req))
           else ret ()) (\<lambda>_.
     ask (\<lambda>w. Ok (if inside_docker S w then replaceAll newURI ''host.docker.internal'' ''localhost''
                  else newURI)))))))))"

definition mdb_RemoveDB :: "'w sys \<Rightarrow> MongoDB \<Rightarrow> string \<Rightarrow> (unit, 'w) action" where
  "mdb_RemoveDB S m uri =
     bind (lift_res (url_parse uri)) (\<lambda>u.
     let dbName = trimPrefix (Path u) ''/'' in
     bind (wrap ''connect to MongoDB failed: %w'' [] (mdb_connect S m)) (\<lambda>client.
     with_defer (mg_disconnect (mgs S) client)
       (wrap ''drop database failed: %w'' [] (mg_drop (mgs S) client dbName))))"

section \<open>mongodb.go: life cycle\<close>

partial_function (option) mdb_WaitForStart :: "'w sys \<Rightarrow> MongoDB \<Rightarrow> 'w \<Rightarrow> (unit res \<times> 'w) option" where
  "mdb_WaitForStart S m w =
     (case mdb_connect S m w of
        (Ok client, w1) \<Rightarrow> Some (Ok (), mg_disconnect (mgs S) client w1)
      | (Err e, w1) \<Rightarrow> if errors_is e DeadlineExceeded then Some (Err e, w1) else mdb_WaitForStart S m w1
      | (Panic q, w1) \<Rightarrow> Some (Panic q, w1))"

definition mdb_pick_port :: "'w sys \<Rightarrow> MongoDB \<Rightarrow> (MongoDB, 'w) maybe_action" where
  "mdb_pick_port S m =
     (if mdb_port (mdb_cfg m) = 0 then
        may_bind (GetAvailablePort S) (\<lambda>n.
          may (ret (m\<lparr>mdb_cfg := (mdb_cfg m)\<lparr>mdb_port := word_of_nat n\<rparr>\<rparr>)))
      else may (ret m))"

definition mdb_create_request :: "'w sys \<Rightarrow> MongoDB \<Rightarrow> nat \<Rightarrow> nat \<Rightarrow> 'w \<Rightarrow> CreateRequest" where
  "mdb_create_request S m now rnd w =
     \<lparr>cr_Name = ''dbctl_mongo_'' @ formatUint (now div 1000000000) @ ''_'' @ formatUint rnd,
      cr_Image = getMongoDBImage (mdb_version (mdb_cfg m)),
      cr_ExposedPorts = [PortSpec S w (formatUint (unat (mdb_port (mdb_cfg m)))) ''27017/tcp''],
      cr_Cmd = [],
      cr_Env = [(''MONGO_INITDB_ROOT_USERNAME'', mdb_user (mdb_cfg m)),
        (''MONGO_INITDB_ROOT_PASSWORD'', mdb_pass (mdb_cfg m))],
      cr_Labels = start_labels LabelMongoDB (mdb_user (mdb_cfg m)) (mdb_pass (mdb_cfg m)) (mdb_name (mdb_cfg m))
        (mdb_port (mdb_cfg m)) (mdb_label (mdb_cfg m))\<rparr>"

definition mdb_startUsingDocker :: "'w sys \<Rightarrow> MongoDB \<Rightarrow> (MongoDB \<times> Container, 'w) maybe_action" where
  "mdb_startUsingDocker S m =
     may_bind (may (randInt20 (os S))) (\<lambda>rnd.
     may_bind (mdb_pick_port S m) (\<lambda>m.
     may_bind (may (bind (pure_step (nowNano (os S))) (\<lambda>now w. Run S (mdb_create_request S m now rnd w) w))) (\<lambda>c.
     let m = m\<lparr>mdb_containerID := ct_ID c\<rparr> in
     may_bind (mdb_WaitForStart S m) (\<lambda>_. may (ret (m, c))))))"

definition mdb_runUI :: "'w sys \<Rightarrow> MongoDB \<Rightarrow> (Container, 'w) action" where
  "mdb_runUI S m =
     bind (randInt20 (os S)) (\<lambda>rnd.
     bind (pure_step (nowNano (os S))) (\<lambda>now w.
     Run S \<lparr>cr_Name = ''dbctl_mongo_express_'' @ formatUint (now div 1000000000) @ ''_'' @ formatUint rnd,
        cr_Image = ''mongo-express:latest'',
        cr_ExposedPorts = [PortSpec S w ''8081'' ''8081''], cr_Cmd = [],
        cr_Env = [(''ME_CONFIG_BASICAUTH_ENABLED'', ''false''),
          (''ME_CONFIG_MONGODB_URL'', replaceAll (mdb_URI S m w) ''localhost'' ''host.docker.internal'')],
        cr_Labels = [(LabelType, LabelMongoExpress)]\<rparr> w))"

definition mdb_Start :: "'w sys \<Rightarrow> MongoDB \<Rightarrow> bool \<Rightarrow> (MongoDB, 'w) maybe_action" where
  "mdb_Start S m detach =
     may_bind (mdb_startUsingDocker S m) (\<lambda>(m, c).
     may_bind (may (mdb_runMigrations S m)) (\<lambda>_.
     may_bind (may (mdb_applyFixtures S m)) (\<lambda>_.
     may_bind (if mdb_withUI (mdb_cfg m) then
         may (try_catch (mdb_runUI S m) (\<lambda>e. bind (ignore (Terminate S c)) (\<lambda>_. fail e)) (\<lambda>u. ret (Some u)))
       else may (ret None)) (\<lambda>ui.
     if detach then may (ret m)
     else (\<lambda>w. case waitDone (os S) w of
         None \<Rightarrow> None
       | Some w1 \<Rightarrow>
           may (bind (case ui of Some u \<Rightarrow> Terminate S u | None \<Rightarrow> ret ()) (\<lambda>_.
                bind (Terminate S c) (\<lambda>_. ret m))) w1)))))"

definition mdb_Stop :: "'w sys \<Rightarrow> MongoDB \<Rightarrow> (unit, 'w) action" where
  "mdb_Stop S m = TerminateByID S (mdb_containerID m)"

definition mdb_Instances :: "'w sys \<Rightarrow> string \<Rightarrow> (Info list, 'w) action" where
  "mdb_Instances S label =
     bind (List S (InstanceLabels LabelMongoDB label)) (\<lambda>l.
     ret (map (\<lambda>c. \<lparr>if_ID = ct_ID c, if_Type = ct_Name c, if_Status = Running\<rparr>) l))"

interpretation mdb_files: file_lister mdb_getFiles mdb_keep
  by unfold_locales (simp_all add: mdb_getFiles_def Abs_getwd)

end
