(* ===== verification/Apiserver.thy ===== *)
theory Apiserver
  imports Redis Postgres Mongodb
begin

text \<open>
  \<^verbatim>\<open>internal/apiserver\<close>: the handlers of server.go that create and remove databases for the
  clients, and the container of container.go the server runs in. A request carries its form
  values, its uploaded files (the name of a part and what opening it gives) and its body; a
  response is a status and a body. \<^verbatim>\<open>encoding/json\<close> is a record of coding functions.
\<close>

section \<open>Requests and responses\<close>

record http_request =
  hr_Method :: string
  hr_Form :: gomap
  hr_Files :: "(string \<times> (string \<times> string res) list) list option"
  hr_Body :: string

datatype http_body = NoBody | JErr go_error | JUri string

type_synonym http_response = "nat \<times> http_body"

record json_api =
  enc_instances :: "(string \<times> Instance option) list \<Rightarrow> string"
  dec_instances :: "string \<Rightarrow> (string \<times> Instance option) list res"
  enc_remove :: "string \<times> string \<Rightarrow> string"
  dec_remove :: "string \<Rightarrow> (string \<times> string) res"

definition StatusOK :: nat where "StatusOK = 200"
definition StatusNoContent :: nat where "StatusNoContent = 204"
definition StatusBadRequest :: nat where "StatusBadRequest = 400"
definition StatusNotFound :: nat where "StatusNotFound = 404"
definition StatusMethodNotAllowed :: nat where "StatusMethodNotAllowed = 405"
definition StatusInternalServerError :: nat where "StatusInternalServerError = 500"

lemmas status_defs = StatusOK_def StatusNoContent_def StatusBadRequest_def StatusNotFound_def
  StatusMethodNotAllowed_def StatusInternalServerError_def

definition JSONError :: "nat \<Rightarrow> go_error \<Rightarrow> (http_response, 'w) action" where
  "JSONError status err = ret (status, JErr err)"

definition FormValue :: "http_request \<Rightarrow> string \<Rightarrow> string" where
  "FormValue r key = gm_get (hr_Form r) key"

section \<open>The server\<close>

definition api_DefaultPort :: string where "api_DefaultPort = ''1988''"
definition EnvLabel :: string where "EnvLabel = ''DBCTL_LABEL''"
definition EnvInstances :: string where "EnvInstances = ''DBCTL_INSTANCES''"

record Server =
  sv_port :: string
  sv_label :: string
  sv_instances :: "(string \<times> Instance option) list"

definition NewServer :: "'w sys \<Rightarrow> json_api \<Rightarrow> string \<Rightarrow> string \<Rightarrow> 'w \<Rightarrow> Server" where
  "NewServer S J port label w =
     (let label = (if label = '''' then getenv (os S) w EnvLabel else label);
          raw = getenv (os S) w EnvInstances
      in \<lparr>sv_port = port, sv_label = label,
          sv_instances = (if raw \<noteq> '''' then (case dec_instances J raw of Ok instances \<Rightarrow> instances | _ \<Rightarrow> []) else [])\<rparr>)"

definition listen_addr :: "'w sys \<Rightarrow> Server \<Rightarrow> 'w \<Rightarrow> string" where
  "listen_addr S s w = joinHostPort (if inside_docker S w then '''' else LoopbackAddress) (sv_port s)"

record api_request =
  ar_Type :: string
  ar_Migrations :: string
  ar_Fixtures :: string
  ar_WithDefaultMigrations :: bool
  ar_InstanceHost :: string
  ar_InstancePort :: u32
  ar_InstanceUser :: string
  ar_InstancePass :: string
  ar_InstanceName :: string

definition validateType :: "string \<Rightarrow> unit res" where
  "validateType dbType =
     (if OneOf dbType [TypePostgres, TypeRedis, TypeMongoDB] then Ok ()
      else Err (Errorf ''type %q is not valid, valid options are %s, %s or %s''
                  [dbType, TypePostgres, TypeRedis, TypeMongoDB]))"

definition uploadPath :: "string \<Rightarrow> string res" where
  "uploadPath filename =
     (let name = (case pathUnescape filename of Ok decoded \<Rightarrow> decoded | _ \<Rightarrow> filename);
          name = path_clean name
      in if name = ''.'' \<or> name = ''/'' \<or> name = '''' then Err (Errorf ''invalid file name %q'' [filename])
         else if isAbs name \<or> hasPrefix name ''..''
           then Err (Errorf ''file name %q is outside the upload directory'' [filename])
         else Ok name)"

definition isTrue :: "string \<Rightarrow> bool" where
  "isTrue v = (parseBool (trimSpace v) = Ok True)"

definition writeMultipartFile :: "'w sys \<Rightarrow> string \<Rightarrow> string \<times> string res \<Rightarrow> (unit, 'w) action" where
  "writeMultipartFile S dst f =
     bind (lift_res (uploadPath (fst f))) (\<lambda>name.
     bind (lift_res (snd f)) (\<lambda>src.
     let target = path_join dst name in
     bind (mkdirAll (os S) (path_dir target)) (\<lambda>_.
     bind (createFile (os S) target) (\<lambda>_.
     wrap ''write file (%s) failed: %w'' [name] (copyTo (os S) target src)))))"

definition readMulipartFiles :: "'w sys \<Rightarrow> http_request \<Rightarrow> string \<Rightarrow> string \<Rightarrow> (unit, 'w) action" where
  "readMulipartFiles S r key dst =
     (case hr_Files r of
        None \<Rightarrow> ret ()
      | Some files \<Rightarrow>
          foreach (writeMultipartFile S dst) (case map_of files key of Some fs \<Rightarrow> fs | None \<Rightarrow> []))"

definition instanceFor :: "'w sys \<Rightarrow> Server \<Rightarrow> string \<Rightarrow> (Instance option, 'w) action" where
  "instanceFor S s dbType =
     (case map_of (sv_instances s) dbType of
        Some instance \<Rightarrow> ret instance
      | None \<Rightarrow> try_catch (FindInstance S dbType (sv_label s)) (\<lambda>_. ret None) (\<lambda>instance. ret (Some instance)))"

text \<open>Filling in what the caller left out.\<close>

definition fill_instance :: "Instance \<Rightarrow> api_request \<Rightarrow> api_request" where
  "fill_instance instance r =
     r\<lparr>ar_InstancePort := (if ar_InstancePort r = 0 then in_Port instance else ar_InstancePort r),
       ar_InstanceUser := (if ar_InstanceUser r = '''' then in_User instance else ar_InstanceUser r),
       ar_InstancePass := (if ar_InstancePass r = '''' then in_Pass instance else ar_InstancePass r),
       ar_InstanceName := (if ar_InstanceName r = '''' then in_Name instance else ar_InstanceName r)\<rparr>"

definition applyInstance :: "'w sys \<Rightarrow> Server \<Rightarrow> api_request \<Rightarrow> (api_request, 'w) action" where
  "applyInstance S s r =
     bind (instanceFor S s (ar_Type r)) (\<lambda>instance.
     case instance of None \<Rightarrow> ret r | Some i \<Rightarrow> ret (fill_instance i r))"

definition createPostgresDB :: "(string \<Rightarrow> string) \<Rightarrow> 'w sys \<Rightarrow> api_request \<Rightarrow> (string, 'w) action" where
  "createPostgresDB sha S r =
     (let port = (if ar_InstancePort r = 0 then pg_DefaultPort else ar_InstancePort r);
          user = (if ar_InstanceUser r = '''' then pg_DefaultUser else ar_InstanceUser r);
          pass = (if ar_InstancePass r = '''' then pg_DefaultPass else ar_InstancePass r);
          name = (if ar_InstanceName r = '''' then pg_DefaultName else ar_InstanceName r)
      in bind (ask (pg_New [pg_WithHost user pass name port])) (\<lambda>pgDB.
         pg_CreateDB sha S pgDB \<lparr>rq_Migrations = ar_Migrations r, rq_Fixtures = ar_Fixtures r,
           rq_WithDefaultMigrations = ar_WithDefaultMigrations r\<rparr>))"

definition createRedisDB :: "'w sys \<Rightarrow> api_request \<Rightarrow> (string, 'w) action" where
  "createRedisDB S r =
     (let port = (if ar_InstancePort r = 0 then rs_DefaultPort else ar_InstancePort r);
          user = (if ar_InstanceUser r = '''' then rs_DefaultUser else ar_InstanceUser r);
          pass = (if ar_InstancePass r = '''' then rs_DefaultPass else ar_InstancePass r)
      in bind (ask (rs_New [rs_WithHost user pass 0 port])) (\<lambda>rsDB.
         rs_CreateDB S rsDB (Some \<lparr>rq_Migrations = '''', rq_Fixtures = ar_Fixtures r,
           rq_WithDefaultMigrations = False\<rparr>)))"

definition createMongoDBDB :: "'w sys \<Rightarrow> api_request \<Rightarrow> (string, 'w) action" where
  "createMongoDBDB S r =
     (let port = (if ar_InstancePort r = 0 then mdb_DefaultPort else ar_InstancePort r);
          user = (if ar_InstanceUser r = '''' then mdb_DefaultUser else ar_InstanceUser r);
          pass = (if ar_InstancePass r = '''' then mdb_DefaultPass else ar_InstancePass r);
          name = (if ar_InstanceName r = '''' then mdb_DefaultName else ar_InstanceName r)
      in bind (ask (mdb_New [mdb_WithHost user pass name port])) (\<lambda>mongoDbDB.
         mdb_CreateDB S mongoDbDB \<lparr>rq_Migrations = ar_Migrations r, rq_Fixtures = ar_Fixtures r,
           rq_WithDefaultMigrations = False\<rparr>))"

text \<open>The \<^verbatim>\<open>switch\<close> over the type; no other type reaches it.\<close>

definition create_for :: "(string \<Rightarrow> string) \<Rightarrow> 'w sys \<Rightarrow> api_request \<Rightarrow> (string, 'w) action" where
  "create_for sha S req =
     (if ar_Type req = TypePostgres then createPostgresDB sha S req
      else if ar_Type req = TypeRedis then createRedisDB S req
      else if ar_Type req = TypeMongoDB then createMongoDBDB S req
      else ret '''')"

text \<open>What the handler does once the two temporary directories are there.\<close>

definition create_in :: "(string \<Rightarrow> string) \<Rightarrow> 'w sys \<Rightarrow> Server \<Rightarrow> http_request \<Rightarrow> api_request \<Rightarrow> string \<Rightarrow> string \<Rightarrow>
    (http_response, 'w) action" where
  "create_in sha S s r req migrationsDir fixturesDir =
     try_catch (readMulipartFiles S r ''migrations'' migrationsDir) (JSONError StatusInternalServerError) (\<lambda>_.
     try_catch (readMulipartFiles S r ''fixtures'' fixturesDir) (JSONError StatusInternalServerError) (\<lambda>_.
     bind (applyInstance S s (req\<lparr>ar_Migrations := migrationsDir, ar_Fixtures := fixturesDir\<rparr>)) (\<lambda>req.
     try_catch (create_for sha S req) (JSONError StatusInternalServerError) (\<lambda>uri.
     ret (StatusOK, JUri uri)))))"

definition form_request :: "http_request \<Rightarrow> api_request" where
  "form_request r =
     \<lparr>ar_Type = FormValue r ''type'', ar_Migrations = '''', ar_Fixtures = '''',
      ar_WithDefaultMigrations = isTrue (FormValue r ''with_default_migrations''),
      ar_InstanceHost = FormValue r ''instance_host'', ar_InstancePort = 0,
      ar_InstanceUser = FormValue r ''instance_user'', ar_InstancePass = FormValue r ''instance_pass'',
      ar_InstanceName = FormValue r ''instance_name''\<rparr>"

definition form_port :: "http_request \<Rightarrow> u32 res" where
  "form_port r =
     (let p = FormValue r ''instance_port'' in
      if p \<noteq> '''' then
        (case parseUint 32 p of
           Ok port \<Rightarrow> Ok (word_of_nat port)
         | Err _ \<Rightarrow> Err (Errorf ''instance_port is not a valid port number: %q'' [p])
         | Panic q \<Rightarrow> Panic q)
      else Ok 0)"

definition api_CreateDB :: "(string \<Rightarrow> string) \<Rightarrow> 'w sys \<Rightarrow> Server \<Rightarrow> http_request \<Rightarrow> (http_response, 'w) action" where
  "api_CreateDB sha S s r =
     (if hr_Method r \<noteq> ''POST'' then JSONError StatusMethodNotAllowed (Errorf ''method not allowed'' [])
      else try_catch (lift_res (form_port r)) (JSONError StatusBadRequest) (\<lambda>port.
        let req = (form_request r)\<lparr>ar_InstancePort := port\<rparr> in
        if ar_Type req = '''' then JSONError StatusBadRequest (Errorf ''type is required'' [])
        else try_catch (lift_res (validateType (ar_Type req))) (JSONError StatusBadRequest) (\<lambda>_.
        try_catch (mkdirTemp (os S) ''/tmp'' ''migrations-*'') (JSONError StatusInternalServerError) (\<lambda>migrationsDir.
        with_defer (removeAll (os S) migrationsDir) (
        try_catch (mkdirTemp (os S) ''/tmp'' ''fixtures-*'') (JSONError StatusInternalServerError) (\<lambda>fixturesDir.
        with_defer (removeAll (os S) fixturesDir) (
        create_in sha S s r req migrationsDir fixturesDir)))))))"

definition removePostgresDB :: "'w sys \<Rightarrow> string \<Rightarrow> (unit, 'w) action" where
  "removePostgresDB S uri = bind (ask (pg_New [pg_WithURI uri])) (\<lambda>pgDB. pg_RemoveDB S pgDB uri)"

definition removeRedisDB :: "'w sys \<Rightarrow> string \<Rightarrow> (unit, 'w) action" where
  "removeRedisDB S uri = bind (ask (rs_New [rs_WithURI uri])) (\<lambda>rsDB. rs_RemoveDB S rsDB uri)"

definition removeMongoDBDB :: "'w sys \<Rightarrow> string \<Rightarrow> (unit, 'w) action" where
  "removeMongoDBDB S uri = bind (ask (mdb_New [mdb_WithURI uri])) (\<lambda>mongoDbDB. mdb_RemoveDB S mongoDbDB uri)"

definition remove_for :: "'w sys \<Rightarrow> string \<Rightarrow> string \<Rightarrow> (unit, 'w) action" where
  "remove_for S dbType uri =
     (if dbType = TypePostgres then removePostgresDB S uri
      else if dbType = TypeRedis then removeRedisDB S uri
      else if dbType = TypeMongoDB then removeMongoDBDB S uri
      else ret ())"

definition api_RemoveDB :: "'w sys \<Rightarrow> json_api \<Rightarrow> http_request \<Rightarrow> (http_response, 'w) action" where
  "api_RemoveDB S J r =
     (if hr_Method r \<noteq> ''DELETE'' then JSONError StatusMethodNotAllowed (Errorf ''method not allowed'' [])
      else try_catch (lift_res (dec_remove J (hr_Body r))) (JSONError StatusBadRequest) (\<lambda>(dbType, uri).
        if dbType = '''' then JSONError StatusBadRequest (Errorf ''type is required'' [])
        else if uri = '''' then JSONError StatusBadRequest (Errorf ''uri is required'' [])
        else try_catch (lift_res (validateType dbType)) (JSONError StatusBadRequest) (\<lambda>_.
        try_catch (remove_for S dbType uri) (JSONError StatusInternalServerError) (\<lambda>_.
        ret (StatusNoContent, NoBody)))))"

text \<open>The two routes of \<^verbatim>\<open>Start\<close>; the mux answers any other path itself.\<close>

definition serve :: "(string \<Rightarrow> string) \<Rightarrow> 'w sys \<Rightarrow> json_api \<Rightarrow> Server \<Rightarrow> string \<Rightarrow> http_request \<Rightarrow> (http_response, 'w) action" where
  "serve sha S J s path r =
     (if path = ''/create'' then api_CreateDB sha S s r
      else if path = ''/remove'' then api_RemoveDB S J r
      else ret (StatusNotFound, NoBody))"

text \<open>
  A run of \<^verbatim>\<open>Server.Start\<close>: what reaches the server, in the order it is handled, until listening
  fails or the context ends and the server shuts down (a shutdown that fails exits the process).
  A handler that panics loses its connection only. The result is \<open>None\<close> while the server runs.
\<close>

datatype server_event = Incoming string http_request | ListenFailed go_error | Interrupted "go_error option"

fun api_Start :: "(string \<Rightarrow> string) \<Rightarrow> 'w sys \<Rightarrow> json_api \<Rightarrow> Server \<Rightarrow> server_event list \<Rightarrow> 'w \<Rightarrow>
    http_response res list \<times> unit res option \<times> 'w" where
  "api_Start sha S J s [] w = ([], None, w)"
| "api_Start sha S J s (Incoming path r # evs) w =
     (case serve sha S J s path r w of
        (resp, w1) \<Rightarrow> (case api_Start sha S J s evs w1 of (out, result, w2) \<Rightarrow> (resp # out, result, w2)))"
| "api_Start sha S J s (ListenFailed e # evs) w = ([], Some (Err e), w)"
| "api_Start sha S J s (Interrupted shutdown # evs) w =
     ([], Some (case shutdown of None \<Rightarrow> Ok () | Some e \<Rightarrow> Panic ''testing server shutdown failed''), w)"

section \<open>container.go\<close>

definition labelAPIServer :: string where "labelAPIServer = ''apiserver''"

definition api_env :: "json_api \<Rightarrow> string \<Rightarrow> (string \<times> Instance) list \<Rightarrow> gomap" where
  "api_env J label instances =
     (let env = [(''DBCTL_INSIDE_DOCKER'', ''true''),
                 (EnvInstances, enc_instances J (map (\<lambda>(t, i). (t, Some i)) instances))]
      in if label \<noteq> '''' then gm_set EnvLabel label env else env)"

definition api_create_request :: "'w sys \<Rightarrow> json_api \<Rightarrow> string \<Rightarrow> string \<Rightarrow> (string \<times> Instance) list \<Rightarrow> nat \<Rightarrow> nat \<Rightarrow> 'w \<Rightarrow> CreateRequest" where
  "api_create_request S J port label instances now rnd w =
     \<lparr>cr_Name = ''dbctl_apiserver_'' @ formatUint (now div 1000000000) @ ''_'' @ formatUint rnd,
      cr_Image = ''mirzakhani/dbctl:latest'',
      cr_ExposedPorts = [PortSpec S w port ''1988/tcp''],
      cr_Cmd = [''/dbctl'', ''api-server''],
      cr_Env = api_env J label instances,
      cr_Labels = (let labels = [(LabelType, labelAPIServer)]
                   in if label \<noteq> '''' then gm_set LabelCustom label labels else labels)\<rparr>"

text \<open>One turn: a dial, then the end of the context, which the timeout sets, or the next tick.\<close>

partial_function (option) waitForPort :: "'w sys \<Rightarrow> string \<Rightarrow> string \<Rightarrow> 'w \<Rightarrow> (unit res \<times> 'w) option" where
  "waitForPort S port timeout w =
     (if canDial (os S) (joinHostPort ''127.0.0.1'' port) w then Some (Ok (), w)
      else (case waitTick (os S) w of
          (expired, w1) \<Rightarrow>
            if expired then Some (Err (Wrapf ''apiserver did not come up on %s within %s: %w''
                 [joinHostPort ''127.0.0.1'' port, timeout] (External ''dial failed'')), w1)
            else waitForPort S port timeout w1))"

definition RunAPIServerContainer :: "'w sys \<Rightarrow> json_api \<Rightarrow> string \<Rightarrow> string \<Rightarrow> string \<Rightarrow> (unit, 'w) maybe_action" where
  "RunAPIServerContainer S J port label timeout =
     may_bind (may (randInt20 (os S))) (\<lambda>rnd.
     may_bind (may (FindInstances S label)) (\<lambda>instances.
     may_bind (may (bind (pure_step (nowNano (os S))) (\<lambda>now w.
       Run S (api_create_request S J port label instances now rnd w) w))) (\<lambda>cn.
     may_try (waitForPort S port timeout)
       (\<lambda>e. may (bind (ignore (TerminateByID S (ct_ID cn))) (\<lambda>_. fail e)))
       (\<lambda>_. may (ret ())))))"

end
