(* ===== verification/Client.thy ===== *)
theory Client
  imports Apiserver
begin

text \<open>
  \<^verbatim>\<open>clients/dbctlgo\<close>: the Go client of the api server. It collects the migration and fixture files,
  sends them as the parts of a multipart request, and reads the answer. The network is the
  function \<open>H\<close>, which takes a request to the server and brings back its response; regular expressions
  are the function \<open>rx\<close>, which compiles a pattern into a test. A response is kept decoded.
\<close>

section \<open>options.go\<close>

record cl_config =
  cl_migrations :: string
  cl_migrationsFileRegex :: string
  cl_fixtures :: string
  cl_withDefaultMigrations :: bool
  cl_instancePort :: u32
  cl_instanceUser :: string
  cl_instancePass :: string
  cl_instanceDBName :: string
  cl_hostAddress :: string
  cl_hostPort :: u32

definition EnvHost :: string where "EnvHost = ''DBCTL_HOST''"
definition EnvPort :: string where "EnvPort = ''DBCTL_PORT''"

definition cl_defaultConfig :: cl_config where
  "cl_defaultConfig = \<lparr>cl_migrations = '''', cl_migrationsFileRegex = '''', cl_fixtures = '''',
     cl_withDefaultMigrations = False, cl_instancePort = 0, cl_instanceUser = '''', cl_instancePass = '''',
     cl_instanceDBName = '''', cl_hostAddress = ''localhost'', cl_hostPort = 1988\<rparr>"

definition cl_fromEnv :: "'w sys \<Rightarrow> (cl_config, 'w) go_option" where
  "cl_fromEnv S c w =
     (let host = getenv (os S) w EnvHost;
          c = (if host \<noteq> '''' then c\<lparr>cl_hostAddress := host\<rparr> else c);
          port = getenv (os S) w EnvPort
      in if port \<noteq> '''' then
           (case parseUint 32 port of
              Ok p \<Rightarrow> Ok (c\<lparr>cl_hostPort := word_of_nat p\<rparr>)
            | Err _ \<Rightarrow> Err (Errorf ''%s is not a valid port number: %q'' [EnvPort, port])
            | Panic q \<Rightarrow> Panic q)
         else Ok c)"

definition cl_WithMigrations :: "string \<Rightarrow> (cl_config, 'w) go_option" where
  "cl_WithMigrations migrations c w = Ok (c\<lparr>cl_migrations := migrations\<rparr>)"

definition cl_WithDefaultMigrations :: "(cl_config, 'w) go_option" where
  "cl_WithDefaultMigrations c w = Ok (c\<lparr>cl_withDefaultMigrations := True\<rparr>)"

definition cl_WithFixtures :: "string \<Rightarrow> (cl_config, 'w) go_option" where
  "cl_WithFixtures fixtures c w = Ok (c\<lparr>cl_fixtures := fixtures\<rparr>)"

definition cl_WithInstance :: "string \<Rightarrow> string \<Rightarrow> string \<Rightarrow> string \<Rightarrow> u32 \<Rightarrow> (cl_config, 'w) go_option" where
  "cl_WithInstance user pass address dbname port c w =
     Ok (c\<lparr>cl_instanceUser := user, cl_instancePass := pass, cl_instanceDBName := dbname, cl_instancePort := port\<rparr>)"

definition cl_WithHost :: "string \<Rightarrow> u32 \<Rightarrow> (cl_config, 'w) go_option" where
  "cl_WithHost address port c w = Ok (c\<lparr>cl_hostAddress := address, cl_hostPort := port\<rparr>)"

definition cl_WithMigrationsFileRegex :: "string \<Rightarrow> (cl_config, 'w) go_option" where
  "cl_WithMigrationsFileRegex regex c w = Ok (c\<lparr>cl_migrationsFileRegex := regex\<rparr>)"

definition getHostURL :: "cl_config \<Rightarrow> string" where
  "getHostURL c = ''http://'' @ joinHostPort (cl_hostAddress c) (formatUint (unat (cl_hostPort c)))"

section \<open>client.go\<close>

definition ErrInvalidDatabaseType :: go_error where
  "ErrInvalidDatabaseType = Sentinel ''invalid database type''"

definition DatabasePostgres :: string where "DatabasePostgres = ''postgres''"
definition DatabaseRedis :: string where "DatabaseRedis = ''redis''"
definition DatabaseMongoDB :: string where "DatabaseMongoDB = ''mongodb''"

definition configFrom :: "'w sys \<Rightarrow> (cl_config, 'w) go_option list \<Rightarrow> 'w \<Rightarrow> cl_config res" where
  "configFrom S opts w = bind_res (cl_fromEnv S cl_defaultConfig w) (\<lambda>cfg. apply_options opts cfg w)"

text \<open>A request on its way: the parts of a multipart body, or a JSON body.\<close>

datatype part = FilePart string string string | FieldPart string string

datatype http_wire = Multipart "part list" | JsonBody string

type_synonym 'w transport = "string \<Rightarrow> string \<Rightarrow> http_wire \<Rightarrow> (http_response, 'w) action"

record cl_request =
  cq_Type :: string
  cq_Migrations :: string
  cq_MigrationsRegex :: string
  cq_Fixtures :: string
  cq_WithDefaultMigrations :: bool
  cq_InstancePort :: u32
  cq_InstanceUser :: string
  cq_InstancePass :: string
  cq_InstanceName :: string

record uploadFile =
  uf_rel :: string
  uf_path :: string

fun walk_uploads :: "string \<Rightarrow> (string \<Rightarrow> bool) option \<Rightarrow> walk_event list \<Rightarrow> uploadFile list res" where
  "walk_uploads absPath regex [] = Ok []"
| "walk_uploads absPath regex (WalkErr e # evs) = Err e"
| "walk_uploads absPath regex (WalkEntry p name isDir # evs) =
     (if isDir then walk_uploads absPath regex evs
      else bind_res (path_rel absPath p) (\<lambda>rel.
        if (case regex of Some m \<Rightarrow> \<not> m rel | None \<Rightarrow> False) then walk_uploads absPath regex evs
        else bind_res (walk_uploads absPath regex evs) (\<lambda>out. Ok (\<lparr>uf_rel = rel, uf_path = p\<rparr> # out))))"

definition getFilesList :: "(string \<Rightarrow> (string \<Rightarrow> bool) res) \<Rightarrow> 'w sys \<Rightarrow> string \<Rightarrow> string \<Rightarrow> 'w \<Rightarrow> uploadFile list res" where
  "getFilesList rx S dir regexPattern w =
     (if dir = '''' then Ok []
      else bind_res (Abs S dir w) (\<lambda>absPath.
        bind_res (statIsDir (os S) absPath w) (\<lambda>_.
        bind_res (if regexPattern \<noteq> '''' then
            bind_res (wrap_err ''invalid regex pattern: %w'' [] (rx regexPattern)) (\<lambda>m. Ok (Some m))
          else Ok None) (\<lambda>regex.
        bind_res (walk_uploads absPath regex (walkDir (os S) absPath w)) (\<lambda>out.
        Ok (sort_key uf_rel out))))))"

text \<open>An error while copying is not told apart from one on opening.\<close>

definition addFileToWriter :: "'w sys \<Rightarrow> string \<Rightarrow> uploadFile \<Rightarrow> 'w \<Rightarrow> part res" where
  "addFileToWriter S fieldname file w =
     bind_res (readFile (os S) (uf_path file) w) (\<lambda>content.
     Ok (FilePart fieldname (pathEscape (uf_rel file)) content))"

fun add_files :: "'w sys \<Rightarrow> string \<Rightarrow> uploadFile list \<Rightarrow> 'w \<Rightarrow> part list res" where
  "add_files S fieldname [] w = Ok []"
| "add_files S fieldname (f # fs) w =
     bind_res (addFileToWriter S fieldname f w) (\<lambda>p.
     bind_res (add_files S fieldname fs w) (\<lambda>ps. Ok (p # ps)))"

definition checkForError :: "http_response \<Rightarrow> unit res" where
  "checkForError r =
     (if fst r < 400 then Ok ()
      else case snd r of
        JErr e \<Rightarrow>
          if error_text e = '''' then Err (Errorf ''dbctl server returned %s'' [formatUint (fst r)])
          else Err (Sentinel (error_text e))
      | _ \<Rightarrow> Err (Errorf ''dbctl server returned %s'' [formatUint (fst r)]))"

definition form_fields :: "cl_request \<Rightarrow> gomap" where
  "form_fields r =
     [(''type'', cq_Type r), (''instance_port'', formatUint (unat (cq_InstancePort r))),
      (''instance_user'', cq_InstanceUser r), (''instance_pass'', cq_InstancePass r),
      (''instance_name'', cq_InstanceName r),
      (''with_default_migrations'', if cq_WithDefaultMigrations r then ''true'' else ''false'')]"

definition create_parts :: "(string \<Rightarrow> (string \<Rightarrow> bool) res) \<Rightarrow> 'w sys \<Rightarrow> cl_request \<Rightarrow> 'w \<Rightarrow> part list res" where
  "create_parts rx S r w =
     bind_res (wrap_err ''read migrations failed: %w'' [] (getFilesList rx S (cq_Migrations r) (cq_MigrationsRegex r) w))
       (\<lambda>migrationFiles.
     bind_res (wrap_err ''read fixtures failed: %w'' [] (getFilesList rx S (cq_Fixtures r) '''' w)) (\<lambda>fixtureFiles.
     bind_res (add_files S ''migrations'' migrationFiles w) (\<lambda>ms.
     bind_res (add_files S ''fixtures'' fixtureFiles w) (\<lambda>fs.
     Ok (ms @ fs @ map (\<lambda>(k, v). FieldPart k v) (form_fields r))))))"

text \<open>Decoding a body that is not a response to a create leaves the URI empty or fails.\<close>

definition decode_uri :: "http_body \<Rightarrow> string res" where
  "decode_uri b = (case b of JUri u \<Rightarrow> Ok u | JErr _ \<Rightarrow> Ok '''' | NoBody \<Rightarrow> Err (Sentinel ''EOF''))"

definition httpDoCreateDBRequest :: "(string \<Rightarrow> (string \<Rightarrow> bool) res) \<Rightarrow> 'w sys \<Rightarrow> 'w transport \<Rightarrow> cl_request \<Rightarrow> string \<Rightarrow>
    (string, 'w) action" where
  "httpDoCreateDBRequest rx S H r baseURL =
     bind (ask (create_parts rx S r)) (\<lambda>parts.
     bind (H ''POST'' (baseURL @ ''/create'') (Multipart parts)) (\<lambda>rawRes.
     bind (lift_res (checkForError rawRes)) (\<lambda>_.
     lift_res (decode_uri (snd rawRes)))))"

definition httpDoRemoveDBRequest :: "json_api \<Rightarrow> 'w transport \<Rightarrow> string \<Rightarrow> string \<Rightarrow> string \<Rightarrow> (unit, 'w) action" where
  "httpDoRemoveDBRequest J H dbType uri baseURL =
     bind (H ''DELETE'' (baseURL @ ''/remove'') (JsonBody (enc_remove J (dbType, uri)))) (\<lambda>rawRes.
     lift_res (checkForError rawRes))"

definition cl_abs :: "'w sys \<Rightarrow> string \<Rightarrow> string \<Rightarrow> 'w \<Rightarrow> string res" where
  "cl_abs S fmt path w = (if path \<noteq> '''' then wrap_err fmt [] (Abs S path w) else Ok '''')"

definition cl_CreateDB :: "(string \<Rightarrow> (string \<Rightarrow> bool) res) \<Rightarrow> 'w sys \<Rightarrow> 'w transport \<Rightarrow> string \<Rightarrow>
    (cl_config, 'w) go_option list \<Rightarrow> (string, 'w) action" where
  "cl_CreateDB rx S H dbType opts =
     (if dbType \<noteq> DatabaseRedis \<and> dbType \<noteq> DatabasePostgres \<and> dbType \<noteq> DatabaseMongoDB
      then fail ErrInvalidDatabaseType
      else bind (ask (configFrom S opts)) (\<lambda>cfg.
        bind (ask (cl_abs S ''get migraions absolute path failed, %w'' (cl_migrations cfg))) (\<lambda>migrationsPath.
        bind (ask (cl_abs S ''get fixtures absolute path failed, %w'' (cl_fixtures cfg))) (\<lambda>fixturesPath.
        wrap ''create %s database failed: %w'' [dbType]
          (httpDoCreateDBRequest rx S H
            \<lparr>cq_Type = dbType, cq_Migrations = migrationsPath, cq_MigrationsRegex = cl_migrationsFileRegex cfg,
             cq_Fixtures = fixturesPath, cq_WithDefaultMigrations = cl_withDefaultMigrations cfg,
             cq_InstancePort = cl_instancePort cfg, cq_InstanceUser = cl_instanceUser cfg,
             cq_InstancePass = cl_instancePass cfg, cq_InstanceName = cl_instanceDBName cfg\<rparr>
            (getHostURL cfg))))))"

definition cl_RemoveDB :: "json_api \<Rightarrow> 'w sys \<Rightarrow> 'w transport \<Rightarrow> string \<Rightarrow> string \<Rightarrow>
    (cl_config, 'w) go_option list \<Rightarrow> (unit, 'w) action" where
  "cl_RemoveDB J S H dbType uri opts =
     bind (ask (configFrom S opts)) (\<lambda>cfg. httpDoRemoveDBRequest J H dbType uri (getHostURL cfg))"

text \<open>The connection string, and the call registered to run when the test is over.\<close>

definition MustCreateDB :: "(string \<Rightarrow> (string \<Rightarrow> bool) res) \<Rightarrow> json_api \<Rightarrow> 'w sys \<Rightarrow> 'w transport \<Rightarrow> string \<Rightarrow>
    (cl_config, 'w) go_option list \<Rightarrow> (string \<times> (unit, 'w) action, 'w) action" where
  "MustCreateDB rx J S H dbType opts =
     bind (cl_CreateDB rx S H dbType opts) (\<lambda>uri. ret (uri, cl_RemoveDB J S H dbType uri opts))"

definition MustCreatePostgresDB :: "(string \<Rightarrow> (string \<Rightarrow> bool) res) \<Rightarrow> json_api \<Rightarrow> 'w sys \<Rightarrow> 'w transport \<Rightarrow>
    (cl_config, 'w) go_option list \<Rightarrow> (string \<times> (unit, 'w) action, 'w) action" where
  "MustCreatePostgresDB rx J S H opts = MustCreateDB rx J S H DatabasePostgres opts"

definition MustCreateRedisDB :: "(string \<Rightarrow> (string \<Rightarrow> bool) res) \<Rightarrow> json_api \<Rightarrow> 'w sys \<Rightarrow> 'w transport \<Rightarrow>
    (cl_config, 'w) go_option list \<Rightarrow> (string \<times> (unit, 'w) action, 'w) action" where
  "MustCreateRedisDB rx J S H opts = MustCreateDB rx J S H DatabaseRedis opts"

definition MustCreateMongoDB :: "(string \<Rightarrow> (string \<Rightarrow> bool) res) \<Rightarrow> json_api \<Rightarrow> 'w sys \<Rightarrow> 'w transport \<Rightarrow>
    (cl_config, 'w) go_option list \<Rightarrow> (string \<times> (unit, 'w) action, 'w) action" where
  "MustCreateMongoDB rx J S H opts = MustCreateDB rx J S H DatabaseMongoDB opts"

section \<open>What the server receives\<close>

text \<open>
  \<^verbatim>\<open>ParseMultipartForm\<close>: a field goes to the form, a file to the list of its field, under the last
  element of the name it was sent with.
\<close>

fun form_of :: "part list \<Rightarrow> gomap" where
  "form_of [] = []"
| "form_of (FieldPart k v # ps) = (k, v) # form_of ps"
| "form_of (FilePart field name content # ps) = form_of ps"

fun files_of :: "string \<Rightarrow> part list \<Rightarrow> (string \<times> string res) list" where
  "files_of key [] = []"
| "files_of key (FieldPart k v # ps) = files_of key ps"
| "files_of key (FilePart field name content # ps) =
     (if field = key then (path_base name, Ok content) # files_of key ps else files_of key ps)"

definition received :: "string \<Rightarrow> http_wire \<Rightarrow> http_request" where
  "received method wire =
     (case wire of
        Multipart ps \<Rightarrow> \<lparr>hr_Method = method, hr_Form = form_of ps,
          hr_Files = Some [(''migrations'', files_of ''migrations'' ps), (''fixtures'', files_of ''fixtures'' ps)],
          hr_Body = ''''\<rparr>
      | JsonBody b \<Rightarrow> \<lparr>hr_Method = method, hr_Form = [], hr_Files = None, hr_Body = b\<rparr>)"

text \<open>A network that connects the client with a server listening at \<open>base\<close>.\<close>

definition wire_to :: "(string \<Rightarrow> string) \<Rightarrow> 'w sys \<Rightarrow> json_api \<Rightarrow> Server \<Rightarrow> string \<Rightarrow> 'w transport" where
  "wire_to sha S J s base method url wire =
     (if hasPrefix url base then serve sha S J s (trimPrefix url base) (received method wire)
      else fail (External ''connection refused''))"

end
