(* ===== verification/Uploads.thy ===== *)
theory Uploads
  imports Client
begin

text \<open>
  The way of a file from the client to the server: its name is escaped, reduced to its last element
  by multipart parsing, unescaped and checked, and the file is written below the directory of the
  request.
\<close>

section \<open>Names\<close>

lemma uploadPath_Ok:
  assumes "uploadPath f = Ok n"
  shows "rel_name n \<and> \<not> hasPrefix n ''..''"
proof -
  obtain m where n: "n = path_clean m" "n \<noteq> ''.''" "\<not> isAbs n" "\<not> hasPrefix n ''..''"
    using assms by (auto simp: uploadPath_def Let_def split: if_splits)
  moreover have "\<nexists>r. path_clean m = ''..'' @ r" using n by (auto simp: hasPrefix_iff)
  ultimately show ?thesis using path_clean_cases[of m] by auto
qed

lemma upload_below:
  assumes "uploadPath f = Ok n" and "clean_dir dst"
  shows "path_join dst n = dst @ ''/'' @ n"
  using path_join_below uploadPath_Ok[OF assms(1)] assms(2) by (auto simp: clean_dir_def)

text \<open>A name the server refuses is one that leads out of the directory or names no file.\<close>

lemma uploadPath_clean:
  assumes "rel_name n" and "\<not> hasPrefix n ''..''" and "pathUnescape f = Ok n"
  shows "uploadPath f = Ok n"
proof -
  have "\<not> rel_name ''.''" "\<not> rel_name ''/''" by (simp_all add: rel_name_def plain_def)
  then have "n \<noteq> ''.''" "n \<noteq> ''/''" "n \<noteq> ''''" using assms(1) rel_name_nonempty by metis+
  then show ?thesis
    using assms path_clean_rel_name[OF assms(1)] rel_name_not_abs[OF assms(1)]
    by (simp add: uploadPath_def)
qed

lemma path_base_plain:
  assumes "slash \<notin> set s" and "s \<noteq> []"
  shows "path_base s = s"
proof -
  obtain x xs where r: "rev s = x # xs" using assms(2) by (cases "rev s") simp_all
  have "set (rev s) = set s" by (rule set_rev)
  then have "x \<in> set s" unfolding r by auto
  with assms(1) have "x \<noteq> slash" by blast
  then have "dropWhile (\<lambda>c. c = slash) (rev s) = rev s" unfolding r by simp
  moreover have "splitOn slash s = [s]" using assms(1) by (induction s) auto
  ultimately show ?thesis using assms(2) by (simp add: path_base_def)
qed

lemma pathEscape_no_slash: "slash \<notin> set (pathEscape s)"
proof
  assume "slash \<in> set (pathEscape s)"
  then have "\<not> shouldEscape slash EncodePathSegment \<or> slash = CHR ''%''" by (rule set_escape) simp
  then show False by (simp add: shouldEscape_def url_chars)
qed

lemma pathEscape_nonempty: "s \<noteq> [] \<Longrightarrow> pathEscape s \<noteq> []"
  by (cases s) (auto simp: escape_def escape_char_def)

lemma upload_name_roundtrip:
  assumes "rel_name r" and "\<not> hasPrefix r ''..''"
  shows "uploadPath (path_base (pathEscape r)) = Ok r"
proof -
  have "path_base (pathEscape r) = pathEscape r"
    using path_base_plain pathEscape_no_slash pathEscape_nonempty rel_name_nonempty[OF assms(1)] by blast
  then show ?thesis using uploadPath_clean[OF assms] by (simp add: unescape_escape)
qed

section \<open>Files\<close>

text \<open>What is written for a file with a name relative to the directory of the request.\<close>

definition store :: "'w sys \<Rightarrow> string \<Rightarrow> string \<times> string \<Rightarrow> (unit, 'w) action" where
  "store S dst f =
     (let target = path_join dst (fst f) in
      bind (mkdirAll (os S) (path_dir target)) (\<lambda>_.
      bind (createFile (os S) target) (\<lambda>_.
      wrap ''write file (%s) failed: %w'' [fst f] (copyTo (os S) target (snd f)))))"

lemma writeMultipartFile_store:
  "uploadPath name = Ok r \<Longrightarrow> writeMultipartFile S dst (name, Ok content) = store S dst (r, content)"
  by (rule ext) (simp add: writeMultipartFile_def store_def bind_def Let_def)

lemma writeMultipartFile_refused:
  "uploadPath name = Err e \<Longrightarrow> writeMultipartFile S dst (name, src) w = (Err e, w)"
  by (simp add: writeMultipartFile_def bind_def)

lemma files_of_append: "files_of k (ps @ qs) = files_of k ps @ files_of k qs"
  by (induction k ps rule: files_of.induct) auto

lemma form_of_append: "form_of (ps @ qs) = form_of ps @ form_of qs"
  by (induction ps rule: form_of.induct) auto

lemma files_of_fields: "files_of k (map (\<lambda>(a, b). FieldPart a b) kv) = []"
  by (induction kv) auto

lemma form_of_fields: "form_of (map (\<lambda>(a, b). FieldPart a b) kv) = kv"
  by (induction kv) auto

lemma add_files_parts:
  "add_files S field fs w = Ok ps \<Longrightarrow>
   \<exists>cs. list_all2 (\<lambda>f c. readFile (os S) (uf_path f) w = Ok c) fs cs \<and>
     ps = map2 (\<lambda>f c. FilePart field (pathEscape (uf_rel f)) c) fs cs"
proof (induction fs arbitrary: ps)
  case Nil
  then show ?case by simp
next
  case (Cons f fs)
  then obtain c qs where c: "readFile (os S) (uf_path f) w = Ok c" and q: "add_files S field fs w = Ok qs"
    and ps: "ps = FilePart field (pathEscape (uf_rel f)) c # qs"
    by (auto simp: bind_res_eq_Ok addFileToWriter_def)
  from Cons.IH[OF q] obtain cs where
    "list_all2 (\<lambda>f c. readFile (os S) (uf_path f) w = Ok c) fs cs"
    "qs = map2 (\<lambda>f c. FilePart field (pathEscape (uf_rel f)) c) fs cs" by blast
  with c ps show ?case by (intro exI[of _ "c # cs"]) simp
qed

lemma files_of_file_parts:
  "length fs = length cs \<Longrightarrow>
   files_of k (map2 (\<lambda>f c. FilePart field (pathEscape (uf_rel f)) c) fs cs) =
     (if field = k then map2 (\<lambda>f c. (path_base (pathEscape (uf_rel f)), Ok c)) fs cs else [])"
  by (induction fs cs rule: list_induct2) auto

lemma form_of_file_parts:
  "length fs = length cs \<Longrightarrow> form_of (map2 (\<lambda>f c. FilePart field (pathEscape (uf_rel f)) c) fs cs) = []"
  by (induction fs cs rule: list_induct2) auto

lemma foreach_store:
  assumes "\<forall>f\<in>set fs. rel_name (uf_rel f) \<and> \<not> hasPrefix (uf_rel f) ''..''" and "length fs = length cs"
  shows "foreach (writeMultipartFile S dst) (map2 (\<lambda>f c. (path_base (pathEscape (uf_rel f)), Ok c)) fs cs) =
    foreach (store S dst) (map2 (\<lambda>f c. (uf_rel f, c)) fs cs)"
  using assms(2,1)
  by (induction fs cs rule: list_induct2)
     (simp_all add: writeMultipartFile_store[OF upload_name_roundtrip])

section \<open>The file list of the client\<close>

text \<open>A directory as it is walked: entries below it, named by their relative path.\<close>

definition entries_below :: "string \<Rightarrow> walk_event list \<Rightarrow> bool" where
  "entries_below d evs \<longleftrightarrow>
     (\<forall>ev\<in>set evs. case ev of
        WalkEntry p name isDir \<Rightarrow> isDir \<or> (\<exists>r. rel_name r \<and> p = path_join d r)
      | WalkErr e \<Rightarrow> False)"

lemma walk_uploads_below:
  assumes "clean_dir d"
  shows "entries_below d evs \<Longrightarrow> \<exists>out. walk_uploads d None evs = Ok out \<and>
    (\<forall>f\<in>set out. rel_name (uf_rel f) \<and> uf_path f = path_join d (uf_rel f)) \<and>
    uf_path ` set out = {p. \<exists>name. WalkEntry p name False \<in> set evs}"
proof (induction evs)
  case Nil
  then show ?case by simp
next
  case (Cons ev evs)
  then obtain out where out: "walk_uploads d None evs = Ok out"
    "\<forall>f\<in>set out. rel_name (uf_rel f) \<and> uf_path f = path_join d (uf_rel f)"
    "uf_path ` set out = {p. \<exists>name. WalkEntry p name False \<in> set evs}"
    by (auto simp: entries_below_def)
  obtain p name isDir where ev: "ev = WalkEntry p name isDir"
    using Cons.prems by (cases ev) (auto simp: entries_below_def)
  show ?case
  proof (cases isDir)
    case True
    with ev out show ?thesis by auto
  next
    case False
    then obtain r where r: "rel_name r" "p = path_join d r"
      using Cons.prems ev by (auto simp: entries_below_def)
    have "path_rel d p = Ok r" using path_rel_below[OF assms r(1)] r(2) by simp
    then have "walk_uploads d None (ev # evs) = Ok (\<lparr>uf_rel = r, uf_path = p\<rparr> # out)"
      using ev False out(1) by simp
    moreover have "uf_path ` set (\<lparr>uf_rel = r, uf_path = p\<rparr> # out) =
        {q. \<exists>name. WalkEntry q name False \<in> set (ev # evs)}"
      using out(3) ev False by auto
    ultimately show ?thesis using out(2) r by auto
  qed
qed

section \<open>From the client's directory to the server's\<close>

text \<open>
  A disk that is not full, seen as a map of its files: making a directory changes no file, a created
  file is empty and is filled by the copy.
\<close>

definition disk_doc :: "'w sys \<Rightarrow> ('w \<Rightarrow> string \<rightharpoonup> string) \<Rightarrow> bool" where
  "disk_doc S F \<longleftrightarrow>
     (\<forall>d w. \<exists>w1. mkdirAll (os S) d w = (Ok (), w1) \<and> F w1 = F w) \<and>
     (\<forall>f w. \<exists>w1. createFile (os S) f w = (Ok (), w1) \<and> F w1 = (F w)(f \<mapsto> '''')) \<and>
     (\<forall>f s w. \<exists>w1. copyTo (os S) f s w = (Ok (), w1) \<and> F w1 = (F w)(f \<mapsto> s))"

lemma store_doc:
  assumes "disk_doc S F"
  shows "\<exists>w1. store S dst f w = (Ok (), w1) \<and> F w1 = (F w)(path_join dst (fst f) \<mapsto> snd f)"
proof -
  let ?t = "path_join dst (fst f)"
  obtain w1 where 1: "mkdirAll (os S) (path_dir ?t) w = (Ok (), w1)" "F w1 = F w"
    using assms unfolding disk_doc_def by blast
  obtain w2 where 2: "createFile (os S) ?t w1 = (Ok (), w2)" "F w2 = (F w1)(?t \<mapsto> '''')"
    using assms unfolding disk_doc_def by blast
  obtain w3 where 3: "copyTo (os S) ?t (snd f) w2 = (Ok (), w3)" "F w3 = (F w2)(?t \<mapsto> snd f)"
    using assms unfolding disk_doc_def by blast
  show ?thesis using 1 2 3 by (simp add: store_def bind_def wrap_def Let_def)
qed

lemma foreach_store_doc:
  assumes "disk_doc S F"
  shows "\<exists>w1. foreach (store S dst) fs w = (Ok (), w1) \<and>
    F w1 = F w ++ map_of (rev (map (\<lambda>f. (path_join dst (fst f), snd f)) fs))"
proof (induction fs arbitrary: w)
  case Nil
  then show ?case by simp
next
  case (Cons f fs)
  obtain w1 where 1: "store S dst f w = (Ok (), w1)" "F w1 = (F w)(path_join dst (fst f) \<mapsto> snd f)"
    using store_doc[OF assms] by blast
  obtain w2 where "foreach (store S dst) fs w1 = (Ok (), w2)"
    "F w2 = F w1 ++ map_of (rev (map (\<lambda>f. (path_join dst (fst f), snd f)) fs))"
    using Cons by blast
  with 1 show ?case by (simp add: bind_def)
qed

text \<open>What the client finds in a directory: every file once, with its name below the directory.\<close>

lemma getFilesList_below:
  assumes d: "clean_dir d" and e: "entries_below d (walkDir (os S) d w)" and g: "getFilesList rx S d '''' w = Ok ms"
  shows "(\<forall>f\<in>set ms. rel_name (uf_rel f) \<and> uf_path f = path_join d (uf_rel f)) \<and>
    uf_path ` set ms = {p. \<exists>name. WalkEntry p name False \<in> set (walkDir (os S) d w)}"
proof -
  have a: "Abs S d w = Ok d" "d \<noteq> []" using d by (auto simp: clean_dir_def Abs_def isAbs_def)
  obtain out where "walk_uploads d None (walkDir (os S) d w) = Ok out"
    and o: "\<forall>f\<in>set out. rel_name (uf_rel f) \<and> uf_path f = path_join d (uf_rel f)"
      "uf_path ` set out = {p. \<exists>name. WalkEntry p name False \<in> set (walkDir (os S) d w)}"
    using walk_uploads_below[OF d e] by blast
  then have "ms = sort_key uf_rel out"
    using g a by (auto simp: getFilesList_def bind_res_def split: res.splits)
  then show ?thesis using o by simp
qed

text \<open>What the server stores is the client's list with the contents the client read.\<close>

lemma received_migrations:
  assumes "create_parts rx S q w = Ok parts"
    and "getFilesList rx S (cq_Migrations q) (cq_MigrationsRegex q) w = Ok ms"
    and "\<forall>f\<in>set ms. rel_name (uf_rel f) \<and> \<not> hasPrefix (uf_rel f) ''..''"
  shows "\<exists>cs. list_all2 (\<lambda>f c. readFile (os S) (uf_path f) w = Ok c) ms cs \<and>
    readMulipartFiles S' (received verb (Multipart parts)) ''migrations'' dst =
      foreach (store S' dst) (map2 (\<lambda>f c. (uf_rel f, c)) ms cs)"
proof -
  obtain fs mp fp where mp: "add_files S ''migrations'' ms w = Ok mp" and fp: "add_files S ''fixtures'' fs w = Ok fp"
    and parts: "parts = mp @ fp @ map (\<lambda>(k, v). FieldPart k v) (form_fields q)"
    using assms(1,2) by (auto simp: create_parts_def bind_res_def wrap_err_def split: res.splits)
  obtain cs where cs: "list_all2 (\<lambda>f c. readFile (os S) (uf_path f) w = Ok c) ms cs"
    and mpe: "mp = map2 (\<lambda>f c. FilePart ''migrations'' (pathEscape (uf_rel f)) c) ms cs"
    using add_files_parts[OF mp] by blast
  obtain ds where ds: "list_all2 (\<lambda>f c. readFile (os S) (uf_path f) w = Ok c) fs ds"
    and fpe: "fp = map2 (\<lambda>f c. FilePart ''fixtures'' (pathEscape (uf_rel f)) c) fs ds"
    using add_files_parts[OF fp] by blast
  have len: "length ms = length cs" "length fs = length ds" using cs ds by (auto dest: list_all2_lengthD)
  have "files_of ''migrations'' parts = map2 (\<lambda>f c. (path_base (pathEscape (uf_rel f)), Ok c)) ms cs"
    unfolding parts mpe fpe by (simp add: files_of_append files_of_fields files_of_file_parts len)
  then have "readMulipartFiles S' (received verb (Multipart parts)) ''migrations'' dst =
      foreach (store S' dst) (map2 (\<lambda>f c. (uf_rel f, c)) ms cs)"
    using foreach_store[OF assms(3) len(1), of S' dst] by (simp add: readMulipartFiles_def received_def)
  with cs show ?thesis by blast
qed

text \<open>The files of the client's directory, when none of its names starts with two dots.\<close>

definition upload_list :: "string \<Rightarrow> walk_event list \<Rightarrow> uploadFile list \<Rightarrow> bool" where
  "upload_list d evs ms \<longleftrightarrow>
     (\<forall>f\<in>set ms. rel_name (uf_rel f) \<and> \<not> hasPrefix (uf_rel f) ''..'' \<and> uf_path f = d @ ''/'' @ uf_rel f) \<and>
     uf_path ` set ms = {p. \<exists>name. WalkEntry p name False \<in> set evs}"

lemma upload_list_below:
  assumes d: "clean_dir d" and e: "entries_below d (walkDir (os S) d w)" and g: "getFilesList rx S d '''' w = Ok ms"
    and dots: "\<forall>p name. WalkEntry p name False \<in> set (walkDir (os S) d w) \<longrightarrow> \<not> hasPrefix p (d @ ''/..'')"
  shows "upload_list d (walkDir (os S) d w) ms"
proof -
  have ms: "\<forall>f\<in>set ms. rel_name (uf_rel f) \<and> uf_path f = path_join d (uf_rel f)"
    and all: "uf_path ` set ms = {p. \<exists>name. WalkEntry p name False \<in> set (walkDir (os S) d w)}"
    using getFilesList_below[OF d e g] by auto
  have "rel_name (uf_rel f) \<and> \<not> hasPrefix (uf_rel f) ''..'' \<and> uf_path f = d @ ''/'' @ uf_rel f" if f: "f \<in> set ms" for f
  proof -
    have p: "uf_path f = d @ ''/'' @ uf_rel f" using path_join_below[of d "uf_rel f"] d ms f by (simp add: clean_dir_def)
    have "\<exists>name. WalkEntry (uf_path f) name False \<in> set (walkDir (os S) d w)" using all f by blast
    then have "\<not> hasPrefix (d @ ''/'' @ uf_rel f) (d @ ''/..'')" using dots p by metis
    then show ?thesis using p ms f by (simp add: hasPrefix_def numeral_2_eq_2)
  qed
  with all show ?thesis by (simp add: upload_list_def)
qed

text \<open>Where the stored files are and what they hold.\<close>

lemma stored_at:
  assumes l: "upload_list d evs ms" and dst: "clean_dir dst"
    and cs: "list_all2 (\<lambda>f c. readFile (os S) (uf_path f) w = Ok c) ms cs"
    and F: "F1 = F0 ++ map_of (rev (map (\<lambda>f. (path_join dst (fst f), snd f)) (map2 (\<lambda>f c. (uf_rel f, c)) ms cs)))"
  shows "f \<in> set ms \<Longrightarrow> \<exists>c. readFile (os S) (uf_path f) w = Ok c \<and> F1 (dst @ ''/'' @ uf_rel f) = Some c"
    and "F1 t \<noteq> F0 t \<Longrightarrow> \<exists>f\<in>set ms. t = dst @ ''/'' @ uf_rel f"
proof -
  let ?m = "rev (map (\<lambda>f. (path_join dst (fst f), snd f)) (map2 (\<lambda>f c. (uf_rel f, c)) ms cs))"
  have at: "path_join dst (uf_rel f) = dst @ ''/'' @ uf_rel f" if "f \<in> set ms" for f
    using path_join_below[of dst "uf_rel f"] l dst that by (simp add: clean_dir_def upload_list_def)
  have mem: "\<exists>f\<in>set ms. t = dst @ ''/'' @ uf_rel f \<and> readFile (os S) (uf_path f) w = Ok c"
    if "map_of ?m t = Some c" for t c
    using map_of_SomeD[OF that] cs at by (auto simp: in_set_zip list_all2_conv_all_nth) (metis nth_mem)
  show "\<exists>c. readFile (os S) (uf_path f) w = Ok c \<and> F1 (dst @ ''/'' @ uf_rel f) = Some c" if f: "f \<in> set ms"
  proof -
    obtain i where i: "i < length ms" "ms ! i = f" using f by (auto simp: in_set_conv_nth)
    then have "(uf_rel f, cs ! i) \<in> set (map2 (\<lambda>f c. (uf_rel f, c)) ms cs)"
      using list_all2_lengthD[OF cs] by (auto simp: in_set_zip intro!: rev_image_eqI[of "(f, cs ! i)"])
    then have "(dst @ ''/'' @ uf_rel f, cs ! i) \<in> set ?m"
      unfolding at[OF f, symmetric] set_rev set_map by (rule rev_image_eqI) simp
    then obtain c where c: "map_of ?m (dst @ ''/'' @ uf_rel f) = Some c"
      by (cases "map_of ?m (dst @ ''/'' @ uf_rel f)") (force simp: map_of_eq_None_iff)+
    obtain h where h: "h \<in> set ms" "uf_rel f = uf_rel h" "readFile (os S) (uf_path h) w = Ok c"
      using mem[OF c] by auto
    then have "uf_path h = uf_path f" using l f by (simp add: upload_list_def)
    then show ?thesis using h(3) c F by (auto simp: map_add_Some_iff)
  qed
  show "\<exists>f\<in>set ms. t = dst @ ''/'' @ uf_rel f" if "F1 t \<noteq> F0 t"
    using that F mem by (cases "map_of ?m t") (auto simp: map_add_def)
qed

lemma upload_migrations:
  assumes parts: "create_parts rx S q w = Ok parts" and rx: "cq_MigrationsRegex q = ''''"
    and d: "clean_dir (cq_Migrations q)" "entries_below (cq_Migrations q) (walkDir (os S) (cq_Migrations q) w)"
    and dots: "\<forall>p name. WalkEntry p name False \<in> set (walkDir (os S) (cq_Migrations q) w) \<longrightarrow>
      \<not> hasPrefix p (cq_Migrations q @ ''/..'')"
    and disk: "disk_doc S' F" and dst: "clean_dir dst"
  shows "\<exists>w1. readMulipartFiles S' (received verb (Multipart parts)) ''migrations'' dst w' = (Ok (), w1) \<and>
    (\<forall>p name. WalkEntry p name False \<in> set (walkDir (os S) (cq_Migrations q) w) \<longrightarrow>
      (\<exists>r c. p = cq_Migrations q @ ''/'' @ r \<and> readFile (os S) p w = Ok c \<and> F w1 (dst @ ''/'' @ r) = Some c)) \<and>
    (\<forall>t. F w1 t \<noteq> F w' t \<longrightarrow> (\<exists>r name. t = dst @ ''/'' @ r \<and>
      WalkEntry (cq_Migrations q @ ''/'' @ r) name False \<in> set (walkDir (os S) (cq_Migrations q) w)))"
proof -
  let ?d = "cq_Migrations q" and ?evs = "walkDir (os S) (cq_Migrations q) w"
  obtain ms where g: "getFilesList rx S ?d (cq_MigrationsRegex q) w = Ok ms"
    using parts by (auto simp: create_parts_def bind_res_def wrap_err_def split: res.splits)
  have l: "upload_list ?d ?evs ms" by (rule upload_list_below[OF d g[unfolded rx] dots])
  have path: "uf_path f = ?d @ ''/'' @ uf_rel f" if "f \<in> set ms" for f using l that by (simp add: upload_list_def)
  have names: "\<forall>f\<in>set ms. rel_name (uf_rel f) \<and> \<not> hasPrefix (uf_rel f) ''..''" using l by (simp add: upload_list_def)
  have img: "uf_path ` set ms = {p. \<exists>name. WalkEntry p name False \<in> set ?evs}" using l unfolding upload_list_def by blast
  have every: "\<exists>name. WalkEntry (uf_path f) name False \<in> set ?evs" if "f \<in> set ms" for f
    using img that by blast
  have listed: "\<exists>f\<in>set ms. uf_path f = p" if "WalkEntry p name False \<in> set ?evs" for p name
    using img that by (metis (mono_tags, lifting) imageE mem_Collect_eq)
  obtain cs where cs: "list_all2 (\<lambda>f c. readFile (os S) (uf_path f) w = Ok c) ms cs"
    and rd: "readMulipartFiles S' (received verb (Multipart parts)) ''migrations'' dst =
      foreach (store S' dst) (map2 (\<lambda>f c. (uf_rel f, c)) ms cs)"
    using received_migrations[OF parts g, of S' verb dst] names by blast
  obtain w1 where w1: "foreach (store S' dst) (map2 (\<lambda>f c. (uf_rel f, c)) ms cs) w' = (Ok (), w1)"
    and F: "F w1 = F w' ++ map_of (rev (map (\<lambda>f. (path_join dst (fst f), snd f)) (map2 (\<lambda>f c. (uf_rel f, c)) ms cs)))"
    using foreach_store_doc[OF disk] by blast
  have "\<exists>r c. p = ?d @ ''/'' @ r \<and> readFile (os S) p w = Ok c \<and> F w1 (dst @ ''/'' @ r) = Some c"
    if "WalkEntry p name False \<in> set ?evs" for p name
    using listed[OF that] stored_at(1)[OF l dst cs F] path by fastforce
  moreover have "\<exists>r name. t = dst @ ''/'' @ r \<and> WalkEntry (?d @ ''/'' @ r) name False \<in> set ?evs"
    if "F w1 t \<noteq> F w' t" for t
    using stored_at(2)[OF l dst cs F that] every path by metis
  ultimately show ?thesis using rd w1 by auto
qed

end
