(* ===== verification/RedisPool.thy ===== *)
theory RedisPool
  imports Redis
begin

text \<open>
  What redis documents of the commands the program sends (\<open>redis_doc\<close>), what \<^verbatim>\<open>acquireDBIndex\<close>,
  \<^verbatim>\<open>CreateDB\<close> and \<^verbatim>\<open>RemoveDB\<close> do on such a server, and the interpretation of the pool contract
  on \<^verbatim>\<open>CreateDB\<close> and \<^verbatim>\<open>RemoveDB\<close>.
\<close>

section \<open>What redis documents\<close>

text \<open>The contents of the numbered databases, and the one each connection has selected.\<close>

record redis_view =
  rv_dbs :: "nat \<Rightarrow> string \<rightharpoonup> string"
  rv_sel :: "nat \<Rightarrow> nat"

text \<open>
  A server with \<open>n\<close> databases that is reached at \<open>uri\<close>: a connection starts in database 0;
  CONFIG GET reports \<open>n\<close>; SETNX sets a key that is not there and answers whether it did; SELECT of
  an index below \<open>n\<close> switches and any other is an error; FLUSHDB empties the selected database; DEL
  removes a key; a script is the sequence of its calls, and the database it selects is its own.
\<close>

definition no_index :: "nat \<Rightarrow> int \<Rightarrow> bool" where
  "no_index n i \<longleftrightarrow> i < 0 \<or> int n \<le> i"

definition redis_doc :: "'w sys \<Rightarrow> ('w \<Rightarrow> redis_view) \<Rightarrow> nat \<Rightarrow> string \<Rightarrow> bool" where
  "redis_doc S V n uri \<longleftrightarrow>
     (\<forall>w. \<exists>c w1. rd_dial (rds S) uri w = (Ok c, w1) \<and> rv_dbs (V w1) = rv_dbs (V w) \<and> rv_sel (V w1) c = 0) \<and>
     (\<forall>w c. rv_dbs (V (rd_close (rds S) c w)) = rv_dbs (V w)) \<and>
     (\<forall>w c. \<exists>w1. rd_do (rds S) c [''CONFIG'', ''GET'', ''databases''] w =
         (Ok (RArr [RBulk ''databases'', RBulk (formatUint n)]), w1) \<and> V w1 = V w) \<and>
     (\<forall>w c k v. \<exists>w1. rd_call (rds S) c [''SETNX'', k, v] w =
         (Ok (RInt (if rv_dbs (V w) (rv_sel (V w) c) k = None then 1 else 0)), w1) \<and>
         V w1 = (if rv_dbs (V w) (rv_sel (V w) c) k = None
                 then (V w)\<lparr>rv_dbs := (rv_dbs (V w))(rv_sel (V w) c :=
                        (rv_dbs (V w) (rv_sel (V w) c))(k \<mapsto> v))\<rparr>
                 else V w)) \<and>
     (\<forall>w c i. i < n \<longrightarrow> (\<exists>w1. rd_call (rds S) c [''SELECT'', formatUint i] w = (Ok (RStatus ''OK''), w1) \<and>
         V w1 = (V w)\<lparr>rv_sel := (rv_sel (V w))(c := i)\<rparr>)) \<and>
     (\<forall>w c i. no_index n i \<longrightarrow> (\<exists>t w1. rd_call (rds S) c [''SELECT'', itoa i] w = (Err (External t), w1) \<and>
         V w1 = V w)) \<and>
     (\<forall>w c. \<exists>w1. rd_call (rds S) c [''FLUSHDB''] w = (Ok (RStatus ''OK''), w1) \<and>
         V w1 = (V w)\<lparr>rv_dbs := (rv_dbs (V w))(rv_sel (V w) c := Map.empty)\<rparr>) \<and>
     (\<forall>w c k. \<exists>r w1. rd_call (rds S) c [''DEL'', k] w = (Ok r, w1) \<and>
         V w1 = (V w)\<lparr>rv_dbs := (rv_dbs (V w))(rv_sel (V w) c :=
                        (rv_dbs (V w) (rv_sel (V w) c))(k := None))\<rparr>) \<and>
     (\<forall>w c m. \<exists>w1. rd_script (rds S) c m w = (fst (m w), w1) \<and>
         V w1 = (V (snd (m w)))\<lparr>rv_sel := (rv_sel (V (snd (m w))))(c := rv_sel (V w) c)\<rparr>)"

lemma redis_docD:
  assumes "redis_doc S V n uri"
  shows redis_dial: "\<exists>c w1. rd_dial (rds S) uri w = (Ok c, w1) \<and> rv_dbs (V w1) = rv_dbs (V w) \<and> rv_sel (V w1) c = 0"
    and redis_close: "rv_dbs (V (rd_close (rds S) c w)) = rv_dbs (V w)"
    and redis_count: "\<exists>w1. rd_do (rds S) c [''CONFIG'', ''GET'', ''databases''] w =
         (Ok (RArr [RBulk ''databases'', RBulk (formatUint n)]), w1) \<and> V w1 = V w"
    and redis_setnx: "\<exists>w1. rd_call (rds S) c [''SETNX'', k, v] w =
         (Ok (RInt (if rv_dbs (V w) (rv_sel (V w) c) k = None then 1 else 0)), w1) \<and>
         V w1 = (if rv_dbs (V w) (rv_sel (V w) c) k = None
                 then (V w)\<lparr>rv_dbs := (rv_dbs (V w))(rv_sel (V w) c :=
                        (rv_dbs (V w) (rv_sel (V w) c))(k \<mapsto> v))\<rparr>
                 else V w)"
    and redis_select: "i < n \<Longrightarrow> \<exists>w1. rd_call (rds S) c [''SELECT'', formatUint i] w = (Ok (RStatus ''OK''), w1) \<and>
         V w1 = (V w)\<lparr>rv_sel := (rv_sel (V w))(c := i)\<rparr>"
    and redis_select_bad: "no_index n j \<Longrightarrow> \<exists>t w1. rd_call (rds S) c [''SELECT'', itoa j] w = (Err (External t), w1) \<and>
         V w1 = V w"
    and redis_flushdb: "\<exists>w1. rd_call (rds S) c [''FLUSHDB''] w = (Ok (RStatus ''OK''), w1) \<and>
         V w1 = (V w)\<lparr>rv_dbs := (rv_dbs (V w))(rv_sel (V w) c := Map.empty)\<rparr>"
    and redis_del: "\<exists>r w1. rd_call (rds S) c [''DEL'', k] w = (Ok r, w1) \<and>
         V w1 = (V w)\<lparr>rv_dbs := (rv_dbs (V w))(rv_sel (V w) c :=
                        (rv_dbs (V w) (rv_sel (V w) c))(k := None))\<rparr>"
    and redis_script: "\<exists>w1. rd_script (rds S) c m w = (fst (m w), w1) \<and>
         V w1 = (V (snd (m w)))\<lparr>rv_sel := (rv_sel (V (snd (m w))))(c := rv_sel (V w) c)\<rparr>"
  using assms unfolding redis_doc_def by simp_all

section \<open>The number of databases\<close>

text \<open>Whatever the server answers, the count is at least two, so that there is an index to hand out.\<close>

lemma databaseCount_ge: "databaseCount S conn w = (Ok n, w1) \<Longrightarrow> 2 \<le> n"
  by (auto simp: databaseCount_def try_catch_def rs_defaultDatabaseCount_def
      split: prod.splits res.splits if_splits)

lemma databaseCount_no_Err: "databaseCount S conn w \<noteq> (Err e, w1)"
  by (auto simp: databaseCount_def try_catch_def split: prod.splits res.splits if_splits)

lemma databaseCount_doc:
  assumes "redis_doc S V n uri" and "2 \<le> n" and "n < 2 ^ 63"
  shows "\<exists>w1. databaseCount S conn w = (Ok (int n), w1) \<and> V w1 = V w"
proof -
  obtain w1 where d: "rd_do (rds S) conn [''CONFIG'', ''GET'', ''databases''] w =
      (Ok (RArr [RBulk ''databases'', RBulk (formatUint n)]), w1)" and v: "V w1 = V w"
    using redis_count[OF assms(1)] by blast
  have b: "bind (rd_do (rds S) conn [''CONFIG'', ''GET'', ''databases'']) (lift_res \<circ> redigo_Strings) w =
      (Ok [''databases'', formatUint n], w1)"
    using d by (simp add: bind_def redigo_Strings_def)
  show ?thesis
    using b assms(2,3) v by (simp add: databaseCount_def try_catch_def atoi_formatUint)
qed

section \<open>Handing out an index\<close>

text \<open>The indexes marked as handed out.\<close>

definition index_key :: "nat \<Rightarrow> string" where
  "index_key i = indexKeyPrefix @ formatUint i"

definition claimed_in :: "redis_view \<Rightarrow> nat set" where
  "claimed_in v = {i. rv_dbs v 0 (index_key i) \<noteq> None}"

lemma index_key_inj [simp]: "index_key i = index_key j \<longleftrightarrow> i = j"
  using formatUint_inj by (auto simp: index_key_def)

text \<open>The databases after index \<open>i\<close> was handed out, and after it was given back.\<close>

definition claim_db :: "nat \<Rightarrow> (nat \<Rightarrow> string \<rightharpoonup> string) \<Rightarrow> nat \<Rightarrow> string \<rightharpoonup> string" where
  "claim_db i dbs = dbs(0 := (dbs 0)(index_key i \<mapsto> ''1''), i := Map.empty)"

definition release_db :: "nat \<Rightarrow> (nat \<Rightarrow> string \<rightharpoonup> string) \<Rightarrow> nat \<Rightarrow> string \<rightharpoonup> string" where
  "release_db i dbs = dbs(0 := (dbs 0)(index_key i := None), i := Map.empty)"

lemma claimed_claim_db: "0 < i \<Longrightarrow> claimed_in (v\<lparr>rv_dbs := claim_db i dbs, rv_sel := s\<rparr>) =
    insert i (claimed_in (v\<lparr>rv_dbs := dbs\<rparr>))"
  by (auto simp: claimed_in_def claim_db_def)

lemma claimed_release_db: "0 < i \<Longrightarrow> claimed_in (v\<lparr>rv_dbs := release_db i dbs, rv_sel := s\<rparr>) =
    claimed_in (v\<lparr>rv_dbs := dbs\<rparr>) - {i}"
  by (auto simp: claimed_in_def release_db_def)

lemma claimed_dbs: "rv_dbs v = rv_dbs v' \<Longrightarrow> claimed_in v = claimed_in v'"
  by (simp add: claimed_in_def)

lemma SETNX_taken:
  assumes doc: "redis_doc S V n uri" and "rv_sel (V w) c = 0" and "i \<in> claimed_in (V w)"
  shows "\<exists>w1. acquire_script S c indexKeyPrefix (i # is) w = acquire_script S c indexKeyPrefix is w1 \<and> V w1 = V w"
proof -
  obtain w1 where "rd_call (rds S) c [''SETNX'', indexKeyPrefix @ formatUint i, ''1''] w = (Ok (RInt 0), w1)"
    and "V w1 = V w"
    using redis_setnx[OF doc, of c "indexKeyPrefix @ formatUint i" "''1''" w] assms(2,3)
    by (auto simp: claimed_in_def index_key_def)
  then show ?thesis by (auto simp: bind_def)
qed

lemma acquire_script_full:
  assumes doc: "redis_doc S V n uri"
  shows "rv_sel (V w) c = 0 \<Longrightarrow> set is \<subseteq> claimed_in (V w) \<Longrightarrow>
    \<exists>w1. acquire_script S c indexKeyPrefix is w = (Ok (RInt (-1)), w1) \<and> V w1 = V w"
proof (induction "is" arbitrary: w)
  case Nil
  then show ?case by simp
next
  case (Cons i "is")
  obtain w1 where "acquire_script S c indexKeyPrefix (i # is) w = acquire_script S c indexKeyPrefix is w1"
    and v: "V w1 = V w"
    using SETNX_taken[OF doc Cons.prems(1), of i "is"] Cons.prems(2) by auto
  with Cons.IH[of w1] Cons.prems show ?case by simp
qed

lemma acquire_script_free:
  assumes doc: "redis_doc S V n uri" and "0 < i" and "i < n"
  shows "rv_sel (V w) c = 0 \<Longrightarrow> set pre \<subseteq> claimed_in (V w) \<Longrightarrow> i \<notin> claimed_in (V w) \<Longrightarrow>
    \<exists>w1. acquire_script S c indexKeyPrefix (pre @ i # post) w = (Ok (RInt (int i)), w1) \<and>
      rv_dbs (V w1) = claim_db i (rv_dbs (V w))"
proof (induction pre arbitrary: w)
  case (Cons j pre)
  obtain w1 where "acquire_script S c indexKeyPrefix ((j # pre) @ i # post) w =
      acquire_script S c indexKeyPrefix (pre @ i # post) w1" and v: "V w1 = V w"
    using SETNX_taken[OF doc Cons.prems(1), of j "pre @ i # post"] Cons.prems(2) by auto
  with Cons.IH[of w1] Cons.prems show ?case by simp
next
  case Nil
  obtain w1 where s: "rd_call (rds S) c [''SETNX'', indexKeyPrefix @ formatUint i, ''1''] w = (Ok (RInt 1), w1)"
    and v1: "V w1 = (V w)\<lparr>rv_dbs := (rv_dbs (V w))(0 := (rv_dbs (V w) 0)(index_key i \<mapsto> ''1''))\<rparr>"
    using redis_setnx[OF doc, of c "indexKeyPrefix @ formatUint i" "''1''" w] Nil
    by (auto simp: claimed_in_def index_key_def)
  obtain w2 where sel: "rd_call (rds S) c [''SELECT'', formatUint i] w1 = (Ok (RStatus ''OK''), w2)"
    and v2: "V w2 = (V w1)\<lparr>rv_sel := (rv_sel (V w1))(c := i)\<rparr>"
    using redis_select[OF doc assms(3)] by blast
  obtain w3 where fl: "rd_call (rds S) c [''FLUSHDB''] w2 = (Ok (RStatus ''OK''), w3)"
    and v3: "V w3 = (V w2)\<lparr>rv_dbs := (rv_dbs (V w2))(rv_sel (V w2) c := Map.empty)\<rparr>"
    using redis_flushdb[OF doc] by blast
  obtain w4 where s0: "rd_call (rds S) c [''SELECT'', formatUint 0] w3 = (Ok (RStatus ''OK''), w4)"
    and v4: "V w4 = (V w3)\<lparr>rv_sel := (rv_sel (V w3))(c := 0)\<rparr>"
    using redis_select[OF doc, of 0] assms(3) by auto

  have "acquire_script S c indexKeyPrefix ([] @ i # post) w = (Ok (RInt (int i)), w4)"
    using s sel fl s0 unfolding formatUint_0 by (simp add: bind_def)
  moreover have "rv_dbs (V w4) = claim_db i (rv_dbs (V w))"
    using v1 v2 v3 v4 assms(2) by (simp add: claim_db_def)
  ultimately show ?case by blast
qed

text \<open>The least index that is not marked.\<close>

definition first_free :: "nat \<Rightarrow> redis_view \<Rightarrow> nat option" where
  "first_free n v = List.find (\<lambda>i. i \<notin> claimed_in v) [1..<n]"

lemma first_free_None: "first_free n v = None \<longleftrightarrow> {0<..<n} \<subseteq> claimed_in v"
  by (auto simp: first_free_def find_None_iff)

lemma first_free_Some:
  "first_free n v = Some i \<longleftrightarrow> 0 < i \<and> i < n \<and> i \<notin> claimed_in v \<and> {0<..<i} \<subseteq> claimed_in v"
proof
  assume "first_free n v = Some i"
  then obtain k where k: "k < length [1..<n]" "[1..<n] ! k \<notin> claimed_in v" "i = [1..<n] ! k"
    "\<forall>j<k. [1..<n] ! j \<in> claimed_in v"
    unfolding first_free_def by (auto simp: find_Some_iff)
  have "j \<in> claimed_in v" if "0 < j" "j < i" for j
  proof -
    from k have i: "i = 1 + k" "k < n - 1" by auto
    have "[1..<n] ! (j - 1) = j" using that i by (subst nth_upt) auto
    moreover have "j - 1 < k" using that i by auto
    ultimately show ?thesis using k(4) by metis
  qed
  then show "0 < i \<and> i < n \<and> i \<notin> claimed_in v \<and> {0<..<i} \<subseteq> claimed_in v" using k by auto
next
  assume "0 < i \<and> i < n \<and> i \<notin> claimed_in v \<and> {0<..<i} \<subseteq> claimed_in v"
  then show "first_free n v = Some i"
    unfolding first_free_def find_Some_iff by (intro exI[of _ "i - 1"]) auto
qed

lemma acquireDBIndex_doc:
  assumes doc: "redis_doc S V n uri" and n: "2 \<le> n" "n < 2 ^ 63" and sel: "rv_sel (V w) c = 0"
  shows "\<exists>w1. acquireDBIndex S c w =
      (case first_free n (V w) of
         Some i \<Rightarrow> Ok (int i)
       | None \<Rightarrow> Err (Errorf ''no free redis database left, all %d indexes of this instance are in use, remove the databases you no longer need''
           [itoa (int n - 1)]), w1) \<and>
    rv_dbs (V w1) = (case first_free n (V w) of Some i \<Rightarrow> claim_db i (rv_dbs (V w)) | None \<Rightarrow> rv_dbs (V w))"
proof -
  obtain w0 where cnt: "databaseCount S c w = (Ok (int n), w0)" and v0: "V w0 = V w"
    using databaseCount_doc[OF doc n] by blast
  let ?m = "acquire_script S c indexKeyPrefix [1..<n]"
  obtain w2 where scr: "rd_script (rds S) c ?m w0 = (fst (?m w0), w2)"
    and v2: "rv_dbs (V w2) = rv_dbs (V (snd (?m w0)))"
    using redis_script[OF doc, of c ?m w0] by auto
  show ?thesis
  proof (cases "first_free n (V w)")
    case None
    then have "set [1..<n] \<subseteq> claimed_in (V w0)" using v0 by (auto simp: first_free_None)
    then obtain w1 where "?m w0 = (Ok (RInt (-1)), w1)" "V w1 = V w0"
      using acquire_script_full[OF doc, of w0 c "[1..<n]"] sel v0 by auto
    then show ?thesis using None cnt scr v2 v0
      by (auto simp: acquireDBIndex_def bind_def redigo_Int_def)
  next
    case (Some i)
    then have i: "0 < i" "i < n" "i \<notin> claimed_in (V w0)" "{0<..<i} \<subseteq> claimed_in (V w0)"
      using v0 by (auto simp: first_free_Some)
    have "[1..<n] = [1..<i] @ i # [Suc i..<n]"
      using i upt_add_eq_append[of 1 i "n - i"] upt_conv_Cons[of i n] by simp
    moreover have "set [1..<i] \<subseteq> claimed_in (V w0)" using i(4) by auto
    ultimately obtain w1 where "?m w0 = (Ok (RInt (int i)), w1)"
      "rv_dbs (V w1) = claim_db i (rv_dbs (V w0))"
      using acquire_script_free[OF doc i(1,2), of w0 c "[1..<i]" "[Suc i..<n]"] sel v0 i(3) by auto
    then show ?thesis using Some cnt scr v2 v0
      by (auto simp: acquireDBIndex_def bind_def redigo_Int_def)
  qed
qed

section \<open>Addresses\<close>

text \<open>The address of index \<open>i\<close> as it is handed to a client.\<close>

definition rs_db_uri :: "Redis \<Rightarrow> nat \<Rightarrow> string" where
  "rs_db_uri p i = url_string (db_uri ''redis'' (rs_userInfo (rs_cfg p)) ''localhost''
     (unat (rs_port (rs_cfg p))) (formatUint i) '''')"

lemma redis_uri_ok:
  "uri_ok ''redis'' ''localhost'' (formatUint i) ''''" "uri_ok ''redis'' docker_host (formatUint i) ''''"
proof -
  obtain c s where cs: "formatUint i = c # s" "is_digit c" using formatUint_head by blast
  then have h: "hd (formatUint i) \<noteq> CHR ''/''" using is_digit_not by auto
  have sc: "\<forall>c\<in>set ''redis''. is_alpha c" "toLower ''redis'' = ''redis''" by code_simp+
  have "\<forall>c\<in>set ''localhost''. host_char c" "\<forall>c\<in>set docker_host. host_char c" by code_simp+
  then show "uri_ok ''redis'' ''localhost'' (formatUint i) ''''" "uri_ok ''redis'' docker_host (formatUint i) ''''"
    unfolding uri_ok_def using h sc by (simp_all add: docker_host_def)
qed

lemma rs_URI_db:
  "rs_dbIndex (rs_cfg p) = int i \<Longrightarrow>
   rs_URI S p w = url_string (db_uri ''redis'' (rs_userInfo (rs_cfg p)) (rs_addr S w)
     (unat (rs_port (rs_cfg p))) (formatUint i) '''')"
  by (simp add: rs_URI_def db_uri_def joinHostPort_def rs_addr_def itoa_def empty_url_def)

text \<open>No part of the credentials looks like the name of the docker host.\<close>

definition plain_user :: "Redis \<Rightarrow> bool" where
  "plain_user p \<longleftrightarrow> \<not> contains (user_text (rs_userInfo (rs_cfg p))) docker_host"

lemma rs_hostURI_db:
  assumes "rs_dbIndex (rs_cfg p) = int i" and "plain_user p"
  shows "rs_hostURI S w (rs_URI S p w) = rs_db_uri p i"
proof (cases "inside_docker S w")
  case True
  have d: "\<forall>c\<in>set (formatUint i). is_digit c" by (rule formatUint_digits)
  have "\<forall>c\<in>set (formatUint i). \<not> shouldEscape c EncodePath"
    using d by (simp add: shouldEscape_def is_alnum_def is_digit_def Let_def)
  then have "path_text (formatUint i) = formatUint i"
    by (simp add: path_text_def escape_unreserved)
  then have "\<not> contains (tail_text (formatUint i) '''') docker_host"
    using no_docker_host[of "formatUint i"] d by (simp add: tail_text_def)
  moreover have "\<not> contains ''redis'' docker_host" by (simp add: docker_host_def)
  ultimately show ?thesis
    using True url_string_replace_host[OF redis_uri_ok(2,1), of "rs_userInfo (rs_cfg p)" i] assms(2)
    unfolding rs_URI_db[OF assms(1)] rs_db_uri_def plain_user_def
    by (simp add: rs_hostURI_def rs_addr_def docker_host_def)
next
  case False
  then show ?thesis
    by (simp add: rs_hostURI_def rs_URI_db[OF assms(1)] rs_addr_def rs_db_uri_def)
qed

lemma rs_uri_index_db: "i < 2 ^ 63 \<Longrightarrow> rs_uri_index (rs_db_uri p i) = Ok (int i)"
  unfolding rs_uri_index_def rs_db_uri_def url_parse_db_uri[OF redis_uri_ok(1)]
  by (simp add: trimPrefix_def hasPrefix_def atoi_formatUint)

section \<open>What the server leaves alone\<close>

text \<open>\<open>P\<close> is about a part of the world that the redis client does not touch.\<close>

definition quiet_rd :: "'w sys \<Rightarrow> ('w \<Rightarrow> bool) \<Rightarrow> bool" where
  "quiet_rd S P \<longleftrightarrow>
     (\<forall>u. preserves P (rd_dial (rds S) u)) \<and> (\<forall>c w. P w \<longrightarrow> P (rd_close (rds S) c w)) \<and>
     (\<forall>c as. preserves P (rd_do (rds S) c as)) \<and> (\<forall>c as. preserves P (rd_call (rds S) c as)) \<and>
     (\<forall>c m. preserves P m \<longrightarrow> preserves P (rd_script (rds S) c m)) \<and> (\<forall>c s. preserves P (rd_eval (rds S) c s))"

lemma quiet_acquire_script: "quiet_rd S P \<Longrightarrow> preserves P (acquire_script S c k is)"
  by (induction "is") (auto intro!: keeps simp: quiet_rd_def)

lemma quiet_acquireDBIndex:
  assumes q: "quiet_rd S P"
  shows "preserves P (acquireDBIndex S c)"
proof -
  have d: "preserves P (rd_do (rds S) c as)" for as using q by (simp add: quiet_rd_def)
  have s: "preserves P m \<Longrightarrow> preserves P (rd_script (rds S) c m)" for m using q by (simp add: quiet_rd_def)
  show ?thesis
    unfolding acquireDBIndex_def databaseCount_def comp_def
    by (intro keeps d s quiet_acquire_script[OF q])
qed

section \<open>Creating and removing\<close>

text \<open>The configured server is up, with \<open>n\<close> databases.\<close>

definition rs_ready :: "'w sys \<Rightarrow> ('w \<Rightarrow> redis_view) \<Rightarrow> nat \<Rightarrow> Redis \<Rightarrow> bool" where
  "rs_ready S V n p \<longleftrightarrow>
     (\<exists>uri. redis_doc S V n uri \<and> (\<forall>w. rs_adminURI S p w = uri)) \<and> 2 \<le> n \<and> n < 2 ^ 63 \<and> plain_user p"

lemma rs_dial_ready:
  assumes "rs_ready S V n p"
  shows "\<exists>c w1. rd_dial (rds S) (rs_adminURI S p w) w = (Ok c, w1) \<and>
    rv_dbs (V w1) = rv_dbs (V w) \<and> rv_sel (V w1) c = 0"
  using assms redis_dial unfolding rs_ready_def by metis

definition rs_db_of :: "Redis \<Rightarrow> nat \<Rightarrow> Redis" where
  "rs_db_of p i = \<lparr>rs_containerID = '''', rs_cfg = rs_default\<lparr>rs_user := rs_user (rs_cfg p),
     rs_pass := rs_pass (rs_cfg p), rs_port := rs_port (rs_cfg p), rs_dbIndex := int i\<rparr>\<rparr>"

lemma rs_New_db:
  "rs_New [rs_WithHost (rs_user (rs_cfg p)) (rs_pass (rs_cfg p)) (int i) (rs_port (rs_cfg p))] w =
     Ok (rs_db_of p i)"
  by (simp add: rs_New_def rs_WithHost_def rs_db_of_def)

lemma rs_db_of_uri: "plain_user p \<Longrightarrow> rs_hostURI S w (rs_URI S (rs_db_of p i) w) = rs_db_uri p i"
proof -
  assume a: "plain_user p"
  have e: "rs_userInfo (rs_cfg (rs_db_of p i)) = rs_userInfo (rs_cfg p)"
    by (simp add: rs_db_of_def rs_userInfo_def)
  then have "plain_user (rs_db_of p i)" using a by (simp add: plain_user_def)
  moreover have "rs_dbIndex (rs_cfg (rs_db_of p i)) = int i" by (simp add: rs_db_of_def)
  ultimately have "rs_hostURI S w (rs_URI S (rs_db_of p i) w) = rs_db_uri (rs_db_of p i) i"
    by (intro rs_hostURI_db)
  then show ?thesis using e by (simp add: rs_db_uri_def rs_db_of_def)
qed

text \<open>There is no fixture file for the request: it names no directory, or one without files.\<close>

definition no_fixtures :: "'w sys \<Rightarrow> CreateDBRequest option \<Rightarrow> 'w \<Rightarrow> bool" where
  "no_fixtures S req w \<longleftrightarrow>
     (case req of
        Some rq \<Rightarrow> rs_getFiles S (rq_Fixtures rq) w = Ok [] \<and> quiet_rd S (\<lambda>w. rs_getFiles S (rq_Fixtures rq) w = Ok [])
      | None \<Rightarrow> True)"

definition err_full :: "nat \<Rightarrow> go_error" where
  "err_full n = Errorf ''no free redis database left, all %d indexes of this instance are in use, remove the databases you no longer need''
     [itoa (int n - 1)]"

definition rs_create_result :: "Redis \<Rightarrow> nat \<Rightarrow> redis_view \<Rightarrow> string res" where
  "rs_create_result p n v = (case first_free n v of Some i \<Rightarrow> Ok (rs_db_uri p i) | None \<Rightarrow> Err (err_full n))"

definition claim_first :: "nat \<Rightarrow> redis_view \<Rightarrow> nat \<Rightarrow> string \<rightharpoonup> string" where
  "claim_first n v = (case first_free n v of Some i \<Rightarrow> claim_db i (rv_dbs v) | None \<Rightarrow> rv_dbs v)"

lemma rs_CreateDB_doc:
  assumes r: "rs_ready S V n p" and nf: "no_fixtures S req w"
  shows "\<exists>w1. rs_CreateDB S p req w = (rs_create_result p n (V w), w1) \<and> rv_dbs (V w1) = claim_first n (V w)"
proof -
  obtain uri where doc: "redis_doc S V n uri" and n: "2 \<le> n" "n < 2 ^ 63" and pu: "plain_user p"
    using r by (auto simp: rs_ready_def)
  obtain c w1 where d: "rd_dial (rds S) (rs_adminURI S p w) w = (Ok c, w1)"
    and v1: "rv_dbs (V w1) = rv_dbs (V w)" "rv_sel (V w1) c = 0"
    using rs_dial_ready[OF r] by blast
  have ff: "first_free n (V w1) = first_free n (V w)"
    using claimed_dbs[OF v1(1)] by (simp add: first_free_def)
  obtain w2 where a: "acquireDBIndex S c w1 =
      (case first_free n (V w) of Some i \<Rightarrow> Ok (int i) | None \<Rightarrow> Err (err_full n), w2)"
    and v2: "rv_dbs (V w2) = claim_first n (V w)"
    using acquireDBIndex_doc[OF doc n v1(2)] unfolding ff v1(1) claim_first_def err_full_def by blast
  have cl: "rv_dbs (V (rd_close (rds S) c w2)) = rv_dbs (V w2)" by (rule redis_close[OF doc])
  have "no_fixtures S req w2"
  proof (cases req)
    case (Some rq)
    let ?P = "\<lambda>w. rs_getFiles S (rq_Fixtures rq) w = Ok []"
    have q: "quiet_rd S ?P" "?P w" using nf Some by (simp_all add: no_fixtures_def)
    have "?P w1" using q preservesD[of ?P "rd_dial (rds S) (rs_adminURI S p w)" w] d by (simp add: quiet_rd_def)
    then have "?P w2" using preservesD[OF quiet_acquireDBIndex[OF q(1)], of w1 c] a by simp
    then show ?thesis using q Some by (simp add: no_fixtures_def)
  qed (simp add: no_fixtures_def)
  then have f: "(case req of
             Some rq \<Rightarrow>
               if rq_Fixtures rq \<noteq> '''' then
                 bind (wrap ''read fixtures failed: %w'' [] (ask (rs_getFiles S (rq_Fixtures rq)))) (\<lambda>files.
                 \<lambda>w. rs_applyFixturesTo S (rs_URI S newDB w) files w)
               else ret ()
           | None \<Rightarrow> ret ()) w2 = (Ok (), w2)" for newDB
    by (auto simp: no_fixtures_def bind_def wrap_def rs_applyFixturesTo_def split: option.splits)
  show ?thesis
    unfolding rs_CreateDB_def rs_create_result_def
    using d a v2 cl pu f
    by (cases "first_free n (V w)") (auto simp: bind_def with_defer_def rs_New_db rs_db_of_uri)
qed

lemma rs_RemoveDB_doc:
  assumes r: "rs_ready S V n p" and i: "0 < i" "i < n" and u: "rs_uri_index uri = Ok (int i)"
  shows "\<exists>w1. rs_RemoveDB S p uri w = (Ok (), w1) \<and> rv_dbs (V w1) = release_db i (rv_dbs (V w))"
proof -
  obtain a where doc: "redis_doc S V n a" and n: "2 \<le> n" "n < 2 ^ 63"
    using r by (auto simp: rs_ready_def)
  obtain c w1 where d: "rd_dial (rds S) (rs_adminURI S p w) w = (Ok c, w1)"
    and v1: "rv_dbs (V w1) = rv_dbs (V w)" "rv_sel (V w1) c = 0"
    using rs_dial_ready[OF r] by blast
  obtain w2 where s: "rd_call (rds S) c [''SELECT'', formatUint i] w1 = (Ok (RStatus ''OK''), w2)"
    and v2: "V w2 = (V w1)\<lparr>rv_sel := (rv_sel (V w1))(c := i)\<rparr>"
    using redis_select[OF doc i(2)] by blast
  obtain w3 where f: "rd_call (rds S) c [''FLUSHDB''] w2 = (Ok (RStatus ''OK''), w3)"
    and v3: "V w3 = (V w2)\<lparr>rv_dbs := (rv_dbs (V w2))(rv_sel (V w2) c := Map.empty)\<rparr>"
    using redis_flushdb[OF doc] by blast
  obtain w4 where s0: "rd_call (rds S) c [''SELECT'', formatUint 0] w3 = (Ok (RStatus ''OK''), w4)"
    and v4: "V w4 = (V w3)\<lparr>rv_sel := (rv_sel (V w3))(c := 0)\<rparr>"
    using redis_select[OF doc, of 0] n by auto
  obtain rd w5 where dl: "rd_call (rds S) c [''DEL'', index_key i] w4 = (Ok rd, w5)"
    and v5: "V w5 = (V w4)\<lparr>rv_dbs := (rv_dbs (V w4))(rv_sel (V w4) c :=
                        (rv_dbs (V w4) (rv_sel (V w4) c))(index_key i := None))\<rparr>"
    using redis_del[OF doc] by blast
  let ?m = "release_script S c (int i) indexKeyPrefix"
  have m: "?m w1 = (Ok RNil, w5)"
    using s f s0 dl unfolding formatUint_0
    by (simp add: release_script_def bind_def itoa_def index_key_def)
  obtain w6 where sc: "rd_script (rds S) c ?m w1 = (Ok RNil, w6)" and v6: "rv_dbs (V w6) = rv_dbs (V w5)"
    using redis_script[OF doc, of c ?m w1] m by auto
  have "rv_dbs (V (rd_close (rds S) c w6)) = rv_dbs (V w6)" by (rule redis_close[OF doc])
  then have "rv_dbs (V (rd_close (rds S) c w6)) = release_db i (rv_dbs (V w))"
    using v1 v2 v3 v4 v5 v6 i(1) by (simp add: release_db_def fun_upd_twist)
  then show ?thesis
    using u d sc i(1) by (simp add: rs_RemoveDB_def bind_def with_defer_def try_catch_def)
qed

text \<open>Index 0 is left alone, without even a connection; an index the server does not have is refused.\<close>

lemma rs_RemoveDB_zero: "rs_uri_index uri = Ok 0 \<Longrightarrow> rs_RemoveDB S p uri w = (Ok (), w)"
  by (simp add: rs_RemoveDB_def bind_def)

lemma rs_RemoveDB_bad:
  assumes r: "rs_ready S V n p" and i: "no_index n i" and u: "rs_uri_index uri = Ok i"
  shows "\<exists>e w1. rs_RemoveDB S p uri w = (Err e, w1) \<and> rv_dbs (V w1) = rv_dbs (V w)"
proof -
  obtain a where doc: "redis_doc S V n a" and n: "2 \<le> n" using r by (auto simp: rs_ready_def)
  obtain c w1 where d: "rd_dial (rds S) (rs_adminURI S p w) w = (Ok c, w1)"
    and v1: "rv_dbs (V w1) = rv_dbs (V w)" using rs_dial_ready[OF r] by blast
  obtain t w2 where s: "rd_call (rds S) c [''SELECT'', itoa i] w1 = (Err (External t), w2)" and v2: "V w2 = V w1"
    using redis_select_bad[OF doc i] by blast
  let ?m = "release_script S c i indexKeyPrefix"
  have m: "?m w1 = (Err (External t), w2)" using s by (simp add: release_script_def bind_def)
  obtain w3 where sc: "rd_script (rds S) c ?m w1 = (Err (External t), w3)" and v3: "rv_dbs (V w3) = rv_dbs (V w2)"
    using redis_script[OF doc, of c ?m w1] m by auto
  have "rv_dbs (V (rd_close (rds S) c w3)) = rv_dbs (V w3)" by (rule redis_close[OF doc])
  moreover have "i \<noteq> 0" using i n by (auto simp: no_index_def)
  ultimately show ?thesis
    using u d sc v1 v2 v3
    by (simp add: rs_RemoveDB_def bind_def with_defer_def try_catch_def redis_ErrNil_def)
qed

section \<open>The pool contract\<close>

definition pool_acquire :: "'w sys \<times> ('w \<Rightarrow> redis_view) \<times> nat \<times> Redis \<Rightarrow> (nat, 'w) action" where
  "pool_acquire e = (case e of (S, V, n, p) \<Rightarrow>
     bind (rs_CreateDB S p None) (\<lambda>uri. lift_res (bind_res (rs_uri_index uri) (\<lambda>i. Ok (nat i)))))"

definition pool_release :: "'w sys \<times> ('w \<Rightarrow> redis_view) \<times> nat \<times> Redis \<Rightarrow> nat \<Rightarrow> (unit, 'w) action" where
  "pool_release e i = (case e of (S, V, n, p) \<Rightarrow> rs_RemoveDB S p (rs_db_uri p i))"

definition pool_ok :: "'w sys \<times> ('w \<Rightarrow> redis_view) \<times> nat \<times> Redis \<Rightarrow> 'w \<Rightarrow> bool" where
  "pool_ok e w = (case e of (S, V, n, p) \<Rightarrow> rs_ready S V n p)"

definition pool_claimed :: "'w sys \<times> ('w \<Rightarrow> redis_view) \<times> nat \<times> Redis \<Rightarrow> 'w \<Rightarrow> nat set" where
  "pool_claimed e w = (case e of (S, V, n, p) \<Rightarrow> claimed_in (V w))"

definition pool_cap :: "'w sys \<times> ('w \<Rightarrow> redis_view) \<times> nat \<times> Redis \<Rightarrow> nat" where
  "pool_cap e = (case e of (S, V, n, p) \<Rightarrow> n)"

lemmas pool_defs = pool_acquire_def pool_release_def pool_ok_def pool_claimed_def pool_cap_def

lemma pool_acquire_eq:
  assumes r: "rs_ready S V n p"
  shows "\<exists>w1. pool_acquire (S, V, n, p) w =
      (case first_free n (V w) of Some i \<Rightarrow> Ok i | None \<Rightarrow> Err (err_full n), w1) \<and>
    claimed_in (V w1) = (case first_free n (V w) of Some i \<Rightarrow> insert i (claimed_in (V w)) | None \<Rightarrow> claimed_in (V w))"
proof -
  obtain w1 where c: "rs_CreateDB S p None w = (rs_create_result p n (V w), w1)"
    and v: "rv_dbs (V w1) = claim_first n (V w)"
    using rs_CreateDB_doc[OF r, of None w] by (auto simp: no_fixtures_def)
  show ?thesis
  proof (cases "first_free n (V w)")
    case None
    then have "claimed_in (V w1) = claimed_in (V w)" using v by (intro claimed_dbs) (simp add: claim_first_def)
    with None c show ?thesis by (simp add: pool_acquire_def bind_def rs_create_result_def)
  next
    case (Some i)
    then have i: "0 < i" "i < 2 ^ 63" using r by (auto simp: first_free_Some rs_ready_def)
    have "claimed_in (V w1) = insert i (claimed_in (V w))"
      using v Some i(1) by (auto simp: claimed_in_def claim_db_def claim_first_def)
    then show ?thesis
      using c Some i by (simp add: pool_acquire_def bind_def rs_create_result_def rs_uri_index_db)
  qed
qed

interpretation rs_pool: index_pool pool_ok pool_acquire pool_release pool_claimed pool_cap
proof unfold_locales
  fix e :: "'w sys \<times> ('w \<Rightarrow> redis_view) \<times> nat \<times> Redis" and w w' :: 'w and i x q
  obtain S V n p where e: "e = (S, V, n, p)" by (cases e)
  assume ok: "pool_ok e w"
  then have r: "rs_ready S V n p" by (simp add: e pool_ok_def)
  obtain w1 where a: "pool_acquire e w =
      (case first_free n (V w) of Some i \<Rightarrow> Ok i | None \<Rightarrow> Err (err_full n), w1)"
    and c: "claimed_in (V w1) = (case first_free n (V w) of Some i \<Rightarrow> insert i (claimed_in (V w)) | None \<Rightarrow> claimed_in (V w))"
    using pool_acquire_eq[OF r] by (auto simp: e)
  show "fst (pool_acquire e w) \<noteq> Panic q" using a by (simp split: option.splits)
  show "pool_ok e w' \<and> 0 < i \<and> i < pool_cap e \<and> i \<notin> pool_claimed e w \<and>
      pool_claimed e w' = insert i (pool_claimed e w)" if "pool_acquire e w = (Ok i, w')"
  proof (cases "first_free n (V w)")
    case (Some j)
    then have "j = i" "w' = w1" using that a by simp_all
    moreover have "claimed_in (V w1) = insert j (claimed_in (V w))" using c Some by simp
    moreover note Some[unfolded first_free_Some]
    ultimately show ?thesis using r by (simp add: e pool_ok_def pool_cap_def pool_claimed_def)
  qed (use that a in simp)
  show "pool_ok e w' \<and> pool_claimed e w' = pool_claimed e w \<and> {0<..<pool_cap e} \<subseteq> pool_claimed e w"
    if "pool_acquire e w = (Err x, w')"
  proof (cases "first_free n (V w)")
    case None
    then have "w' = w1" "claimed_in (V w1) = claimed_in (V w)" using that a c by simp_all
    then show ?thesis using None[unfolded first_free_None] r
      by (simp add: e pool_ok_def pool_cap_def pool_claimed_def)
  qed (use that a in simp)
  show "\<exists>w'. pool_release e i w = (Ok (), w') \<and> pool_ok e w' \<and> pool_claimed e w' = pool_claimed e w - {i}"
    if "0 < i" "i < pool_cap e"
  proof -
    have i: "i < n" "i < 2 ^ 63" "0 < i" using that r by (auto simp: e pool_cap_def rs_ready_def)
    obtain w2 where "rs_RemoveDB S p (rs_db_uri p i) w = (Ok (), w2)"
      and v2: "rv_dbs (V w2) = release_db i (rv_dbs (V w))"
      using rs_RemoveDB_doc[OF r i(3) i(1) rs_uri_index_db[OF i(2)]] by blast
    moreover have "claimed_in (V w2) = claimed_in (V w) - {i}"
      using v2 i(3) by (auto simp: claimed_in_def release_db_def)
    ultimately show ?thesis using r by (auto simp: e pool_defs)
  qed
qed

end
