(* ===== verification/PostgresDB.thy ===== *)
theory PostgresDB
  imports Postgres
begin

text \<open>
  Quoting of identifiers, the name of a template, what postgres documents of the statements the
  program sends (\<open>pg_doc\<close>), and what \<^verbatim>\<open>CreateDB\<close> and \<^verbatim>\<open>RemoveDB\<close> do on such a server.
\<close>

section \<open>Quoted identifiers\<close>

text \<open>
  How postgres reads a quoted identifier: up to the next quote that is not doubled, two quotes
  standing for one. The result is the identifier and the text after it.
\<close>

fun ident_body :: "string \<Rightarrow> (string \<times> string) option" where
  "ident_body [] = None"
| "ident_body [c] = (if c = CHR 0x22 then Some ([], []) else None)"
| "ident_body (c # d # s) =
     (if c = CHR 0x22 then
        if d = CHR 0x22 then map_option (\<lambda>(n, r). (CHR 0x22 # n, r)) (ident_body s)
        else Some ([], d # s)
      else map_option (\<lambda>(n, r). (c # n, r)) (ident_body (d # s)))"

fun read_ident :: "string \<Rightarrow> (string \<times> string) option" where
  "read_ident [] = None"
| "read_ident (c # s) = (if c = CHR 0x22 then ident_body s else None)"

lemma replace_quote:
  "replaceAll n [q] [q, q] = concat (map (\<lambda>c. if c = q then [q, q] else [c]) n)"
proof (induction n)
  case Nil
  then show ?case by simp
next
  case (Cons c n)
  then show ?case by (subst replaceAll.simps) (auto simp: hasPrefix_def)
qed

lemma ident_body_quoted:
  "rest = [] \<or> hd rest \<noteq> CHR 0x22 \<Longrightarrow>
   ident_body (concat (map (\<lambda>c. if c = CHR 0x22 then [CHR 0x22, CHR 0x22] else [c]) n) @ CHR 0x22 # rest) =
   Some (n, rest)"
proof (induction n)
  case Nil
  then show ?case by (cases rest) auto
next
  case (Cons c n)
  let ?t = "concat (map (\<lambda>c. if c = CHR 0x22 then [CHR 0x22, CHR 0x22] else [c]) n) @ CHR 0x22 # rest"
  have ih: "ident_body ?t = Some (n, rest)" using Cons by simp
  obtain d s where ds: "?t = d # s" by (cases ?t) auto
  show ?case
  proof (cases "c = CHR 0x22")
    case True
    with ih show ?thesis by simp
  next
    case False
    with ih ds show ?thesis by simp
  qed
qed

lemma read_quoteIdentifier:
  "rest = [] \<or> hd rest \<noteq> CHR 0x22 \<Longrightarrow> read_ident (quoteIdentifier n @ rest) = Some (n, rest)"
  using ident_body_quoted[of rest n] by (simp add: quoteIdentifier_def replace_quote)

lemma quoteIdentifier_inj: "quoteIdentifier m = quoteIdentifier n \<longleftrightarrow> m = n"
proof
  assume "quoteIdentifier m = quoteIdentifier n"
  then have "Some (m, []) = Some (n, [] :: string)"
    using read_quoteIdentifier[of "[]" m] read_quoteIdentifier[of "[]" n] by simp
  then show "m = n" by simp
qed simp

section \<open>Template names\<close>

text \<open>Migrations below a directory, as names relative to it with their contents.\<close>

definition migrations_at :: "'w sys \<Rightarrow> 'w \<Rightarrow> string \<Rightarrow> (string \<times> string) list \<Rightarrow> bool" where
  "migrations_at S w root ms \<longleftrightarrow>
     clean_dir root \<and> (\<forall>(n, b)\<in>set ms. rel_name n \<and> readFile (os S) (path_join root n) w = Ok b)"

definition template_of :: "(string \<Rightarrow> string) \<Rightarrow> (string \<times> string) list \<Rightarrow> string" where
  "template_of sha ms = ''dbctl_tpl_'' @ take 32 (hex_string (sha (concat (map (\<lambda>(n, b). n @ b) ms))))"

lemma template_bytes_at:
  "migrations_at S w root ms \<Longrightarrow>
   template_bytes S root (map (\<lambda>(n, b). path_join root n) ms) w = Ok (concat (map (\<lambda>(n, b). n @ b) ms))"
proof (induction ms)
  case Nil
  then show ?case by simp
next
  case (Cons m ms)
  obtain n b where m: "m = (n, b)" by (cases m)
  have "migrations_at S w root ms" and n: "rel_name n" "readFile (os S) (path_join root n) w = Ok b"
    and r: "clean_dir root"
    using Cons.prems by (auto simp: migrations_at_def m)
  with Cons.IH show ?case by (simp add: m path_rel_below[OF r n(1)])
qed

lemma templateName_at:
  assumes "migrations_at S w root ms"
  shows "templateName sha S root (map (\<lambda>(n, b). path_join root n) ms) w = Ok (template_of sha ms)"
proof -
  have "Abs S root w = Ok root" using assms by (simp add: migrations_at_def clean_dir_def Abs_def)
  then show ?thesis
    by (simp add: templateName_def template_bytes_at[OF assms] template_of_def)
qed

lemma set_hex_string: "c \<in> set (hex_string s) \<Longrightarrow> c \<in> hex_lower ` {0..<16}"
proof -
  assume "c \<in> set (hex_string s)"
  then obtain d where "c = hex_lower (of_char d div 16) \<or> c = hex_lower (of_char d mod 16)"
    by (auto simp: hex_string_def)
  moreover have "(of_char d :: nat) div 16 < 16"
    using of_char_256[of d] by (simp add: less_mult_imp_div_less)
  ultimately show ?thesis by auto
qed

lemma hex_no_nul: "CHR 0x00 \<notin> set (hex_string s)"
proof -
  have "\<forall>i\<in>set [0..<16]. hex_lower i \<noteq> CHR 0x00" by code_simp
  then have "CHR 0x00 \<notin> hex_lower ` {0..<16}" by fastforce
  then show ?thesis using set_hex_string by blast
qed

definition ident_ok :: "string \<Rightarrow> bool" where
  "ident_ok n \<longleftrightarrow> n \<noteq> [] \<and> length n \<le> 63 \<and> CHR 0x00 \<notin> set n"

lemma ident_ok_template: "templateName sha S root files w = Ok t \<Longrightarrow> ident_ok t"
proof -
  assume "templateName sha S root files w = Ok t"
  then obtain bytes where t: "t = ''dbctl_tpl_'' @ take 32 (hex_string (sha bytes))"
    by (auto simp: templateName_def bind_res_eq_Ok)
  have "CHR 0x00 \<notin> set (take 32 (hex_string (sha bytes)))"
    using hex_no_nul in_set_takeD by fastforce
  then show "ident_ok t" by (simp add: t ident_ok_def)
qed

lemma ident_ok_stamp: "now < 2 ^ 63 \<Longrightarrow> ident_ok (''dbctl_'' @ formatUint now)"
proof -
  assume "now < 2 ^ 63"
  then have "now < 10 ^ Suc 18" by simp
  then have "length (formatUint now) \<le> 19" using length_formatUint by fastforce
  moreover have "CHR 0x00 \<notin> set (formatUint now)"
    using formatUint_no[of "CHR 0x00" now "CHR 0x00"] by (auto simp: is_digit_def)
  ultimately show ?thesis by (simp add: ident_ok_def)
qed

section \<open>What postgres documents\<close>

text \<open>
  The databases with the scripts that were committed to them, the database each open connection is
  in, and the scripts each open transaction has run.
\<close>

record pg_view =
  pv_dbs :: "string \<rightharpoonup> string list"
  pv_conn :: "nat \<rightharpoonup> string"
  pv_tx :: "nat \<rightharpoonup> string \<times> string list"

text \<open>
  A server that nobody else uses and that is reached at the addresses \<open>U\<close>, one per database name
  that an address can carry; \<open>G cs s\<close> says that script \<open>s\<close> runs on a database that holds the
  scripts \<open>cs\<close>. Names that are longer than 63 bytes are truncated by postgres, so the clauses are
  about names that are not. A database is copied or dropped only while nobody is connected to it.
\<close>

definition uri_name :: "string \<Rightarrow> bool" where
  "uri_name n \<longleftrightarrow> n \<noteq> [] \<and> hd n \<noteq> CHR ''/''"

definition pg_doc :: "'w sys \<Rightarrow> ('w \<Rightarrow> pg_view) \<Rightarrow> (string \<Rightarrow> string) \<Rightarrow> (string list \<Rightarrow> string \<Rightarrow> bool) \<Rightarrow> bool" where
  "pg_doc S V U G \<longleftrightarrow>
     (\<forall>w n. uri_name n \<longrightarrow> (\<exists>c w1. sql_open (pgs S) (U n) w = (Ok c, w1) \<and> pv_conn (V w) c = None \<and>
         V w1 = (V w)\<lparr>pv_conn := (pv_conn (V w))(c \<mapsto> n)\<rparr>)) \<and>
     (\<forall>w c n. pv_conn (V w) c = Some n \<longrightarrow> n \<in> dom (pv_dbs (V w)) \<longrightarrow>
         (\<exists>w1. sql_ping (pgs S) c w = (Ok (), w1) \<and> V w1 = V w)) \<and>
     (\<forall>w c. V (sql_close (pgs S) c w) = (V w)\<lparr>pv_conn := (pv_conn (V w))(c := None)\<rparr>) \<and>
     (\<forall>w c n. c \<in> dom (pv_conn (V w)) \<longrightarrow> ident_ok n \<longrightarrow> pv_dbs (V w) n = None \<longrightarrow>
         (\<exists>w1. sql_exec (pgs S) c (''create database '' @ quoteIdentifier n) [] w = (Ok (), w1) \<and>
           V w1 = (V w)\<lparr>pv_dbs := (pv_dbs (V w))(n \<mapsto> [])\<rparr>)) \<and>
     (\<forall>w c n t cs. c \<in> dom (pv_conn (V w)) \<longrightarrow> ident_ok n \<longrightarrow> ident_ok t \<longrightarrow> pv_dbs (V w) n = None \<longrightarrow>
         pv_dbs (V w) t = Some cs \<longrightarrow> t \<notin> ran (pv_conn (V w)) \<longrightarrow>
         (\<exists>w1. sql_exec (pgs S) c (''create database '' @ quoteIdentifier n @ '' with template '' @ quoteIdentifier t) [] w =
             (Ok (), w1) \<and> V w1 = (V w)\<lparr>pv_dbs := (pv_dbs (V w))(n \<mapsto> cs)\<rparr>)) \<and>
     (\<forall>w c n t. c \<in> dom (pv_conn (V w)) \<longrightarrow> ident_ok n \<longrightarrow> ident_ok t \<longrightarrow> pv_dbs (V w) t = None \<longrightarrow>
         (\<exists>e w1. sql_exec (pgs S) c (''create database '' @ quoteIdentifier n @ '' with template '' @ quoteIdentifier t) [] w =
             (Err (External e), w1) \<and> contains e ''does not exist'' \<and> V w1 = V w)) \<and>
     (\<forall>w c n t cs. c \<in> dom (pv_conn (V w)) \<longrightarrow> ident_ok n \<longrightarrow> ident_ok t \<longrightarrow> n \<in> dom (pv_dbs (V w)) \<longrightarrow>
         pv_dbs (V w) t = Some cs \<longrightarrow>
         (\<exists>e w1. sql_exec (pgs S) c (''create database '' @ quoteIdentifier n @ '' with template '' @ quoteIdentifier t) [] w =
             (Err (External e), w1) \<and> \<not> contains e ''does not exist'' \<and> V w1 = V w)) \<and>
     (\<forall>w c n. c \<in> dom (pv_conn (V w)) \<longrightarrow> n \<notin> ran (pv_conn (V w)) \<longrightarrow> ident_ok n \<longrightarrow>
         (\<exists>w1. sql_exec (pgs S) c (''drop database if exists '' @ quoteIdentifier n) [] w = (Ok (), w1) \<and>
           V w1 = (V w)\<lparr>pv_dbs := (pv_dbs (V w))(n := None)\<rparr>)) \<and>
     (\<forall>w c n m. pv_conn (V w) c = Some m \<longrightarrow> m \<noteq> n \<longrightarrow>
         (\<exists>w1. sql_exec (pgs S) c terminate_stmt [n] w = (Ok (), w1) \<and> V w1 = (V w)\<lparr>pv_conn :=
            (\<lambda>d. if pv_conn (V w) d = Some n then None else pv_conn (V w) d)\<rparr>)) \<and>
     (\<forall>w c n. pv_conn (V w) c = Some n \<longrightarrow>
         (\<exists>t w1. sql_begin (pgs S) c w = (Ok t, w1) \<and> V w1 = (V w)\<lparr>pv_tx := (pv_tx (V w))(t \<mapsto> (n, []))\<rparr>)) \<and>
     (\<forall>w t n ps cs s. pv_tx (V w) t = Some (n, ps) \<longrightarrow> pv_dbs (V w) n = Some cs \<longrightarrow>
         (if G (cs @ ps) s
          then \<exists>w1. tx_exec (pgs S) t s w = (Ok (), w1) \<and> V w1 = (V w)\<lparr>pv_tx := (pv_tx (V w))(t \<mapsto> (n, ps @ [s]))\<rparr>
          else \<exists>e w1. tx_exec (pgs S) t s w = (Err (External e), w1) \<and> V w1 = V w)) \<and>
     (\<forall>w t n ps cs. pv_tx (V w) t = Some (n, ps) \<longrightarrow> pv_dbs (V w) n = Some cs \<longrightarrow>
         (\<exists>w1. tx_commit (pgs S) t w = (Ok (), w1) \<and> pv_dbs (V w1) = (pv_dbs (V w))(n \<mapsto> cs @ ps) \<and>
           pv_conn (V w1) = pv_conn (V w))) \<and>
     (\<forall>w t. \<exists>w1. tx_rollback (pgs S) t w = (Ok (), w1) \<and> pv_dbs (V w1) = pv_dbs (V w) \<and>
           pv_conn (V w1) = pv_conn (V w))"

text \<open>The clauses, one by one.\<close>

lemma pg_open:
  "pg_doc S V U G \<Longrightarrow> uri_name n \<Longrightarrow> \<exists>c w1. sql_open (pgs S) (U n) w = (Ok c, w1) \<and> pv_conn (V w) c = None \<and>
    V w1 = (V w)\<lparr>pv_conn := (pv_conn (V w))(c \<mapsto> n)\<rparr>"
  by (rule pg_doc_def[THEN iffD1, THEN conjunct1, rule_format])

lemma pg_ping:
  "pg_doc S V U G \<Longrightarrow> pv_conn (V w) c = Some n \<Longrightarrow> n \<in> dom (pv_dbs (V w)) \<Longrightarrow>
    \<exists>w1. sql_ping (pgs S) c w = (Ok (), w1) \<and> V w1 = V w"
  by (rule pg_doc_def[THEN iffD1, THEN conjunct2, THEN conjunct1, rule_format])

lemma pg_close:
  "pg_doc S V U G \<Longrightarrow> V (sql_close (pgs S) c w) = (V w)\<lparr>pv_conn := (pv_conn (V w))(c := None)\<rparr>"
  by (rule pg_doc_def[THEN iffD1, THEN conjunct2, THEN conjunct2, THEN conjunct1, rule_format])

lemma pg_create:
  "pg_doc S V U G \<Longrightarrow> c \<in> dom (pv_conn (V w)) \<Longrightarrow> ident_ok n \<Longrightarrow> pv_dbs (V w) n = None \<Longrightarrow>
    \<exists>w1. sql_exec (pgs S) c (''create database '' @ quoteIdentifier n) [] w = (Ok (), w1) \<and>
    V w1 = (V w)\<lparr>pv_dbs := (pv_dbs (V w))(n \<mapsto> [])\<rparr>"
  by (rule pg_doc_def[THEN iffD1, THEN conjunct2, THEN conjunct2, THEN conjunct2, THEN conjunct1, rule_format])

lemma pg_copy:
  "pg_doc S V U G \<Longrightarrow> c \<in> dom (pv_conn (V w)) \<Longrightarrow> ident_ok n \<Longrightarrow> ident_ok t \<Longrightarrow> pv_dbs (V w) n = None \<Longrightarrow>
    pv_dbs (V w) t = Some cs \<Longrightarrow> t \<notin> ran (pv_conn (V w)) \<Longrightarrow>
    \<exists>w1. sql_exec (pgs S) c (''create database '' @ quoteIdentifier n @ '' with template '' @ quoteIdentifier t) [] w =
    (Ok (), w1) \<and> V w1 = (V w)\<lparr>pv_dbs := (pv_dbs (V w))(n \<mapsto> cs)\<rparr>"
  by (rule pg_doc_def[THEN iffD1, THEN conjunct2, THEN conjunct2, THEN conjunct2, THEN conjunct2, THEN conjunct1, rule_format])

lemma pg_copy_none:
  "pg_doc S V U G \<Longrightarrow> c \<in> dom (pv_conn (V w)) \<Longrightarrow> ident_ok n \<Longrightarrow> ident_ok t \<Longrightarrow> pv_dbs (V w) t = None \<Longrightarrow>
    \<exists>e w1. sql_exec (pgs S) c (''create database '' @ quoteIdentifier n @ '' with template '' @ quoteIdentifier t) [] w =
    (Err (External e), w1) \<and> contains e ''does not exist'' \<and> V w1 = V w"
  by (rule pg_doc_def[THEN iffD1, THEN conjunct2, THEN conjunct2, THEN conjunct2, THEN conjunct2, THEN conjunct2, THEN conjunct1, rule_format])

lemma pg_drop:
  "pg_doc S V U G \<Longrightarrow> c \<in> dom (pv_conn (V w)) \<Longrightarrow> n \<notin> ran (pv_conn (V w)) \<Longrightarrow> ident_ok n \<Longrightarrow>
    \<exists>w1. sql_exec (pgs S) c (''drop database if exists '' @ quoteIdentifier n) [] w = (Ok (), w1) \<and>
    V w1 = (V w)\<lparr>pv_dbs := (pv_dbs (V w))(n := None)\<rparr>"
  by (rule pg_doc_def[THEN iffD1, THEN conjunct2, THEN conjunct2, THEN conjunct2, THEN conjunct2, THEN conjunct2, THEN conjunct2, THEN conjunct2, THEN conjunct1, rule_format])

lemma pg_kill:
  "pg_doc S V U G \<Longrightarrow> pv_conn (V w) c = Some m \<Longrightarrow> m \<noteq> n \<Longrightarrow>
    \<exists>w1. sql_exec (pgs S) c terminate_stmt [n] w = (Ok (), w1) \<and> V w1 = (V w)\<lparr>pv_conn :=
      (\<lambda>d. if pv_conn (V w) d = Some n then None else pv_conn (V w) d)\<rparr>"
  by (rule pg_doc_def[THEN iffD1, THEN conjunct2, THEN conjunct2, THEN conjunct2, THEN conjunct2, THEN conjunct2, THEN conjunct2, THEN conjunct2, THEN conjunct2, THEN conjunct1, rule_format])

lemma pg_begin:
  "pg_doc S V U G \<Longrightarrow> pv_conn (V w) c = Some n \<Longrightarrow>
    \<exists>x w1. sql_begin (pgs S) c w = (Ok x, w1) \<and> V w1 = (V w)\<lparr>pv_tx := (pv_tx (V w))(x \<mapsto> (n, []))\<rparr>"
  by (rule pg_doc_def[THEN iffD1, THEN conjunct2, THEN conjunct2, THEN conjunct2, THEN conjunct2, THEN conjunct2, THEN conjunct2, THEN conjunct2, THEN conjunct2, THEN conjunct2, THEN conjunct1, rule_format])

lemma pg_tx_exec:
  "pg_doc S V U G \<Longrightarrow> pv_tx (V w) x = Some (n, ps) \<Longrightarrow> pv_dbs (V w) n = Some cs \<Longrightarrow>
    (if G (cs @ ps) s
    then \<exists>w1. tx_exec (pgs S) x s w = (Ok (), w1) \<and> V w1 = (V w)\<lparr>pv_tx := (pv_tx (V w))(x \<mapsto> (n, ps @ [s]))\<rparr>
    else \<exists>e w1. tx_exec (pgs S) x s w = (Err (External e), w1) \<and> V w1 = V w)"
  by (rule pg_doc_def[THEN iffD1, THEN conjunct2, THEN conjunct2, THEN conjunct2, THEN conjunct2, THEN conjunct2, THEN conjunct2, THEN conjunct2, THEN conjunct2, THEN conjunct2, THEN conjunct2, THEN conjunct1, rule_format])

lemma pg_commit:
  "pg_doc S V U G \<Longrightarrow> pv_tx (V w) x = Some (n, ps) \<Longrightarrow> pv_dbs (V w) n = Some cs \<Longrightarrow>
    \<exists>w1. tx_commit (pgs S) x w = (Ok (), w1) \<and> pv_dbs (V w1) = (pv_dbs (V w))(n \<mapsto> cs @ ps) \<and>
    pv_conn (V w1) = pv_conn (V w)"
  by (rule pg_doc_def[THEN iffD1, THEN conjunct2, THEN conjunct2, THEN conjunct2, THEN conjunct2, THEN conjunct2, THEN conjunct2, THEN conjunct2, THEN conjunct2, THEN conjunct2, THEN conjunct2, THEN conjunct2, THEN conjunct1, rule_format])

lemma pg_rollback:
  "pg_doc S V U G \<Longrightarrow> \<exists>w1. tx_rollback (pgs S) x w = (Ok (), w1) \<and> pv_dbs (V w1) = pv_dbs (V w) \<and>
    pv_conn (V w1) = pv_conn (V w)"
  by (rule pg_doc_def[THEN iffD1, THEN conjunct2, THEN conjunct2, THEN conjunct2, THEN conjunct2, THEN conjunct2, THEN conjunct2, THEN conjunct2, THEN conjunct2, THEN conjunct2, THEN conjunct2, THEN conjunct2, THEN conjunct2, rule_format])

section \<open>What the database calls leave alone\<close>

text \<open>
  \<open>quiet_pg S Q\<close>: no call of the postgres client changes whether \<open>Q\<close> holds. The files of a
  directory are known to stay as they are while a database is made in this form.
\<close>

definition quiet_pg :: "'w sys \<Rightarrow> ('w \<Rightarrow> bool) \<Rightarrow> bool" where
  "quiet_pg S P \<longleftrightarrow>
     (\<forall>u. preserves P (sql_open (pgs S) u)) \<and> (\<forall>c. preserves P (sql_ping (pgs S) c)) \<and>
     (\<forall>c w. P w \<longrightarrow> P (sql_close (pgs S) c w)) \<and> (\<forall>c q as. preserves P (sql_exec (pgs S) c q as)) \<and>
     (\<forall>c. preserves P (sql_begin (pgs S) c)) \<and> (\<forall>t q. preserves P (tx_exec (pgs S) t q)) \<and>
     (\<forall>t. preserves P (tx_rollback (pgs S) t)) \<and> (\<forall>t. preserves P (tx_commit (pgs S) t))"

lemma quiet_pg_True [simp]: "quiet_pg S (\<lambda>_. True)"
  by (simp add: quiet_pg_def preserves_def)

lemma quiet_pg_ops:
  assumes "quiet_pg S P"
  shows "preserves P (sql_open (pgs S) u)" "preserves P (sql_ping (pgs S) c)"
    "preserves P (sql_exec (pgs S) c q as)" "preserves P (sql_begin (pgs S) c)"
    "preserves P (tx_exec (pgs S) c q)" "preserves P (tx_rollback (pgs S) c)" "preserves P (tx_commit (pgs S) c)"
  using assms by (simp_all add: quiet_pg_def)

lemma quiet_pg_close: "quiet_pg S P \<Longrightarrow> P w \<Longrightarrow> P (sql_close (pgs S) c w)"
  by (simp add: quiet_pg_def)

lemma quiet_dbConnect: "quiet_pg S P \<Longrightarrow> preserves P (dbConnect S u)"
  unfolding dbConnect_def by (intro keeps quiet_pg_ops)

lemma quiet_on_conn:
  assumes q: "quiet_pg S P" and "\<And>c. preserves P (body c)"
  shows "preserves P (on_conn S conn u body)"
  unfolding on_conn_def
  by (intro keeps assms(2) quiet_pg_close[OF q] preserves_reader[of P "dbConnect S" u] quiet_dbConnect[OF q])

lemma quiet_apply_file:
  assumes q: "quiet_pg S P"
  shows "preserves P (apply_file S c f)"
  unfolding apply_file_def applyInTx_def by (intro keeps quiet_pg_ops[OF q])

lemma quiet_applySQL:
  assumes q: "quiet_pg S P"
  shows "preserves P (applySQL S conn fs u)"
  unfolding applySQL_def by (intro keeps quiet_on_conn[OF q] quiet_apply_file[OF q])

lemma quiet_createDatabase:
  assumes q: "quiet_pg S P"
  shows "preserves P (createDatabase S c n)"
  unfolding createDatabase_def by (intro keeps quiet_pg_ops[OF q])

lemma quiet_createDatabaseWithTemplate:
  assumes q: "quiet_pg S P"
  shows "preserves P (createDatabaseWithTemplate S p conn n t)"
  unfolding createDatabaseWithTemplate_def by (intro keeps quiet_on_conn[OF q] quiet_pg_ops[OF q])

lemma quiet_pg_make:
  assumes q: "quiet_pg S P"
  shows "preserves P (pg_make sha S p req c n u)"
  unfolding pg_make_def createDatabaseFromMigrations_def RunMigrations_def
  by (intro keeps quiet_createDatabaseWithTemplate[OF q] quiet_createDatabase[OF q] quiet_applySQL[OF q])

text \<open>A fact that outlives a step of an action.\<close>

lemma stays: "preserves P m \<Longrightarrow> P w \<Longrightarrow> m w = (r, w1) \<Longrightarrow> P w1"
  by (drule preservesD) auto

section \<open>Connections and files\<close>

lemma dbConnect_doc:
  assumes doc: "pg_doc S V U G" and "n \<in> dom (pv_dbs (V w))" and "uri_name n"
  shows "\<exists>c w1. dbConnect S (U n) w = (Ok c, w1) \<and> pv_conn (V w) c = None \<and>
    V w1 = (V w)\<lparr>pv_conn := (pv_conn (V w))(c \<mapsto> n)\<rparr>"
proof -
  obtain c w1 where o: "sql_open (pgs S) (U n) w = (Ok c, w1)" and f: "pv_conn (V w) c = None"
    and v: "V w1 = (V w)\<lparr>pv_conn := (pv_conn (V w))(c \<mapsto> n)\<rparr>"
    using pg_open[OF doc assms(3)] by blast
  then obtain w2 where "sql_ping (pgs S) c w1 = (Ok (), w2)" "V w2 = V w1"
    using pg_ping[OF doc, of w1 c n] assms(2) by auto
  with o f v show ?thesis by (auto simp: dbConnect_def bind_def)
qed

lemma applyInTx_doc:
  assumes doc: "pg_doc S V U G" and c: "pv_conn (V w) c = Some n" and cs: "pv_dbs (V w) n = Some cs"
  shows "G cs s \<Longrightarrow> \<exists>w1. applyInTx S c s w = (Ok (), w1) \<and>
      pv_dbs (V w1) = (pv_dbs (V w))(n \<mapsto> cs @ [s]) \<and> pv_conn (V w1) = pv_conn (V w)"
    and "\<not> G cs s \<Longrightarrow> \<exists>e w1. applyInTx S c s w = (Err e, w1) \<and>
      pv_dbs (V w1) = pv_dbs (V w) \<and> pv_conn (V w1) = pv_conn (V w)"
proof -
  obtain t w1 where b: "sql_begin (pgs S) c w = (Ok t, w1)"
    and v1: "V w1 = (V w)\<lparr>pv_tx := (pv_tx (V w))(t \<mapsto> (n, []))\<rparr>"
    using pg_begin[OF doc c] by blast
  have x: "if G cs s
      then \<exists>w2. tx_exec (pgs S) t s w1 = (Ok (), w2) \<and> V w2 = (V w1)\<lparr>pv_tx := (pv_tx (V w1))(t \<mapsto> (n, [s]))\<rparr>
      else \<exists>e w2. tx_exec (pgs S) t s w1 = (Err (External e), w2) \<and> V w2 = V w1"
    using pg_tx_exec[OF doc, of w1 t n "[]" cs s] v1 cs by (cases "G cs s") simp_all
  show "\<exists>w1. applyInTx S c s w = (Ok (), w1) \<and>
      pv_dbs (V w1) = (pv_dbs (V w))(n \<mapsto> cs @ [s]) \<and> pv_conn (V w1) = pv_conn (V w)" if "G cs s"
  proof -
    obtain w2 where e: "tx_exec (pgs S) t s w1 = (Ok (), w2)"
      and v2: "V w2 = (V w1)\<lparr>pv_tx := (pv_tx (V w1))(t \<mapsto> (n, [s]))\<rparr>" using x \<open>G cs s\<close> by auto
    obtain w3 where "tx_commit (pgs S) t w2 = (Ok (), w3)"
      "pv_dbs (V w3) = (pv_dbs (V w2))(n \<mapsto> cs @ [s])" "pv_conn (V w3) = pv_conn (V w2)"
      using pg_commit[OF doc, of w2 t n "[s]" cs] v1 v2 cs by auto
    with b e v1 v2 show ?thesis by (simp add: applyInTx_def bind_def try_catch_def)
  qed
  show "\<exists>e w1. applyInTx S c s w = (Err e, w1) \<and>
      pv_dbs (V w1) = pv_dbs (V w) \<and> pv_conn (V w1) = pv_conn (V w)" if "\<not> G cs s"
  proof -
    obtain e w2 where e: "tx_exec (pgs S) t s w1 = (Err (External e), w2)" and v2: "V w2 = V w1"
      using x \<open>\<not> G cs s\<close> by auto
    obtain w3 where "tx_rollback (pgs S) t w2 = (Ok (), w3)"
      "pv_dbs (V w3) = pv_dbs (V w2)" "pv_conn (V w3) = pv_conn (V w2)"
      using pg_rollback[OF doc] by blast
    with b e v1 v2 show ?thesis by (simp add: applyInTx_def bind_def try_catch_def ignore_def)
  qed
qed

text \<open>Scripts that all run, each on what the ones before it left.\<close>

fun runs :: "(string list \<Rightarrow> string \<Rightarrow> bool) \<Rightarrow> string list \<Rightarrow> string list \<Rightarrow> bool" where
  "runs G cs [] = True"
| "runs G cs (b # bs) = (G cs b \<and> runs G (cs @ [b]) bs)"

text \<open>Files with the given contents, as long as \<open>Q\<close> holds.\<close>

definition reads :: "'w sys \<Rightarrow> ('w \<Rightarrow> bool) \<Rightarrow> string list \<Rightarrow> string list \<Rightarrow> bool" where
  "reads S Q fs bs \<longleftrightarrow> list_all2 (\<lambda>f b. \<forall>w. Q w \<longrightarrow> readFile (os S) f w = Ok b) fs bs"

lemma apply_file_doc:
  assumes doc: "pg_doc S V U G" and c: "pv_conn (V w) c = Some n" and cs: "pv_dbs (V w) n = Some cs"
    and r: "readFile (os S) f w = Ok b"
  shows "G cs b \<Longrightarrow> \<exists>w1. apply_file S c f w = (Ok (), w1) \<and>
      pv_dbs (V w1) = (pv_dbs (V w))(n \<mapsto> cs @ [b]) \<and> pv_conn (V w1) = pv_conn (V w)"
    and "\<not> G cs b \<Longrightarrow> \<exists>e w1. apply_file S c f w = (Err e, w1) \<and>
      pv_dbs (V w1) = pv_dbs (V w) \<and> pv_conn (V w1) = pv_conn (V w)"
  using applyInTx_doc[OF doc c cs, of b] r by (auto simp: apply_file_def bind_def wrap_def)

lemma apply_files_doc:
  assumes doc: "pg_doc S V U G" and q: "quiet_pg S Q"
  shows "reads S Q fs bs \<Longrightarrow> Q w \<Longrightarrow> pv_conn (V w) c = Some n \<Longrightarrow> pv_dbs (V w) n = Some cs \<Longrightarrow> runs G cs bs \<Longrightarrow>
    \<exists>w1. foreach (apply_file S c) fs w = (Ok (), w1) \<and>
      pv_dbs (V w1) = (pv_dbs (V w))(n \<mapsto> cs @ bs) \<and> pv_conn (V w1) = pv_conn (V w)"
proof (induction fs arbitrary: bs cs w)
  case Nil
  then have "(pv_dbs (V w))(n \<mapsto> cs @ bs) = pv_dbs (V w)" by (auto simp: reads_def)
  then show ?case by simp
next
  case (Cons f fs)
  then obtain b bs' where bs: "bs = b # bs'" "\<forall>w. Q w \<longrightarrow> readFile (os S) f w = Ok b" "reads S Q fs bs'"
    by (cases bs) (auto simp: reads_def)
  then obtain w1 where a: "apply_file S c f w = (Ok (), w1)"
    and v1: "pv_dbs (V w1) = (pv_dbs (V w))(n \<mapsto> cs @ [b])" "pv_conn (V w1) = pv_conn (V w)"
    using apply_file_doc(1)[OF doc Cons.prems(3,4), of f b] Cons.prems(2,5) by auto
  have k: "Q w1" by (rule stays[OF quiet_apply_file[OF q] Cons.prems(2) a])
  obtain w2 where "foreach (apply_file S c) fs w1 = (Ok (), w2)"
    "pv_dbs (V w2) = (pv_dbs (V w1))(n \<mapsto> (cs @ [b]) @ bs')" "pv_conn (V w2) = pv_conn (V w1)"
    using Cons.IH[OF bs(3) k, of "cs @ [b]"] v1 Cons.prems(3,5) bs(1) by (auto simp del: fun_upd_apply simp add: fun_upd_same)
  with a v1 bs show ?case by (simp add: bind_def fun_eq_iff)
qed

text \<open>A file that fails stops the run and leaves nothing of itself behind.\<close>

lemma apply_files_fail:
  assumes doc: "pg_doc S V U G" and q: "quiet_pg S Q" and "reads S Q fs bs" and "Q w" and "pv_conn (V w) c = Some n"
    and "pv_dbs (V w) n = Some cs" and "runs G cs bs" and "\<forall>w. Q w \<longrightarrow> readFile (os S) f w = Ok b"
    and "\<not> G (cs @ bs) b"
  shows "\<exists>e w1. foreach (apply_file S c) (fs @ f # rest) w = (Err e, w1) \<and>
    pv_dbs (V w1) = (pv_dbs (V w))(n \<mapsto> cs @ bs)"
proof -
  obtain w1 where a: "foreach (apply_file S c) fs w = (Ok (), w1)"
    and v1: "pv_dbs (V w1) = (pv_dbs (V w))(n \<mapsto> cs @ bs)" "pv_conn (V w1) = pv_conn (V w)"
    using apply_files_doc[OF assms(1-7)] by blast
  have "Q w1" by (rule stays[OF preserves_foreach[OF quiet_apply_file[OF q]] assms(4) a])
  then have r: "readFile (os S) f w1 = Ok b" using assms(8) by simp
  obtain e w2 where "apply_file S c f w1 = (Err e, w2)" "pv_dbs (V w2) = pv_dbs (V w1)"
    using apply_file_doc(2)[OF doc _ _ r, of c n "cs @ bs"] v1 assms(5,9) by auto
  with a v1 show ?thesis by (simp add: foreach_append bind_def)
qed

lemma applySQL_doc:
  assumes doc: "pg_doc S V U G" and q: "quiet_pg S Q" and "reads S Q fs bs" and "Q w"
    and "pv_dbs (V w) n = Some cs" and "runs G cs bs" and "uri_name n"
  shows "\<exists>w1. applySQL S None fs (U n) w = (Ok (), w1) \<and>
    pv_dbs (V w1) = (pv_dbs (V w))(n \<mapsto> cs @ bs) \<and> pv_conn (V w1) = pv_conn (V w)"
proof -
  obtain c w1 where d: "dbConnect S (U n) w = (Ok c, w1)" and f: "pv_conn (V w) c = None"
    and v1: "V w1 = (V w)\<lparr>pv_conn := (pv_conn (V w))(c \<mapsto> n)\<rparr>"
    using dbConnect_doc[OF doc, of n w] assms(5,7) by blast
  have k: "Q w1" by (rule stays[OF quiet_dbConnect[OF q] assms(4) d])
  obtain w2 where a: "foreach (apply_file S c) fs w1 = (Ok (), w2)"
    and v2: "pv_dbs (V w2) = (pv_dbs (V w1))(n \<mapsto> cs @ bs)" "pv_conn (V w2) = pv_conn (V w1)"
    using apply_files_doc[OF doc q assms(3) k, of c n cs] v1 assms(5,6) by auto
  have "(pv_conn (V w))(c := None) = pv_conn (V w)" using f by auto
  then show ?thesis
    using d a v1 v2 pg_close[OF doc, of c w2]
    by (simp add: applySQL_def on_conn_def bind_def with_defer_def)
qed

lemma RunMigrations_fail:
  assumes doc: "pg_doc S V U G" and q: "quiet_pg S Q" and "reads S Q fs bs" and "Q w"
    and "pv_dbs (V w) n = Some cs" and "runs G cs bs"
    and "\<forall>w. Q w \<longrightarrow> readFile (os S) f w = Ok b" and "\<not> G (cs @ bs) b" and "uri_name n"
  shows "\<exists>e w1. RunMigrations S None (fs @ f # rest) (U n) w = (Err e, w1) \<and>
    pv_dbs (V w1) = (pv_dbs (V w))(n \<mapsto> cs @ bs)"
proof -
  obtain c w1 where d: "dbConnect S (U n) w = (Ok c, w1)"
    and v1: "V w1 = (V w)\<lparr>pv_conn := (pv_conn (V w))(c \<mapsto> n)\<rparr>"
    using dbConnect_doc[OF doc, of n w] assms(5,9) by blast
  have k: "Q w1" by (rule stays[OF quiet_dbConnect[OF q] assms(4) d])
  obtain e w2 where "foreach (apply_file S c) (fs @ f # rest) w1 = (Err e, w2)"
    and "pv_dbs (V w2) = (pv_dbs (V w1))(n \<mapsto> cs @ bs)"
    using apply_files_fail[OF doc q assms(3) k, of c n cs f b rest] v1 assms(5-8) by auto
  then show ?thesis
    using d v1 pg_close[OF doc, of c w2]
    by (simp add: RunMigrations_def applySQL_def on_conn_def bind_def with_defer_def)
qed

lemma RunMigrations_doc:
  assumes "pg_doc S V U G" and "quiet_pg S Q" and "reads S Q fs bs" and "Q w"
    and "pv_dbs (V w) n = Some cs" and "runs G cs bs" and "uri_name n"
  shows "\<exists>w1. RunMigrations S None fs (U n) w = (Ok (), w1) \<and>
    pv_dbs (V w1) = (pv_dbs (V w))(n \<mapsto> cs @ bs) \<and> pv_conn (V w1) = pv_conn (V w)"
proof (cases "fs = []")
  case True
  then have "bs = []" using assms(3) by (simp add: reads_def)
  then have "(pv_dbs (V w))(n \<mapsto> cs @ bs) = pv_dbs (V w)" using assms(5) by auto
  with True show ?thesis by (simp add: RunMigrations_def)
next
  case False
  then show ?thesis using applySQL_doc[OF assms] by (simp add: RunMigrations_def)
qed

section \<open>Creating a database\<close>

lemma createDatabase_doc:
  assumes doc: "pg_doc S V U G" and "c \<in> dom (pv_conn (V w))" and "ident_ok n" and "pv_dbs (V w) n = None"
  shows "\<exists>w1. createDatabase S c n w = (Ok (), w1) \<and>
    V w1 = (V w)\<lparr>pv_dbs := (pv_dbs (V w))(n \<mapsto> [])\<rparr>"
  using pg_create[OF assms] by (auto simp: createDatabase_def wrap_def)

lemma createDatabaseWithTemplate_doc:
  assumes doc: "pg_doc S V U G" and c: "c \<in> dom (pv_conn (V w))" and n: "ident_ok n" and t: "ident_ok t"
  shows "pv_dbs (V w) n = None \<Longrightarrow> pv_dbs (V w) t = Some cs \<Longrightarrow> t \<notin> ran (pv_conn (V w)) \<Longrightarrow>
      \<exists>w1. createDatabaseWithTemplate S p (Some c) n t w = (Ok (), w1) \<and>
        V w1 = (V w)\<lparr>pv_dbs := (pv_dbs (V w))(n \<mapsto> cs)\<rparr>"
    and "pv_dbs (V w) t = None \<Longrightarrow>
      \<exists>w1. createDatabaseWithTemplate S p (Some c) n t w = (Err errDatabaseNotExists, w1) \<and> V w1 = V w"
proof -
  show "\<exists>w1. createDatabaseWithTemplate S p (Some c) n t w = (Ok (), w1) \<and>
        V w1 = (V w)\<lparr>pv_dbs := (pv_dbs (V w))(n \<mapsto> cs)\<rparr>"
    if "pv_dbs (V w) n = None" "pv_dbs (V w) t = Some cs" "t \<notin> ran (pv_conn (V w))"
    using pg_copy[OF doc c n t that] by (auto simp: createDatabaseWithTemplate_def on_conn_def try_catch_def)
  show "\<exists>w1. createDatabaseWithTemplate S p (Some c) n t w = (Err errDatabaseNotExists, w1) \<and> V w1 = V w"
    if "pv_dbs (V w) t = None"
    using pg_copy_none[OF doc c n t that] by (auto simp: createDatabaseWithTemplate_def on_conn_def try_catch_def)
qed

text \<open>
  Whether the template of these migrations is there already or is built on the way, the new
  database holds the migrations in order, and so does the template afterwards.
\<close>

lemma createDatabaseFromMigrations_doc:
  assumes doc: "pg_doc S V U G" and c: "c \<in> dom (pv_conn (V w))" and n: "ident_ok n" "pv_dbs (V w) n = None" "uri_name n"
    and q: "quiet_pg S Q" "Q w"
    and files: "\<forall>w. Q w \<longrightarrow> pg_getFiles S path w = Ok files" and mf: "MigrationFiles files \<noteq> []"
    and r: "reads S Q (MigrationFiles files) bs" and run: "runs G [] bs"
    and t: "\<forall>w. Q w \<longrightarrow> templateName sha S path (MigrationFiles files) w = Ok t" "t \<noteq> n"
    and cached: "pv_dbs (V w) t = None \<or> pv_dbs (V w) t = Some bs"
    and idle: "n \<notin> ran (pv_conn (V w))" "t \<notin> ran (pv_conn (V w))"
  shows "\<exists>w1. createDatabaseFromMigrations sha S p c n (U n) path w = (Ok (), w1) \<and>
    pv_dbs (V w1) = (pv_dbs (V w))(n \<mapsto> bs, t \<mapsto> bs) \<and> pv_conn (V w1) = pv_conn (V w)"
proof -
  have tok: "ident_ok t" by (rule ident_ok_template[OF t(1)[rule_format, OF q(2)]])
  show ?thesis
  proof (cases "pv_dbs (V w) t")
    case (Some cs)
    then have cs: "cs = bs" using cached by simp
    obtain w1 where "createDatabaseWithTemplate S p (Some c) n t w = (Ok (), w1)"
      and v: "V w1 = (V w)\<lparr>pv_dbs := (pv_dbs (V w))(n \<mapsto> bs)\<rparr>"
      using createDatabaseWithTemplate_doc(1)[OF doc c n(1) tok n(2) Some idle(2)] cs by blast
    moreover have "(pv_dbs (V w))(n \<mapsto> bs, t \<mapsto> bs) = (pv_dbs (V w))(n \<mapsto> bs)"
      using Some cs t(2) by (simp add: fun_upd_idem fun_upd_twist)
    ultimately show ?thesis using files mf t(1) q(2)
      by (simp add: createDatabaseFromMigrations_def bind_def wrap_def try_catch_def Let_def)
  next
    case None
    obtain w1 where e1: "createDatabaseWithTemplate S p (Some c) n t w = (Err errDatabaseNotExists, w1)"
      and v1: "V w1 = V w"
      using createDatabaseWithTemplate_doc(2)[OF doc c n(1) tok None] by blast
    obtain w2 where e2: "createDatabase S c n w1 = (Ok (), w2)"
      and v2: "V w2 = (V w)\<lparr>pv_dbs := (pv_dbs (V w))(n \<mapsto> [])\<rparr>"
      using createDatabase_doc[OF doc, of c w1 n] c n v1 by auto
    have "Q w1" by (rule stays[OF quiet_createDatabaseWithTemplate[OF q(1)] q(2) e1])
    then have k: "Q w2" by (rule stays[OF quiet_createDatabase[OF q(1)] _ e2])
    obtain w3 where e3: "RunMigrations S None (MigrationFiles files) (U n) w2 = (Ok (), w3)"
      and v3: "pv_dbs (V w3) = (pv_dbs (V w2))(n \<mapsto> bs)" "pv_conn (V w3) = pv_conn (V w2)"
      using RunMigrations_doc[OF doc q(1) r k, of n "[]"] v2 run n(3) by auto
    obtain w4 where e4: "createDatabaseWithTemplate S p (Some c) t n w3 = (Ok (), w4)"
      and v4: "V w4 = (V w3)\<lparr>pv_dbs := (pv_dbs (V w3))(t \<mapsto> bs)\<rparr>"
      using createDatabaseWithTemplate_doc(1)[OF doc _ tok n(1), of c w3 bs] c v3 v2 None t(2) idle(1) by auto
    show ?thesis
      using files mf t(1) q(2) e1 e2 e3 e4 v2 v3 v4
      by (simp add: createDatabaseFromMigrations_def bind_def wrap_def try_catch_def ignore_def Let_def)
  qed
qed

section \<open>Addresses\<close>

definition pg_db_uri :: "Postgres \<Rightarrow> string \<Rightarrow> string" where
  "pg_db_uri p n = url_string (db_uri ''postgres'' (Some (pg_user (pg_cfg p), Some (pg_pass (pg_cfg p))))
     ''localhost'' (unat (pg_port (pg_cfg p))) n ''sslmode=disable'')"

definition pg_db_of :: "Postgres \<Rightarrow> string \<Rightarrow> Postgres" where
  "pg_db_of p n = \<lparr>pg_containerID = '''', pg_cfg = pg_default\<lparr>pg_user := pg_user (pg_cfg p),
     pg_pass := pg_pass (pg_cfg p), pg_name := n, pg_port := pg_port (pg_cfg p)\<rparr>\<rparr>"

lemma pg_New_db:
  "pg_New [pg_WithHost (pg_user (pg_cfg p)) (pg_pass (pg_cfg p)) n (pg_port (pg_cfg p))] w = Ok (pg_db_of p n)"
  by (simp add: pg_New_def pg_WithHost_def pg_db_of_def)

lemma pg_URI_db_of: "pg_URI S (pg_db_of p (pg_name (pg_cfg p))) w = pg_URI S p w"
  by (simp add: pg_URI_def pg_db_of_def)

lemma pg_uri_ok:
  assumes "n \<noteq> []" and "hd n \<noteq> CHR ''/''"
  shows "uri_ok ''postgres'' ''localhost'' n ''sslmode=disable''"
    and "uri_ok ''postgres'' docker_host n ''sslmode=disable''"
proof -
  have sc: "\<forall>c\<in>set ''postgres''. is_alpha c" "toLower ''postgres'' = ''postgres''" by code_simp+
  have h: "\<forall>c\<in>set ''localhost''. host_char c" "\<forall>c\<in>set docker_host. host_char c" by code_simp+
  have q: "\<forall>c\<in>set ''sslmode=disable''. c \<noteq> CHR ''#'' \<and> \<not> is_ctl c" by code_simp
  have ne: "docker_host \<noteq> []" by (simp add: docker_host_def)
  show "uri_ok ''postgres'' ''localhost'' n ''sslmode=disable''"
    "uri_ok ''postgres'' docker_host n ''sslmode=disable''"
    unfolding uri_ok_def using assms sc h q ne by auto
qed

lemma pg_uri_name_db:
  assumes "n \<noteq> []" and "hd n \<noteq> CHR ''/''"
  shows "pg_uri_name (pg_db_uri p n) = Ok n"
  unfolding pg_uri_name_def pg_db_uri_def url_parse_db_uri[OF pg_uri_ok(1)[OF assms]]
  using assms(1) by (simp add: trimPrefix_def hasPrefix_def)

text \<open>A generated name: the prefix and a time stamp.\<close>

definition stamp :: "nat \<Rightarrow> string" where
  "stamp now = ''dbctl_'' @ formatUint now"

lemma stamp_props: "stamp now \<noteq> []" "hd (stamp now) \<noteq> CHR ''/''" "path_text (stamp now) = stamp now"
  "\<not> contains (tail_text (stamp now) ''sslmode=disable'') docker_host"
proof -
  show "stamp now \<noteq> []" "hd (stamp now) \<noteq> CHR ''/''" by (simp_all add: stamp_def)
  have d: "\<forall>c\<in>set (formatUint now). \<not> shouldEscape c EncodePath"
    using formatUint_digits[of now] by (simp add: shouldEscape_def is_alnum_def is_digit_def Let_def)
  have "\<forall>c\<in>set ''dbctl_''. \<not> shouldEscape c EncodePath" by code_simp
  with d have "escape EncodePath (stamp now) = stamp now"
    by (intro escape_unreserved) (auto simp: stamp_def)
  then show p: "path_text (stamp now) = stamp now" by (simp add: path_text_def)
  have "CHR ''h'' \<notin> set (formatUint now)"
    using formatUint_no[of "CHR ''h''" now "CHR ''h''"] by (auto simp: is_digit_def)
  then have "CHR ''h'' \<notin> set (tail_text (stamp now) ''sslmode=disable'')"
    by (simp add: tail_text_def p) (simp add: stamp_def)
  moreover have "CHR ''h'' \<in> set docker_host" by (simp add: docker_host_def)
  ultimately show "\<not> contains (tail_text (stamp now) ''sslmode=disable'') docker_host"
    using contains_subset by blast
qed

lemma template_not_stamp: "templateName sha S root files w = Ok t \<Longrightarrow> t \<noteq> stamp now"
proof
  assume t: "templateName sha S root files w = Ok t" and "t = stamp now"
  then obtain r where "''tpl_'' @ r = formatUint now" by (auto simp: templateName_def bind_res_eq_Ok stamp_def)
  then have "CHR ''t'' \<in> set (formatUint now)" by (metis append_Cons list.set_intros(1))
  then show False using formatUint_digits[of now] by (auto simp: is_digit_def)
qed

definition pg_plain_user :: "Postgres \<Rightarrow> bool" where
  "pg_plain_user p \<longleftrightarrow>
     \<not> contains (user_text (Some (pg_user (pg_cfg p), Some (pg_pass (pg_cfg p))))) docker_host"

lemma pg_hostURI_db:
  assumes "pg_plain_user p"
  shows "pg_hostURI S w (pg_URI S (pg_db_of p (stamp now)) w) = pg_db_uri p (stamp now)"
proof -
  let ?u = "Some (pg_user (pg_cfg p), Some (pg_pass (pg_cfg p)))"
  have u: "pg_URI S (pg_db_of p (stamp now)) w = url_string (db_uri ''postgres'' ?u
      (if inside_docker S w then docker_host else ''localhost'') (unat (pg_port (pg_cfg p))) (stamp now) ''sslmode=disable'')"
    by (simp add: pg_URI_def pg_db_of_def db_uri_def joinHostPort_def docker_host_def empty_url_def Let_def)
  have "\<not> contains ''postgres'' docker_host" by (simp add: docker_host_def)
  then have "replaceAll (url_string (db_uri ''postgres'' ?u docker_host (unat (pg_port (pg_cfg p))) (stamp now) ''sslmode=disable''))
      docker_host ''localhost'' = pg_db_uri p (stamp now)"
    unfolding pg_db_uri_def
    using url_string_replace_host[OF pg_uri_ok(2)[OF stamp_props(1,2)] pg_uri_ok(1)[OF stamp_props(1,2)]
        _ _ stamp_props(4)] assms
    unfolding pg_plain_user_def by blast
  then show ?thesis unfolding u by (simp add: pg_hostURI_def pg_db_uri_def docker_host_def)
qed

section \<open>CreateDB and RemoveDB\<close>

text \<open>
  The configured server is up: it is reached at the addresses the program prints, and its
  maintenance database exists. The clock shows a time at which no database was named yet.
\<close>

definition pg_ready :: "'w sys \<Rightarrow> ('w \<Rightarrow> pg_view) \<Rightarrow> (string \<Rightarrow> string) \<Rightarrow> (string list \<Rightarrow> string \<Rightarrow> bool) \<Rightarrow>
    Postgres \<Rightarrow> 'w \<Rightarrow> bool" where
  "pg_ready S V U G p w \<longleftrightarrow>
     pg_doc S V U G \<and> (\<forall>w n. pg_URI S (pg_db_of p n) w = U n) \<and> pg_plain_user p \<and>
     (\<forall>w. V (snd (nowNano (os S) w)) = V w \<and> fst (nowNano (os S) w) < 2 ^ 63) \<and>
     pg_name (pg_cfg p) \<in> dom (pv_dbs (V w)) \<and> uri_name (pg_name (pg_cfg p)) \<and>
     ran (pv_conn (V w)) \<subseteq> dom (pv_dbs (V w)) \<and>
     (\<forall>w'. pv_dbs (V w') = pv_dbs (V w) \<longrightarrow> pv_dbs (V w) (stamp (fst (nowNano (os S) w'))) = None)"

text \<open>Less is enough for a removal: the server is up and the configured database is there.\<close>

definition pg_up :: "'w sys \<Rightarrow> ('w \<Rightarrow> pg_view) \<Rightarrow> (string \<Rightarrow> string) \<Rightarrow> (string list \<Rightarrow> string \<Rightarrow> bool) \<Rightarrow>
    Postgres \<Rightarrow> 'w \<Rightarrow> bool" where
  "pg_up S V U G p w \<longleftrightarrow>
     pg_doc S V U G \<and> (\<forall>w n. pg_URI S (pg_db_of p n) w = U n) \<and> pg_plain_user p \<and>
     pg_name (pg_cfg p) \<in> dom (pv_dbs (V w)) \<and> uri_name (pg_name (pg_cfg p))"

lemma pg_ready_up: "pg_ready S V U G p w \<Longrightarrow> pg_up S V U G p w"
  by (simp add: pg_ready_def pg_up_def)

text \<open>What a creation knows of the files stays true: \<open>Q\<close> survives the calls of the client and of the clock.\<close>

definition undisturbed :: "'w sys \<Rightarrow> ('w \<Rightarrow> bool) \<Rightarrow> bool" where
  "undisturbed S Q \<longleftrightarrow> quiet_pg S Q \<and> (\<forall>w. Q w \<longrightarrow> Q (snd (nowNano (os S) w)))"

lemma undisturbedD:
  assumes "undisturbed S Q"
  shows "quiet_pg S Q" and "Q w \<Longrightarrow> nowNano (os S) w = (now, w1) \<Longrightarrow> Q w1"
  using assms unfolding undisturbed_def by (blast, metis snd_conv)

lemma undisturbed_True [simp]: "undisturbed S (\<lambda>_. True)"
  by (simp add: undisturbed_def)

text \<open>What a creation does first: it connects, picks the name and goes on to make the database.\<close>

lemma pg_CreateDB_open:
  assumes r: "pg_ready S V U G p w" and q: "undisturbed S Q" "Q w"
  shows "\<exists>c now w1. Q w1 \<and> c \<in> dom (pv_conn (V w1)) \<and> pv_dbs (V w1) = pv_dbs (V w) \<and>
    ident_ok (stamp now) \<and> pv_dbs (V w1) (stamp now) = None \<and>
    ran (pv_conn (V w1)) = insert (pg_name (pg_cfg p)) (ran (pv_conn (V w))) \<and> stamp now \<notin> ran (pv_conn (V w1)) \<and>
    pg_CreateDB sha S p req w = with_defer (sql_close (pgs S) c)
      (bind (pg_make sha S p req c (stamp now) (U (stamp now))) (\<lambda>_.
       bind (if length (rq_Fixtures req) \<noteq> 0 then pg_applyFixturesFromDir S None (rq_Fixtures req) (U (stamp now)) else ret ())
         (\<lambda>_. ret (pg_db_uri p (stamp now))))) w1"
proof -
  have doc: "pg_doc S V U G" and U: "\<forall>w n. pg_URI S (pg_db_of p n) w = U n" and pu: "pg_plain_user p"
    and clk: "\<forall>w. V (snd (nowNano (os S) w)) = V w \<and> fst (nowNano (os S) w) < 2 ^ 63"
    and dom: "pg_name (pg_cfg p) \<in> dom (pv_dbs (V w))" "uri_name (pg_name (pg_cfg p))"
    and cn: "ran (pv_conn (V w)) \<subseteq> dom (pv_dbs (V w))"
    and fresh: "\<forall>w'. pv_dbs (V w') = pv_dbs (V w) \<longrightarrow> pv_dbs (V w) (stamp (fst (nowNano (os S) w'))) = None"
    using r by (auto simp: pg_ready_def)
  have u0: "pg_URI S p w = U (pg_name (pg_cfg p))" using U pg_URI_db_of by metis
  obtain c w1 where d: "dbConnect S (pg_URI S p w) w = (Ok c, w1)" and fc: "pv_conn (V w) c = None"
    and v1: "V w1 = (V w)\<lparr>pv_conn := (pv_conn (V w))(c \<mapsto> pg_name (pg_cfg p))\<rparr>"
    using dbConnect_doc[OF doc dom] unfolding u0 by blast
  have rn: "ran (pv_conn (V w1)) = insert (pg_name (pg_cfg p)) (ran (pv_conn (V w)))"
    using fc v1 by (simp add: ran_map_upd)
  obtain now w2 where n: "nowNano (os S) w1 = (now, w2)" by (cases "nowNano (os S) w1")
  have "Q w1" by (rule stays[OF quiet_dbConnect[OF undisturbedD(1)[OF q(1)]] q(2) d])
  then have k: "Q w2" by (rule undisturbedD(2)[OF q(1) _ n])
  have v2: "V w2 = V w1" "now < 2 ^ 63" using clk[rule_format, of w1] n by auto
  have st: "ident_ok (stamp now)" using ident_ok_stamp[OF v2(2)] by (simp add: stamp_def)
  have fr: "pv_dbs (V w) (stamp now) = None" using fresh[rule_format, of w1] v1 n by simp
  have ns: "stamp now \<notin> ran (pv_conn (V w1))" using fr cn dom(1) by (auto simp: rn domIff)
  have h: "pg_hostURI S w' (U (stamp now)) = pg_db_uri p (stamp now)" for w'
    using pg_hostURI_db[OF pu] U by metis
  have "pg_CreateDB sha S p req w = with_defer (sql_close (pgs S) c)
      (bind (pg_make sha S p req c (stamp now) (U (stamp now))) (\<lambda>_.
       bind (if length (rq_Fixtures req) \<noteq> 0 then pg_applyFixturesFromDir S None (rq_Fixtures req) (U (stamp now)) else ret ())
         (\<lambda>_. ret (pg_db_uri p (stamp now))))) w2"
    unfolding pg_CreateDB_def stamp_def[symmetric]
    using d n h U by (simp add: bind_def with_defer_def pure_step_def pg_New_db Let_def split: prod.splits res.splits)
  moreover have "c \<in> dom (pv_conn (V w2))" "pv_dbs (V w2) = pv_dbs (V w)" using v1 v2(1) by auto
  moreover have "pv_dbs (V w2) (stamp now) = None" using v1 v2(1) fr by simp
  ultimately show ?thesis using k st rn[folded v2(1)] ns[folded v2(1)] by blast
qed

lemma pg_CreateDB_frame:
  assumes r: "pg_ready S V U G p w" and q: "undisturbed S Q" "Q w"
    and make: "\<And>c now w1. Q w1 \<Longrightarrow> c \<in> dom (pv_conn (V w1)) \<Longrightarrow> pv_dbs (V w1) = pv_dbs (V w) \<Longrightarrow>
      ident_ok (stamp now) \<Longrightarrow> pv_dbs (V w1) (stamp now) = None \<Longrightarrow>
      ran (pv_conn (V w1)) = insert (pg_name (pg_cfg p)) (ran (pv_conn (V w))) \<Longrightarrow>
      stamp now \<notin> ran (pv_conn (V w1)) \<Longrightarrow>
      \<exists>w2. pg_make sha S p req c (stamp now) (U (stamp now)) w1 = (Ok (), w2) \<and>
        pv_dbs (V w2) = (D (stamp now))(stamp now \<mapsto> cs)"
    and fix_files: "rq_Fixtures req \<noteq> [] \<Longrightarrow> \<forall>w. Q w \<longrightarrow> pg_getFiles S (rq_Fixtures req) w = Ok ffs"
      "rq_Fixtures req = [] \<Longrightarrow> ffs = []"
    and fx: "reads S Q ffs fx" "runs G cs fx"
  shows "\<exists>now w1. pg_CreateDB sha S p req w = (Ok (pg_db_uri p (stamp now)), w1) \<and>
    pv_dbs (V w) (stamp now) = None \<and> ident_ok (stamp now) \<and>
    pv_dbs (V w1) = (D (stamp now))(stamp now \<mapsto> cs @ fx)"
proof -
  have doc: "pg_doc S V U G" using r by (simp add: pg_ready_def)
  note qp = undisturbedD(1)[OF q(1)]
  obtain c now w2 where k2: "Q w2" and c: "c \<in> dom (pv_conn (V w2))" and v2: "pv_dbs (V w2) = pv_dbs (V w)"
    and st: "ident_ok (stamp now)" "pv_dbs (V w2) (stamp now) = None"
    and rn: "ran (pv_conn (V w2)) = insert (pg_name (pg_cfg p)) (ran (pv_conn (V w)))"
      "stamp now \<notin> ran (pv_conn (V w2))"
    and e: "pg_CreateDB sha S p req w = with_defer (sql_close (pgs S) c)
      (bind (pg_make sha S p req c (stamp now) (U (stamp now))) (\<lambda>_.
       bind (if length (rq_Fixtures req) \<noteq> 0 then pg_applyFixturesFromDir S None (rq_Fixtures req) (U (stamp now)) else ret ())
         (\<lambda>_. ret (pg_db_uri p (stamp now))))) w2"
    using pg_CreateDB_open[OF r q, of sha req] by blast
  obtain w3 where m: "pg_make sha S p req c (stamp now) (U (stamp now)) w2 = (Ok (), w3)"
    and v3: "pv_dbs (V w3) = (D (stamp now))(stamp now \<mapsto> cs)"
    using make[OF k2 c v2 st rn] by blast
  have k3: "Q w3" by (rule stays[OF quiet_pg_make[OF qp] k2 m])
  let ?f = "if length (rq_Fixtures req) \<noteq> 0 then pg_applyFixturesFromDir S None (rq_Fixtures req) (U (stamp now)) else ret ()"
  obtain w4 where f: "?f w3 = (Ok (), w4)" and v4: "pv_dbs (V w4) = (D (stamp now))(stamp now \<mapsto> cs @ fx)"
  proof (cases "rq_Fixtures req = []")
    case True
    then have "fx = []" using fix_files(2) fx(1) by (simp add: reads_def)
    then show thesis using True v3 that[of w3] by simp
  next
    case False
    obtain w4 where "applySQL S None ffs (U (stamp now)) w3 = (Ok (), w4)"
      "pv_dbs (V w4) = (pv_dbs (V w3))(stamp now \<mapsto> cs @ fx)"
      using applySQL_doc[OF doc qp fx(1) k3, of "stamp now" cs] v3 fx(2) stamp_props(1,2)[of now] by (auto simp: uri_name_def)
    then show thesis
      using False fix_files(1) k3 v3 that[of w4] by (simp add: pg_applyFixturesFromDir_def bind_def wrap_def)
  qed
  have "pg_CreateDB sha S p req w = (Ok (pg_db_uri p (stamp now)), sql_close (pgs S) c w4)"
    unfolding e using m f by (simp add: bind_def with_defer_def)
  moreover have "pv_dbs (V (sql_close (pgs S) c w4)) = pv_dbs (V w4)" by (simp add: pg_close[OF doc])
  ultimately show ?thesis using st v2 v4 by metis
qed

text \<open>The step that makes the database decides what it holds before the fixtures.\<close>

lemma pg_CreateDB_made:
  assumes "pg_ready S V U G p w" and "undisturbed S Q" and "Q w"
    and make: "\<And>c now w1. Q w1 \<Longrightarrow> c \<in> dom (pv_conn (V w1)) \<Longrightarrow> pv_dbs (V w1) = pv_dbs (V w) \<Longrightarrow>
      ident_ok (stamp now) \<Longrightarrow> pv_dbs (V w1) (stamp now) = None \<Longrightarrow>
      ran (pv_conn (V w1)) = insert (pg_name (pg_cfg p)) (ran (pv_conn (V w))) \<Longrightarrow>
      stamp now \<notin> ran (pv_conn (V w1)) \<Longrightarrow>
      \<exists>w2. pg_make sha S p req c (stamp now) (U (stamp now)) w1 = (Ok (), w2) \<and>
        pv_dbs (V w2) = D(stamp now \<mapsto> cs)"
    and fx: "\<forall>w. Q w \<longrightarrow> pg_getFiles S (rq_Fixtures req) w = Ok ffs" "reads S Q ffs fx" "runs G cs fx"
  shows "\<exists>now w1. pg_CreateDB sha S p req w = (Ok (pg_db_uri p (stamp now)), w1) \<and>
    pv_dbs (V w) (stamp now) = None \<and> ident_ok (stamp now) \<and> pv_dbs (V w1) = D(stamp now \<mapsto> cs @ fx)"
proof -
  have none: "ffs = []" if "rq_Fixtures req = []" using fx(1) assms(3) that by (auto simp: pg_files.list_empty)
  show ?thesis
    by (rule pg_CreateDB_frame[OF assms(1-3), where D = "\<lambda>_. D", OF make fx(1) none fx(2,3)])
qed

lemma pg_CreateDB_migrations:
  assumes "pg_ready S V U G p w" and "undisturbed S Q" and "Q w"
    and "\<not> rq_WithDefaultMigrations req" and "rq_Migrations req \<noteq> []"
    and "\<forall>w. Q w \<longrightarrow> pg_getFiles S (rq_Migrations req) w = Ok files" and "MigrationFiles files \<noteq> []"
    and "reads S Q (MigrationFiles files) bs" and "runs G [] bs"
    and "\<forall>w. Q w \<longrightarrow> templateName sha S (rq_Migrations req) (MigrationFiles files) w = Ok t"
    and "pv_dbs (V w) t = None \<or> pv_dbs (V w) t = Some bs"
    and "t \<noteq> pg_name (pg_cfg p)" and "t \<notin> ran (pv_conn (V w))"
    and "\<forall>w. Q w \<longrightarrow> pg_getFiles S (rq_Fixtures req) w = Ok ffs" and "reads S Q ffs fx" and "runs G bs fx"
  shows "\<exists>now w1. pg_CreateDB sha S p req w = (Ok (pg_db_uri p (stamp now)), w1) \<and>
    pv_dbs (V w) (stamp now) = None \<and> ident_ok (stamp now) \<and>
    pv_dbs (V w1) = (pv_dbs (V w))(t \<mapsto> bs, stamp now \<mapsto> bs @ fx)"
proof -
  have doc: "pg_doc S V U G" using assms(1) by (simp add: pg_ready_def)
  have "\<exists>w2. pg_make sha S p req c (stamp now) (U (stamp now)) w1 = (Ok (), w2) \<and>
      pv_dbs (V w2) = ((pv_dbs (V w))(t \<mapsto> bs))(stamp now \<mapsto> bs)"
    if h: "Q w1" "c \<in> dom (pv_conn (V w1))" "pv_dbs (V w1) = pv_dbs (V w)" "ident_ok (stamp now)"
      "pv_dbs (V w1) (stamp now) = None" "ran (pv_conn (V w1)) = insert (pg_name (pg_cfg p)) (ran (pv_conn (V w)))"
      "stamp now \<notin> ran (pv_conn (V w1))" for c now w1
  proof -
    have "t \<noteq> stamp now" using template_not_stamp assms(10)[rule_format, OF assms(3)] by metis
    moreover have "uri_name (stamp now)" using stamp_props(1,2) by (simp add: uri_name_def)
    moreover have "t \<notin> ran (pv_conn (V w1))" using h(6) assms(12,13) by simp
    ultimately show ?thesis
      using createDatabaseFromMigrations_doc[OF doc h(2,4,5) _ undisturbedD(1)[OF assms(2)] h(1) assms(6-10), of p]
        assms(4,5,11) h(3,7)
      by (auto simp: pg_make_def fun_upd_twist)
  qed
  from pg_CreateDB_made[OF assms(1-3), OF this assms(14-16)] show ?thesis .
qed

lemma pg_CreateDB_default_missing:
  assumes r: "pg_ready S V U G p w" and q: "rq_WithDefaultMigrations req" and t: "pv_dbs (V w) DefaultTemplate = None"
  shows "\<exists>e w1. pg_CreateDB sha S p req w = (Err e, w1) \<and> errors_is e errDatabaseNotExists \<and>
    pv_dbs (V w1) = pv_dbs (V w)"
proof -
  have doc: "pg_doc S V U G" using r by (simp add: pg_ready_def)
  have tok: "ident_ok DefaultTemplate" by (simp add: ident_ok_def DefaultTemplate_def)
  obtain c now w2 where c: "c \<in> dom (pv_conn (V w2))" and v2: "pv_dbs (V w2) = pv_dbs (V w)"
    and st: "ident_ok (stamp now)"
    and e: "pg_CreateDB sha S p req w = with_defer (sql_close (pgs S) c)
      (bind (pg_make sha S p req c (stamp now) (U (stamp now))) (\<lambda>_.
       bind (if length (rq_Fixtures req) \<noteq> 0 then pg_applyFixturesFromDir S None (rq_Fixtures req) (U (stamp now)) else ret ())
         (\<lambda>_. ret (pg_db_uri p (stamp now))))) w2"
    using pg_CreateDB_open[OF r undisturbed_True, of sha req] by blast
  obtain w3 where x: "createDatabaseWithTemplate S p (Some c) (stamp now) DefaultTemplate w2 = (Err errDatabaseNotExists, w3)"
    and v3: "V w3 = V w2"
    using createDatabaseWithTemplate_doc(2)[OF doc c st tok] t v2 by auto
  have "errors_is errDatabaseNotExists errDatabaseNotExists" by (simp add: errDatabaseNotExists_def)
  then show ?thesis
    using x v3 v2 q pg_close[OF doc, of c w3] unfolding e
    by (simp add: bind_def with_defer_def pg_make_def try_catch_def)
qed

lemma pg_RemoveDB_doc:
  assumes r: "pg_up S V U G p w" and u: "pg_uri_name uri = Ok n" and n: "ident_ok n" "n \<noteq> pg_name (pg_cfg p)"
  shows "\<exists>w1. pg_RemoveDB S p uri w = (Ok (), w1) \<and> pv_dbs (V w1) = (pv_dbs (V w))(n := None)"
proof -
  have doc: "pg_doc S V U G" and U: "\<forall>w n. pg_URI S (pg_db_of p n) w = U n"
    and dom: "pg_name (pg_cfg p) \<in> dom (pv_dbs (V w))" "uri_name (pg_name (pg_cfg p))"
    using r by (auto simp: pg_up_def)
  have u0: "pg_URI S p w = U (pg_name (pg_cfg p))" using U pg_URI_db_of by metis
  obtain c w1 where d: "dbConnect S (pg_URI S p w) w = (Ok c, w1)"
    and v1: "V w1 = (V w)\<lparr>pv_conn := (pv_conn (V w))(c \<mapsto> pg_name (pg_cfg p))\<rparr>"
    using dbConnect_doc[OF doc dom] unfolding u0 by blast
  obtain w2 where k: "sql_exec (pgs S) c terminate_stmt [n] w1 = (Ok (), w2)"
    and v2: "V w2 = (V w1)\<lparr>pv_conn := (\<lambda>d. if pv_conn (V w1) d = Some n then None else pv_conn (V w1) d)\<rparr>"
    using pg_kill[OF doc, of w1 c "pg_name (pg_cfg p)" n] v1 n(2) by auto
  have c2: "c \<in> dom (pv_conn (V w2))" using v1 v2 n(2) by auto
  have n2: "n \<notin> ran (pv_conn (V w2))" unfolding v2 by (auto simp: ran_def split: if_splits)
  obtain w3 where x: "sql_exec (pgs S) c (''drop database if exists '' @ quoteIdentifier n) [] w2 = (Ok (), w3)"
    and v3: "V w3 = (V w2)\<lparr>pv_dbs := (pv_dbs (V w2))(n := None)\<rparr>"
    using pg_drop[OF doc c2 n2 n(1)] by blast
  show ?thesis
    using u d k x v1 v2 v3
    by (simp add: pg_RemoveDB_def bind_def with_defer_def wrap_def pg_close[OF doc])
qed

end
