(* ===== verification/MongodbDB.thy ===== *)
theory MongodbDB
  imports Mongodb PostgresDB
begin

text \<open>
  What the mongodb server documents of the calls the program makes (\<open>mg_doc\<close>), the addresses of its
  databases, and what \<^verbatim>\<open>CreateDB\<close> and \<^verbatim>\<open>RemoveDB\<close> do on such a server.
\<close>

section \<open>Addresses\<close>

text \<open>
  The program escapes the credentials by \<^verbatim>\<open>QueryEscape\<close> and reads them back as the user part of a
  URL. The two agree on credentials without the bytes below.
\<close>

definition plain_cred :: "string \<Rightarrow> bool" where
  "plain_cred s \<longleftrightarrow> (\<forall>c\<in>set s. c \<notin> set '' $&+,;='')"

lemma queryEscape_plain: "plain_cred s \<Longrightarrow> queryEscape s = escape EncodeUserPassword s"
proof -
  assume s: "plain_cred s"
  have "escape_char EncodeQueryComponent c = escape_char EncodeUserPassword c" if "c \<in> set s" for c
  proof -
    have c: "c \<notin> set '' $&+,;=''" using s that by (simp add: plain_cred_def)
    then have "shouldEscape c EncodeQueryComponent = shouldEscape c EncodeUserPassword"
      by (auto simp: shouldEscape_def reserved_marks_def)
    then show ?thesis using c by (simp add: escape_char_def)
  qed
  then show ?thesis by (simp add: escape_def cong: map_cong)
qed

definition mdb_plain :: "MongoDB \<Rightarrow> bool" where
  "mdb_plain m \<longleftrightarrow> plain_cred (mdb_user (mdb_cfg m)) \<and> plain_cred (mdb_pass (mdb_cfg m)) \<and>
     \<not> contains (user_text (Some (mdb_user (mdb_cfg m), Some (mdb_pass (mdb_cfg m))))) docker_host"

text \<open>The instance with another database name, as \<^verbatim>\<open>CreateDB\<close> and the api server make it.\<close>

definition mdb_db_of :: "MongoDB \<Rightarrow> string \<Rightarrow> MongoDB" where
  "mdb_db_of m n = \<lparr>mdb_containerID = '''', mdb_cfg = mdb_default\<lparr>mdb_user := mdb_user (mdb_cfg m),
     mdb_pass := mdb_pass (mdb_cfg m), mdb_name := n, mdb_port := mdb_port (mdb_cfg m)\<rparr>\<rparr>"

definition mdb_db_uri :: "MongoDB \<Rightarrow> string \<Rightarrow> string" where
  "mdb_db_uri m n = url_string (db_uri ''mongodb'' (Some (mdb_user (mdb_cfg m), Some (mdb_pass (mdb_cfg m))))
     ''localhost'' (unat (mdb_port (mdb_cfg m))) n '''')"

lemma mdb_New_db:
  "mdb_New [mdb_WithHost (mdb_user (mdb_cfg m)) (mdb_pass (mdb_cfg m)) n (mdb_port (mdb_cfg m))] w = Ok (mdb_db_of m n)"
  by (simp add: mdb_New_def mdb_WithHost_def mdb_db_of_def)

lemma mdb_uri_ok:
  assumes "n \<noteq> []" and "hd n \<noteq> CHR ''/''"
  shows "uri_ok ''mongodb'' ''localhost'' n ''''" and "uri_ok ''mongodb'' docker_host n ''''"
proof -
  have sc: "\<forall>c\<in>set ''mongodb''. is_alpha c" "toLower ''mongodb'' = ''mongodb''" by code_simp+
  have h: "\<forall>c\<in>set ''localhost''. host_char c" "\<forall>c\<in>set docker_host. host_char c" by code_simp+
  have ne: "docker_host \<noteq> []" by (simp add: docker_host_def)
  show "uri_ok ''mongodb'' ''localhost'' n ''''" "uri_ok ''mongodb'' docker_host n ''''"
    unfolding uri_ok_def using assms sc h ne by auto
qed

lemma mdb_URI_db_of:
  assumes "mdb_plain m" and "n \<noteq> []" and "hd n \<noteq> CHR ''/''" and "path_text n = n"
  shows "mdb_URI S (mdb_db_of m n) w = url_string (db_uri ''mongodb''
    (Some (mdb_user (mdb_cfg m), Some (mdb_pass (mdb_cfg m))))
    (if inside_docker S w then docker_host else ''localhost'') (unat (mdb_port (mdb_cfg m))) n '''')"
proof -
  let ?a = "if inside_docker S w then docker_host else ''localhost''"
  have q: "queryEscape (mdb_user (mdb_cfg m)) = escape EncodeUserPassword (mdb_user (mdb_cfg m))"
    "queryEscape (mdb_pass (mdb_cfg m)) = escape EncodeUserPassword (mdb_pass (mdb_cfg m))"
    using assms(1) queryEscape_plain by (simp_all add: mdb_plain_def)
  have a: "?a \<noteq> []" "\<forall>c\<in>set ?a. host_char c"
    using mdb_uri_ok[OF assms(2,3)] by (simp_all add: uri_ok_def split: if_splits)
  have "mdb_URI S (mdb_db_of m n) w = ''mongodb://'' @ escape EncodeUserPassword (mdb_user (mdb_cfg m)) @ '':'' @
      escape EncodeUserPassword (mdb_pass (mdb_cfg m)) @ ''@'' @ ?a @ '':'' @ formatUint (unat (mdb_port (mdb_cfg m))) @ ''/'' @ n"
    using q by (simp add: mdb_URI_def mdb_db_of_def docker_host_def joinHostPort_def Let_def)
  also have "\<dots> = url_string (db_uri ''mongodb'' (Some (mdb_user (mdb_cfg m), Some (mdb_pass (mdb_cfg m)))) ?a
      (unat (mdb_port (mdb_cfg m))) n '''')"
    using url_string_db_uri[of "''mongodb''" ?a n] a assms(2-4)
    by (simp add: authority_def hostport_def userinfo_string_def)
  finally show ?thesis .
qed

lemma stamp_tail: "\<not> contains (tail_text (stamp now) '''') docker_host"
proof -
  have "CHR ''h'' \<notin> set (formatUint now)"
    using formatUint_no[of "CHR ''h''" now "CHR ''h''"] by (auto simp: is_digit_def)
  then have "CHR ''h'' \<notin> set (tail_text (stamp now) '''')"
    by (simp add: tail_text_def stamp_props) (simp add: stamp_def)
  moreover have "CHR ''h'' \<in> set docker_host" by (simp add: docker_host_def)
  ultimately show ?thesis using contains_subset by blast
qed

lemma mdb_hostURI_db:
  assumes "mdb_plain m" and "inside_docker S w' = inside_docker S w"
  shows "(if inside_docker S w' then replaceAll (mdb_URI S (mdb_db_of m (stamp now)) w) ''host.docker.internal'' ''localhost''
     else mdb_URI S (mdb_db_of m (stamp now)) w) = mdb_db_uri m (stamp now)"
proof -
  note u = mdb_URI_db_of[OF assms(1) stamp_props(1-3), of S now w]
  have "\<not> contains ''mongodb'' docker_host" by (simp add: docker_host_def)
  then have "replaceAll (url_string (db_uri ''mongodb'' (Some (mdb_user (mdb_cfg m), Some (mdb_pass (mdb_cfg m)))) docker_host
      (unat (mdb_port (mdb_cfg m))) (stamp now) '''')) docker_host ''localhost'' = mdb_db_uri m (stamp now)"
    unfolding mdb_db_uri_def
    using url_string_replace_host[OF mdb_uri_ok(2)[OF stamp_props(1,2)] mdb_uri_ok(1)[OF stamp_props(1,2)] _ _ stamp_tail] assms(1)
    unfolding mdb_plain_def by blast
  then show ?thesis using assms(2) unfolding u by (simp add: mdb_db_uri_def docker_host_def)
qed

section \<open>What mongodb documents\<close>

text \<open>The documents of each collection of each database, and the open connections.\<close>

record mg_view =
  mv_docs :: "string \<Rightarrow> string \<Rightarrow> string list"
  mv_conn :: "nat set"

definition mg_name :: "string \<Rightarrow> bool" where
  "mg_name n \<longleftrightarrow> n \<noteq> [] \<and> length n < 64 \<and> (\<forall>c\<in>set n. is_alnum c \<or> c = CHR ''_'')"

text \<open>
  A server that is reached at the addresses \<open>A\<close>: connecting opens a new connection, dropping empties
  the database, inserting appends the documents where the collection takes them (\<open>G\<close>).
\<close>

definition mg_doc :: "'w sys \<Rightarrow> ('w \<Rightarrow> mg_view) \<Rightarrow> (string list \<Rightarrow> string list \<Rightarrow> bool) \<Rightarrow> string set \<Rightarrow> bool" where
  "mg_doc S V G A \<longleftrightarrow>
     (\<forall>w u. u \<in> A \<longrightarrow> (\<exists>c w1. mg_connect (mgs S) u w = (Ok c, w1) \<and> c \<notin> mv_conn (V w) \<and>
        V w1 = (V w)\<lparr>mv_conn := insert c (mv_conn (V w))\<rparr>)) \<and>
     (\<forall>w c. c \<in> mv_conn (V w) \<longrightarrow> (\<exists>w1. mg_ping (mgs S) c w = (Ok (), w1) \<and> V w1 = V w)) \<and>
     (\<forall>w c. V (mg_disconnect (mgs S) c w) = (V w)\<lparr>mv_conn := mv_conn (V w) - {c}\<rparr>) \<and>
     (\<forall>w c n. c \<in> mv_conn (V w) \<longrightarrow> mg_name n \<longrightarrow> (\<exists>w1. mg_drop (mgs S) c n w = (Ok (), w1) \<and>
        V w1 = (V w)\<lparr>mv_docs := (mv_docs (V w))(n := (\<lambda>_. []))\<rparr>)) \<and>
     (\<forall>w c n k ds. c \<in> mv_conn (V w) \<longrightarrow> mg_name n \<longrightarrow> ds \<noteq> [] \<longrightarrow> G (mv_docs (V w) n k) ds \<longrightarrow>
        (\<exists>w1. mg_insertMany (mgs S) c n k ds w = (Ok (), w1) \<and>
          V w1 = (V w)\<lparr>mv_docs := (mv_docs (V w))(n := (mv_docs (V w) n)(k := mv_docs (V w) n k @ ds))\<rparr>))"

lemma mg_docD:
  assumes "mg_doc S V G A"
  shows mg_open: "u \<in> A \<Longrightarrow> \<exists>c w1. mg_connect (mgs S) u w = (Ok c, w1) \<and> c \<notin> mv_conn (V w) \<and>
        V w1 = (V w)\<lparr>mv_conn := insert c (mv_conn (V w))\<rparr>"
    and mg_pinged: "c \<in> mv_conn (V w) \<Longrightarrow> \<exists>w1. mg_ping (mgs S) c w = (Ok (), w1) \<and> V w1 = V w"
    and mg_closed: "V (mg_disconnect (mgs S) c w) = (V w)\<lparr>mv_conn := mv_conn (V w) - {c}\<rparr>"
    and mg_dropped: "c \<in> mv_conn (V w) \<Longrightarrow> mg_name n \<Longrightarrow> \<exists>w1. mg_drop (mgs S) c n w = (Ok (), w1) \<and>
        V w1 = (V w)\<lparr>mv_docs := (mv_docs (V w))(n := (\<lambda>_. []))\<rparr>"
    and mg_inserted: "c \<in> mv_conn (V w) \<Longrightarrow> mg_name n \<Longrightarrow> ds \<noteq> [] \<Longrightarrow> G (mv_docs (V w) n k) ds \<Longrightarrow>
        \<exists>w1. mg_insertMany (mgs S) c n k ds w = (Ok (), w1) \<and>
          V w1 = (V w)\<lparr>mv_docs := (mv_docs (V w))(n := (mv_docs (V w) n)(k := mv_docs (V w) n k @ ds))\<rparr>"
  using assms unfolding mg_doc_def by simp_all

lemma mdb_connect_doc:
  assumes "mg_doc S V G A" and "mdb_URI S m w \<in> A"
  shows "\<exists>c w1. mdb_connect S m w = (Ok c, w1) \<and> c \<notin> mv_conn (V w) \<and>
    V w1 = (V w)\<lparr>mv_conn := insert c (mv_conn (V w))\<rparr>"
proof -
  obtain c w1 where o: "mg_connect (mgs S) (mdb_URI S m w) w = (Ok c, w1)" "c \<notin> mv_conn (V w)"
    and v: "V w1 = (V w)\<lparr>mv_conn := insert c (mv_conn (V w))\<rparr>"
    using mg_open[OF assms] by blast
  obtain w2 where "mg_ping (mgs S) c w1 = (Ok (), w2)" "V w2 = V w1" using mg_pinged[OF assms(1), of c w1] v by auto
  with o v show ?thesis by (simp add: mdb_connect_def bind_def try_catch_def)
qed

section \<open>What the driver leaves alone\<close>

text \<open>No call of the driver changes whether \<open>P\<close> holds; \<open>P\<close> says what is known of the files.\<close>

definition quiet_mg :: "'w sys \<Rightarrow> ('w \<Rightarrow> bool) \<Rightarrow> bool" where
  "quiet_mg S P \<longleftrightarrow>
     (\<forall>u. preserves P (mg_connect (mgs S) u)) \<and> (\<forall>c. preserves P (mg_ping (mgs S) c)) \<and>
     (\<forall>c w. P w \<longrightarrow> P (mg_disconnect (mgs S) c w)) \<and> (\<forall>c n. preserves P (mg_drop (mgs S) c n)) \<and>
     (\<forall>c n k ds. preserves P (mg_insertMany (mgs S) c n k ds))"

lemma quiet_mg_True [simp]: "quiet_mg S (\<lambda>_. True)"
  by (simp add: quiet_mg_def preserves_def)

lemma quiet_mg_ops:
  assumes "quiet_mg S P"
  shows "preserves P (mg_connect (mgs S) u)" "preserves P (mg_ping (mgs S) c)"
    "preserves P (mg_drop (mgs S) c n)" "preserves P (mg_insertMany (mgs S) c n k ds)"
  using assms by (simp_all add: quiet_mg_def)

lemma quiet_mg_close: "quiet_mg S P \<Longrightarrow> P w \<Longrightarrow> P (mg_disconnect (mgs S) c w)"
  by (simp add: quiet_mg_def)

lemma quiet_mdb_connect:
  assumes q: "quiet_mg S P"
  shows "preserves P (mdb_connect S m)"
proof -
  have "preserves P (\<lambda>w. (Err e, mg_disconnect (mgs S) c w))" for e c
    using quiet_mg_close[OF q] by (simp add: preserves_def)
  then show ?thesis
    unfolding mdb_connect_def
    by (intro keeps quiet_mg_ops[OF q] preserves_reader[of P "mg_connect (mgs S)" "mdb_URI S m"])
qed

section \<open>Loading files\<close>

text \<open>The collections after the documents of some files were appended, and whether they are taken.\<close>

fun load :: "(string \<Rightarrow> string list) \<Rightarrow> (string \<times> string list) list \<Rightarrow> string \<Rightarrow> string list" where
  "load f [] = f"
| "load f ((k, ds) # xs) = load (f(k := f k @ ds)) xs"

fun takes :: "(string list \<Rightarrow> string list \<Rightarrow> bool) \<Rightarrow> (string \<Rightarrow> string list) \<Rightarrow> (string \<times> string list) list \<Rightarrow> bool" where
  "takes G f [] = True"
| "takes G f ((k, ds) # xs) = ((ds = [] \<or> G (f k) ds) \<and> takes G (f(k := f k @ ds)) xs)"

text \<open>A JSON file, the collection it is named after and the documents in it.\<close>

definition json_file :: "'w sys \<Rightarrow> ('w \<Rightarrow> bool) \<Rightarrow> string \<Rightarrow> string \<times> string list \<Rightarrow> bool" where
  "json_file S Q f kd \<longleftrightarrow> path_ext f = ''.json'' \<and> path_base f = fst kd @ ''.json'' \<and>
     (\<exists>b. (\<forall>w. Q w \<longrightarrow> readFile (os S) f w = Ok b) \<and> json_docs (mgs S) b = Ok (snd kd))"

lemma applyJSScript_json:
  assumes doc: "mg_doc S V G A" and c: "c \<in> mv_conn (V w)" and n: "mg_name n"
    and q: "quiet_mg S Q" "Q w"
    and j: "json_file S Q f (k, ds)" and g: "ds = [] \<or> G (mv_docs (V w) n k) ds"
  shows "\<exists>w1. applyJSScript S c n f w = (Ok (), w1) \<and> Q w1 \<and> mv_conn (V w1) = mv_conn (V w) \<and>
    mv_docs (V w1) = (mv_docs (V w))(n := (mv_docs (V w) n)(k := mv_docs (V w) n k @ ds))"
proof -
  obtain b where b: "\<forall>w. Q w \<longrightarrow> readFile (os S) f w = Ok b" "json_docs (mgs S) b = Ok ds"
    and e: "path_ext f = ''.json''" "path_base f = k @ ''.json''"
    using j by (auto simp: json_file_def)
  have l: "toLower ''.json'' = ''.json''" by code_simp
  have "trimSuffix (k @ ''.json'') ''.json'' = k" by (simp add: trimSuffix_def hasSuffix_def)
  then have a: "applyJSScript S c n f w = (if ds \<noteq> [] then wrap ''failed to insert documents: %w'' []
      (mg_insertMany (mgs S) c n k ds) else ret ()) w"
    using b q(2) e l by (simp add: applyJSScript_def bind_def wrap_def Let_def)
  show ?thesis
  proof (cases "ds = []")
    case True
    then show ?thesis using a q(2) by simp
  next
    case False
    then obtain w1 where i: "mg_insertMany (mgs S) c n k ds w = (Ok (), w1)"
      and v: "V w1 = (V w)\<lparr>mv_docs := (mv_docs (V w))(n := (mv_docs (V w) n)(k := mv_docs (V w) n k @ ds))\<rparr>"
      using mg_inserted[OF doc c n False] g by blast
    have "Q w1" by (rule stays[OF quiet_mg_ops(4)[OF q(1)] q(2) i])
    then show ?thesis using a False i v by (simp add: wrap_def)
  qed
qed

lemma mdb_apply_all_doc:
  assumes doc: "mg_doc S V G A" and n: "mg_name n" and q: "quiet_mg S Q"
  shows "list_all2 (json_file S Q) fs xs \<Longrightarrow> Q w \<Longrightarrow> c \<in> mv_conn (V w) \<Longrightarrow> takes G (mv_docs (V w) n) xs \<Longrightarrow>
    \<exists>w1. mdb_apply_all S c n fmt fs w = (Ok (), w1) \<and> Q w1 \<and> mv_conn (V w1) = mv_conn (V w) \<and>
      mv_docs (V w1) = (mv_docs (V w))(n := load (mv_docs (V w) n) xs)"
proof (induction fs xs arbitrary: w rule: list_all2_induct)
  case Nil
  then show ?case by (simp add: mdb_apply_all_def)
next
  case (Cons f fs x xs)
  obtain k ds where x: "x = (k, ds)" by (cases x)
  obtain w1 where a: "applyJSScript S c n f w = (Ok (), w1)" "mv_conn (V w1) = mv_conn (V w)" "Q w1"
    and v: "mv_docs (V w1) = (mv_docs (V w))(n := (mv_docs (V w) n)(k := mv_docs (V w) n k @ ds))"
    using applyJSScript_json[OF doc Cons.prems(2) n q Cons.prems(1), of f k ds] Cons.hyps(1) Cons.prems(3) x by auto
  have pre: "Q w1" "c \<in> mv_conn (V w1)" "takes G (mv_docs (V w1) n) xs" using Cons.prems a(2,3) v x by simp_all
  obtain w2 where r: "mdb_apply_all S c n fmt fs w1 = (Ok (), w2)" "mv_conn (V w2) = mv_conn (V w1)" "Q w2"
    and v2: "mv_docs (V w2) = (mv_docs (V w1))(n := load (mv_docs (V w1) n) xs)"
    using Cons.IH[OF pre] by blast
  have "mdb_apply_all S c n fmt (f # fs) w = (Ok (), w2)" using a(1) r(1) by (simp add: mdb_apply_all_def bind_def wrap_def)
  moreover have "mv_docs (V w2) = (mv_docs (V w))(n := load (mv_docs (V w) n) (x # xs))" using v v2 x by simp
  ultimately show ?case using a(2) r(2,3) by metis
qed

section \<open>CreateDB and RemoveDB\<close>

text \<open>
  The configured server is up, and the clock shows a time at which no database was named yet.
\<close>

definition mg_up :: "'w sys \<Rightarrow> ('w \<Rightarrow> mg_view) \<Rightarrow> (string list \<Rightarrow> string list \<Rightarrow> bool) \<Rightarrow> MongoDB \<Rightarrow> bool" where
  "mg_up S V G m \<longleftrightarrow> (\<exists>A. mg_doc S V G A \<and> (\<forall>w. mdb_URI S m w \<in> A))"

definition mg_ready :: "'w sys \<Rightarrow> ('w \<Rightarrow> mg_view) \<Rightarrow> (string list \<Rightarrow> string list \<Rightarrow> bool) \<Rightarrow> MongoDB \<Rightarrow> 'w \<Rightarrow> bool" where
  "mg_ready S V G m w \<longleftrightarrow>
     mg_up S V G m \<and> mdb_plain m \<and>
     (\<forall>w w'. inside_docker S w = inside_docker S w') \<and>
     (\<forall>w. V (snd (nowNano (os S) w)) = V w \<and> fst (nowNano (os S) w) < 2 ^ 63) \<and>
     (\<forall>w'. mv_docs (V w') = mv_docs (V w) \<longrightarrow> mv_docs (V w) (stamp (fst (nowNano (os S) w'))) = (\<lambda>_. []))"

lemma mg_name_stamp: "now < 2 ^ 63 \<Longrightarrow> mg_name (stamp now)"
proof -
  assume "now < 2 ^ 63"
  then have "length (stamp now) \<le> 63" using ident_ok_stamp[of now] by (simp add: ident_ok_def stamp_def)
  moreover have "\<forall>c\<in>set (formatUint now). is_alnum c" using formatUint_digits[of now] by (auto simp: is_digit_def is_alnum_def Let_def)
  moreover have "\<forall>c\<in>set ''dbctl_''. is_alnum c \<or> c = CHR ''_''" by code_simp
  ultimately show ?thesis by (auto simp: mg_name_def stamp_def)
qed

text \<open>The files of a directory of a request, or none when it names no directory.\<close>

definition request_files :: "'w sys \<Rightarrow> ('w \<Rightarrow> bool) \<Rightarrow> string \<Rightarrow> string list \<Rightarrow> bool" where
  "request_files S Q dir fs \<longleftrightarrow> (if dir = '''' then fs = [] else \<forall>w. Q w \<longrightarrow> mdb_getFiles S dir w = Ok fs)"

lemma apply_dir_doc:
  assumes "mg_doc S V G A" and "mg_name n" and "quiet_mg S Q"
    and "request_files S Q dir fs" and "list_all2 (json_file S Q) fs xs" and "Q w" and "c \<in> mv_conn (V w)" and "takes G (mv_docs (V w) n) xs"
  shows "\<exists>w1. (if length dir > 0 then wrap f [] (bind (wrap g [] (ask (mdb_getFiles S dir))) (mdb_apply_all S c n h))
      else ret ()) w = (Ok (), w1) \<and> Q w1 \<and> mv_conn (V w1) = mv_conn (V w) \<and>
    mv_docs (V w1) = (mv_docs (V w))(n := load (mv_docs (V w) n) xs)"
proof (cases "dir = ''''")
  case True
  then show ?thesis using assms(4-6) by (simp add: request_files_def)
next
  case False
  then have "mdb_getFiles S dir w = Ok fs" using assms(4,6) by (simp add: request_files_def)
  with False mdb_apply_all_doc[OF assms(1-3,5-8), of h] show ?thesis by (auto simp: bind_def wrap_def)
qed

lemma mdb_CreateDB_doc:
  assumes r: "mg_ready S V G m w" and q: "quiet_mg S Q" "\<And>w. Q w \<Longrightarrow> Q (snd (nowNano (os S) w))" "Q w"
    and ms: "request_files S Q (rq_Migrations req) mf" "list_all2 (json_file S Q) mf mx" "takes G (\<lambda>_. []) mx"
    and fs: "request_files S Q (rq_Fixtures req) ff" "list_all2 (json_file S Q) ff fx" "takes G (load (\<lambda>_. []) mx) fx"
  shows "\<exists>now w1. mdb_CreateDB S m req w = (Ok (mdb_db_uri m (stamp now)), w1) \<and>
    mv_docs (V w) (stamp now) = (\<lambda>_. []) \<and> mg_name (stamp now) \<and>
    mv_docs (V w1) = (mv_docs (V w))(stamp now := load (load (\<lambda>_. []) mx) fx) \<and> mv_conn (V w1) = mv_conn (V w)"
proof -
  obtain A where doc: "mg_doc S V G A" and A: "\<forall>w. mdb_URI S m w \<in> A" and pl: "mdb_plain m"
    and ins: "\<forall>w w'. inside_docker S w = inside_docker S w'"
    and clk: "\<forall>w. V (snd (nowNano (os S) w)) = V w \<and> fst (nowNano (os S) w) < 2 ^ 63"
    and new: "\<forall>w'. mv_docs (V w') = mv_docs (V w) \<longrightarrow> mv_docs (V w) (stamp (fst (nowNano (os S) w'))) = (\<lambda>_. [])"
    using r unfolding mg_ready_def mg_up_def by blast
  obtain c w1 where c: "mdb_connect S m w = (Ok c, w1)" "c \<notin> mv_conn (V w)"
    and v1: "V w1 = (V w)\<lparr>mv_conn := insert c (mv_conn (V w))\<rparr>"
    using mdb_connect_doc[OF doc A[rule_format]] by blast
  obtain now w2 where t: "nowNano (os S) w1 = (now, w2)" by (cases "nowNano (os S) w1")
  have v2: "V w2 = V w1" "now < 2 ^ 63" using clk[rule_format, of w1] t by auto
  have nm: "mg_name (stamp now)" by (rule mg_name_stamp[OF v2(2)])
  have em: "mv_docs (V w) (stamp now) = (\<lambda>_. [])" using new[rule_format, of w1] v1 t by simp
  have "Q w1" by (rule stays[OF quiet_mdb_connect[OF q(1)] q(3) c(1)])
  then have k2: "Q w2" using q(2)[of w1] t by simp
  have c2: "c \<in> mv_conn (V w2)" "takes G (mv_docs (V w2) (stamp now)) mx" using v1 v2 em ms(3) by simp_all
  define M where "M c n = (if length (rq_Migrations req) > 0 then wrap ''applying migrations failed: %w'' []
      (bind (wrap ''read migrations failed: %w'' [] (ask (mdb_getFiles S (rq_Migrations req))))
        (mdb_apply_all S c n ''failed to apply migration %s: %w'')) else ret ())" for c n
  define F where "F c n = (if length (rq_Fixtures req) > 0 then wrap ''applying fixtures failed: %w'' []
      (bind (wrap ''read fixtures failed: %w'' [] (ask (mdb_getFiles S (rq_Fixtures req))))
        (mdb_apply_all S c n ''failed to apply fixture %s: %w'')) else ret ())" for c n
  have eM: "(if length (rq_Migrations req) > 0 then wrap ''applying migrations failed: %w'' []
      (mdb_applyMigrationsFromDir S c n (rq_Migrations req)) else ret ()) = M c n" for c n
    by (simp add: M_def mdb_applyMigrationsFromDir_def)
  have eF: "(if length (rq_Fixtures req) > 0 then wrap ''applying fixtures failed: %w'' []
      (mdb_applyFixturesFromDir S c n (rq_Fixtures req)) else ret ()) = F c n" for c n
    by (simp add: F_def mdb_applyFixturesFromDir_def)
  obtain w3 where m3: "M c (stamp now) w2 = (Ok (), w3)" and k3: "Q w3" and v3: "mv_conn (V w3) = mv_conn (V w2)"
    "mv_docs (V w3) = (mv_docs (V w2))(stamp now := load (mv_docs (V w2) (stamp now)) mx)"
    using apply_dir_doc[OF doc nm q(1) ms(1,2) k2 c2] unfolding M_def by blast
  have c3: "c \<in> mv_conn (V w3)" "takes G (mv_docs (V w3) (stamp now)) fx" using c2(1) v1 v2 v3 em fs(3) by simp_all
  obtain w4 where f4: "F c (stamp now) w3 = (Ok (), w4)" and v4: "mv_conn (V w4) = mv_conn (V w3)"
    "mv_docs (V w4) = (mv_docs (V w3))(stamp now := load (mv_docs (V w3) (stamp now)) fx)"
    using apply_dir_doc[OF doc nm q(1) fs(1,2) k3 c3] unfolding F_def by blast
  have "mdb_CreateDB S m req w = (Ok (mdb_db_uri m (stamp now)), mg_disconnect (mgs S) c w4)"
    using c(1) t m3 f4 mdb_hostURI_db[OF pl ins[rule_format, of w4 w2], of now]
    unfolding mdb_CreateDB_def stamp_def[symmetric] Let_def eM eF
    by (simp add: bind_def wrap_def with_defer_def pure_step_def mdb_New_db)
  moreover have "V (mg_disconnect (mgs S) c w4) = (V w4)\<lparr>mv_conn := mv_conn (V w4) - {c}\<rparr>" by (rule mg_closed[OF doc])
  ultimately show ?thesis using v1 v2 v3 v4 em nm c(2) by auto
qed

lemma mdb_RemoveDB_doc:
  assumes doc: "mg_doc S V G A" and A: "\<forall>w. mdb_URI S m w \<in> A" and n: "mg_name n"
    and u: "url_parse uri = Ok u" "trimPrefix (Path u) ''/'' = n"
  shows "\<exists>w1. mdb_RemoveDB S m uri w = (Ok (), w1) \<and> mv_docs (V w1) = (mv_docs (V w))(n := (\<lambda>_. []))"
proof -
  obtain c w1 where c: "mdb_connect S m w = (Ok c, w1)" and v1: "V w1 = (V w)\<lparr>mv_conn := insert c (mv_conn (V w))\<rparr>"
    using mdb_connect_doc[OF doc A[rule_format]] by blast
  obtain w2 where d: "mg_drop (mgs S) c n w1 = (Ok (), w2)" and v2: "V w2 = (V w1)\<lparr>mv_docs := (mv_docs (V w1))(n := (\<lambda>_. []))\<rparr>"
    using mg_dropped[OF doc _ n, of c w1] v1 by auto
  then show ?thesis
    using c u v1 by (simp add: mdb_RemoveDB_def bind_def wrap_def with_defer_def mg_closed[OF doc] Let_def)
qed

end
