(* ===== verification/Handlers.thy ===== *)
theory Handlers
  imports Uploads RedisPool PostgresDB MongodbDB
begin

text \<open>
  What the handlers of the api server leave behind: which of them touch the world at all, that a
  request cleans up its temporary directories, and that removing the database a request created
  reaches the instance it was created on.
\<close>

section \<open>Calls that do not touch a part of the world\<close>

text \<open>
  \<open>quiet S P\<close>: no call of the servers, of docker, or of the file system other than making and
  removing temporary directories changes whether \<open>P\<close> holds.
\<close>

definition quiet_os :: "'w sys \<Rightarrow> ('w \<Rightarrow> bool) \<Rightarrow> bool" where
  "quiet_os S P \<longleftrightarrow>
     (\<forall>d. preserves P (mkdirAll (os S) d)) \<and> (\<forall>f. preserves P (createFile (os S) f)) \<and>
     (\<forall>f s. preserves P (copyTo (os S) f s)) \<and> preserves P (pure_step (nowNano (os S))) \<and>
     preserves P (dk_client (docker S)) \<and> (\<forall>fs. preserves P (dk_list (docker S) fs)) \<and>
     (\<forall>c cmd. preserves P (dk_execCreate (docker S) c cmd)) \<and> (\<forall>e. preserves P (dk_execAttach (docker S) e))"

definition quiet :: "'w sys \<Rightarrow> ('w \<Rightarrow> bool) \<Rightarrow> bool" where
  "quiet S P \<longleftrightarrow> quiet_os S P \<and> quiet_pg S P \<and> quiet_rd S P \<and> quiet_mg S P"

lemma quiet_ops:
  assumes "quiet S P"
  shows "preserves P (mkdirAll (os S) d)" "preserves P (createFile (os S) f)" "preserves P (copyTo (os S) f s)"
    "preserves P (pure_step (nowNano (os S)))"
    "preserves P (dk_client (docker S))" "preserves P (dk_list (docker S) fs)"
    "preserves P (dk_execCreate (docker S) i cmd)" "preserves P (dk_execAttach (docker S) x)"
    "preserves P (sql_open (pgs S) u)" "preserves P (sql_ping (pgs S) c)"
    "preserves P (sql_exec (pgs S) c q as)" "preserves P (sql_begin (pgs S) c)"
    "preserves P (tx_exec (pgs S) c q)" "preserves P (tx_rollback (pgs S) c)" "preserves P (tx_commit (pgs S) c)"
    "preserves P (rd_dial (rds S) u)" "preserves P (rd_do (rds S) c as)" "preserves P (rd_call (rds S) c as)"
    "preserves P (rd_eval (rds S) c q)"
    "preserves P (mg_connect (mgs S) u)" "preserves P (mg_ping (mgs S) c)"
    "preserves P (mg_drop (mgs S) c n)" "preserves P (mg_insertMany (mgs S) c n k as)"
  using assms by (simp_all add: quiet_def quiet_os_def quiet_pg_def quiet_rd_def quiet_mg_def)

lemma quiet_close:
  assumes "quiet S P" and "P w"
  shows "P (sql_close (pgs S) c w)" "P (rd_close (rds S) c w)" "P (mg_disconnect (mgs S) c w)"
  using assms by (simp_all add: quiet_def quiet_pg_def quiet_rd_def quiet_mg_def)

lemma quiet_script: "quiet S P \<Longrightarrow> preserves P m \<Longrightarrow> preserves P (rd_script (rds S) c m)"
  by (simp add: quiet_def quiet_rd_def)

lemma quiet_redis: "quiet S P \<Longrightarrow> quiet_rd S P"
  and quiet_postgres: "quiet S P \<Longrightarrow> quiet_pg S P"
  and quiet_mongo: "quiet S P \<Longrightarrow> quiet_mg S P"
  by (simp_all add: quiet_def)

subsection \<open>Redis\<close>

lemma quiet_apply_lines: "quiet S P \<Longrightarrow> preserves P (apply_lines S c i ls)"
proof (induction ls arbitrary: i)
  case Nil
  show ?case unfolding apply_lines.simps by (intro keeps)
next
  case (Cons l ls)
  note q = Cons.prems and ih = Cons.IH[OF Cons.prems]
  show ?case unfolding apply_lines.simps by (intro keeps quiet_ops[OF q] ih)
qed

lemma quiet_rs_applyFixturesTo:
  assumes q: "quiet S P"
  shows "preserves P (rs_applyFixturesTo S u fs)"
  unfolding rs_applyFixturesTo_def rs_applyFixtures_def apply_fixture_def applyCommands_def
  by (intro keeps quiet_ops[OF q] quiet_close[OF q] quiet_apply_lines[OF q])

lemma quiet_rs_dial:
  assumes q: "quiet S P"
  shows "preserves P (\<lambda>w. rd_dial (rds S) (rs_adminURI S p w) w)"
    and "preserves P (\<lambda>w. rs_applyFixturesTo S (rs_URI S d w) fs w)"
  using quiet_ops[OF q] quiet_rs_applyFixturesTo[OF q] by (simp_all add: preserves_def)

lemma quiet_rs_CreateDB:
  assumes q: "quiet S P"
  shows "preserves P (rs_CreateDB S p req)"
  unfolding rs_CreateDB_def
  by (intro keeps quiet_close[OF q] quiet_acquireDBIndex[OF quiet_redis[OF q]] quiet_rs_dial[OF q])

lemma quiet_rs_RemoveDB:
  assumes q: "quiet S P"
  shows "preserves P (rs_RemoveDB S p u)"
  unfolding rs_RemoveDB_def release_script_def
  by (intro keeps quiet_ops[OF q] quiet_close[OF q] quiet_script[OF q] quiet_rs_dial[OF q])

subsection \<open>Postgres\<close>

lemma quiet_pg_CreateDB:
  assumes q: "quiet S P"
  shows "preserves P (pg_CreateDB sha S p req)"
  unfolding pg_CreateDB_def pg_applyFixturesFromDir_def
  by (intro keeps quiet_close[OF q] quiet_pg_make[OF quiet_postgres[OF q]] quiet_applySQL[OF quiet_postgres[OF q]] quiet_ops[OF q]
      preserves_reader[of P "dbConnect S" "pg_URI S p"] quiet_dbConnect[OF quiet_postgres[OF q]])

lemma quiet_pg_RemoveDB:
  assumes q: "quiet S P"
  shows "preserves P (pg_RemoveDB S p u)"
  unfolding pg_RemoveDB_def
  by (intro keeps quiet_close[OF q] quiet_ops[OF q] preserves_reader[of P "dbConnect S" "pg_URI S p"]
      quiet_dbConnect[OF quiet_postgres[OF q]])

subsection \<open>Mongodb\<close>

lemma quiet_List: "quiet S P \<Longrightarrow> preserves P (List S ls)"
  unfolding List_def by (intro keeps quiet_ops)

lemma quiet_mdb_apply_all:
  assumes q: "quiet S P"
  shows "preserves P (mdb_apply_all S c n f fs)"
  unfolding mdb_apply_all_def applyJSScript_def RunExec_def CreateExec_def StartExec_def
  by (intro keeps quiet_ops[OF q] quiet_List[OF q])

lemma quiet_mdb_CreateDB:
  assumes q: "quiet S P"
  shows "preserves P (mdb_CreateDB S m req)"
  unfolding mdb_CreateDB_def mdb_applyMigrationsFromDir_def mdb_applyFixturesFromDir_def
  by (intro keeps quiet_close[OF q] quiet_mdb_connect[OF quiet_mongo[OF q]] quiet_mdb_apply_all[OF q] quiet_ops[OF q])

subsection \<open>Handlers\<close>

lemma quiet_create_for:
  assumes q: "quiet S P"
  shows "preserves P (create_for sha S req)"
  unfolding create_for_def createPostgresDB_def createRedisDB_def createMongoDBDB_def
  by (intro keeps quiet_pg_CreateDB[OF q] quiet_rs_CreateDB[OF q] quiet_mdb_CreateDB[OF q])

lemma quiet_readMulipartFiles:
  assumes q: "quiet S P"
  shows "preserves P (readMulipartFiles S r key dst)"
  unfolding readMulipartFiles_def writeMultipartFile_def by (intro keeps quiet_ops[OF q])

lemma quiet_applyInstance:
  assumes q: "quiet S P"
  shows "preserves P (applyInstance S s r)"
  unfolding applyInstance_def instanceFor_def FindInstance_def
  by (intro keeps quiet_List[OF q])

lemma quiet_create_in:
  assumes q: "quiet S P"
  shows "preserves P (create_in sha S s r req md fd)"
  unfolding create_in_def JSONError_def
  by (intro keeps quiet_readMulipartFiles[OF q] quiet_applyInstance[OF q] quiet_create_for[OF q])

section \<open>Temporary directories\<close>

text \<open>
  \<open>T\<close> is the set of directories below /tmp: making a temporary one gives a new name, removing
  takes the name away, and nothing else changes the set.
\<close>

definition tmp_doc :: "'w sys \<Rightarrow> ('w \<Rightarrow> string set) \<Rightarrow> bool" where
  "tmp_doc S T \<longleftrightarrow>
     (\<forall>d p w n w1. mkdirTemp (os S) d p w = (Ok n, w1) \<longrightarrow> n \<notin> T w \<and> T w1 = insert n (T w)) \<and>
     (\<forall>d p w e w1. mkdirTemp (os S) d p w = (Err e, w1) \<longrightarrow> T w1 = T w) \<and>
     (\<forall>d p w q w1. mkdirTemp (os S) d p w = (Panic q, w1) \<longrightarrow> T w1 = T w) \<and>
     (\<forall>n w. T (removeAll (os S) n w) = T w - {n}) \<and>
     (\<forall>X. quiet S (\<lambda>w. T w = X))"

lemma tmp_scope:
  assumes t: "tmp_doc S T" and body: "\<And>d w. T (snd (body d w)) = T w"
  shows "T (snd (try_catch (mkdirTemp (os S) a b) (JSONError st)
    (\<lambda>d. with_defer (removeAll (os S) d) (body d)) w)) = T w"
proof -
  obtain r w1 where m: "mkdirTemp (os S) a b w = (r, w1)" by (cases "mkdirTemp (os S) a b w")
  show ?thesis
  proof (cases r)
    case (Ok d)
    then have d: "d \<notin> T w" "T w1 = insert d (T w)" using t m by (auto simp: tmp_doc_def)
    have rm: "T (removeAll (os S) d w2) = T w2 - {d}" for w2 using t by (simp add: tmp_doc_def)
    show ?thesis
      using m Ok d rm body[of d w1] by (cases "body d w1") (simp add: try_catch_def with_defer_def)
  next
    case (Err e)
    then have "T w1 = T w" using t m by (auto simp: tmp_doc_def)
    then show ?thesis using m Err by (simp add: try_catch_def JSONError_def)
  next
    case (Panic q)
    then have "T w1 = T w" using t m by (auto simp: tmp_doc_def)
    then show ?thesis using m Panic by (simp add: try_catch_def)
  qed
qed

lemma preserves_JSONError: "preserves P (JSONError st e)"
  by (simp add: JSONError_def preserves_def)

lemma api_CreateDB_tmp:
  assumes t: "tmp_doc S T"
  shows "T (snd (api_CreateDB sha S s r w)) = T w"
proof -
  have inner: "T (snd (create_in sha S s r req md fd w)) = T w" for req md fd w
  proof -
    have "quiet S (\<lambda>w'. T w' = T w)" using t by (simp add: tmp_doc_def)
    from preservesD[OF quiet_create_in[OF this], of w] show ?thesis by simp
  qed
  let ?b = "\<lambda>req md. try_catch (mkdirTemp (os S) ''/tmp'' ''fixtures-*'') (JSONError StatusInternalServerError)
      (\<lambda>fd. with_defer (removeAll (os S) fd) (create_in sha S s r req md fd))"
  have b: "T (snd (?b req md w)) = T w" for req md w
    by (rule tmp_scope[OF t, where body = "\<lambda>fd. create_in sha S s r req md fd"], rule inner)
  have c: "T (snd (try_catch (mkdirTemp (os S) ''/tmp'' ''migrations-*'') (JSONError StatusInternalServerError)
      (\<lambda>md. with_defer (removeAll (os S) md) (?b req md)) w)) = T w" for req w
    by (rule tmp_scope[OF t, where body = "\<lambda>md. ?b req md"], rule b)
  have c': "preserves (\<lambda>w'. T w' = X) (try_catch (mkdirTemp (os S) ''/tmp'' ''migrations-*'')
      (JSONError StatusInternalServerError) (\<lambda>md. with_defer (removeAll (os S) md) (?b req md)))" for req X
    by (rule preservesI) (simp add: c)
  have "preserves (\<lambda>w'. T w' = T w) (api_CreateDB sha S s r)"
    unfolding api_CreateDB_def Let_def
    by (rule preserves_if, rule preserves_JSONError, rule preserves_try_catch, rule preserves_lift_res,
        rule preserves_JSONError, rule preserves_if, rule preserves_JSONError, rule preserves_try_catch,
        rule preserves_lift_res, rule preserves_JSONError, rule c')
  from preservesD[OF this, of w] show ?thesis by simp
qed

lemma quiet_mdb_RemoveDB:
  assumes q: "quiet S P"
  shows "preserves P (mdb_RemoveDB S m u)"
  unfolding mdb_RemoveDB_def Let_def
  by (intro keeps quiet_close[OF q] quiet_ops[OF q] quiet_mdb_connect[OF quiet_mongo[OF q]])

lemma quiet_api_RemoveDB:
  assumes q: "quiet S P"
  shows "preserves P (api_RemoveDB S J r)"
  unfolding api_RemoveDB_def remove_for_def removePostgresDB_def removeRedisDB_def removeMongoDBDB_def case_prod_beta
  by (intro keeps preserves_JSONError quiet_pg_RemoveDB[OF q] quiet_rs_RemoveDB[OF q] quiet_mdb_RemoveDB[OF q])

lemma serve_tmp:
  assumes t: "tmp_doc S T"
  shows "T (snd (serve sha S J s path r w)) = T w"
proof -
  have "quiet S (\<lambda>w'. T w' = T w)" using t by (simp add: tmp_doc_def)
  from preservesD[OF quiet_api_RemoveDB[OF this], of w] show ?thesis
    by (simp add: serve_def api_CreateDB_tmp[OF t])
qed

lemma api_Start_tmp:
  assumes "tmp_doc S T"
  shows "T (snd (snd (api_Start sha S J s evs w))) = T w"
proof (induction evs arbitrary: w)
  case Nil
  then show ?case by simp
next
  case (Cons ev evs)
  then show ?case
  proof (cases ev)
    case (Incoming path r)
    then show ?thesis
      using Cons[of "snd (serve sha S J s path r w)"] serve_tmp[OF assms, of sha J s path r w]
      by (simp add: case_prod_beta)
  qed simp_all
qed

section \<open>Refused requests\<close>

text \<open>A request that is refused before anything was done, and the answer it gets.\<close>

definition create_refused :: "http_request \<Rightarrow> nat option" where
  "create_refused r =
     (if hr_Method r \<noteq> ''POST'' then Some StatusMethodNotAllowed
      else if FormValue r ''instance_port'' \<noteq> '''' \<and> \<not> is_ok (parseUint 32 (FormValue r ''instance_port''))
        then Some StatusBadRequest
      else if FormValue r ''type'' \<notin> {TypePostgres, TypeRedis, TypeMongoDB} then Some StatusBadRequest
      else None)"

lemma parse_digits_no_Panic: "parse_digits b n s \<noteq> Panic q"
  by (induction s arbitrary: n) auto

lemma parseUint_no_Panic: "parseUint b s \<noteq> Panic q"
  using parse_digits_no_Panic by (auto simp: parseUint_def)

lemma form_port_cases:
  "form_port r = (if FormValue r ''instance_port'' = '''' then Ok 0
     else case parseUint 32 (FormValue r ''instance_port'') of
       Ok n \<Rightarrow> Ok (word_of_nat n)
     | _ \<Rightarrow> Err (Errorf ''instance_port is not a valid port number: %q'' [FormValue r ''instance_port'']))"
  using parseUint_no_Panic by (auto simp: form_port_def Let_def split: res.splits)

lemma api_CreateDB_refused:
  assumes "create_refused r = Some st"
  shows "\<exists>e. api_CreateDB sha S s r w = (Ok (st, JErr e), w)"
proof -
  have v: "ar_Type (form_request r\<lparr>ar_InstancePort := p\<rparr>) = FormValue r ''type''" for p
    by (simp add: form_request_def)
  have t: "TypePostgres \<noteq> ''''" "TypeRedis \<noteq> ''''" "TypeMongoDB \<noteq> ''''" by (simp_all add: type_defs)
  consider "hr_Method r \<noteq> ''POST''" "st = StatusMethodNotAllowed"
    | e where "hr_Method r = ''POST''" "form_port r = Err e" "st = StatusBadRequest"
    | p where "hr_Method r = ''POST''" "form_port r = Ok p" "st = StatusBadRequest"
        "FormValue r ''type'' \<notin> {TypePostgres, TypeRedis, TypeMongoDB}"
    using assms form_port_cases[of r]
    by (auto simp: create_refused_def is_ok_iff split: if_splits res.splits)
  then show ?thesis
  proof cases
    case 1
    then show ?thesis by (simp add: api_CreateDB_def JSONError_def)
  next
    case (2 e)
    then show ?thesis by (simp add: api_CreateDB_def JSONError_def try_catch_def)
  next
    case (3 p)
    then show ?thesis
      by (simp add: api_CreateDB_def JSONError_def try_catch_def v validateType_def Let_def)
  qed
qed

section \<open>Removing what was created\<close>

subsection \<open>Redis\<close>

text \<open>
  The address of a redis database carries the credentials unless there is a password without a
  user, which redis addresses cannot express.
\<close>

definition rs_credentials_kept :: "rs_config \<Rightarrow> bool" where
  "rs_credentials_kept c \<longleftrightarrow> rs_user c \<noteq> '''' \<or> rs_pass c = ''''"

lemma parse_port: "parseUint 32 (formatUint (unat (port :: u32))) = Ok (unat port)"
  using unsigned_less[of port] by (intro parseUint_formatUint) simp

lemma rs_New_WithURI:
  assumes "rs_credentials_kept (rs_cfg p)"
  shows "\<exists>q. rs_New [rs_WithURI (rs_db_uri p i)] w = Ok q \<and> rs_user (rs_cfg q) = rs_user (rs_cfg p) \<and>
    rs_pass (rs_cfg q) = rs_pass (rs_cfg p) \<and> rs_port (rs_cfg q) = rs_port (rs_cfg p)"
proof -
  have ne: "rs_db_uri p i \<noteq> ''''"
    using url_string_db_uri[of "''redis''" "''localhost''" "formatUint i"] redis_uri_ok(1)[of i]
    by (simp add: rs_db_uri_def uri_ok_def)
  obtain u where u: "url_parse (rs_db_uri p i) = Ok u" "User u = rs_userInfo (rs_cfg p)"
    "url_port u = formatUint (unat (rs_port (rs_cfg p)))"
    using url_parse_db_uri[OF redis_uri_ok(1)] by (simp add: rs_db_uri_def url_port_db_uri)
  consider "rs_user (rs_cfg p) \<noteq> ''''" "rs_pass (rs_cfg p) \<noteq> ''''"
    | "rs_user (rs_cfg p) \<noteq> ''''" "rs_pass (rs_cfg p) = ''''" | "rs_user (rs_cfg p) = ''''" "rs_pass (rs_cfg p) = ''''"
    using assms by (auto simp: rs_credentials_kept_def)
  then show ?thesis
    using ne u by cases
      (simp_all add: rs_New_def rs_WithURI_def rs_userInfo_def parse_port rs_default_def rs_DefaultUser_def
        rs_DefaultPass_def Let_def)
qed

lemma rs_ready_cong:
  assumes "rs_ready S V n p" and "rs_user (rs_cfg q) = rs_user (rs_cfg p)"
    and "rs_pass (rs_cfg q) = rs_pass (rs_cfg p)" and "rs_port (rs_cfg q) = rs_port (rs_cfg p)"
  shows "rs_ready S V n q"
proof -
  have "rs_adminURI S q w = rs_adminURI S p w" for w
    by (simp add: rs_adminURI_def assms rs_New_def rs_WithHost_def)
  moreover have "plain_user q = plain_user p" by (simp add: plain_user_def rs_userInfo_def assms)
  ultimately show ?thesis using assms(1) by (simp add: rs_ready_def)
qed

lemma removeRedisDB_doc:
  assumes r: "rs_ready S V n p" and k: "rs_credentials_kept (rs_cfg p)" and i: "0 < i" "i < n"
  shows "\<exists>w1. removeRedisDB S (rs_db_uri p i) w = (Ok (), w1) \<and> rv_dbs (V w1) = release_db i (rv_dbs (V w))"
proof -
  obtain q where q: "rs_New [rs_WithURI (rs_db_uri p i)] w = Ok q" "rs_user (rs_cfg q) = rs_user (rs_cfg p)"
    "rs_pass (rs_cfg q) = rs_pass (rs_cfg p)" "rs_port (rs_cfg q) = rs_port (rs_cfg p)"
    using rs_New_WithURI[OF k, of i w] by blast
  have i63: "i < 2 ^ 63" using r i(2) by (auto simp: rs_ready_def)
  from rs_RemoveDB_doc[OF rs_ready_cong[OF r q(2-4)] i rs_uri_index_db[OF i63]] q(1)
  show ?thesis by (simp add: removeRedisDB_def bind_def)
qed

subsection \<open>Postgres\<close>

lemma pg_New_WithURI:
  assumes "pg_user (pg_cfg p) \<noteq> ''''" and "n \<noteq> []" and "hd n \<noteq> CHR ''/''"
  shows "pg_New [pg_WithURI (pg_db_uri p n)] w = Ok \<lparr>pg_containerID = '''', pg_cfg = pg_default\<lparr>
    pg_user := pg_user (pg_cfg p), pg_pass := pg_pass (pg_cfg p), pg_port := pg_port (pg_cfg p)\<rparr>\<rparr>"
proof -
  have ne: "pg_db_uri p n \<noteq> ''''"
    using url_string_db_uri[of "''postgres''" "''localhost''" n] pg_uri_ok(1)[OF assms(2,3)]
    by (simp add: pg_db_uri_def uri_ok_def)
  show ?thesis
    using assms(1) ne
    unfolding pg_New_def apply_options.simps pg_WithURI_def pg_db_uri_def url_parse_db_uri[OF pg_uri_ok(1)[OF assms(2,3)]]
    by (simp add: url_port_db_uri parse_port Let_def)
qed

lemma removePostgresDB_doc:
  assumes r: "pg_up S V U G p w" and u: "pg_user (pg_cfg p) \<noteq> ''''"
    and nm: "pg_DefaultName \<in> dom (pv_dbs (V w))"
    and n: "ident_ok n" "n \<noteq> pg_DefaultName" "hd n \<noteq> CHR ''/''"
  shows "\<exists>w1. removePostgresDB S (pg_db_uri p n) w = (Ok (), w1) \<and> pv_dbs (V w1) = (pv_dbs (V w))(n := None)"
proof -
  have ne: "n \<noteq> []" using n(1) by (simp add: ident_ok_def)
  define q where "q = \<lparr>pg_containerID = '''', pg_cfg = pg_default\<lparr>
    pg_user := pg_user (pg_cfg p), pg_pass := pg_pass (pg_cfg p), pg_port := pg_port (pg_cfg p)\<rparr>\<rparr>"
  have q: "pg_New [pg_WithURI (pg_db_uri p n)] w = Ok q" using pg_New_WithURI[OF u ne n(3)] by (simp add: q_def)
  have cfg: "pg_db_of q m = pg_db_of p m" for m by (simp add: q_def pg_db_of_def)
  have nq: "pg_name (pg_cfg q) = pg_DefaultName" by (simp add: q_def pg_default_def)
  have "pg_up S V U G q w"
    using r nm unfolding pg_up_def cfg nq by (simp add: pg_plain_user_def q_def uri_name_def pg_DefaultName_def)
  from pg_RemoveDB_doc[OF this pg_uri_name_db[OF ne n(3), of p] n(1)] n(2) nq q
  show ?thesis by (simp add: removePostgresDB_def bind_def)
qed

subsection \<open>Mongodb\<close>

lemma removeMongoDBDB_doc:
  assumes "mg_up S V G m" and "mdb_user (mdb_cfg m) \<noteq> ''''" and "mdb_name (mdb_cfg m) = mdb_DefaultName"
    and "mg_name n"
  shows "\<exists>w1. removeMongoDBDB S (mdb_db_uri m n) w = (Ok (), w1) \<and> mv_docs (V w1) = (mv_docs (V w))(n := (\<lambda>_. []))"
proof -
  have n: "n \<noteq> []" "hd n \<noteq> CHR ''/''"
    using assms(4) by (auto simp: mg_name_def is_alnum_def neq_Nil_conv)
  note parse = url_parse_db_uri[OF mdb_uri_ok(1)[OF n]]
  have ne: "mdb_db_uri m n \<noteq> ''''"
    using url_string_db_uri[of "''mongodb''" "''localhost''" n] mdb_uri_ok(1)[OF n] by (simp add: mdb_db_uri_def uri_ok_def)
  define q where "q = \<lparr>mdb_containerID = '''', mdb_cfg = mdb_default\<lparr>mdb_user := mdb_user (mdb_cfg m),
    mdb_pass := mdb_pass (mdb_cfg m), mdb_port := mdb_port (mdb_cfg m)\<rparr>\<rparr>"
  have new: "mdb_New [mdb_WithURI (mdb_db_uri m n)] w = Ok q"
    using assms(2) ne unfolding mdb_New_def apply_options.simps mdb_WithURI_def mdb_db_uri_def parse
    by (simp add: url_port_db_uri parse_port Let_def q_def)
  have same: "mdb_URI S q w = mdb_URI S m w" for w
    using assms(3) by (simp add: mdb_URI_def q_def mdb_default_def)
  obtain A where doc: "mg_doc S V G A" and A: "\<forall>w. mdb_URI S q w \<in> A"
    using assms(1) unfolding mg_up_def same by blast
  have "\<exists>w1. mdb_RemoveDB S q (mdb_db_uri m n) w = (Ok (), w1) \<and> mv_docs (V w1) = (mv_docs (V w))(n := (\<lambda>_. []))"
    by (rule mdb_RemoveDB_doc[OF doc A assms(4) parse[where user = "Some (mdb_user (mdb_cfg m), Some (mdb_pass (mdb_cfg m)))"
          and port = "unat (mdb_port (mdb_cfg m))", folded mdb_db_uri_def]]) (simp add: trimPrefix_def hasPrefix_def)
  then show ?thesis using new by (auto simp: removeMongoDBDB_def bind_def)
qed

end
