(* ===== verification/Table.thy ===== *)
theory Table
  imports GoUtf8
begin

text \<open>
  \<^verbatim>\<open>internal/table/table.go\<close>: a table that is drawn with a frame. Widths are counted in bytes when
  rows are added, while \<^verbatim>\<open>%-*s\<close> pads to a number of runes. What is printed is the list of lines.
\<close>

section \<open>Definitions\<close>

record Table =
  tb_rows :: "string list list"
  tb_widths :: "nat list option"

definition tb_New :: Table where
  "tb_New = \<lparr>tb_rows = [], tb_widths = None\<rparr>"

definition AddRow :: "string list \<Rightarrow> Table \<Rightarrow> Table res" where
  "AddRow row t =
     (let widths = (case tb_widths t of None \<Rightarrow> replicate (length row) 0 | Some ws \<Rightarrow> ws)
      in if length widths \<noteq> length row then Panic ''bad size''
         else Ok \<lparr>tb_rows = tb_rows t @ [row],
                  tb_widths = Some (map2 (\<lambda>s width. if length s > width then length s else width) row widths)\<rparr>)"

fun cells :: "string \<Rightarrow> string list \<Rightarrow> string" where
  "cells m [] = []"
| "cells m [c] = c"
| "cells m (c # cs) = c @ m @ cells m cs"

definition writeRow :: "string \<Rightarrow> string \<Rightarrow> string \<Rightarrow> string list \<Rightarrow> string" where
  "writeRow l m r cols = l @ cells m cols @ r"

definition pad_right :: "nat \<Rightarrow> string \<Rightarrow> string" where
  "pad_right width s = s @ replicate (width - length (runes s)) (CHR '' '')"

definition text_cell :: "nat \<Rightarrow> string \<Rightarrow> string" where
  "text_cell width s = '' '' @ pad_right width s @ '' ''"

definition bar :: string where "bar = of_runes [9474]"

definition rule_cell :: "nat \<Rightarrow> string" where
  "rule_cell width = of_runes (replicate (width + 2) 9472)"

text \<open>
  A row that is too short cannot occur: every row has as many texts as there are widths. A table
  without rows has no first row to print.
\<close>

definition tb_Print :: "Table \<Rightarrow> string list res" where
  "tb_Print t =
     (let ws = (case tb_widths t of None \<Rightarrow> [] | Some ws \<Rightarrow> ws);
          line = (\<lambda>row. writeRow bar bar bar (map2 text_cell ws row));
          rulel = (\<lambda>l m r. writeRow (of_runes [l]) (of_runes [m]) (of_runes [r]) (map rule_cell ws))
      in case tb_rows t of
           [] \<Rightarrow> if ws = [] then Ok [rulel 9581 9516 9582, writeRow bar bar bar [], rulel 9500 9532 9508, rulel 9584 9524 9583]
                 else Panic ''index out of range''
         | first # rest \<Rightarrow>
             Ok ([rulel 9581 9516 9582, line first, rulel 9500 9532 9508] @ map line rest @ [rulel 9584 9524 9583]))"

fun add_rows :: "string list list \<Rightarrow> Table \<Rightarrow> Table res" where
  "add_rows [] t = Ok t"
| "add_rows (r # rs) t = bind_res (AddRow r t) (add_rows rs)"

section \<open>Runes of framed text\<close>

lemma decode_first_ascii:
  assumes "(of_char x :: nat) < 128"
  shows "decode_first c (a @ x # b) = decode_first c a"
proof -
  have nc: "\<not> is_cont x" using assms by (simp add: is_cont_def)
  show ?thesis
  proof (cases a)
    case Nil
    then show ?thesis using nc by (simp add: decode_first_def Let_def split: list.splits)
  next
    case (Cons c1 a1)
    show ?thesis
    proof (cases a1)
      case Nil
      then show ?thesis using Cons nc by (simp add: decode_first_def Let_def split: list.splits)
    next
      case c2: (Cons c2 a2)
      then show ?thesis
        using Cons nc by (cases a2) (simp_all add: decode_first_def Let_def)
    qed
  qed
qed

lemma decode_first_len: "decode_first c s = (r, n) \<Longrightarrow> n \<le> length s"
  by (auto simp: decode_first_def Let_def split: if_splits list.splits)

lemma runes_ascii_cut:
  assumes x: "(of_char x :: nat) < 128"
  shows "runes (a @ x # b) = runes a @ of_char x # runes b"
proof (induction a rule: runes.induct)
  case 1
  then show ?case using x by (simp add: decode_first_def)
next
  case (2 c s)
  obtain r n where d: "decode_first c s = (r, n)" by (cases "decode_first c s")
  have "n \<le> length s" by (rule decode_first_len[OF d])
  then have "drop n (s @ x # b) = drop n s @ x # b" by simp
  with 2[OF d[symmetric]] show ?case using d by (simp add: decode_first_ascii[OF x])
qed

lemma runes_length: "length (runes s) \<le> length s"
proof (induction s rule: runes.induct)
  case (2 c s)
  obtain r n where d: "decode_first c s = (r, n)" by (cases "decode_first c s")
  have "length (runes (drop n s)) \<le> length (drop n s)" using 2[OF d[symmetric]] .
  then show ?case using d by simp
qed simp

lemma runes_blanks: "runes (replicate k (CHR '' '') @ s) = replicate k 32 @ runes s"
  by (induction k) (simp_all add: decode_first_def)

lemma length_text_cell:
  assumes "length s \<le> width"
  shows "length (runes (text_cell width s @ rest)) = width + 2 + length (runes rest)"
proof -
  have b: "(of_char (CHR '' '') :: nat) < 128" by simp
  let ?k = "width - length (runes s)"
  have "replicate ?k (CHR '' '') @ CHR '' '' # rest = CHR '' '' # replicate ?k (CHR '' '') @ rest"
    by (metis append_Cons append_assoc replicate_append_same self_append_conv2)
  then have "text_cell width s @ rest = [] @ CHR '' '' # s @ CHR '' '' # (replicate ?k (CHR '' '') @ rest)"
    by (simp add: text_cell_def pad_right_def)
  then have "runes (text_cell width s @ rest) = 32 # runes s @ 32 # replicate ?k 32 @ runes rest"
    using runes_ascii_cut[OF b, of "[]"] runes_ascii_cut[OF b, of s] by (simp only: runes_blanks) simp
  then show ?thesis using runes_length[of s] assms by simp
qed

lemma length_of_runes_app:
  "list_all valid_rune rs \<Longrightarrow> length (runes (of_runes rs @ s)) = length rs + length (runes s)"
  by (simp add: runes_app_valid)

text \<open>Cells that each take a width and two blanks, with a mark between them.\<close>

definition fits :: "nat \<Rightarrow> string \<Rightarrow> bool" where
  "fits width c \<longleftrightarrow> (\<forall>rest. length (runes (c @ rest)) = width + 2 + length (runes rest))"

lemma length_cells:
  assumes "list_all2 fits ws cs" and "valid_rune m"
  shows "length (runes (cells (of_runes [m]) cs @ rest)) =
    sum_list ws + 3 * length ws - (if ws = [] then 0 else 1) + length (runes rest)"
  using assms(1)
proof (induction ws cs rule: list_all2_induct)
  case Nil
  then show ?case by simp
next
  case (Cons w ws c cs)
  show ?case
  proof (cases cs)
    case Nil
    then show ?thesis using Cons by (simp add: fits_def)
  next
    case (Cons d ds)
    then have ws: "ws \<noteq> []" using \<open>list_all2 fits ws cs\<close> by auto
    have "length (runes (cells (of_runes [m]) (c # cs) @ rest)) =
        w + 2 + (1 + length (runes (cells (of_runes [m]) cs @ rest)))"
      using Cons \<open>fits w c\<close> length_of_runes_app[of "[m]"] assms(2) by (simp add: fits_def)
    then show ?thesis using Cons.IH ws by (cases ws) simp_all
  qed
qed

lemma fits_text: "length s \<le> width \<Longrightarrow> fits width (text_cell width s)"
  by (simp add: fits_def length_text_cell)

lemma fits_rule: "fits width (rule_cell width)"
proof -
  have "list_all valid_rune (replicate k 9472)" for k by (simp add: list_all_length valid_rune_def)
  from length_of_runes_app[OF this[of "width + 2"]] show ?thesis
    unfolding fits_def rule_cell_def by simp
qed

lemma length_writeRow:
  assumes "list_all2 fits ws cs" and "valid_rune l" and "valid_rune m" and "valid_rune r" and "ws \<noteq> []"
  shows "length (runes (writeRow (of_runes [l]) (of_runes [m]) (of_runes [r]) cs)) = 1 + sum_list ws + 3 * length ws"
proof -
  have "length (runes (of_runes [r])) = 1" using runes_of_runes[of "[r]"] assms(4) by simp
  moreover have "3 * length ws \<ge> 1" using assms(5) by (cases ws) simp_all
  ultimately show ?thesis
    using length_cells[OF assms(1,3), of "of_runes [r]"] length_of_runes_app[of "[l]"] assms(2,5)
    by (simp add: writeRow_def)
qed

section \<open>Rows\<close>

text \<open>Every row has as many texts as there are columns, none longer than the width of its column.\<close>

definition table_ok :: "Table \<Rightarrow> bool" where
  "table_ok t \<longleftrightarrow>
     (case tb_widths t of
        None \<Rightarrow> tb_rows t = []
      | Some ws \<Rightarrow> tb_rows t \<noteq> [] \<and> (\<forall>row\<in>set (tb_rows t). list_all2 (\<lambda>s w. length s \<le> w) row ws))"

lemma AddRow_ok:
  assumes "table_ok t" and "AddRow row t = Ok t'"
  shows "table_ok t'"
proof -
  define ws where "ws = (case tb_widths t of None \<Rightarrow> replicate (length row) 0 | Some ws \<Rightarrow> ws)"
  define ws' where "ws' = map2 (\<lambda>s width. if length s > width then length s else width) row ws"
  have l: "length ws = length row" and t': "t' = \<lparr>tb_rows = tb_rows t @ [row], tb_widths = Some ws'\<rparr>"
    using assms(2) by (auto simp: AddRow_def ws_def ws'_def Let_def split: if_splits)
  have new: "list_all2 (\<lambda>s w. length s \<le> w) row ws'"
    using l by (simp add: list_all2_conv_all_nth ws'_def)
  have grow: "list_all2 (\<le>) ws ws'" using l by (simp add: list_all2_conv_all_nth ws'_def)
  have "list_all2 (\<lambda>s w. length s \<le> w) r ws'" if r: "r \<in> set (tb_rows t)" for r
  proof -
    obtain vs where "tb_widths t = Some vs" "list_all2 (\<lambda>s w. length s \<le> w) r vs"
      using assms(1) r by (cases "tb_widths t") (auto simp: table_ok_def)
    then have "list_all2 (\<lambda>s w. length s \<le> w) r ws" by (simp add: ws_def)
    with grow show ?thesis by (auto simp: list_all2_conv_all_nth dest!: spec intro: le_trans)
  qed
  with new show ?thesis by (auto simp: t' table_ok_def)
qed

lemma add_rows_ok: "table_ok t \<Longrightarrow> add_rows rows t = Ok t' \<Longrightarrow> table_ok t'"
  by (induction rows arbitrary: t) (auto simp: bind_res_eq_Ok dest: AddRow_ok)

lemma add_rows_total:
  "\<forall>r\<in>set rows. length r = n \<Longrightarrow> (case tb_widths t of None \<Rightarrow> True | Some ws \<Rightarrow> length ws = n) \<Longrightarrow>
   \<exists>t'. add_rows rows t = Ok t' \<and> tb_rows t' = tb_rows t @ rows"
proof (induction rows arbitrary: t)
  case Nil
  then show ?case by simp
next
  case (Cons r rows)
  obtain t1 where a: "AddRow r t = Ok t1" and rows1: "tb_rows t1 = tb_rows t @ [r]"
    and w1: "\<exists>ws. tb_widths t1 = Some ws \<and> length ws = n"
    using Cons.prems by (auto simp: AddRow_def Let_def split: option.splits)
  obtain t' where "add_rows rows t1 = Ok t'" "tb_rows t' = tb_rows t1 @ rows"
    using Cons.IH[of t1] Cons.prems(1) w1 by auto
  then show ?case using a rows1 by simp
qed

text \<open>Every line of a printed table is as wide as the others, in runes.\<close>

lemma tb_Print_aligned:
  assumes "table_ok t" and "tb_widths t = Some ws" and "ws \<noteq> []"
  shows "\<exists>ls. tb_Print t = Ok ls \<and> length ls = length (tb_rows t) + 3 \<and>
    (\<forall>l\<in>set ls. length (runes l) = 1 + sum_list ws + 3 * length ws)"
proof -
  obtain first rest where r: "tb_rows t = first # rest"
    using assms(1,2) by (cases "tb_rows t") (auto simp: table_ok_def)
  have v: "valid_rune 9474" "valid_rune 9581" "valid_rune 9516" "valid_rune 9582" "valid_rune 9500"
    "valid_rune 9532" "valid_rune 9508" "valid_rune 9584" "valid_rune 9524" "valid_rune 9583"
    by (simp_all add: valid_rune_def)
  have lines: "length (runes (writeRow bar bar bar (map2 text_cell ws row))) = 1 + sum_list ws + 3 * length ws"
    if "row \<in> set (tb_rows t)" for row
  proof -
    have "list_all2 (\<lambda>s w. length s \<le> w) row ws" using assms(1,2) that by (auto simp: table_ok_def)
    then have "list_all2 fits ws (map2 text_cell ws row)"
      by (auto simp: list_all2_conv_all_nth intro: fits_text)
    from length_writeRow[OF this v(1,1,1) assms(3)] show ?thesis by (simp add: bar_def)
  qed
  have rules: "list_all2 fits ws (map rule_cell ws)" by (simp add: list_all2_conv_all_nth fits_rule)
  show ?thesis
    using assms(2) r lines length_writeRow[OF rules _ _ _ assms(3)] v
    by (auto simp: tb_Print_def Let_def)
qed

end
