(* ===== verification/Dirs.thy ===== *)
theory Dirs
  imports Uploads PostgresDB
begin

text \<open>
  Directories and the files in them, as the client reads them, as the server stores them and as the
  providers list them: \<open>dir_files\<close> says which files a directory holds, an upload makes it true of the
  directory of the request, and the listings of the providers are read off it.
\<close>

section \<open>The files of a directory\<close>

fun file_entries :: "walk_event list \<Rightarrow> (string \<times> string) list" where
  "file_entries [] = []"
| "file_entries (WalkEntry p name d # evs) = (if d then file_entries evs else (p, name) # file_entries evs)"
| "file_entries (WalkErr e # evs) = file_entries evs"

definition entry_name :: "string \<Rightarrow> string" where
  "entry_name p = last (splitOn slash p)"

definition file_at :: "string \<Rightarrow> string \<Rightarrow> string" where
  "file_at d r = d @ slash # r"

text \<open>
  The directory \<open>d\<close> holds the files \<open>ss\<close>, given by their names below it, in order, and their contents;
  a walk meets every one of them once and no error.
\<close>

definition dir_files :: "'w sys \<Rightarrow> 'w \<Rightarrow> string \<Rightarrow> (string \<times> string) list \<Rightarrow> bool" where
  "dir_files S w d ss \<longleftrightarrow>
     clean_dir d \<and> statIsDir (os S) d w = Ok True \<and> no_walk_error (walkDir (os S) d w) \<and>
     distinct (file_entries (walkDir (os S) d w)) \<and>
     set (file_entries (walkDir (os S) d w)) = (\<lambda>f. (file_at d (fst f), entry_name (fst f))) ` set ss \<and>
     sorted_wrt (<) (map fst ss) \<and>
     (\<forall>f\<in>set ss. rel_name (fst f) \<and> \<not> hasPrefix (fst f) ''..'' \<and> readFile (os S) (file_at d (fst f)) w = Ok (snd f))"

lemma dir_filesD:
  assumes "dir_files S w d ss"
  shows "clean_dir d" "statIsDir (os S) d w = Ok True" "no_walk_error (walkDir (os S) d w)"
    "distinct (file_entries (walkDir (os S) d w))"
    "set (file_entries (walkDir (os S) d w)) = (\<lambda>f. (file_at d (fst f), entry_name (fst f))) ` set ss"
    "sorted_wrt (<) (map fst ss)"
    "f \<in> set ss \<Longrightarrow> rel_name (fst f) \<and> \<not> hasPrefix (fst f) ''..'' \<and> readFile (os S) (file_at d (fst f)) w = Ok (snd f)"
  using assms by (auto simp: dir_files_def)

lemma file_at_inj [simp]: "file_at d r = file_at d r' \<longleftrightarrow> r = r'"
  by (simp add: file_at_def)

lemma file_at_join: "clean_dir d \<Longrightarrow> rel_name r \<Longrightarrow> path_join d r = file_at d r"
  using path_join_below[of d r] by (simp add: clean_dir_def file_at_def)

lemma file_at_rel: "clean_dir d \<Longrightarrow> rel_name r \<Longrightarrow> path_rel d (file_at d r) = Ok r"
  using path_rel_below[of d r] by (simp add: file_at_join)

lemma clean_Abs: "clean_dir d \<Longrightarrow> Abs S d w = Ok d"
  by (simp add: clean_dir_def Abs_def)

lemma clean_dir_ne [simp]: "\<not> clean_dir []"
  by (simp add: clean_dir_def isAbs_def)

lemma dir_files_names:
  assumes "dir_files S w d ss"
  shows "distinct (map fst ss)" and "distinct ss"
proof -
  show "distinct (map fst ss)" using dir_filesD(6)[OF assms] by (simp add: strict_sorted_iff)
  then show "distinct ss" by (simp add: distinct_map)
qed

lemma entries_mset:
  assumes "dir_files S w d ss"
  shows "mset (file_entries (walkDir (os S) d w)) = mset (map (\<lambda>f. (file_at d (fst f), entry_name (fst f))) ss)"
proof -
  have "distinct (map (\<lambda>f. (file_at d (fst f), entry_name (fst f))) ss)"
    using dir_files_names(1)[OF assms] by (simp add: distinct_map inj_on_def)
  then show ?thesis
    using dir_filesD(4,5)[OF assms] by (intro set_eq_iff_mset_eq_distinct[THEN iffD1]) simp_all
qed

section \<open>What the client finds\<close>

definition as_upload :: "string \<Rightarrow> string \<times> string \<Rightarrow> uploadFile" where
  "as_upload d f = \<lparr>uf_rel = fst f, uf_path = file_at d (fst f)\<rparr>"

definition upload_of :: "string \<Rightarrow> string \<Rightarrow> uploadFile" where
  "upload_of d p = \<lparr>uf_rel = drop (Suc (length d)) p, uf_path = p\<rparr>"

lemma walk_uploads_entries:
  assumes "no_walk_error evs" and "\<forall>(p, n)\<in>set (file_entries evs). \<exists>r. rel_name r \<and> p = file_at d r" and "clean_dir d"
  shows "walk_uploads d None evs = Ok (map (upload_of d \<circ> fst) (file_entries evs))"
  using assms(1,2)
proof (induction evs rule: file_entries.induct)
  case 1
  then show ?case by simp
next
  case (2 p name isDir evs)
  then have ih: "walk_uploads d None evs = Ok (map (upload_of d \<circ> fst) (file_entries evs))"
    by (cases isDir) (auto simp: no_walk_error_def)
  show ?case
  proof (cases isDir)
    case True
    then show ?thesis using ih by simp
  next
    case False
    then obtain r where "rel_name r" "p = file_at d r" using 2(4) by auto
    then show ?thesis using False ih file_at_rel[OF assms(3)] by (simp add: upload_of_def file_at_def)
  qed
next
  case (3 e evs)
  then show ?case by (auto simp: no_walk_error_def)
qed

lemma getFilesList_dir:
  assumes "dir_files S w d ss"
  shows "getFilesList rx S d '''' w = Ok (map (as_upload d) ss)"
proof -
  let ?es = "file_entries (walkDir (os S) d w)"
  note d = dir_filesD[OF assms]
  have "\<forall>(p, n)\<in>set ?es. \<exists>r. rel_name r \<and> p = file_at d r" using d(5,7) by fastforce
  from walk_uploads_entries[OF d(3) this d(1)]
  have u: "walk_uploads d None (walkDir (os S) d w) = Ok (map (upload_of d \<circ> fst) ?es)" .
  have m: "mset (map (upload_of d \<circ> fst) ?es) = mset (map (as_upload d) ss)"
  proof -
    have "map (upload_of d \<circ> fst) (map (\<lambda>f. (file_at d (fst f), entry_name (fst f))) ss) = map (as_upload d) ss"
      by (simp add: as_upload_def upload_of_def file_at_def)
    then have "image_mset (upload_of d \<circ> fst) (mset (map (\<lambda>f. (file_at d (fst f), entry_name (fst f))) ss)) =
        mset (map (as_upload d) ss)"
      by (simp only: mset_map[symmetric])
    then show ?thesis by (simp only: mset_map[of "upload_of d \<circ> fst" ?es] entries_mset[OF assms])
  qed
  have rel: "map uf_rel (map (as_upload d) ss) = map fst ss" by (simp add: as_upload_def)
  have "sort_key uf_rel (map (upload_of d \<circ> fst) ?es) = map (as_upload d) ss"
  proof (rule sort_key_inj_key_eq[OF m])
    have "set (map (upload_of d \<circ> fst) ?es) = as_upload d ` set ss" using mset_eq_setD[OF m] by simp
    then show "inj_on uf_rel (set (map (upload_of d \<circ> fst) ?es))"
      using dir_files_names(1)[OF assms] by (simp add: inj_on_def as_upload_def)
    show "sorted (map uf_rel (map (as_upload d) ss))"
      unfolding rel using d(6) by (simp add: strict_sorted_iff)
  qed
  then show ?thesis
    using d(1,2) u clean_Abs[OF d(1), of S w] by (auto simp: getFilesList_def)
qed

section \<open>What the providers find\<close>

lemma walk_files_entries:
  "no_walk_error evs \<Longrightarrow> walk_files keep evs = Ok (map fst (filter (keep \<circ> snd) (file_entries evs)))"
  by (induction evs rule: file_entries.induct) (auto simp: no_walk_error_def)

lemma sorted_file_at: "sorted_wrt (<) rs \<Longrightarrow> sorted (map (file_at d) rs)"
proof -
  have less: "d @ x < d @ y" if "x < y" for x y :: string
    using that by (induction d) auto
  have "sorted_wrt (\<lambda>x y. file_at d x \<le> file_at d y) rs" if "sorted_wrt (<) rs"
    using that by (rule sorted_wrt_mono_rel[rotated]) (simp add: file_at_def less less_imp_le)
  then show "sorted_wrt (<) rs \<Longrightarrow> sorted (map (file_at d) rs)" by (simp add: sorted_wrt_map)
qed

definition kept :: "(string \<Rightarrow> bool) \<Rightarrow> (string \<times> string) list \<Rightarrow> (string \<times> string) list" where
  "kept keep ss = filter (\<lambda>f. keep (entry_name (fst f))) ss"

lemma sort_kept_files:
  assumes "dir_files S w d ss"
  shows "\<exists>out. walk_files keep (walkDir (os S) d w) = Ok out \<and> sort out = map (\<lambda>f. file_at d (fst f)) (kept keep ss)"
proof -
  let ?es = "file_entries (walkDir (os S) d w)"
  note d = dir_filesD[OF assms]
  have "map fst (filter (keep \<circ> snd) (map (\<lambda>f. (file_at d (fst f), entry_name (fst f))) ss)) =
      map (\<lambda>f. file_at d (fst f)) (kept keep ss)"
    by (simp add: kept_def filter_map o_def)
  then have "mset (map fst (filter (keep \<circ> snd) (map (\<lambda>f. (file_at d (fst f), entry_name (fst f))) ss))) =
      mset (map (\<lambda>f. file_at d (fst f)) (kept keep ss))"
    by (rule arg_cong)
  then have m: "mset (map fst (filter (keep \<circ> snd) ?es)) = mset (map (\<lambda>f. file_at d (fst f)) (kept keep ss))"
    by (simp only: mset_map mset_filter entries_mset[OF assms, unfolded mset_map])
  have "sorted_wrt (<) (map fst (kept keep ss))"
    unfolding kept_def using d(6) by (simp add: sorted_wrt_map sorted_wrt_filter)
  then have "sorted (map (\<lambda>f. file_at d (fst f)) (kept keep ss))"
    using sorted_file_at[of "map fst (kept keep ss)" d] by (simp add: o_def)
  then have "sort (map fst (filter (keep \<circ> snd) ?es)) = map (\<lambda>f. file_at d (fst f)) (kept keep ss)"
    using m by (metis properties_for_sort)
  then show ?thesis using walk_files_entries[OF d(3)] by blast
qed

lemma pg_getFiles_dir:
  assumes "dir_files S w d ss"
  shows "pg_getFiles S d w = Ok (map (\<lambda>f. file_at d (fst f)) (kept pg_keep ss))"
  using sort_kept_files[OF assms, of pg_keep] dir_filesD(1,2)[OF assms] clean_Abs[of d S w]
  by (auto simp: pg_getFiles_def)

lemma mdb_getFiles_dir:
  assumes "dir_files S w d ss"
  shows "mdb_getFiles S d w = Ok (map (\<lambda>f. file_at d (fst f)) (kept mdb_keep ss))"
  using sort_kept_files[OF assms, of mdb_keep] dir_filesD(1,2)[OF assms] clean_Abs[of d S w]
  by (auto simp: mdb_getFiles_def)

lemma rs_getFiles_dir:
  assumes "dir_files S w d ss"
  shows "rs_getFiles S d w = Ok (map (\<lambda>f. file_at d (fst f)) (kept rs_keep ss))"
  using sort_kept_files[OF assms, of rs_keep] dir_filesD(1,2)[OF assms] clean_Abs[of d S w]
  by (auto simp: rs_getFiles_def)

section \<open>The machine of the server\<close>

text \<open>
  The disk and the temporary directories of the machine: \<open>F\<close> are its files, \<open>D\<close> its temporary
  directories, and \<open>V\<close> is another part of the world that file operations do not touch. A new temporary
  directory is a child of /tmp that was not there and holds nothing; a walk of one meets the files
  below it, and reading gives what was written.
\<close>

definition makes_tmp :: "'w sys \<Rightarrow> ('w \<Rightarrow> string \<rightharpoonup> string) \<Rightarrow> ('w \<Rightarrow> string set) \<Rightarrow> ('w \<Rightarrow> 'v) \<Rightarrow> bool" where
  "makes_tmp S F D V \<longleftrightarrow>
     (\<forall>b w. \<exists>x w1. mkdirTemp (os S) ''/tmp'' b w = (Ok (file_at ''/tmp'' x), w1) \<and> rel_name x \<and> slash \<notin> set x \<and>
        file_at ''/tmp'' x \<notin> D w \<and> D w1 = insert (file_at ''/tmp'' x) (D w) \<and> F w1 = F w \<and> V w1 = V w \<and>
        (\<forall>p\<in>dom (F w). \<not> hasPrefix p (file_at (file_at ''/tmp'' x) [])))"

definition lists_dirs :: "'w sys \<Rightarrow> ('w \<Rightarrow> string \<rightharpoonup> string) \<Rightarrow> ('w \<Rightarrow> string set) \<Rightarrow> bool" where
  "lists_dirs S F D \<longleftrightarrow>
     (\<forall>w d. d \<in> D w \<longrightarrow> statIsDir (os S) d w = Ok True \<and> no_walk_error (walkDir (os S) d w) \<and>
        distinct (file_entries (walkDir (os S) d w)) \<and>
        set (file_entries (walkDir (os S) d w)) =
          (\<lambda>p. (p, entry_name p)) ` {p \<in> dom (F w). hasPrefix p (file_at d [])})"

definition machine_doc :: "'w sys \<Rightarrow> ('w \<Rightarrow> string \<rightharpoonup> string) \<Rightarrow> ('w \<Rightarrow> string set) \<Rightarrow> ('w \<Rightarrow> 'v) \<Rightarrow> bool" where
  "machine_doc S F D V \<longleftrightarrow>
     disk_doc S F \<and>
     (\<forall>d w. D (snd (mkdirAll (os S) d w)) = D w \<and> V (snd (mkdirAll (os S) d w)) = V w) \<and>
     (\<forall>f w. D (snd (createFile (os S) f w)) = D w \<and> V (snd (createFile (os S) f w)) = V w) \<and>
     (\<forall>f s w. D (snd (copyTo (os S) f s w)) = D w \<and> V (snd (copyTo (os S) f s w)) = V w) \<and>
     (\<forall>n w. V (removeAll (os S) n w) = V w) \<and>
     (\<forall>w p c. F w p = Some c \<longrightarrow> readFile (os S) p w = Ok c) \<and>
     makes_tmp S F D V \<and> lists_dirs S F D"

lemma machine_docD:
  assumes "machine_doc S F D V"
  shows "disk_doc S F" "D (snd (mkdirAll (os S) d w)) = D w" "V (snd (mkdirAll (os S) d w)) = V w"
    "D (snd (createFile (os S) f w)) = D w" "V (snd (createFile (os S) f w)) = V w"
    "D (snd (copyTo (os S) f c w)) = D w" "V (snd (copyTo (os S) f c w)) = V w"
    "V (removeAll (os S) d w) = V w" "F w p = Some c \<Longrightarrow> readFile (os S) p w = Ok c"
    "makes_tmp S F D V" "lists_dirs S F D"
  using assms by (simp_all add: machine_doc_def)

lemma machine_mkdirTemp:
  assumes "makes_tmp S F D V"
  shows "\<exists>x w1. mkdirTemp (os S) ''/tmp'' b w = (Ok (file_at ''/tmp'' x), w1) \<and> rel_name x \<and> slash \<notin> set x \<and>
    file_at ''/tmp'' x \<notin> D w \<and> D w1 = insert (file_at ''/tmp'' x) (D w) \<and> F w1 = F w \<and> V w1 = V w \<and>
    (\<forall>p\<in>dom (F w). \<not> hasPrefix p (file_at (file_at ''/tmp'' x) []))"
  using assms unfolding makes_tmp_def by (rule allE[of _ b]) (erule spec)

lemma lists_dirsD:
  assumes "lists_dirs S F D" and "d \<in> D w"
  shows "statIsDir (os S) d w = Ok True" "no_walk_error (walkDir (os S) d w)"
    "distinct (file_entries (walkDir (os S) d w))"
    "set (file_entries (walkDir (os S) d w)) = (\<lambda>p. (p, entry_name p)) ` {p \<in> dom (F w). hasPrefix p (file_at d [])}"
  using assms by (simp_all add: lists_dirs_def)

lemma clean_tmp: "rel_name x \<Longrightarrow> clean_dir (file_at ''/tmp'' x)"
proof -
  assume x: "rel_name x"
  have t: "clean_dir ''/tmp''" by code_simp
  have "path_clean (file_at ''/tmp'' x) = file_at ''/tmp'' x"
    using file_at_join[OF t x] by (simp add: path_join_def file_at_def)
  moreover have "x \<noteq> []" using x by (rule rel_name_nonempty)
  ultimately show ?thesis by (simp add: clean_dir_def isAbs_def file_at_def)
qed

lemma entry_name_at [simp]: "entry_name (file_at d r) = entry_name r"
proof -
  have "splitOn slash r \<noteq> []" by (induction r) (auto split: list.splits)
  then show ?thesis by (simp add: entry_name_def file_at_def splitOn_slash_append)
qed

lemma hasPrefix_file_at [simp]: "hasPrefix (file_at d r) (file_at d [])"
  by (simp add: file_at_def hasPrefix_def)

lemma hasPrefix_at_iff: "hasPrefix p (file_at d []) \<longleftrightarrow> (\<exists>r. p = file_at d r)"
  by (auto simp: hasPrefix_iff file_at_def)

text \<open>The temporary directories are siblings, so a file below one of them is not below another.\<close>

lemma tmp_siblings:
  assumes "slash \<notin> set x" and "slash \<notin> set y" and "hasPrefix (file_at (file_at ''/tmp'' x) r) (file_at (file_at ''/tmp'' y) [])"
  shows "x = y"
proof -
  obtain q where "x @ slash # r = y @ slash # q" using assms(3) by (auto simp: hasPrefix_iff file_at_def)
  then have "takeWhile (\<lambda>c. c \<noteq> slash) (x @ slash # r) = takeWhile (\<lambda>c. c \<noteq> slash) (y @ slash # q)" by simp
  moreover have "takeWhile (\<lambda>c. c \<noteq> slash) (z @ slash # t) = z" if "slash \<notin> set z" for z t
    using that by (induction z) auto
  ultimately show ?thesis using assms(1,2) by simp
qed

section \<open>An upload fills a directory\<close>

definition upload_names :: "(string \<times> string) list \<Rightarrow> bool" where
  "upload_names ss \<longleftrightarrow> sorted_wrt (<) (map fst ss) \<and> (\<forall>f\<in>set ss. rel_name (fst f) \<and> \<not> hasPrefix (fst f) ''..'')"

definition files_at :: "string \<Rightarrow> (string \<times> string) list \<Rightarrow> string \<rightharpoonup> string" where
  "files_at d ss = map_of (map (\<lambda>f. (file_at d (fst f), snd f)) ss)"

lemma upload_names_dir: "dir_files S w d ss \<Longrightarrow> upload_names ss"
  using dir_filesD[of S w d ss] by (simp add: upload_names_def)

lemma upload_names_Nil [simp]: "upload_names []"
  by (simp add: upload_names_def)

lemma files_at_map [simp]: "files_at d ss (file_at d r) = map_of ss r"
  by (induction ss) (auto simp: files_at_def)

lemma files_at_other: "\<not> hasPrefix p (file_at d []) \<Longrightarrow> files_at d ss p = None"
  by (auto simp: files_at_def map_of_eq_None_iff)

lemma store_machine:
  assumes m: "machine_doc S F D V" and "clean_dir dst" and "rel_name (fst f)"
  shows "\<exists>w1. store S dst f w = (Ok (), w1) \<and> F w1 = (F w)(file_at dst (fst f) \<mapsto> snd f) \<and> D w1 = D w \<and> V w1 = V w"
proof -
  let ?t = "path_join dst (fst f)"
  note k = machine_docD[OF m]
  obtain w1 where 1: "mkdirAll (os S) (path_dir ?t) w = (Ok (), w1)" "F w1 = F w"
    using k(1) unfolding disk_doc_def by blast
  obtain w2 where 2: "createFile (os S) ?t w1 = (Ok (), w2)" "F w2 = (F w1)(?t \<mapsto> '''')"
    using k(1) unfolding disk_doc_def by blast
  obtain w3 where 3: "copyTo (os S) ?t (snd f) w2 = (Ok (), w3)" "F w3 = (F w2)(?t \<mapsto> snd f)"
    using k(1) unfolding disk_doc_def by blast
  have "D w1 = D w" "D w2 = D w1" "D w3 = D w2" "V w1 = V w" "V w2 = V w1" "V w3 = V w2"
    using k(2,3)[of "path_dir ?t" w] k(4,5)[of ?t w1] k(6,7)[of ?t "snd f" w2] 1 2 3 by simp_all
  then show ?thesis
    using 1 2 3 file_at_join[OF assms(2,3)] by (simp add: store_def bind_def wrap_def Let_def)
qed

lemma store_all_machine:
  assumes m: "machine_doc S F D V" and d: "clean_dir dst"
  shows "upload_names ss \<Longrightarrow> \<exists>w1. foreach (store S dst) ss w = (Ok (), w1) \<and>
    F w1 = F w ++ files_at dst ss \<and> D w1 = D w \<and> V w1 = V w"
proof (induction ss arbitrary: w)
  case Nil
  then show ?case by (simp add: files_at_def)
next
  case (Cons f ss)
  have n: "rel_name (fst f)" "upload_names ss" using Cons.prems by (simp_all add: upload_names_def)
  obtain w1 where 1: "store S dst f w = (Ok (), w1)" "F w1 = (F w)(file_at dst (fst f) \<mapsto> snd f)" "D w1 = D w" "V w1 = V w"
    using store_machine[OF m d n(1)] by blast
  obtain w2 where 2: "foreach (store S dst) ss w1 = (Ok (), w2)" "F w2 = F w1 ++ files_at dst ss" "D w2 = D w1" "V w2 = V w1"
    using Cons.IH[OF n(2)] by blast
  have "fst f \<notin> fst ` set ss" using Cons.prems by (auto simp: upload_names_def strict_sorted_iff)
  then have "files_at dst ss (file_at dst (fst f)) = None" by (simp add: map_of_eq_None_iff)
  then have "(F w)(file_at dst (fst f) \<mapsto> snd f) ++ files_at dst ss = F w ++ files_at dst (f # ss)"
    by (auto simp: files_at_def map_add_def fun_eq_iff split: option.splits)
  then show ?case using 1 2 by (simp add: bind_def)
qed

lemma dir_files_machine:
  assumes m: "machine_doc S F D V" and d: "clean_dir d" "d \<in> D w" and n: "upload_names ss"
    and F: "\<forall>r. F w (file_at d r) = map_of ss r"
  shows "dir_files S w d ss"
proof -
  note k = machine_docD[OF m]
  have dm: "file_at d r \<in> dom (F w) \<longleftrightarrow> r \<in> fst ` set ss" for r
    unfolding domIff F[rule_format] map_of_eq_None_iff by blast
  have "{p \<in> dom (F w). hasPrefix p (file_at d [])} = file_at d ` {r. file_at d r \<in> dom (F w)}"
    unfolding hasPrefix_at_iff by blast
  also have "\<dots> = (\<lambda>f. file_at d (fst f)) ` set ss" unfolding dm by (simp add: image_image)
  finally have "{p \<in> dom (F w). hasPrefix p (file_at d [])} = (\<lambda>f. file_at d (fst f)) ` set ss" .
  then have "set (file_entries (walkDir (os S) d w)) = (\<lambda>f. (file_at d (fst f), entry_name (fst f))) ` set ss"
    unfolding lists_dirsD(4)[OF k(11) d(2)] by (simp add: image_image)
  moreover have "readFile (os S) (file_at d (fst f)) w = Ok (snd f)" if "f \<in> set ss" for f
  proof -
    have "distinct (map fst ss)" using n by (simp add: upload_names_def strict_sorted_iff)
    then have "map_of ss (fst f) = Some (snd f)" using that by simp
    then show ?thesis using k(9) F by simp
  qed
  ultimately show ?thesis
    using d n lists_dirsD(1-3)[OF k(11) d(2)] by (simp add: dir_files_def upload_names_def)
qed

end
