(* ===== verification/RefWorld.thy ===== *)
theory RefWorld
  imports Handlers Cmd Dirs
begin

text \<open>
  A world that computes: one machine with a docker daemon, a postgres server, a redis server with 16
  databases, a mongodb server and a disk of plain files. It is not part of the program; it shows that what the components rely
  on (\<open>docker_doc\<close>, \<open>redis_doc\<close>, \<open>pg_doc\<close>, \<open>tmp_doc\<close> and the others) can hold together, and the
  properties of the other theories are evaluated on it.
\<close>

section \<open>State\<close>

record rworld =
  rw_dk :: docker_view
  rw_ids :: nat
  rw_rd :: redis_view
  rw_pg :: pg_view
  rw_conns :: nat
  rw_mg :: mg_view
  rw_mgn :: nat
  rw_tmp :: "string list"
  rw_files :: "(string \<times> string) list"
  rw_listen :: string

text \<open>The files there are at first.\<close>

definition ref_disk :: "(string \<times> string) list" where
  "ref_disk = [(''/m/2_b.up.sql'', ''create b''), (''/m/1_a.up.sql'', ''create a''),
     (''/m/1_a.down.sql'', ''drop a''), (''/f/x.sql'', ''insert x''), (''/r/set.txt'', ''SET k v''),
     (''/b/bad.sql'', ''fail''), (''/j/users.json'', ''{}'')]"

text \<open>The disk is a list of files, the latest version first; a directory is there when it was made or has a file.\<close>

definition ref_below :: "string \<Rightarrow> rworld \<Rightarrow> string list" where
  "ref_below d w = filter (\<lambda>p. hasPrefix p (file_at d [])) (remdups (map fst (rw_files w)))"

definition ref_walk :: "string \<Rightarrow> rworld \<Rightarrow> walk_event list" where
  "ref_walk d w = WalkEntry d (entry_name d) True # map (\<lambda>p. WalkEntry p (entry_name p) False) (ref_below d w)"

definition ref_read :: "string \<Rightarrow> rworld \<Rightarrow> string res" where
  "ref_read p w = (case map_of (rw_files w) p of Some b \<Rightarrow> Ok b | None \<Rightarrow> Err ErrNotExist)"

definition ref_stat :: "string \<Rightarrow> rworld \<Rightarrow> bool res" where
  "ref_stat p w =
     (if p \<in> set (rw_tmp w) \<or> ref_below p w \<noteq> [] then Ok True
      else if is_ok (ref_read p w) then Ok False else Err ErrNotExist)"

definition ref_tmp_name :: "rworld \<Rightarrow> string" where
  "ref_tmp_name w = ''up'' @ replicate (length (concat (rw_tmp w @ map fst (rw_files w)))) (CHR ''0'')"

definition ref_os :: "rworld os_api" where
  "ref_os = \<lparr>
     getenv = (\<lambda>w k. if k = EnvListen then rw_listen w else ''''),
     setenv = (\<lambda>k v w. (Ok (), if k = EnvListen then w\<lparr>rw_listen := v\<rparr> else w)),
     getwd = (\<lambda>w. Ok ''/''),
     nowNano = (\<lambda>w. (1700000000000000000, w)),
     randInt20 = (\<lambda>w. (Ok 7, w)),
     randIntn = (\<lambda>n w. (0, w)),
     listenTCP = (\<lambda>a w. (Ok (), w)),
     closeListener = (\<lambda>a w. (Ok (), w)),
     canDial = (\<lambda>a w. False),
     statIsDir = ref_stat,
     readFile = ref_read,
     walkDir = ref_walk,
     mkdirTemp = (\<lambda>d p w. (Ok (file_at ''/tmp'' (ref_tmp_name w)), w\<lparr>rw_tmp := file_at ''/tmp'' (ref_tmp_name w) # rw_tmp w\<rparr>)),
     mkdirAll = (\<lambda>d w. (Ok (), w)),
     createFile = (\<lambda>f w. (Ok (), w\<lparr>rw_files := (f, '''') # rw_files w\<rparr>)),
     copyTo = (\<lambda>f s w. (Ok (), w\<lparr>rw_files := (f, s) # rw_files w\<rparr>)),
     removeAll = (\<lambda>d w. w\<lparr>rw_tmp := filter (\<lambda>t. t \<noteq> d) (rw_tmp w),
        rw_files := filter (\<lambda>f. \<not> hasPrefix (fst f) (file_at d [])) (rw_files w)\<rparr>),
     waitDone = (\<lambda>w. Some w),
     waitTick = (\<lambda>w. (True, w))\<rparr>"

section \<open>Docker\<close>

definition id_of :: "nat \<Rightarrow> string" where
  "id_of i = ''ref000000000'' @ formatUint i"

text \<open>Worlds whose list of containers is not in order count as having none.\<close>

definition dk_wf :: "docker_view \<Rightarrow> nat \<Rightarrow> bool" where
  "dk_wf v k \<longleftrightarrow>
     distinct (map cs_ID (dv_running v)) \<and> (\<forall>c\<in>set (dv_running v). cs_Names c \<noteq> []) \<and>
     (\<forall>c\<in>set (dv_running v). cs_ID c \<in> id_of ` {..<k}) \<and>
     (\<forall>cid. dv_created v cid \<noteq> None \<longrightarrow> cid \<in> id_of ` {..<k})"

definition dkv :: "rworld \<Rightarrow> docker_view" where
  "dkv w = (if dk_wf (rw_dk w) (rw_ids w) then rw_dk w else \<lparr>dv_running = [], dv_created = Map.empty\<rparr>)"

definition ref_create :: "container_config \<Rightarrow> (string, rworld) action" where
  "ref_create cfg w = (Ok (id_of (rw_ids w)),
     w\<lparr>rw_dk := (dkv w)\<lparr>dv_created := (dv_created (dkv w))(id_of (rw_ids w) \<mapsto> cfg)\<rparr>, rw_ids := Suc (rw_ids w)\<rparr>)"

definition ref_start :: "string \<Rightarrow> (unit, rworld) action" where
  "ref_start cid w = (case dv_created (dkv w) cid of
       None \<Rightarrow> (Err (External ''no such container''), w)
     | Some cfg \<Rightarrow> if cid \<in> cs_ID ` set (dv_running (dkv w)) then (Ok (), w)
         else (Ok (), w\<lparr>rw_dk := (dkv w)\<lparr>dv_running := dv_running (dkv w) @ [running_summary cid cfg]\<rparr>\<rparr>))"

definition ref_remove :: "string \<Rightarrow> (unit, rworld) action" where
  "ref_remove cid w =
     (if cid \<in> cs_ID ` set (dv_running (dkv w)) then
        (Ok (), w\<lparr>rw_dk := (dkv w)\<lparr>dv_running := filter (\<lambda>c. cs_ID c \<noteq> cid) (dv_running (dkv w)),
           dv_created := (dv_created (dkv w))(cid := None)\<rparr>\<rparr>)
      else (Err (External ''no such container''), w))"

text \<open>A port specification \<^verbatim>\<open>address:host port:container port\<close>.\<close>

definition ref_spec :: "string \<Rightarrow> port_binding res" where
  "ref_spec s = (case splitOn (CHR '':'') s of
       [a, h, c] \<Rightarrow> Ok \<lparr>ContainerPort = c, HostIP = a, HostPort = h\<rparr>
     | _ \<Rightarrow> Err (External ''invalid port specification''))"

fun ref_specs :: "string list \<Rightarrow> port_binding list res" where
  "ref_specs [] = Ok []"
| "ref_specs (s # ss) = bind_res (ref_spec s) (\<lambda>b. bind_res (ref_specs ss) (\<lambda>bs. Ok (b # bs)))"

definition ref_docker :: "rworld docker_api" where
  "ref_docker = \<lparr>
     dk_client = ret (),
     parsePortSpecs = ref_specs,
     dk_imageInspect = (\<lambda>i. fail (External ''no such image'')),
     dk_pull = (\<lambda>i. ret ()),
     dk_create = ref_create,
     dk_start = ref_start,
     dk_list = (\<lambda>fs w. (Ok (filter (\<lambda>c. \<forall>f\<in>set fs. label_match f c) (dv_running (dkv w))), w)),
     dk_remove = ref_remove,
     dk_execCreate = (\<lambda>c cmd. ret ''exec''),
     dk_execAttach = (\<lambda>e. ret ''output'')\<rparr>"

section \<open>Postgres\<close>

definition pgv :: "rworld \<Rightarrow> pg_view" where
  "pgv w = (rw_pg w)\<lparr>pv_conn := (\<lambda>c. if c < rw_conns w then pv_conn (rw_pg w) c else None)\<rparr>"

definition put_pg :: "pg_view \<Rightarrow> (unit, rworld) action" where
  "put_pg v w = (Ok (), w\<lparr>rw_pg := v\<rparr>)"

definition ref_open :: "string \<Rightarrow> (nat, rworld) action" where
  "ref_open u w = (case pg_uri_name u of
       Ok n \<Rightarrow> (Ok (rw_conns w), w\<lparr>rw_pg := (pgv w)\<lparr>pv_conn := (pv_conn (pgv w))(rw_conns w \<mapsto> n)\<rparr>,
                                    rw_conns := Suc (rw_conns w)\<rparr>)
     | _ \<Rightarrow> (Err (External ''invalid dsn''), w))"

definition ref_ping :: "nat \<Rightarrow> (unit, rworld) action" where
  "ref_ping c w = (case pv_conn (pgv w) c of
       Some n \<Rightarrow> if pv_dbs (pgv w) n = None then (Err (External ''database does not exist''), w) else (Ok (), w)
     | None \<Rightarrow> (Err (External ''sql: database is closed''), w))"

definition busy :: "string \<Rightarrow> rworld \<Rightarrow> bool" where
  "busy n w \<longleftrightarrow> (\<exists>c<rw_conns w. pv_conn (pgv w) c = Some n)"

definition strip :: "string \<Rightarrow> string \<Rightarrow> string option" where
  "strip p s = (if hasPrefix s p then Some (drop (length p) s) else None)"

definition pg_do_create :: "string \<Rightarrow> (unit, rworld) action" where
  "pg_do_create n w =
     (if pv_dbs (pgv w) n \<noteq> None then (Err (External ''database already exists''), w)
      else put_pg ((pgv w)\<lparr>pv_dbs := (pv_dbs (pgv w))(n \<mapsto> [])\<rparr>) w)"

definition pg_do_copy :: "string \<Rightarrow> string \<Rightarrow> (unit, rworld) action" where
  "pg_do_copy n t w = (case pv_dbs (pgv w) t of
       None \<Rightarrow> (Err (External ''template database does not exist''), w)
     | Some cs \<Rightarrow>
         if pv_dbs (pgv w) n \<noteq> None then (Err (External ''database already exists''), w)
         else if busy t w then (Err (External ''source database is being accessed by other users''), w)
         else put_pg ((pgv w)\<lparr>pv_dbs := (pv_dbs (pgv w))(n \<mapsto> cs)\<rparr>) w)"

definition pg_do_drop :: "string \<Rightarrow> (unit, rworld) action" where
  "pg_do_drop n w =
     (if busy n w then (Err (External ''database is being accessed by other users''), w)
      else put_pg ((pgv w)\<lparr>pv_dbs := (pv_dbs (pgv w))(n := None)\<rparr>) w)"

definition pg_do_kill :: "string \<Rightarrow> (unit, rworld) action" where
  "pg_do_kill n w = put_pg ((pgv w)\<lparr>pv_conn := (\<lambda>d. if pv_conn (pgv w) d = Some n then None else pv_conn (pgv w) d)\<rparr>) w"

datatype stmt = SCreate string | SCopy string string | SDrop string | SKill string | SOther

definition read_create :: "string \<Rightarrow> stmt" where
  "read_create r = (case read_ident r of
       Some (n, rest) \<Rightarrow>
         if rest = [] then SCreate n
         else (case strip '' with template '' rest of
             Some r2 \<Rightarrow> (case read_ident r2 of Some (t, e) \<Rightarrow> if e = [] then SCopy n t else SOther | None \<Rightarrow> SOther)
           | None \<Rightarrow> SOther)
     | None \<Rightarrow> SOther)"

definition read_stmt :: "string \<Rightarrow> string list \<Rightarrow> stmt" where
  "read_stmt q as = (case as of
       [] \<Rightarrow> (case strip ''create database '' q of
           Some r \<Rightarrow> read_create r
         | None \<Rightarrow> (case strip ''drop database if exists '' q of
             Some r \<Rightarrow> (case read_ident r of Some (n, e) \<Rightarrow> if e = [] then SDrop n else SOther | None \<Rightarrow> SOther)
           | None \<Rightarrow> SOther))
     | a # _ \<Rightarrow> if q = terminate_stmt then SKill a else SOther)"

definition ref_exec :: "nat \<Rightarrow> string \<Rightarrow> string list \<Rightarrow> (unit, rworld) action" where
  "ref_exec c q as = (case read_stmt q as of
       SCreate n \<Rightarrow> pg_do_create n
     | SCopy n t \<Rightarrow> pg_do_copy n t
     | SDrop n \<Rightarrow> pg_do_drop n
     | SKill n \<Rightarrow> pg_do_kill n
     | SOther \<Rightarrow> fail (External ''syntax error''))"

definition ref_runs :: "string list \<Rightarrow> string \<Rightarrow> bool" where
  "ref_runs cs s \<longleftrightarrow> s \<noteq> ''fail''"

definition ref_begin :: "nat \<Rightarrow> (nat, rworld) action" where
  "ref_begin c w = (case pv_conn (pgv w) c of
       Some n \<Rightarrow> (Ok c, w\<lparr>rw_pg := (pgv w)\<lparr>pv_tx := (pv_tx (pgv w))(c \<mapsto> (n, []))\<rparr>\<rparr>)
     | None \<Rightarrow> (Err (External ''sql: database is closed''), w))"

definition ref_tx_exec :: "nat \<Rightarrow> string \<Rightarrow> (unit, rworld) action" where
  "ref_tx_exec t s w = (case pv_tx (pgv w) t of
       Some (n, ps) \<Rightarrow> (case pv_dbs (pgv w) n of
           Some cs \<Rightarrow> if ref_runs (cs @ ps) s
             then put_pg ((pgv w)\<lparr>pv_tx := (pv_tx (pgv w))(t \<mapsto> (n, ps @ [s]))\<rparr>) w
             else (Err (External ''script failed''), w)
         | None \<Rightarrow> (Err (External ''database does not exist''), w))
     | None \<Rightarrow> (Err (External ''no transaction''), w))"

definition ref_commit :: "nat \<Rightarrow> (unit, rworld) action" where
  "ref_commit t w = (case pv_tx (pgv w) t of
       Some (n, ps) \<Rightarrow> (case pv_dbs (pgv w) n of
           Some cs \<Rightarrow> put_pg ((pgv w)\<lparr>pv_dbs := (pv_dbs (pgv w))(n \<mapsto> cs @ ps), pv_tx := (pv_tx (pgv w))(t := None)\<rparr>) w
         | None \<Rightarrow> (Err (External ''database does not exist''), w))
     | None \<Rightarrow> (Err (External ''no transaction''), w))"

definition ref_pgs :: "rworld pg_api" where
  "ref_pgs = \<lparr>
     sql_open = ref_open,
     sql_ping = ref_ping,
     sql_close = (\<lambda>c w. w\<lparr>rw_pg := (pgv w)\<lparr>pv_conn := (pv_conn (pgv w))(c := None)\<rparr>\<rparr>),
     sql_exec = ref_exec,
     sql_begin = ref_begin,
     tx_exec = ref_tx_exec,
     tx_rollback = (\<lambda>t w. put_pg ((pgv w)\<lparr>pv_tx := (pv_tx (pgv w))(t := None)\<rparr>) w),
     tx_commit = ref_commit\<rparr>"

section \<open>Redis and mongodb\<close>

definition put_rd :: "reply \<Rightarrow> redis_view \<Rightarrow> (reply, rworld) action" where
  "put_rd r v w = (Ok r, w\<lparr>rw_rd := v\<rparr>)"

definition cur :: "nat \<Rightarrow> rworld \<Rightarrow> string \<rightharpoonup> string" where
  "cur c w = rv_dbs (rw_rd w) (rv_sel (rw_rd w) c)"

definition put_cur :: "nat \<Rightarrow> (string \<rightharpoonup> string) \<Rightarrow> rworld \<Rightarrow> redis_view" where
  "put_cur c m w = (rw_rd w)\<lparr>rv_dbs := (rv_dbs (rw_rd w))(rv_sel (rw_rd w) c := m)\<rparr>"

definition ref_select :: "nat \<Rightarrow> string \<Rightarrow> (reply, rworld) action" where
  "ref_select c a w = (case List.find (\<lambda>i. formatUint i = a) [0..<16] of
       Some i \<Rightarrow> put_rd (RStatus ''OK'') ((rw_rd w)\<lparr>rv_sel := (rv_sel (rw_rd w))(c := i)\<rparr>) w
     | None \<Rightarrow> (Err (External ''ERR DB index is out of range''), w))"

definition ref_call :: "nat \<Rightarrow> string list \<Rightarrow> (reply, rworld) action" where
  "ref_call c as w = (case as of
       [cmd] \<Rightarrow> if cmd = ''FLUSHDB'' then put_rd (RStatus ''OK'') (put_cur c Map.empty w) w
                else (Err (External ''ERR unknown command''), w)
     | [cmd, k] \<Rightarrow>
         if cmd = ''SELECT'' then ref_select c k w
         else if cmd = ''DEL'' then put_rd (RInt (if cur c w k = None then 0 else 1)) (put_cur c ((cur c w)(k := None)) w) w
         else (Err (External ''ERR unknown command''), w)
     | [cmd, k, v] \<Rightarrow>
         if cmd = ''SETNX'' then
           (if cur c w k = None then put_rd (RInt 1) (put_cur c ((cur c w)(k \<mapsto> v)) w) w else (Ok (RInt 0), w))
         else if cmd = ''SET'' then put_rd (RStatus ''OK'') (put_cur c ((cur c w)(k \<mapsto> v)) w) w
         else if cmd = ''CONFIG'' \<and> k = ''GET'' \<and> v = ''databases'' then (Ok (RArr [RBulk ''databases'', RBulk ''16'']), w)
         else (Err (External ''ERR unknown command''), w)
     | _ \<Rightarrow> (Err (External ''ERR unknown command''), w))"

text \<open>The database of an address.\<close>

definition ref_index :: "string \<Rightarrow> nat" where
  "ref_index u = (case rs_uri_index u of Ok i \<Rightarrow> if 0 \<le> i \<and> i < 16 then nat i else 0 | _ \<Rightarrow> 0)"

definition ref_rds :: "rworld redis_api" where
  "ref_rds = \<lparr>
     rd_dial = (\<lambda>u w. (Ok 0, w\<lparr>rw_rd := (rw_rd w)\<lparr>rv_sel := (rv_sel (rw_rd w))(0 := ref_index u)\<rparr>\<rparr>)),
     rd_close = (\<lambda>c w. w),
     rd_do = ref_call,
     rd_call = ref_call,
     rd_script = (\<lambda>c m w. case m w of (r, w1) \<Rightarrow>
         (r, w1\<lparr>rw_rd := (rw_rd w1)\<lparr>rv_sel := (rv_sel (rw_rd w1))(c := rv_sel (rw_rd w) c)\<rparr>\<rparr>)),
     rd_eval = (\<lambda>c s. ret RNil)\<rparr>"

section \<open>Mongodb\<close>

definition mgv :: "rworld \<Rightarrow> mg_view" where
  "mgv w = (rw_mg w)\<lparr>mv_conn := {c \<in> mv_conn (rw_mg w). c < rw_mgn w}\<rparr>"

definition ref_mgs :: "rworld mongo_api" where
  "ref_mgs = \<lparr>
     mg_connect = (\<lambda>u w. (Ok (rw_mgn w), w\<lparr>rw_mg := (mgv w)\<lparr>mv_conn := insert (rw_mgn w) (mv_conn (mgv w))\<rparr>,
        rw_mgn := Suc (rw_mgn w)\<rparr>)),
     mg_ping = (\<lambda>c. ret ()),
     mg_disconnect = (\<lambda>c w. w\<lparr>rw_mg := (mgv w)\<lparr>mv_conn := mv_conn (mgv w) - {c}\<rparr>\<rparr>),
     mg_drop = (\<lambda>c n w. (Ok (), w\<lparr>rw_mg := (mgv w)\<lparr>mv_docs := (mv_docs (mgv w))(n := (\<lambda>_. []))\<rparr>\<rparr>)),
     mg_insertMany = (\<lambda>c n k ds w. (Ok (), w\<lparr>rw_mg := (mgv w)\<lparr>mv_docs :=
        (mv_docs (mgv w))(n := (mv_docs (mgv w) n)(k := mv_docs (mgv w) n k @ ds))\<rparr>\<rparr>)),
     json_docs = (\<lambda>s. Ok [s])\<rparr>"

definition ref :: "rworld sys" where
  "ref = \<lparr>os = ref_os, docker = ref_docker, pgs = ref_pgs, rds = ref_rds, mgs = ref_mgs\<rparr>"

lemma ref_fields [simp]:
  "os ref = ref_os" "docker ref = ref_docker" "pgs ref = ref_pgs" "rds ref = ref_rds" "mgs ref = ref_mgs"
  by (simp_all add: ref_def)

definition w0 :: rworld where
  "w0 = \<lparr>rw_dk = \<lparr>dv_running = [], dv_created = Map.empty\<rparr>, rw_ids = 0,
     rw_rd = \<lparr>rv_dbs = (\<lambda>_. Map.empty), rv_sel = (\<lambda>_. 0)\<rparr>,
     rw_pg = \<lparr>pv_dbs = [''postgres'' \<mapsto> [], ''template1'' \<mapsto> []], pv_conn = Map.empty, pv_tx = Map.empty\<rparr>,
     rw_conns = 0, rw_mg = \<lparr>mv_docs = (\<lambda>_ _. []), mv_conn = {}\<rparr>, rw_mgn = 0, rw_tmp = [], rw_files = ref_disk, rw_listen = ''''\<rparr>"

section \<open>The reference world keeps what is documented\<close>

lemma id_of_inj [simp]: "id_of i = id_of j \<longleftrightarrow> i = j"
  using formatUint_inj by (auto simp: id_of_def)

lemma dkv_wf: "dk_wf (dkv w) (rw_ids w)"
  by (simp add: dkv_def dk_wf_def)

lemma dkv_set [simp]:
  "dk_wf v k \<Longrightarrow> dkv (w\<lparr>rw_dk := v, rw_ids := k\<rparr>) = v"
  "dk_wf v (rw_ids w) \<Longrightarrow> dkv (w\<lparr>rw_dk := v\<rparr>) = v"
  by (simp_all add: dkv_def)

lemma dk_wf_fresh:
  assumes "dk_wf v k"
  shows "id_of k \<notin> cs_ID ` set (dv_running v)" "dv_created v (id_of k) = None"
  using assms by (auto simp: dk_wf_def)

lemma dk_wf_create: "dk_wf v k \<Longrightarrow> dk_wf (v\<lparr>dv_created := (dv_created v)(id_of k \<mapsto> cfg)\<rparr>) (Suc k)"
  by (auto simp: dk_wf_def lessThan_Suc)

lemma dk_wf_start:
  "dk_wf v k \<Longrightarrow> dv_created v cid = Some cfg \<Longrightarrow> cid \<notin> cs_ID ` set (dv_running v) \<Longrightarrow>
   dk_wf (v\<lparr>dv_running := dv_running v @ [running_summary cid cfg]\<rparr>) k"
  by (auto simp: dk_wf_def running_summary_def)

lemma dk_wf_remove:
  "dk_wf v k \<Longrightarrow> dk_wf (v\<lparr>dv_running := filter P (dv_running v), dv_created := (dv_created v)(cid := None)\<rparr>) k"
  by (auto simp: dk_wf_def distinct_map_filter)

lemma ref_docker_doc: "docker_doc ref dkv"
proof -
  note wf = dkv_wf
  have names: "cs_Names c \<noteq> []" if "c \<in> set (dv_running (dkv w))" for c w
    using wf[of w] that by (auto simp: dk_wf_def)
  have dist: "distinct (map cs_ID (dv_running (dkv w)))" for w using wf[of w] by (simp add: dk_wf_def)
  have st: "dkv w1 = (dkv w)\<lparr>dv_running := dv_running (dkv w) @ [running_summary cid cfg]\<rparr>"
    if "ref_start cid w = (Ok (), w1)" "dv_created (dkv w) cid = Some cfg" "cid \<notin> cs_ID ` set (dv_running (dkv w))"
    for cid cfg w w1
    using that dk_wf_start[OF wf that(2,3)] by (auto simp: ref_start_def)
  have cr: "cid \<notin> dom (dv_created (dkv w)) \<and> cid \<notin> cs_ID ` set (dv_running (dkv w)) \<and>
      dkv w1 = (dkv w)\<lparr>dv_created := (dv_created (dkv w))(cid \<mapsto> cfg)\<rparr>"
    if "ref_create cfg w = (Ok cid, w1)" for cid cfg w w1
    using that dk_wf_create[OF wf[of w], of cfg] dk_wf_fresh[OF wf[of w]] by (auto simp: ref_create_def)
  have rm: "\<exists>w1. ref_remove cid w = (Ok (), w1) \<and> dkv w1 = (dkv w)\<lparr>dv_running :=
      filter (\<lambda>c. cs_ID c \<noteq> cid) (dv_running (dkv w)), dv_created := (dv_created (dkv w))(cid := None)\<rparr>"
    if "cid \<in> cs_ID ` set (dv_running (dkv w))" for cid w
    using that dk_wf_remove[OF wf[of w]] by (simp add: ref_remove_def)
  show ?thesis
    unfolding docker_doc_def ref_fields ref_docker_def docker_api.simps
    apply (intro conjI)
    subgoal by simp
    subgoal by simp
    subgoal using names by blast
    subgoal using cr by blast
    subgoal using st by blast
    subgoal using dist by blast
    subgoal using rm by blast
    done
qed

subsection \<open>Redis\<close>

lemma find_index: "i < n \<Longrightarrow> List.find (\<lambda>j. formatUint j = formatUint i) [0..<n] = Some i"
proof -
  assume i: "i < n"
  have "(\<lambda>j. formatUint j = formatUint i) = (\<lambda>j. j = i)" using formatUint_inj by auto
  moreover have "List.find (\<lambda>j. j = i) [0..<n] = Some i"
    unfolding find_Some_iff by (rule exI[of _ i]) (use i in simp)
  ultimately show ?thesis by simp
qed

lemma find_no_index: "no_index n i \<Longrightarrow> List.find (\<lambda>j. formatUint j = itoa i) [0..<n] = None"
proof -
  assume i: "no_index n i"
  have "formatUint j \<noteq> itoa i" if "j < n" for j
  proof (cases "i < 0")
    case True
    obtain c s where "formatUint j = c # s" "is_digit c" using formatUint_head by blast
    then show ?thesis using True by (auto simp: itoa_def is_digit_def)
  next
    case False
    then show ?thesis using i that formatUint_inj[of j "nat i"] by (auto simp: itoa_def no_index_def)
  qed
  then show ?thesis by (auto simp: find_None_iff)
qed

lemma format_16: "formatUint 16 = ''16''"
  by code_simp

lemma ref_redis_doc: "ref_index uri = 0 \<Longrightarrow> redis_doc ref rw_rd 16 uri"
  unfolding redis_doc_def ref_fields ref_rds_def redis_api.simps format_16
  apply (intro conjI)
  subgoal by simp
  subgoal by simp
  subgoal by (simp add: ref_call_def)
  subgoal by (simp add: ref_call_def put_rd_def put_cur_def cur_def)
  subgoal by (simp add: ref_call_def ref_select_def find_index put_rd_def)
  subgoal by (simp add: ref_call_def ref_select_def find_no_index)
  subgoal by (simp add: ref_call_def put_rd_def put_cur_def)
  subgoal by (simp add: ref_call_def put_rd_def put_cur_def cur_def)
  subgoal by (simp split: prod.splits)
  done

lemma ref_not_inside [simp]: "\<not> inside_docker ref w"
  by (simp add: inside_docker_def ref_os_def EnvListen_def)

definition rs0 :: Redis where
  "rs0 = \<lparr>rs_containerID = '''', rs_cfg = rs_default\<rparr>"

lemma rs_URI_ref_db: "rs_URI ref (rs_db_of p k) w = rs_db_uri p k"
proof -
  have "rs_dbIndex (rs_cfg (rs_db_of p k)) = int k" by (simp add: rs_db_of_def)
  from rs_URI_db[OF this, of ref w] show ?thesis
    by (simp add: rs_db_uri_def rs_addr_def rs_db_of_def rs_userInfo_def)
qed

lemma ref_index_db: "k < 16 \<Longrightarrow> ref_index (rs_db_uri p k) = k"
  by (simp add: ref_index_def rs_uri_index_db)

lemma ref_rs_ready: "plain_user p \<Longrightarrow> rs_ready ref rw_rd 16 p"
  unfolding rs_ready_def rs_adminURI_def rs_New_db[of p 0, simplified]
  using ref_redis_doc ref_index_db[of 0 p]
  by (auto simp: rs_URI_ref_db intro!: exI[of _ "rs_db_uri p 0"])

subsection \<open>Postgres\<close>

lemma pgv_put [simp]: "pgv (w\<lparr>rw_pg := (pgv w)\<lparr>pv_dbs := d\<rparr>\<rparr>) = (pgv w)\<lparr>pv_dbs := d\<rparr>"
  "pgv (w\<lparr>rw_pg := (pgv w)\<lparr>pv_tx := x\<rparr>\<rparr>) = (pgv w)\<lparr>pv_tx := x\<rparr>"
  "pgv (w\<lparr>rw_pg := (pgv w)\<lparr>pv_dbs := d, pv_tx := x\<rparr>\<rparr>) = (pgv w)\<lparr>pv_dbs := d, pv_tx := x\<rparr>"
  by (auto simp: pgv_def fun_eq_iff)

lemma pgv_conn_bound: "rw_conns w \<le> c \<Longrightarrow> pv_conn (pgv w) c = None"
  by (simp add: pgv_def)

lemma pgv_conn [simp]:
  "\<forall>c. rw_conns w \<le> c \<longrightarrow> f c = None \<Longrightarrow> pgv (w\<lparr>rw_pg := (pgv w)\<lparr>pv_conn := f\<rparr>\<rparr>) = (pgv w)\<lparr>pv_conn := f\<rparr>"
  "\<forall>c. k \<le> c \<longrightarrow> f c = None \<Longrightarrow> pgv (w\<lparr>rw_pg := (pgv w)\<lparr>pv_conn := f\<rparr>, rw_conns := k\<rparr>) = (pgv w)\<lparr>pv_conn := f\<rparr>"
  by (auto simp: pgv_def fun_eq_iff not_less)

lemma busy_ran: "busy n w \<longleftrightarrow> n \<in> ran (pv_conn (pgv w))"
proof -
  have "pv_conn (pgv w) c = Some n \<Longrightarrow> c < rw_conns w" for c by (simp add: pgv_def split: if_splits)
  then show ?thesis by (auto simp: busy_def ran_def)
qed

lemma strip_append [simp]: "strip p (p @ s) = Some s"
  by (simp add: strip_def hasPrefix_def)

lemma read_create_stmt: "read_stmt (''create database '' @ quoteIdentifier n) [] = SCreate n"
  unfolding read_stmt_def strip_append read_create_def list.case option.case
  using read_quoteIdentifier[of "[]" n] by simp

lemma read_copy_stmt:
  "read_stmt (''create database '' @ quoteIdentifier n @ '' with template '' @ quoteIdentifier t) [] = SCopy n t"
proof -
  have 1: "read_ident (quoteIdentifier n @ '' with template '' @ quoteIdentifier t) =
      Some (n, '' with template '' @ quoteIdentifier t)"
    by (rule read_quoteIdentifier) simp
  have 2: "read_ident (quoteIdentifier t) = Some (t, [])" using read_quoteIdentifier[of "[]" t] by simp
  have 3: "'' with template '' @ quoteIdentifier t \<noteq> []" by simp
  show ?thesis
    unfolding read_stmt_def strip_append read_create_def list.case option.case 1 prod.case if_not_P[OF 3] 2
    by simp
qed

lemma read_drop_stmt: "read_stmt (''drop database if exists '' @ quoteIdentifier n) [] = SDrop n"
proof -
  have 1: "strip ''create database '' (''drop database if exists '' @ quoteIdentifier n) = None"
    by (simp add: strip_def hasPrefix_def)
  show ?thesis
    unfolding read_stmt_def list.case 1 option.case strip_append
    using read_quoteIdentifier[of "[]" n] by simp
qed

definition pg0 :: Postgres where
  "pg0 = \<lparr>pg_containerID = '''', pg_cfg = pg_default\<rparr>"

lemma no_does_not_exist:
  "\<not> contains ''database already exists'' ''does not exist''"
  "contains ''template database does not exist'' ''does not exist''"
  by code_simp+

lemma ref_pg_doc: "pg_doc ref pgv (pg_db_uri p) ref_runs"
  unfolding pg_doc_def ref_fields ref_pgs_def pg_api.simps
  apply (intro conjI)
  subgoal by (auto simp: ref_open_def pg_uri_name_db uri_name_def pgv_conn_bound)
  subgoal by (auto simp: ref_ping_def)
  subgoal by (simp add: pgv_conn_bound)
  subgoal by (simp add: ref_exec_def read_create_stmt[simplified] pg_do_create_def put_pg_def)
  subgoal by (simp add: ref_exec_def read_copy_stmt[simplified] pg_do_copy_def put_pg_def busy_ran)
  subgoal by (simp add: ref_exec_def read_copy_stmt[simplified] pg_do_copy_def no_does_not_exist)
  subgoal by (auto simp: ref_exec_def read_copy_stmt[simplified] pg_do_copy_def no_does_not_exist)
  subgoal by (simp add: ref_exec_def read_drop_stmt[simplified] pg_do_drop_def put_pg_def busy_ran)
  subgoal by (simp add: ref_exec_def read_stmt_def pg_do_kill_def put_pg_def pgv_conn_bound)
  subgoal by (auto simp: ref_begin_def)
  subgoal by (auto simp: ref_tx_exec_def put_pg_def)
  subgoal by (auto simp: ref_commit_def put_pg_def)
  subgoal by (simp add: put_pg_def)
  done

lemma pg_URI_ref: "pg_URI ref (pg_db_of p n) w = pg_db_uri p n"
  by (simp add: pg_URI_def pg_db_uri_def pg_db_of_def db_uri_def joinHostPort_def Let_def)

definition ref_now :: nat where
  "ref_now = 1700000000000000000"

lemma ref_nowNano [simp]: "nowNano ref_os w = (ref_now, w)"
  by (simp add: ref_os_def ref_now_def)

lemma ref_pg_ready:
  assumes "pg_plain_user p" and "uri_name (pg_name (pg_cfg p))" and "pg_name (pg_cfg p) \<in> dom (pv_dbs (pgv w))"
    and "ran (pv_conn (pgv w)) \<subseteq> dom (pv_dbs (pgv w))" and "pv_dbs (pgv w) (stamp ref_now) = None"
  shows "pg_ready ref pgv (pg_db_uri p) ref_runs p w"
  using assms ref_pg_doc pg_URI_ref by (simp add: pg_ready_def) (simp add: ref_now_def)

lemma pg0_plain: "pg_plain_user pg0"
  unfolding pg_plain_user_def by code_simp

lemma pg0_name [simp]: "pg_name (pg_cfg pg0) = ''postgres''" "pg_user (pg_cfg pg0) = ''postgres''"
  by (simp_all add: pg0_def pg_default_def pg_DefaultName_def pg_DefaultUser_def)

lemma pgv_w0 [simp]: "pv_dbs (pgv w0) = [''postgres'' \<mapsto> [], ''template1'' \<mapsto> []]" "pv_conn (pgv w0) = Map.empty"
  by (simp_all add: pgv_def w0_def)

lemma pg0_ready: "pg_ready ref pgv (pg_db_uri pg0) ref_runs pg0 w0"
  by (rule ref_pg_ready[OF pg0_plain]) (simp_all add: uri_name_def stamp_def)

subsection \<open>The operating system\<close>

lemma ref_rand_doc: "rand_doc ref"
  by (simp add: rand_doc_def ref_os_def)

text \<open>The disk is only touched by the operations on files.\<close>

abbreviation on_disk :: "(string list \<Rightarrow> (string \<times> string) list \<Rightarrow> bool) \<Rightarrow> rworld \<Rightarrow> bool" where
  "on_disk P w \<equiv> P (rw_tmp w) (rw_files w)"

lemma disk_kept:
  "preserves (on_disk P) (ref_create cfg)" "preserves (on_disk P) (ref_open u)"
  "preserves (on_disk P) (ref_ping c)" "preserves (on_disk P) (ref_exec c q as)"
  "preserves (on_disk P) (ref_begin c)" "preserves (on_disk P) (ref_tx_exec c q)"
  "preserves (on_disk P) (ref_commit c)"
  by (auto simp: preserves_def ref_create_def ref_open_def ref_ping_def ref_exec_def ref_begin_def
      ref_tx_exec_def ref_commit_def put_pg_def pg_do_create_def pg_do_copy_def pg_do_drop_def pg_do_kill_def
      split: res.splits option.splits stmt.splits)

lemma disk_kept_call: "preserves (on_disk P) (ref_call c as)"
  by (auto simp: preserves_def ref_call_def ref_select_def put_rd_def split: list.splits option.splits)

lemma ref_quiet_pg: "quiet_pg ref (on_disk P)"
  by (simp add: quiet_pg_def ref_pgs_def disk_kept) (simp add: preserves_def put_pg_def)

lemma ref_quiet_rd: "quiet_rd ref (on_disk P)"
  by (simp add: quiet_rd_def ref_rds_def disk_kept_call) (auto simp: preserves_def split: prod.splits)

lemma ref_quiet_mg: "quiet_mg ref (on_disk P)"
  by (simp add: quiet_mg_def ref_mgs_def preserves_def)

lemma ref_undisturbed: "undisturbed ref (on_disk P)"
  using ref_quiet_pg[of P] by (simp add: undisturbed_def)

lemma ref_quiet: "quiet ref (\<lambda>w. P (rw_tmp w))"
proof -
  have "quiet_os ref (\<lambda>w. P (rw_tmp w))"
    by (simp add: quiet_os_def ref_docker_def preserves_def pure_step_def) (simp add: ref_os_def ref_create_def)
  then show ?thesis
    using ref_quiet_pg[of "\<lambda>t _. P t"] ref_quiet_rd[of "\<lambda>t _. P t"] ref_quiet_mg[of "\<lambda>t _. P t"]
    by (simp add: quiet_def)
qed

text \<open>A new temporary directory is longer than the others and than every file, so none of them is in it.\<close>

lemma length_elem_concat: "t \<in> set ts \<Longrightarrow> length t \<le> length (concat ts)"
  by (induction ts) auto

lemma ref_tmp_fresh:
  "file_at ''/tmp'' (ref_tmp_name w) \<notin> set (rw_tmp w)"
  "p \<in> fst ` set (rw_files w) \<Longrightarrow> \<not> hasPrefix p (file_at (file_at ''/tmp'' (ref_tmp_name w)) [])"
proof -
  have le: "length t < length (file_at ''/tmp'' (ref_tmp_name w))"
    if "t \<in> set (rw_tmp w @ map fst (rw_files w))" for t
    using length_elem_concat[OF that] by (simp add: ref_tmp_name_def file_at_def)
  from le show "file_at ''/tmp'' (ref_tmp_name w) \<notin> set (rw_tmp w)" by auto
  show "p \<in> fst ` set (rw_files w) \<Longrightarrow> \<not> hasPrefix p (file_at (file_at ''/tmp'' (ref_tmp_name w)) [])"
    using le[of p] unfolding hasPrefix_at_iff by (auto simp: file_at_def)
qed

lemma ref_tmp_plain: "rel_name (ref_tmp_name w)" "slash \<notin> set (ref_tmp_name w)"
  by (auto simp: ref_tmp_name_def rel_name_def splitOn_none plain_def)

lemma ref_tmp_doc: "tmp_doc ref (\<lambda>w. set (rw_tmp w))"
  using ref_tmp_fresh(1) ref_quiet[where P = "\<lambda>t. set t = _"] by (auto simp: tmp_doc_def ref_os_def)

abbreviation ref_files :: "rworld \<Rightarrow> string \<rightharpoonup> string" where
  "ref_files w \<equiv> map_of (rw_files w)"

abbreviation ref_dirs :: "rworld \<Rightarrow> string set" where
  "ref_dirs w \<equiv> set (rw_tmp w)"

lemma ref_disk_doc: "disk_doc ref ref_files"
  by (simp add: disk_doc_def ref_os_def)

lemma file_entries_map: "file_entries (map (\<lambda>p. WalkEntry p (f p) False) ps) = map (\<lambda>p. (p, f p)) ps"
  by (induction ps) simp_all

lemma ref_walk_entries: "file_entries (ref_walk d w) = map (\<lambda>p. (p, entry_name p)) (ref_below d w)"
  by (simp add: ref_walk_def file_entries_map)

lemma ref_walk_no_error: "no_walk_error (ref_walk d w)"
  by (auto simp: ref_walk_def no_walk_error_def)

lemma ref_lists_dirs: "lists_dirs ref ref_files ref_dirs"
proof -
  have "set (ref_below d w) = {p \<in> dom (ref_files w). hasPrefix p (file_at d [])}" for d w
    by (auto simp: ref_below_def dom_map_of_conv_image_fst)
  moreover have "distinct (map (\<lambda>p. (p, entry_name p)) (ref_below d w))" for d w
    by (simp add: ref_below_def distinct_map inj_on_def)
  ultimately show ?thesis
    by (simp add: lists_dirs_def ref_os_def ref_stat_def ref_walk_entries ref_walk_no_error)
qed

text \<open>The disk together with any part of the world that the operations on files leave alone.\<close>

lemma ref_machine_doc:
  assumes "\<And>w t. V (w\<lparr>rw_tmp := t\<rparr>) = V w" and "\<And>w fs. V (w\<lparr>rw_files := fs\<rparr>) = V w"
  shows "machine_doc ref ref_files ref_dirs V"
proof -
  have "makes_tmp ref ref_files ref_dirs V"
    unfolding makes_tmp_def ref_os_def ref_fields os_api.simps
    apply (intro allI)
    subgoal for b w
      using ref_tmp_plain[of w] ref_tmp_fresh(1)[of w] ref_tmp_fresh(2)[where w = w] assms(1)
      by (intro exI[of _ "ref_tmp_name w"]) (simp add: dom_map_of_conv_image_fst)
    done
  moreover have "V (w\<lparr>rw_tmp := t, rw_files := fs\<rparr>) = V w" for w t fs
    using assms(1)[where w = w and t = t] assms(2)[where w = "w\<lparr>rw_tmp := t\<rparr>" and fs = fs] by simp
  ultimately show ?thesis
    using ref_disk_doc ref_lists_dirs assms unfolding machine_doc_def by (simp add: ref_os_def ref_read_def)
qed

text \<open>The directories of the first disk.\<close>

abbreviation disk0 :: "rworld \<Rightarrow> bool" where
  "disk0 w \<equiv> rw_files w = ref_disk"

lemma disk0_w0 [simp]: "disk0 w0"
  by (simp add: w0_def)

lemma disk0_kept: "undisturbed ref disk0" "quiet_pg ref disk0" "quiet_rd ref disk0" "quiet_mg ref disk0"
  by (rule ref_undisturbed ref_quiet_pg ref_quiet_rd ref_quiet_mg)+

lemma ref_below_disk0:
  "disk0 w \<Longrightarrow> ref_below ''/m'' w = [''/m/2_b.up.sql'', ''/m/1_a.up.sql'', ''/m/1_a.down.sql'']"
  "disk0 w \<Longrightarrow> ref_below ''/f'' w = [''/f/x.sql'']"
  "disk0 w \<Longrightarrow> ref_below ''/r'' w = [''/r/set.txt'']"
  "disk0 w \<Longrightarrow> ref_below ''/j'' w = [''/j/users.json'']"
  by (simp_all add: ref_below_def ref_disk_def file_at_def hasPrefix_def)

lemma ref_read_disk0: "disk0 w \<Longrightarrow> ref_read p w = (case map_of ref_disk p of Some b \<Rightarrow> Ok b | None \<Rightarrow> Err ErrNotExist)"
  by (simp add: ref_read_def)

lemma ref_dir_files:
  assumes "disk0 w"
  shows "dir_files ref w ''/m'' [(''1_a.down.sql'', ''drop a''), (''1_a.up.sql'', ''create a''), (''2_b.up.sql'', ''create b'')]"
    and "dir_files ref w ''/f'' [(''x.sql'', ''insert x'')]"
    and "dir_files ref w ''/r'' [(''set.txt'', ''SET k v'')]"
    and "dir_files ref w ''/j'' [(''users.json'', ''{}'')]"
proof -
  have n: "rel_name ''1_a.down.sql''" "rel_name ''1_a.up.sql''" "rel_name ''2_b.up.sql''" "rel_name ''x.sql''"
    "rel_name ''set.txt''" "rel_name ''users.json''" "clean_dir ''/m''" "clean_dir ''/f''" "clean_dir ''/r''" "clean_dir ''/j''"
    by code_simp+
  note d = dir_files_def ref_os_def ref_stat_def ref_walk_entries ref_walk_no_error ref_below_disk0[OF assms]
    ref_read_disk0[OF assms] ref_disk_def hasPrefix_def file_at_def
  show "dir_files ref w ''/m'' [(''1_a.down.sql'', ''drop a''), (''1_a.up.sql'', ''create a''), (''2_b.up.sql'', ''create b'')]"
    using n by (auto simp: d entry_name_at[unfolded file_at_def, of "''/m''", simplified])
  show "dir_files ref w ''/f'' [(''x.sql'', ''insert x'')]" "dir_files ref w ''/r'' [(''set.txt'', ''SET k v'')]"
    "dir_files ref w ''/j'' [(''users.json'', ''{}'')]"
    using n by (simp_all add: d entry_name_at[unfolded file_at_def, of "''/f''", simplified]
      entry_name_at[unfolded file_at_def, of "''/r''", simplified] entry_name_at[unfolded file_at_def, of "''/j''", simplified])
qed

end
