(* ===== verification/RedisSpec.thy ===== *)
theory RedisSpec
  imports RefWorld
begin

text \<open>
  The properties of the redis provider: databases are handed out one index at a time, never twice,
  and come back; the fixture files send the commands that are written in them.
\<close>

section \<open>The world of the witnesses\<close>

lemma rs0_plain: "plain_user rs0"
  unfolding plain_user_def by code_simp

lemma rs0_ready: "rs_ready ref rw_rd 16 rs0"
  by (rule ref_rs_ready[OF rs0_plain])

lemma claimed_w0 [simp]: "claimed_in (rw_rd w0) = {}"
  by (simp add: claimed_in_def w0_def)

section \<open>Handing out databases\<close>

text \<open>
  C11: with a redis server of \<open>n\<close> databases up and no fixtures to load, \<^verbatim>\<open>CreateDB\<close> claims the least index above 0 that is not
  claimed, records the claim in database 0, empties the database it hands out and returns its
  address; when every index is claimed it reports that and changes nothing.
\<close>

theorem redis_create_least_free:
  assumes "rs_ready S V n p" and "no_fixtures S req w"
  shows "(\<exists>i w1. 0 < i \<and> i < n \<and> i \<notin> claimed_in (V w) \<and> {0<..<i} \<subseteq> claimed_in (V w) \<and>
      rs_CreateDB S p req w = (Ok (rs_db_uri p i), w1) \<and> rv_dbs (V w1) = claim_db i (rv_dbs (V w))) \<or>
    ({0<..<n} \<subseteq> claimed_in (V w) \<and>
      (\<exists>w1. rs_CreateDB S p req w = (Err (err_full n), w1) \<and> rv_dbs (V w1) = rv_dbs (V w)))"
proof -
  obtain w1 where c: "rs_CreateDB S p req w = (rs_create_result p n (V w), w1)"
    and v: "rv_dbs (V w1) = claim_first n (V w)"
    using rs_CreateDB_doc[OF assms] by blast
  show ?thesis
  proof (cases "first_free n (V w)")
    case None
    then have "rs_create_result p n (V w) = Err (err_full n)" "claim_first n (V w) = rv_dbs (V w)"
      by (simp_all add: rs_create_result_def claim_first_def)
    then show ?thesis using c v None by (simp add: first_free_None)
  next
    case (Some i)
    then show ?thesis
      using c v first_free_Some[of n "V w" i] by (auto simp: rs_create_result_def claim_first_def)
  qed
qed

theorem redis_create_least_free_witness:
  "\<exists>w1. rs_CreateDB ref rs0 None w0 = (Ok (rs_db_uri rs0 1), w1) \<and> claimed_in (rw_rd w1) = {1}"
proof -
  have nf: "no_fixtures ref None w0" by (simp add: no_fixtures_def)
  have one: "1 \<in> {0<..<16::nat}" by simp
  from redis_create_least_free[OF rs0_ready nf]
  obtain i w1 where i: "0 < i" "i < 16" "{0<..<i} \<subseteq> {}"
    and r: "rs_CreateDB ref rs0 None w0 = (Ok (rs_db_uri rs0 i), w1)"
    and v: "rv_dbs (rw_rd w1) = claim_db i (rv_dbs (rw_rd w0))"
    unfolding claimed_w0 using one by blast
  have "i = 1"
  proof (rule ccontr)
    assume "i \<noteq> 1"
    then have "1 \<in> {0<..<i}" using i(1) by simp
    then show False using i(3) by blast
  qed
  moreover have "claimed_in (rw_rd w1) = {1}" if "i = 1"
    using v that by (auto simp: claimed_in_def claim_db_def w0_def split: if_splits)
  ultimately show ?thesis using r by blast
qed




text \<open>A server on which every index but 1 is claimed.\<close>

definition w_busy :: rworld where
  "w_busy = w0\<lparr>rw_rd := \<lparr>rv_dbs = (\<lambda>d k. if d = 0 \<and> (\<exists>i\<in>{2..<16}. k = index_key i) then Some ''1'' else None),
     rv_sel = (\<lambda>_. 0)\<rparr>\<rparr>"

lemma claimed_busy: "claimed_in (rw_rd w_busy) = {2..<16}"
  by (auto simp: claimed_in_def w_busy_def)



text \<open>
  After a held database was removed through its address, the next creation succeeds: an index
  that is given back can be handed out again.
\<close>

theorem redis_remove_then_create:
  assumes "rs_ready S V n p" and "0 < i" and "i < n" and "rs_RemoveDB S p (rs_db_uri p i) w = (r, w1)"
  shows "r = Ok () \<and> (\<exists>uri w2. rs_CreateDB S p None w1 = (Ok uri, w2))"
proof -
  have ok: "pool_ok (S, V, n, p) w" using assms(1) by (simp add: pool_defs)
  have rel: "pool_release (S, V, n, p) i w = (r, w1)" using assms(4) by (simp add: pool_defs)
  have "r = Ok ()" using rs_pool.release_Ok[OF ok assms(2)] assms(3) rel by (auto simp: pool_defs)
  moreover obtain j w2 where "pool_acquire (S, V, n, p) w1 = (Ok j, w2)"
    using rs_pool.release_then_acquire[OF ok assms(2) _ rel] assms(3) by (auto simp: pool_defs)
  ultimately show ?thesis by (auto simp: pool_defs bind_eq_Ok)
qed

theorem redis_remove_then_create_witness:
  "\<exists>w1 uri w2. rs_RemoveDB ref rs0 (rs_db_uri rs0 3) w_busy = (Ok (), w1) \<and> rs_CreateDB ref rs0 None w1 = (Ok uri, w2)"
proof -
  obtain r w1 where r: "rs_RemoveDB ref rs0 (rs_db_uri rs0 3) w_busy = (r, w1)"
    by (cases "rs_RemoveDB ref rs0 (rs_db_uri rs0 3) w_busy")
  show ?thesis using redis_remove_then_create[OF rs0_ready _ _ r] r by auto
qed

text \<open>
  Removing a database by the address it was created with, through the handler of the api server,
  which rebuilds the instance from the address alone, releases exactly that index and empties exactly
  that database.
\<close>

theorem redis_remove_by_address:
  assumes "rs_ready S V n p" and "rs_credentials_kept (rs_cfg p)" and "0 < i" and "i < n"
  shows "\<exists>w1. removeRedisDB S (rs_db_uri p i) w = (Ok (), w1) \<and>
    claimed_in (V w1) = claimed_in (V w) - {i} \<and> rv_dbs (V w1) i = Map.empty \<and>
    (\<forall>j. 0 < j \<longrightarrow> j \<noteq> i \<longrightarrow> rv_dbs (V w1) j = rv_dbs (V w) j)"
proof -
  obtain w1 where r: "removeRedisDB S (rs_db_uri p i) w = (Ok (), w1)"
    and v: "rv_dbs (V w1) = release_db i (rv_dbs (V w))"
    using removeRedisDB_doc[OF assms(1) assms(2) assms(3) assms(4)] by blast
  have "claimed_in (V w1) = claimed_in (V w) - {i}"
    using v assms(3) by (auto simp: claimed_in_def release_db_def)
  then show ?thesis using r v assms(3) by (auto simp: release_db_def)
qed

theorem redis_remove_by_address_witness:
  "\<exists>w1. removeRedisDB ref (rs_db_uri rs0 5) w_busy = (Ok (), w1) \<and> claimed_in (rw_rd w1) = {2..<16} - {5}"
proof -
  have "rs_credentials_kept (rs_cfg rs0)" by (simp add: rs_credentials_kept_def rs0_def rs_default_def rs_DefaultPass_def)
  from redis_remove_by_address[OF rs0_ready this, of 5 w_busy] show ?thesis
    unfolding claimed_busy by auto
qed

text \<open>
  Database 0, which records the claims of every project that shares the instance, is never
  emptied: removing an address with index 0 succeeds and leaves the world as it was.
\<close>

theorem redis_remove_zero_noop:
  assumes "rs_uri_index uri = Ok 0"
  shows "rs_RemoveDB S p uri w = (Ok (), w)"
  by (rule rs_RemoveDB_zero[OF assms])

theorem redis_remove_zero_noop_witness:
  "rs_uri_index (rs_db_uri rs0 0) = Ok 0 \<and> rs_RemoveDB ref rs0 (rs_db_uri rs0 0) w_busy = (Ok (), w_busy)"
proof -
  have u: "rs_uri_index (rs_db_uri rs0 0) = Ok 0" using rs_uri_index_db[of 0 rs0] by simp
  then show ?thesis using redis_remove_zero_noop[OF u, of ref rs0 w_busy] by simp
qed

text \<open>
  C18: whatever a server answers to CONFIG GET, an error and a malformed reply included, the number of
  databases the pool works with is at least 2, so there is always an index to try; only a panic of
  the client library is not turned into a number.
\<close>

theorem redis_database_count:
  assumes "databaseCount S conn w = (r, w1)"
  shows "(\<exists>n\<ge>2. r = Ok n) \<or> (\<exists>q. r = Panic q)"
  using assms databaseCount_ge[of S conn w _ w1] databaseCount_no_Err[of S conn w _ w1] by (cases r) auto

theorem redis_database_count_witness:
  "\<exists>w1 n. databaseCount ref 0 w0 = (Ok n, w1) \<and> 2 \<le> n"
proof -
  obtain w1 where d: "databaseCount ref 0 w0 = (Ok 16, w1)"
    using databaseCount_doc[OF ref_redis_doc[OF ref_index_db[of 0 rs0]], of 0 w0] by auto
  from redis_database_count[OF d] d show ?thesis by auto
qed

section \<open>Fixture files\<close>

text \<open>
  C19: a command line that is written from arguments, each bare or in single or double quotes, with a
  blank between two of them, is split into exactly these arguments, non-ASCII runes, blanks and the
  other kind of quote inside quotes, and empty quoted arguments included.
\<close>

theorem redis_split_roundtrip:
  assumes "\<forall>a\<in>set as. arg_ok a"
  shows "splitCommand (of_runes (command_line as)) = Ok (map (of_runes \<circ> snd) as)"
  by (rule splitCommand_command_line[OF assms])

theorem redis_split_roundtrip_witness:
  "splitCommand (''SET 'a b' '' @ [CHR 0x22, CHR 0x22]) = Ok [''SET'', ''a b'', '''']"
proof -
  let ?as = "[(Bare, [83, 69, 84]), (Quoted 39, [97, 32, 98]), (Quoted 34, [])]"
  have ok: "\<forall>a\<in>set ?as. arg_ok a" by (simp add: valid_rune_def rune_isSpace_def)
  have "of_runes (command_line ?as) = ''SET 'a b' '' @ [CHR 0x22, CHR 0x22]"
    by (simp add: of_runes_def encode_ascii, code_simp)
  moreover have "map (of_runes \<circ> snd) ?as = [''SET'', ''a b'', '''']" by (simp add: of_runes_def encode_ascii, code_simp)
  ultimately show ?thesis using redis_split_roundtrip[OF ok] by simp
qed

lemma trim_lines: "trimSpace ''SET k v'' = ''SET k v''" "trimSpace ''  SET k v'' = ''SET k v''" "trimSpace ''SET 'a'' = ''SET 'a''"
  by code_simp+

lemma set_line: "command_of_line ''SET k v'' = Ok [''SET'', ''k'', ''v'']"
    "command_of_line ''  SET k v'' = Ok [''SET'', ''k'', ''v'']"
proof -
  have "splitCommand ''SET k v'' = Ok [''SET'', ''k'', ''v'']"
    by (simp add: splitCommand_def decode_first_def rune_isSpace_def encode_ascii, code_simp)
  then show "command_of_line ''SET k v'' = Ok [''SET'', ''k'', ''v'']"
    "command_of_line ''  SET k v'' = Ok [''SET'', ''k'', ''v'']"
    by (simp_all add: command_of_line_def trim_lines hasPrefix_def Let_def)
qed

lemma comment_line: "command_of_line ''# a comment'' = Ok []"
  by code_simp

lemma open_line: "\<exists>e. command_of_line ''SET 'a'' = Err e"
  by (simp add: command_of_line_def trim_lines hasPrefix_def splitCommand_def decode_first_def rune_isSpace_def
      encode_ascii Let_def)

text \<open>
  C20: applying the lines of a fixture file has the effect of sending the commands they spell, in
  order, blank lines and comments sending nothing: the same final world, and success exactly when
  that sequence succeeds, where a nil reply counts as success.
\<close>

theorem redis_fixture_commands:
  assumes "list_all2 (\<lambda>l args. command_of_line l = Ok args) ls cmds"
  shows "snd (apply_lines S conn i ls w) = snd (foreach (send S conn) cmds w) \<and>
    (is_ok (fst (apply_lines S conn i ls w)) \<longleftrightarrow> is_ok (fst (foreach (send S conn) cmds w)))"
  by (rule apply_lines_send[OF assms])

theorem redis_fixture_commands_witness:
  "rv_dbs (rw_rd (snd (apply_lines ref 0 0 [''# a comment'', ''  SET k v''] w0))) 0 = [''k'' \<mapsto> ''v'']"
proof -
  have c: "list_all2 (\<lambda>l args. command_of_line l = Ok args) [''# a comment'', ''  SET k v''] [[], [''SET'', ''k'', ''v'']]"
    by (simp add: set_line comment_line)
  have "rv_dbs (rw_rd (snd (foreach (send ref 0) [[], [''SET'', ''k'', ''v'']] w0))) 0 = [''k'' \<mapsto> ''v'']"
    by (simp add: send_def bind_def try_catch_def ref_rds_def ref_call_def put_rd_def put_cur_def cur_def w0_def)
  with redis_fixture_commands[OF c, of ref 0 0 w0] show ?thesis by simp
qed

text \<open>
  C21: a line that cannot be split stops the file there, with its line number in the error; the
  commands of the lines before it have been sent and none of the lines after it.
\<close>

theorem redis_fixture_bad_line:
  assumes "list_all2 (\<lambda>l args. command_of_line l = Ok args) ls cmds"
    and "foreach (send S conn) cmds w = (Ok (), w1)" and "command_of_line bad = Err e"
  shows "apply_lines S conn 0 (ls @ bad # rest) w =
    (Err (Wrapf ''line %d: %w'' [formatUint (length ls + 1)] e), w1)"
  using apply_lines_bad[OF assms, of 0 rest] by simp

theorem redis_fixture_bad_line_witness:
  "\<exists>e w1. apply_lines ref 0 0 ([''SET k v''] @ ''SET 'a'' # [''SET x y'']) w0 =
    (Err (Wrapf ''line %d: %w'' [''2''] e), w1)"
proof -
  have c: "list_all2 (\<lambda>l args. command_of_line l = Ok args) [''SET k v''] [[''SET'', ''k'', ''v'']]"
    by (simp add: set_line)
  obtain w1 where s: "foreach (send ref 0) [[''SET'', ''k'', ''v'']] w0 = (Ok (), w1)"
    by (simp add: send_def bind_def try_catch_def ref_rds_def ref_call_def put_rd_def)
  obtain e where b: "command_of_line ''SET 'a'' = Err e" using open_line by blast
  have "formatUint (length [''SET k v''] + 1) = ''2''" by code_simp
  with redis_fixture_bad_line[OF c s b, of "[''SET x y'']"] show ?thesis by auto
qed

section \<open>A start that fails\<close>

text \<open>
  When the container cannot be started there is no function to close it, and \<^verbatim>\<open>Start\<close> calls it all the
  same: it panics instead of returning the error.
\<close>

lemma redis_start_panics:
  assumes "randInt20 (os S) w = (Ok rnd, w1)" and "rs_port (rs_cfg p) \<noteq> 0"
    and "Run S (rs_create_request S p (fst (nowNano (os S) w1)) rnd (snd (nowNano (os S) w1))) (snd (nowNano (os S) w1)) = (Err e, w2)"
  shows "\<exists>msg. rs_Start S p detach w = Some (Panic msg, w2)"
proof -
  have "rs_startUsingDocker S p w = Some (Ok (p, None, Some e), w2)"
    using assms by (auto simp: rs_startUsingDocker_def rs_pick_port_def may_try_def may_def bind_def pure_step_def
        split: prod.splits)
  then show ?thesis by (simp add: rs_Start_def may_bind_def may_try_def may_def rs_close_def bind_def ignore_def)
qed

end
