(* ===== verification/PostgresSpec.thy ===== *)
theory PostgresSpec
  imports RefWorld
begin

text \<open>
  The properties of the postgres provider: what a created database holds, how migrations are cached
  as template databases, and that names and failing files do no harm.
\<close>

section \<open>The migrations of the witnesses\<close>

abbreviation up_files :: "string list" where
  "up_files \<equiv> [''/m/1_a.up.sql'', ''/m/2_b.up.sql'']"

abbreviation up_scripts :: "string list" where
  "up_scripts \<equiv> [''create a'', ''create b'']"

lemma m_files: "disk0 w \<Longrightarrow> pg_getFiles ref ''/m'' w = Ok (''/m/1_a.down.sql'' # up_files)"
proof -
  have "pg_keep ''1_a.down.sql''" "pg_keep ''1_a.up.sql''" "pg_keep ''2_b.up.sql''"
    "entry_name ''1_a.down.sql'' = ''1_a.down.sql''" "entry_name ''1_a.up.sql'' = ''1_a.up.sql''"
    "entry_name ''2_b.up.sql'' = ''2_b.up.sql''" by code_simp+
  then show "disk0 w \<Longrightarrow> ?thesis"
    using pg_getFiles_dir[OF ref_dir_files(1)] by (simp add: kept_def file_at_def)
qed

lemma f_files: "disk0 w \<Longrightarrow> pg_getFiles ref ''/f'' w = Ok [''/f/x.sql'']"
proof -
  have "pg_keep ''x.sql''" "entry_name ''x.sql'' = ''x.sql''" by code_simp+
  then show "disk0 w \<Longrightarrow> ?thesis"
    using pg_getFiles_dir[OF ref_dir_files(2)] by (simp add: kept_def file_at_def)
qed

lemma m_up: "MigrationFiles (''/m/1_a.down.sql'' # up_files) = up_files"
  by code_simp

lemma ref_reads: "reads ref disk0 up_files up_scripts" "reads ref disk0 [''/f/x.sql''] [''insert x'']"
  by (simp_all add: reads_def ref_os_def ref_read_def ref_disk_def)

lemma m_at: "disk0 w \<Longrightarrow> migrations_at ref w ''/m'' [(''1_a.up.sql'', ''create a''), (''2_b.up.sql'', ''create b'')]"
proof -
  have "clean_dir ''/m''" "rel_name ''1_a.up.sql''" "rel_name ''2_b.up.sql''"
    "path_join ''/m'' ''1_a.up.sql'' = ''/m/1_a.up.sql''" "path_join ''/m'' ''2_b.up.sql'' = ''/m/2_b.up.sql''"
    by code_simp+
  then show "disk0 w \<Longrightarrow> ?thesis" by (simp add: migrations_at_def ref_os_def ref_read_def ref_disk_def)
qed

text \<open>The hash of the witnesses.\<close>

definition sha0 :: "string \<Rightarrow> string" where
  "sha0 s = replicate 32 (CHR ''A'')"

definition tpl0 :: string where
  "tpl0 = template_of sha0 [(''1_a.up.sql'', ''create a''), (''2_b.up.sql'', ''create b'')]"

lemma tpl0_eq: "tpl0 = ''dbctl_tpl_41414141414141414141414141414141''"
  unfolding tpl0_def by code_simp

lemma m_template: "disk0 w \<Longrightarrow> templateName sha0 ref ''/m'' up_files w = Ok tpl0"
proof -
  have "map (\<lambda>(n, b). path_join ''/m'' n) [(''1_a.up.sql'', ''create a''), (''2_b.up.sql'', ''create b'')] = up_files"
    by code_simp
  then show "disk0 w \<Longrightarrow> ?thesis" using templateName_at[OF m_at, of w sha0] by (simp add: tpl0_def)
qed

section \<open>What a new database holds\<close>

text \<open>
  C13: a database created from migrations has a new name, holds the migrations in the order of their
  files (down migrations left out) and then the fixtures, and the template of these migrations
  holds the migrations alone afterwards: it was there and is copied, or it is built on the way. No
  other database changes. \<open>sha\<close> is the hash function; \<open>Q\<close> is what is known of the files, which
  no call of the database server changes.
\<close>

theorem pg_create_from_migrations:
  assumes "pg_ready S V U G p w" and "undisturbed S Q" and "Q w"
    and "\<not> rq_WithDefaultMigrations req" and "rq_Migrations req \<noteq> []"
    and "\<forall>w. Q w \<longrightarrow> pg_getFiles S (rq_Migrations req) w = Ok files" and "MigrationFiles files \<noteq> []"
    and "reads S Q (MigrationFiles files) bs" and "runs G [] bs"
    and "\<forall>w. Q w \<longrightarrow> templateName sha S (rq_Migrations req) (MigrationFiles files) w = Ok t"
    and "pv_dbs (V w) t = None \<or> pv_dbs (V w) t = Some bs"
    and "t \<noteq> pg_name (pg_cfg p)" and "t \<notin> ran (pv_conn (V w))"
    and "\<forall>w. Q w \<longrightarrow> pg_getFiles S (rq_Fixtures req) w = Ok ffs" and "reads S Q ffs fx" and "runs G bs fx"
  shows "\<exists>now w1. pg_CreateDB sha S p req w = (Ok (pg_db_uri p (stamp now)), w1) \<and>
    pv_dbs (V w) (stamp now) = None \<and>
    pv_dbs (V w1) = (pv_dbs (V w))(t \<mapsto> bs, stamp now \<mapsto> bs @ fx)"
  using pg_CreateDB_migrations[OF assms] by blast

theorem pg_create_from_migrations_witness:
  "\<exists>now w1. pg_CreateDB sha0 ref pg0 \<lparr>rq_Migrations = ''/m'', rq_Fixtures = ''/f'', rq_WithDefaultMigrations = False\<rparr> w0 =
      (Ok (pg_db_uri pg0 (stamp now)), w1) \<and>
    pv_dbs (pgv w1) (stamp now) = Some [''create a'', ''create b'', ''insert x''] \<and>
    pv_dbs (pgv w1) tpl0 = Some [''create a'', ''create b'']"
proof -
  let ?req = "\<lparr>rq_Migrations = ''/m'', rq_Fixtures = ''/f'', rq_WithDefaultMigrations = False\<rparr>"
  have "\<exists>now w1. pg_CreateDB sha0 ref pg0 ?req w0 = (Ok (pg_db_uri pg0 (stamp now)), w1) \<and>
    pv_dbs (pgv w0) (stamp now) = None \<and>
    pv_dbs (pgv w1) = (pv_dbs (pgv w0))(tpl0 \<mapsto> up_scripts, stamp now \<mapsto> up_scripts @ [''insert x''])"
    by (rule pg_create_from_migrations[OF pg0_ready disk0_kept(1), where files = "''/m/1_a.down.sql'' # up_files" and ffs = "[''/f/x.sql'']"])
      (simp_all add: m_files f_files m_up ref_reads ref_runs_def m_template tpl0_eq)
  then obtain now w1 where c: "pg_CreateDB sha0 ref pg0 ?req w0 = (Ok (pg_db_uri pg0 (stamp now)), w1)"
    and v: "pv_dbs (pgv w1) = (pv_dbs (pgv w0))(tpl0 \<mapsto> up_scripts, stamp now \<mapsto> up_scripts @ [''insert x''])" by blast
  have "stamp now \<noteq> tpl0"
  proof
    assume "stamp now = tpl0"
    then have "formatUint now = ''tpl_41414141414141414141414141414141''" by (simp add: stamp_def tpl0_eq)
    then show False using formatUint_digits[of now] by (simp add: is_digit_def)
  qed
  then show ?thesis using c v by auto
qed

text \<open>
  C22: a database created with the default migrations is a copy of the template that was built when
  the instance was started, followed by the fixtures; the template keeps its contents.
\<close>

theorem pg_create_from_default_template:
  assumes "pg_ready S V U G p w" and "undisturbed S Q" and "Q w" and "rq_WithDefaultMigrations req"
    and "pv_dbs (V w) DefaultTemplate = Some cs"
    and "DefaultTemplate \<noteq> pg_name (pg_cfg p)" and "DefaultTemplate \<notin> ran (pv_conn (V w))"
    and "\<forall>w. Q w \<longrightarrow> pg_getFiles S (rq_Fixtures req) w = Ok ffs" and "reads S Q ffs fx" and "runs G cs fx"
  shows "\<exists>now w1. pg_CreateDB sha S p req w = (Ok (pg_db_uri p (stamp now)), w1) \<and>
    pv_dbs (V w) (stamp now) = None \<and> pv_dbs (V w1) = (pv_dbs (V w))(stamp now \<mapsto> cs @ fx)"
proof -
  have doc: "pg_doc S V U G" using assms(1) by (simp add: pg_ready_def)
  have tok: "ident_ok DefaultTemplate" by (simp add: ident_ok_def DefaultTemplate_def)
  have "\<exists>w2. pg_make sha S p req c (stamp now) (U (stamp now)) w1 = (Ok (), w2) \<and>
      pv_dbs (V w2) = (pv_dbs (V w))(stamp now \<mapsto> cs)"
    if h: "Q w1" "c \<in> dom (pv_conn (V w1))" "pv_dbs (V w1) = pv_dbs (V w)" "ident_ok (stamp now)"
      "pv_dbs (V w1) (stamp now) = None" "ran (pv_conn (V w1)) = insert (pg_name (pg_cfg p)) (ran (pv_conn (V w)))"
      "stamp now \<notin> ran (pv_conn (V w1))" for c now w1
    using createDatabaseWithTemplate_doc(1)[OF doc h(2,4) tok h(5), of cs p] assms(4-7) h(3,6)
    by (auto simp: pg_make_def try_catch_def)
  from pg_CreateDB_made[OF assms(1-3), OF this assms(8-10)] show ?thesis by blast
qed

text \<open>An instance that was started with migrations.\<close>

definition w_tpl :: rworld where
  "w_tpl = w0\<lparr>rw_pg := (rw_pg w0)\<lparr>pv_dbs := [''postgres'' \<mapsto> [], DefaultTemplate \<mapsto> [''create a'']]\<rparr>\<rparr>"

lemma pgv_tpl [simp]: "pv_dbs (pgv w_tpl) = [''postgres'' \<mapsto> [], DefaultTemplate \<mapsto> [''create a'']]" "pv_conn (pgv w_tpl) = Map.empty"
  by (simp_all add: pgv_def w0_def w_tpl_def)

lemma tpl_ready: "pg_ready ref pgv (pg_db_uri pg0) ref_runs pg0 w_tpl"
proof (rule ref_pg_ready[OF pg0_plain])
  have "stamp ref_now \<noteq> DefaultTemplate"
  proof
    assume "stamp ref_now = DefaultTemplate"
    then have "formatUint ref_now = ''template''" by (simp add: stamp_def DefaultTemplate_def)
    then show False using formatUint_digits[of ref_now] by (simp add: is_digit_def)
  qed
  then show "pv_dbs (pgv w_tpl) (stamp ref_now) = None" by (simp add: stamp_def)
qed (simp_all add: uri_name_def)

theorem pg_create_from_default_template_witness:
  "\<exists>now w1. pg_CreateDB sha0 ref pg0 \<lparr>rq_Migrations = [], rq_Fixtures = ''/f'', rq_WithDefaultMigrations = True\<rparr> w_tpl =
      (Ok (pg_db_uri pg0 (stamp now)), w1) \<and>
    pv_dbs (pgv w1) (stamp now) = Some [''create a'', ''insert x'']"
proof -
  let ?req = "\<lparr>rq_Migrations = [], rq_Fixtures = ''/f'', rq_WithDefaultMigrations = True\<rparr>"
  have "\<exists>now w1. pg_CreateDB sha0 ref pg0 ?req w_tpl = (Ok (pg_db_uri pg0 (stamp now)), w1) \<and>
    pv_dbs (pgv w_tpl) (stamp now) = None \<and>
    pv_dbs (pgv w1) = (pv_dbs (pgv w_tpl))(stamp now \<mapsto> [''create a''] @ [''insert x''])"
    by (rule pg_create_from_default_template[OF tpl_ready disk0_kept(1), where ffs = "[''/f/x.sql'']"])
      (simp_all add: f_files ref_reads ref_runs_def DefaultTemplate_def, simp add: w_tpl_def)
  then show ?thesis by auto
qed

text \<open>
  C23: removing a database by its address, through the handler of the api server that rebuilds the
  instance from the address, drops exactly the database the address names, also while sessions are
  attached to it.
\<close>

theorem pg_remove_by_address:
  assumes "pg_up S V U G p w" and "pg_user (pg_cfg p) \<noteq> ''''" and "pg_DefaultName \<in> dom (pv_dbs (V w))"
    and "ident_ok n" and "n \<noteq> pg_DefaultName" and "uri_name n"
  shows "\<exists>w1. removePostgresDB S (pg_db_uri p n) w = (Ok (), w1) \<and> pv_dbs (V w1) = (pv_dbs (V w))(n := None)"
  using removePostgresDB_doc[OF assms(1-5)] assms(6) by (simp add: uri_name_def)

theorem pg_remove_by_address_witness:
  "\<exists>w1. removePostgresDB ref (pg_db_uri pg0 DefaultTemplate) w_tpl = (Ok (), w1) \<and>
    pv_dbs (pgv w1) = [''postgres'' \<mapsto> []]"
proof -
  have "\<exists>w1. removePostgresDB ref (pg_db_uri pg0 DefaultTemplate) w_tpl = (Ok (), w1) \<and>
      pv_dbs (pgv w1) = (pv_dbs (pgv w_tpl))(DefaultTemplate := None)"
    by (rule pg_remove_by_address[OF pg_ready_up[OF tpl_ready]])
      (simp_all add: pg_DefaultName_def ident_ok_def uri_name_def DefaultTemplate_def)
  moreover have "[''postgres'' \<mapsto> [], DefaultTemplate \<mapsto> [''create a'']](DefaultTemplate := None) = [''postgres'' \<mapsto> []]"
    by (simp add: fun_eq_iff DefaultTemplate_def)
  ultimately show ?thesis by simp
qed

text \<open>
  When the instance was started without migrations, asking for the default migrations is an error
  that is recognised as a missing template, and no database is made or changed.
\<close>

theorem pg_default_template_missing:
  assumes "pg_ready S V U G p w" and "rq_WithDefaultMigrations req" and "pv_dbs (V w) DefaultTemplate = None"
  shows "\<exists>e w1. pg_CreateDB sha S p req w = (Err e, w1) \<and> errors_is e errDatabaseNotExists \<and>
    pv_dbs (V w1) = pv_dbs (V w)"
  by (rule pg_CreateDB_default_missing[OF assms])

theorem pg_default_template_missing_witness:
  "\<exists>e w1. pg_CreateDB sha0 ref pg0 \<lparr>rq_Migrations = ''/m'', rq_Fixtures = [], rq_WithDefaultMigrations = True\<rparr> w0 =
      (Err e, w1) \<and> pv_dbs (pgv w1) = [''postgres'' \<mapsto> [], ''template1'' \<mapsto> []]"
proof -
  have t: "pv_dbs (pgv w0) DefaultTemplate = None" by (simp add: DefaultTemplate_def)
  have q: "rq_WithDefaultMigrations \<lparr>rq_Migrations = ''/m'', rq_Fixtures = [], rq_WithDefaultMigrations = True\<rparr>" by simp
  from pg_default_template_missing[OF pg0_ready q t, of sha0] show ?thesis by auto
qed

section \<open>Migration files\<close>



text \<open>
  C25: a migration that fails is undone as a whole and stops the run with an error: the database holds
  exactly the migrations before it, and no other database is touched.
\<close>

theorem pg_migrations_stop_at_failure:
  assumes "pg_doc S V U G" and "quiet_pg S Q" and "reads S Q fs bs" and "Q w" and "pv_dbs (V w) n = Some cs"
    and "runs G cs bs" and "\<forall>w. Q w \<longrightarrow> readFile (os S) f w = Ok b" and "\<not> G (cs @ bs) b" and "uri_name n"
  shows "\<exists>e w1. RunMigrations S None (fs @ f # rest) (U n) w = (Err e, w1) \<and>
    pv_dbs (V w1) = (pv_dbs (V w))(n \<mapsto> cs @ bs)"
  by (rule RunMigrations_fail[OF assms])

theorem pg_migrations_stop_at_failure_witness:
  "\<exists>e w1. RunMigrations ref None (up_files @ ''/b/bad.sql'' # [''/f/x.sql'']) (pg_db_uri pg0 ''postgres'') w0 = (Err e, w1) \<and>
    pv_dbs (pgv w1) = [''template1'' \<mapsto> [], ''postgres'' \<mapsto> up_scripts]"
proof -
  have doc: "pg_doc ref pgv (pg_db_uri pg0) ref_runs" using pg0_ready by (simp add: pg_ready_def)
  have "\<exists>e w1. RunMigrations ref None (up_files @ ''/b/bad.sql'' # [''/f/x.sql'']) (pg_db_uri pg0 ''postgres'') w0 = (Err e, w1) \<and>
      pv_dbs (pgv w1) = (pv_dbs (pgv w0))(''postgres'' \<mapsto> [] @ up_scripts)"
    by (rule pg_migrations_stop_at_failure[OF doc disk0_kept(2) ref_reads(1)])
      (simp_all add: ref_runs_def ref_os_def ref_read_def ref_disk_def uri_name_def)
  then show ?thesis by simp
qed

section \<open>Names\<close>

text \<open>
  C26: a name that is put into a statement is read back by the identifier rule of SQL as exactly that
  name, with the rest of the statement left over: no name, quotes included, can end the identifier
  early and smuggle SQL into the statement.
\<close>

theorem pg_quote_read_back:
  assumes "rest = [] \<or> hd rest \<noteq> CHR 0x22"
  shows "read_ident (quoteIdentifier n @ rest) = Some (n, rest)"
  by (rule read_quoteIdentifier[OF assms])

theorem pg_quote_read_back_witness:
  "read_ident (quoteIdentifier ([CHR ''x'', CHR 0x22] @ ''; drop database y; --'') @ '' with template t'') =
    Some ([CHR ''x'', CHR 0x22] @ ''; drop database y; --'', '' with template t'')"
  by (rule pg_quote_read_back) simp

text \<open>
  C27: the name of the template of some migrations depends on their relative names and contents only,
  not on the directory they were uploaded to, so a later request with the same migrations finds it.
\<close>

theorem pg_template_of_contents:
  assumes "migrations_at S w root ms" and "migrations_at S w' root' ms"
  shows "templateName sha S root (map (\<lambda>(n, b). path_join root n) ms) w =
    templateName sha S root' (map (\<lambda>(n, b). path_join root' n) ms) w'"
  by (simp add: templateName_at[OF assms(1)] templateName_at[OF assms(2)])

text \<open>A world with uploaded copies of a migration in two places.\<close>

definition w_two :: rworld where
  "w_two = w0\<lparr>rw_files := [(''/tmp/1/a.sql'', ''x''), (''/tmp/2/a.sql'', ''x''), (''/tmp/3/a.sql'', ''b.sqlx''),
     (''/tmp/4/a.sql'', ''''), (''/tmp/4/b.sql'', ''x'')]\<rparr>"

lemma two_at:
  "migrations_at ref w_two ''/tmp/1'' [(''a.sql'', ''x'')]" "migrations_at ref w_two ''/tmp/2'' [(''a.sql'', ''x'')]"
  "migrations_at ref w_two ''/tmp/3'' [(''a.sql'', ''b.sqlx'')]"
  "migrations_at ref w_two ''/tmp/4'' [(''a.sql'', ''''), (''b.sql'', ''x'')]"
proof -
  have "clean_dir ''/tmp/1''" "clean_dir ''/tmp/2''" "clean_dir ''/tmp/3''" "clean_dir ''/tmp/4''"
    "rel_name ''a.sql''" "rel_name ''b.sql''" by code_simp+
  moreover have "path_join ''/tmp/1'' ''a.sql'' = ''/tmp/1/a.sql''" "path_join ''/tmp/2'' ''a.sql'' = ''/tmp/2/a.sql''"
    "path_join ''/tmp/3'' ''a.sql'' = ''/tmp/3/a.sql''" "path_join ''/tmp/4'' ''a.sql'' = ''/tmp/4/a.sql''"
    "path_join ''/tmp/4'' ''b.sql'' = ''/tmp/4/b.sql''" by code_simp+
  ultimately show
    "migrations_at ref w_two ''/tmp/1'' [(''a.sql'', ''x'')]" "migrations_at ref w_two ''/tmp/2'' [(''a.sql'', ''x'')]"
    "migrations_at ref w_two ''/tmp/3'' [(''a.sql'', ''b.sqlx'')]"
    "migrations_at ref w_two ''/tmp/4'' [(''a.sql'', ''''), (''b.sql'', ''x'')]"
    by (simp_all add: migrations_at_def ref_os_def ref_read_def ref_disk_def w_two_def)
qed

theorem pg_template_of_contents_witness:
  "templateName sha0 ref ''/tmp/1'' [path_join ''/tmp/1'' ''a.sql''] w_two =
   templateName sha0 ref ''/tmp/2'' [path_join ''/tmp/2'' ''a.sql''] w_two"
  using pg_template_of_contents[OF two_at(1,2), of sha0] by simp

text \<open>
  C28: the name of a template is an identifier the server takes unchanged: not empty, at most 63 bytes long
  and without NUL; it is never the name of a created database or of the default template.
\<close>

theorem pg_template_name_wellformed:
  assumes "templateName sha S root files w = Ok t"
  shows "ident_ok t \<and> t \<noteq> DefaultTemplate \<and> t \<noteq> stamp now"
proof -
  have "hasPrefix t ''dbctl_tpl_''" using assms by (auto simp: templateName_def bind_res_eq_Ok hasPrefix_def)
  then have "t \<noteq> DefaultTemplate" by (auto simp: DefaultTemplate_def hasPrefix_def)
  then show ?thesis using ident_ok_template[OF assms] template_not_stamp[OF assms] by blast
qed

theorem pg_template_name_wellformed_witness: "ident_ok tpl0 \<and> tpl0 \<noteq> DefaultTemplate \<and> tpl0 \<noteq> stamp 5"
  by (rule pg_template_name_wellformed[OF m_template[OF disk0_w0]])

text \<open>
  The names and contents are hashed one after the other with nothing between them, so that different
  migrations can share a template, whatever the hash: one file \<^verbatim>\<open>a.sql\<close> with the contents
  \<^verbatim>\<open>b.sqlx\<close>, and an empty file \<^verbatim>\<open>a.sql\<close> beside a file \<^verbatim>\<open>b.sql\<close> with the contents \<^verbatim>\<open>x\<close>.
\<close>

lemma template_names_collide:
  "templateName sha ref ''/tmp/3'' [path_join ''/tmp/3'' ''a.sql''] w_two =
   templateName sha ref ''/tmp/4'' [path_join ''/tmp/4'' ''a.sql'', path_join ''/tmp/4'' ''b.sql''] w_two"
  using templateName_at[OF two_at(3), of sha] templateName_at[OF two_at(4), of sha] by (simp add: template_of_def)

end
