(* ===== verification/MongodbSpec.thy ===== *)
theory MongodbSpec
  imports RefWorld
begin

text \<open>
  The properties of the mongodb provider: what a created database holds, and that removing by address
  drops that database only.
\<close>

section \<open>The world of the witnesses\<close>

definition mdb0 :: MongoDB where
  "mdb0 = \<lparr>mdb_containerID = '''', mdb_cfg = mdb_default\<rparr>"

lemma ref_mg_doc: "mg_doc ref mgv (\<lambda>_ _. True) UNIV"
  unfolding mg_doc_def by (auto simp: ref_mgs_def mgv_def intro!: mg_view.equality)

lemma mdb0_ready: "mg_ready ref mgv (\<lambda>_ _. True) mdb0 w0"
proof -
  have "mdb_plain mdb0" unfolding mdb_plain_def plain_cred_def by code_simp
  moreover have "inside_docker ref w = inside_docker ref w'" for w w' by (simp add: ref_not_inside)
  moreover have "mv_docs (mgv w0) = (\<lambda>_ _. [])" by (simp add: mgv_def w0_def)
  ultimately show ?thesis
    unfolding mg_ready_def mg_up_def using ref_mg_doc by (auto simp: ref_now_def)
qed

lemma j_files: "request_files ref disk0 ''/j'' [''/j/users.json'']"
proof -
  have "mdb_keep ''users.json''" "entry_name ''users.json'' = ''users.json''" by code_simp+
  then have "disk0 w \<Longrightarrow> mdb_getFiles ref ''/j'' w = Ok [''/j/users.json'']" for w
    using mdb_getFiles_dir[OF ref_dir_files(4)] by (simp add: kept_def file_at_def)
  then show ?thesis by (simp add: request_files_def)
qed

lemma j_users: "list_all2 (json_file ref disk0) [''/j/users.json''] [(''users'', [''{}''])]"
proof -
  have "path_ext ''/j/users.json'' = ''.json''" "path_base ''/j/users.json'' = ''users.json''" by code_simp+
  then show ?thesis by (simp add: json_file_def ref_os_def ref_read_def ref_disk_def ref_mgs_def)
qed

section \<open>Databases\<close>

text \<open>
  C29: a created mongodb database has a new name and holds, per JSON file of the migrations and then of
  the fixtures, the documents of the file in the collection that is named after the file, appended in
  the order of the files; no other database changes, and the connection is closed. The address that is
  returned names the new database also when the server runs inside docker. \<open>Q\<close> is what is known of the files; no call of the driver changes it.
\<close>

theorem mongo_create_loads:
  assumes "mg_ready S V G m w" and "quiet_mg S Q" and "\<And>w. Q w \<Longrightarrow> Q (snd (nowNano (os S) w))" and "Q w"
    and "request_files S Q (rq_Migrations req) mf" and "list_all2 (json_file S Q) mf mx" and "takes G (\<lambda>_. []) mx"
    and "request_files S Q (rq_Fixtures req) ff" and "list_all2 (json_file S Q) ff fx" and "takes G (load (\<lambda>_. []) mx) fx"
  shows "\<exists>now w1. mdb_CreateDB S m req w = (Ok (mdb_db_uri m (stamp now)), w1) \<and>
    mv_docs (V w) (stamp now) = (\<lambda>_. []) \<and>
    mv_docs (V w1) = (mv_docs (V w))(stamp now := load (load (\<lambda>_. []) mx) fx) \<and> mv_conn (V w1) = mv_conn (V w)"
  using mdb_CreateDB_doc[OF assms] by blast

theorem mongo_create_loads_witness:
  "\<exists>now w1. mdb_CreateDB ref mdb0 \<lparr>rq_Migrations = [], rq_Fixtures = ''/j'', rq_WithDefaultMigrations = False\<rparr> w0 =
      (Ok (mdb_db_uri mdb0 (stamp now)), w1) \<and> mv_docs (mgv w1) (stamp now) ''users'' = [''{}'']"
proof -
  let ?req = "\<lparr>rq_Migrations = [], rq_Fixtures = ''/j'', rq_WithDefaultMigrations = False\<rparr>"
  have "\<exists>now w1. mdb_CreateDB ref mdb0 ?req w0 = (Ok (mdb_db_uri mdb0 (stamp now)), w1) \<and>
    mv_docs (mgv w0) (stamp now) = (\<lambda>_. []) \<and>
    mv_docs (mgv w1) = (mv_docs (mgv w0))(stamp now := load (load (\<lambda>_. []) []) [(''users'', [''{}''])]) \<and>
    mv_conn (mgv w1) = mv_conn (mgv w0)"
    by (rule mongo_create_loads[OF mdb0_ready disk0_kept(4), where mf = "[]" and ff = "[''/j/users.json'']"])
      (use j_files j_users in \<open>simp_all add: request_files_def\<close>)
  then show ?thesis by (auto simp: fun_eq_iff)
qed

text \<open>
  Removing a mongodb database by its address, through the handler of the api server that rebuilds
  the instance from the address, drops the database the address names and no other. The credentials
  are without the bytes on which the two escapings the program uses differ.
\<close>

theorem mongo_remove_by_address:
  assumes "mg_up S V G m" and "mdb_user (mdb_cfg m) \<noteq> ''''" and "mdb_name (mdb_cfg m) = mdb_DefaultName"
    and "mg_name n"
  shows "\<exists>w1. removeMongoDBDB S (mdb_db_uri m n) w = (Ok (), w1) \<and> mv_docs (V w1) = (mv_docs (V w))(n := (\<lambda>_. []))"
  by (rule removeMongoDBDB_doc[OF assms])

definition w_docs :: rworld where
  "w_docs = w0\<lparr>rw_mg := \<lparr>mv_docs = (\<lambda>n k. if n = ''dbctl_1'' then [''{}''] else if n = ''keep'' then [''x''] else []), mv_conn = {}\<rparr>\<rparr>"

theorem mongo_remove_by_address_witness:
  "\<exists>w1. removeMongoDBDB ref (mdb_db_uri mdb0 ''dbctl_1'') w_docs = (Ok (), w1) \<and>
    mv_docs (mgv w1) ''dbctl_1'' ''users'' = [] \<and> mv_docs (mgv w1) ''keep'' ''users'' = [''x'']"
proof -
  have r: "mg_up ref mgv (\<lambda>_ _. True) mdb0" using mdb0_ready by (simp add: mg_ready_def)
  have n: "mg_name ''dbctl_1''" unfolding mg_name_def by code_simp
  have "\<exists>w1. removeMongoDBDB ref (mdb_db_uri mdb0 ''dbctl_1'') w_docs = (Ok (), w1) \<and>
      mv_docs (mgv w1) = (mv_docs (mgv w_docs))(''dbctl_1'' := (\<lambda>_. []))"
    by (rule mongo_remove_by_address[OF r _ _ n, of w_docs]) (simp_all add: mdb0_def mdb_default_def mdb_DefaultUser_def)
  then show ?thesis by (auto simp: mgv_def w_docs_def)
qed

end
