(* ===== verification/ApiSpec.thy ===== *)
theory ApiSpec
  imports RefWorld
begin

text \<open>
  The properties of the api server and its client: uploads stay in their directory and arrive as they
  were sent, nothing is left behind, requests that make no sense are refused, and the instance that
  was started is the one that is used.
\<close>

section \<open>Uploads\<close>

text \<open>
  C14: whatever file name a request carries, escaped or not, an accepted file is written below the
  upload directory: the target is the directory, a slash and a name none of whose segments is empty,
  a dot or two dots.
\<close>

theorem api_upload_confined:
  assumes "uploadPath f = Ok n" and "clean_dir dst"
  shows "path_join dst n = dst @ ''/'' @ n \<and> (\<forall>c\<in>set (splitOn slash n). c \<notin> {'''', ''.'', ''..''})"
  using upload_below[OF assms] uploadPath_Ok[OF assms(1)] by (auto simp: rel_name_def plain_def)

theorem api_upload_confined_witness:
  "uploadPath ''a%2F..%2Fb%2F.%2Fc.sql'' = Ok ''b/c.sql'' \<and> path_join ''/tmp/up'' ''b/c.sql'' = ''/tmp/up/b/c.sql'' \<and>
   (\<exists>e. uploadPath ''%2E%2E%2Fetc%2Fpasswd'' = Err e)"
proof -
  have u: "uploadPath ''a%2F..%2Fb%2F.%2Fc.sql'' = Ok ''b/c.sql''" by code_simp
  have d: "clean_dir ''/tmp/up''" by code_simp
  have "pathUnescape ''%2E%2E%2Fetc%2Fpasswd'' = Ok ''../etc/passwd''" "path_clean ''../etc/passwd'' = ''../etc/passwd''"
    by code_simp+
  then have "\<exists>e. uploadPath ''%2E%2E%2Fetc%2Fpasswd'' = Err e" by (simp add: uploadPath_def hasPrefix_def)
  then show ?thesis using api_upload_confined[OF u d] u by simp
qed






text \<open>
  C16: over every sequence of requests the server answers, creations that fail half way and removals
  included, the temporary directories on the machine are afterwards the ones that were there before.
\<close>

theorem api_no_temporary_left:
  assumes "tmp_doc S T"
  shows "T (snd (snd (api_Start sha S J s evs w))) = T w"
  by (rule api_Start_tmp[OF assms])

definition j0 :: json_api where
  "j0 = \<lparr>enc_instances = (\<lambda>_. ''''), dec_instances = (\<lambda>_. Ok []), enc_remove = (\<lambda>(t, u). t @ '' '' @ u),
     dec_remove = (\<lambda>b. Ok (str_cut (CHR '' '') b))\<rparr>"

definition s0 :: Server where
  "s0 = \<lparr>sv_port = ''1988'', sv_label = '''', sv_instances = [(''redis'', None)]\<rparr>"

theorem api_no_temporary_left_witness:
  "rw_tmp (snd (snd (api_Start (\<lambda>s. s) ref j0 s0
     [Incoming ''/create'' \<lparr>hr_Method = ''POST'', hr_Form = [(''type'', ''redis'')], hr_Files = None, hr_Body = ''''\<rparr>,
      Interrupted None] w0))) = []"
proof -
  have "set (rw_tmp w0) = {}" by (simp add: w0_def)
  then show ?thesis
    using api_no_temporary_left[OF ref_tmp_doc, of "\<lambda>s. s" j0 s0 "[Incoming ''/create''
      \<lparr>hr_Method = ''POST'', hr_Form = [(''type'', ''redis'')], hr_Files = None, hr_Body = ''''\<rparr>, Interrupted None]" w0]
    by (simp del: api_Start.simps)
qed

text \<open>
  C30: a creation by another method than POST, with a port that is no 32-bit number or with a type that is
  missing or unknown is answered with the status for it and an error, and nothing at all happens.
\<close>

theorem api_create_refused:
  assumes "create_refused r = Some st"
  shows "\<exists>e. api_CreateDB sha S s r w = (Ok (st, JErr e), w)"
  by (rule api_CreateDB_refused[OF assms])

theorem api_create_refused_witness:
  "\<exists>e. api_CreateDB (\<lambda>s. s) ref s0 \<lparr>hr_Method = ''POST'', hr_Form = [(''type'', ''oracle'')], hr_Files = None, hr_Body = ''''\<rparr> w0 =
    (Ok (StatusBadRequest, JErr e), w0)"
proof -
  have "create_refused \<lparr>hr_Method = ''POST'', hr_Form = [(''type'', ''oracle'')], hr_Files = None, hr_Body = ''''\<rparr> =
      Some StatusBadRequest"
    by code_simp
  then show ?thesis by (rule api_create_refused)
qed

section \<open>Instances\<close>

text \<open>
  C31: looking up an instance by type and label finds the one running container that carries the
  program's mark, the type and, if one is given, the label; with none or several of them it fails
  with the error for that, and the containers are as before.
\<close>

theorem find_instance_outcome:
  assumes "docker_doc S V"
  shows "\<exists>r w1. FindInstance S t label w = (r, w1) \<and> V w1 = V w \<and>
    (case filter (\<lambda>c. carries (cs_Labels c) (InstanceLabels t label)) (dv_running (V w)) of
       [] \<Rightarrow> \<exists>e. r = Err e \<and> errors_is e ErrNoInstance
     | [c] \<Rightarrow> r = instance_of t (to_container c)
     | _ \<Rightarrow> \<exists>e. r = Err e \<and> errors_is e ErrAmbiguousInstance)"
  using FindInstance_doc[OF assms, of t label w] by (simp add: find_result_def matching_def)

theorem find_instance_outcome_witness:
  "\<exists>e. fst (FindInstance ref TypeRedis ''x'' w0) = Err e \<and> errors_is e ErrNoInstance"
proof -
  have "dv_running (dkv w0) = []" by (simp add: dkv_def w0_def)
  with find_instance_outcome[OF ref_docker_doc, of TypeRedis "''x''" w0] show ?thesis by auto
qed

text \<open>
  C32: an instance that a provider starts is found afterwards under its type and label with exactly the
  port, the user, the password and the name of its configuration, when no other instance of that type
  and label was running: what \<^verbatim>\<open>start\<close> writes into the labels is what the other commands read.
\<close>

theorem started_instance_found:
  assumes "docker_doc S V" and "Run S req w = (Ok c, w1)"
    and "(req, t, label, port, user, pass, name) \<in>
      {(pg_create_request S p now rnd wp, TypePostgres, pg_label (pg_cfg p), pg_port (pg_cfg p), pg_user (pg_cfg p),
          pg_pass (pg_cfg p), pg_name (pg_cfg p)),
       (rs_create_request S q now rnd wp, TypeRedis, rs_label (rs_cfg q), rs_port (rs_cfg q), rs_user (rs_cfg q),
          rs_pass (rs_cfg q), ''''),
       (mdb_create_request S m now rnd wp, TypeMongoDB, mdb_label (mdb_cfg m), mdb_port (mdb_cfg m),
          mdb_user (mdb_cfg m), mdb_pass (mdb_cfg m), mdb_name (mdb_cfg m))}"
    and "\<And>w. V (snd (dk_imageInspect (docker S) (cr_Image req) w)) = V w"
    and "\<And>w. V (snd (dk_pull (docker S) (cr_Image req) w)) = V w"
    and "matching (V w) t label = []"
  shows "\<exists>w2. FindInstance S t label w1 = (Ok \<lparr>in_ID = ct_ID c, in_Type = t, in_Label = label, in_Port = port,
    in_User = user, in_Pass = pass, in_Name = name\<rparr>, w2)"
proof -
  have "cr_Labels req = start_labels t user pass name port label"
    using assms(3) by (auto simp: pg_create_request_def rs_create_request_def mdb_create_request_def
        LabelPostgres_def TypePostgres_def LabelRedis_def TypeRedis_def LabelMongoDB_def TypeMongoDB_def)
  from started_found[OF assms(1,2) this assms(4-6)] show ?thesis .
qed

lemma ref_Run:
  assumes "ref_specs (cr_ExposedPorts req) = Ok bs" and "dkv w = rw_dk w"
  shows "\<exists>w1. Run ref req w = (Ok \<lparr>ct_ID = id_of (rw_ids w), ct_Name = cr_Name req, ct_Labels = []\<rparr>, w1)"
proof -
  let ?cfg = "container_config_of req bs"
  let ?w = "w\<lparr>rw_dk := (dkv w)\<lparr>dv_created := (dv_created (dkv w))(id_of (rw_ids w) \<mapsto> ?cfg)\<rparr>, rw_ids := Suc (rw_ids w)\<rparr>"
  have wf: "dk_wf (dkv w) (rw_ids w)" by (rule dkv_wf)
  have d: "dkv ?w = (dkv w)\<lparr>dv_created := (dv_created (dkv w))(id_of (rw_ids w) \<mapsto> ?cfg)\<rparr>"
    by (rule dkv_set(1)[OF dk_wf_create[OF wf]])
  have "isPortFree ref w' p" for w' p by (simp add: isPortFree_def ref_os_def)
  then have "check_ports ref bs w = Ok ()" by (simp add: check_ports_Ok)
  then have "CreateContainer ref req w = (Ok (id_of (rw_ids w)), ?w)"
    using assms(1) by (simp add: CreateContainer_def bind_def ref_docker_def ref_create_def)
  moreover have "\<exists>w1. StartContainer ref (id_of (rw_ids w)) ?w = (Ok (), w1)"
    using dk_wf_fresh(1)[OF wf] d by (simp add: StartContainer_def bind_def ref_docker_def ref_start_def)
  ultimately show ?thesis by (auto simp: Run_def PullImage_def bind_def try_catch_def ref_docker_def)
qed

theorem started_instance_found_witness:
  "\<exists>c w1 w2. Run ref (pg_create_request ref pg0 0 7 w0) w0 = (Ok c, w1) \<and>
    FindInstance ref TypePostgres '''' w1 = (Ok \<lparr>in_ID = ct_ID c, in_Type = TypePostgres, in_Label = '''',
      in_Port = 15432, in_User = ''postgres'', in_Pass = ''postgres'', in_Name = ''postgres''\<rparr>, w2)"
proof -
  have "trimSpace [] = []" by code_simp
  then have l: "ListenAddress ref w0 = ''127.0.0.1''"
    by (simp add: ListenAddress_def LoopbackAddress_def ref_os_def w0_def Let_def)
  have "formatUint 15432 = ''15432''" by (simp add: formatUint.simps, code_simp)
  then have "cr_ExposedPorts (pg_create_request ref pg0 0 7 w0) = [''127.0.0.1:15432:5432/tcp'']"
    by (simp add: pg_create_request_def PortSpec_def l pg0_def pg_default_def pg_DefaultPort_def)
  moreover have "is_ok (ref_specs [''127.0.0.1:15432:5432/tcp''])" by code_simp
  ultimately obtain bs where "ref_specs (cr_ExposedPorts (pg_create_request ref pg0 0 7 w0)) = Ok bs"
    by (cases "ref_specs [''127.0.0.1:15432:5432/tcp'']") auto
  moreover have d: "dkv w0 = rw_dk w0" "dv_running (dkv w0) = []" by (simp_all add: dkv_def w0_def)
  ultimately obtain c w1 where r: "Run ref (pg_create_request ref pg0 0 7 w0) w0 = (Ok c, w1)" using ref_Run by blast
  have "\<exists>w2. FindInstance ref TypePostgres (pg_label (pg_cfg pg0)) w1 = (Ok \<lparr>in_ID = ct_ID c, in_Type = TypePostgres,
      in_Label = pg_label (pg_cfg pg0), in_Port = pg_port (pg_cfg pg0), in_User = pg_user (pg_cfg pg0),
      in_Pass = pg_pass (pg_cfg pg0), in_Name = pg_name (pg_cfg pg0)\<rparr>, w2)"
    by (rule started_instance_found[OF ref_docker_doc r, where p = pg0 and now = 0 and rnd = 7 and wp = w0])
      (simp_all add: ref_docker_def matching_def d(2))
  then show ?thesis
    using r by (auto simp: pg0_def pg_default_def pg_DefaultPort_def pg_DefaultUser_def pg_DefaultPass_def pg_DefaultName_def)
qed

end
