(* ===== verification/Selfupdate.thy ===== *)
theory Selfupdate
  imports GoStrconv GoPath "HOL-Library.Product_Lexorder"
begin

text \<open>
  \<^verbatim>\<open>internal/selfupdate\<close>: version numbers (version.go) and the replacement of the running binary
  (selfupdate.go), with the question \<^verbatim>\<open>cmd/selfupdate.go\<close> asks. The network, the archive and the
  file system are the record \<open>upd_api\<close>.
\<close>

section \<open>version.go\<close>

datatype Version = Version (Major: u64) (Minor: u64) (Patch: u64)

definition compareSegment :: "u64 \<Rightarrow> u64 \<Rightarrow> int" where
  "compareSegment v ob = (if v < ob then -1 else if v > ob then 1 else 0)"

definition Compare :: "Version \<Rightarrow> Version \<Rightarrow> int" where
  "Compare v ob =
     (let d = compareSegment (Major v) (Major ob) in if d \<noteq> 0 then d else
      let d = compareSegment (Minor v) (Minor ob) in if d \<noteq> 0 then d else
      let d = compareSegment (Patch v) (Patch ob) in if d \<noteq> 0 then d else 0)"

definition Greater :: "Version \<Rightarrow> Version \<Rightarrow> bool" where
  "Greater v target \<longleftrightarrow> Compare v target < 0"

definition Version_String :: "Version \<Rightarrow> string" where
  "Version_String v = ''v'' @ formatUint (unat (Major v)) @ ''.'' @ formatUint (unat (Minor v)) @ ''.'' @
     formatUint (unat (Patch v))"

text \<open>
  The submatches of \<^verbatim>\<open>^v?([0-9]+)(\.[0-9]+)?(\.[0-9]+)?$\<close>: after an optional \<^verbatim>\<open>v\<close>, one to three
  runs of digits between dots. An optional group that is absent is the empty string.
\<close>

definition version_match :: "string \<Rightarrow> (string \<times> string \<times> string) option" where
  "version_match v =
     (let segs = splitOn (CHR ''.'') (trimPrefix v ''v'')
      in if \<forall>s\<in>set segs. s \<noteq> [] \<and> (\<forall>c\<in>set s. is_digit c)
         then (case segs of
             [a] \<Rightarrow> Some (a, '''', '''')
           | [a, b] \<Rightarrow> Some (a, ''.'' @ b, '''')
           | [a, b, c] \<Rightarrow> Some (a, ''.'' @ b, ''.'' @ c)
           | _ \<Rightarrow> None)
         else None)"

definition err_segment :: "go_error \<Rightarrow> go_error" where
  "err_segment e = Errorf ''error parsing version segment: %s'' [error_text e]"

definition parse_segment :: "string \<Rightarrow> u64 res" where
  "parse_segment s = (case parseUint 64 s of
       Ok n \<Rightarrow> Ok (word_of_nat n) | Err e \<Rightarrow> Err (err_segment e) | Panic q \<Rightarrow> Panic q)"

definition ParseVersion :: "string \<Rightarrow> Version res" where
  "ParseVersion v =
     (case version_match v of
        None \<Rightarrow> Err (Sentinel ''ErrInvalidSemver'')
      | Some (m1, m2, m3) \<Rightarrow>
          bind_res (parse_segment m1) (\<lambda>major.
          bind_res (if m2 \<noteq> '''' then parse_segment (trimPrefix m2 ''.'') else Ok 0) (\<lambda>minor.
          bind_res (if m3 \<noteq> '''' then parse_segment (trimPrefix m3 ''.'') else Ok 0) (\<lambda>patch.
          Ok (Version major minor patch)))))"

section \<open>selfupdate.go\<close>

record Asset =
  as_Name :: string
  as_BrowserDownloadURL :: string

record Release =
  rl_TagName :: string
  rl_Assets :: "Asset list"

datatype tar_entry = TarDir string | TarReg string string | TarOther | TarErr go_error

record 'w upd_api =
  u_GOOS :: string
  u_GOARCH :: string
  u_executable :: "'w \<Rightarrow> string res"
  u_get :: "string \<Rightarrow> (nat \<times> string, 'w) action"
  u_release :: "string \<Rightarrow> Release res"
  u_create :: "string \<Rightarrow> (unit, 'w) action"
  u_write :: "string \<Rightarrow> string \<Rightarrow> (unit, 'w) action"
  u_mkdirAll :: "string \<Rightarrow> (unit, 'w) action"
  u_mkdir :: "string \<Rightarrow> (unit, 'w) action"
  u_untar :: "string \<Rightarrow> 'w \<Rightarrow> tar_entry list res"
  u_open :: "string \<Rightarrow> 'w \<Rightarrow> string res"
  u_stat :: "string \<Rightarrow> 'w \<Rightarrow> unit res"
  u_remove :: "string \<Rightarrow> (unit, 'w) action"
  u_removeAll :: "string \<Rightarrow> (unit, 'w) action"
  u_rename :: "string \<Rightarrow> string \<Rightarrow> (unit, 'w) action"
  u_readLine :: "(string, 'w) action"

record Updater =
  up_releaseURL :: string
  up_execFileName :: string

definition upd_New :: "string \<Rightarrow> string \<Rightarrow> string \<Rightarrow> Updater" where
  "upd_New owner repo execFileName =
     \<lparr>up_releaseURL = ''https://api.github.com/repos/'' @ owner @ ''/'' @ repo @ ''/releases/latest'',
      up_execFileName = execFileName\<rparr>"

definition filterAssetsForArchAndOs :: "'w upd_api \<Rightarrow> Release \<Rightarrow> Release" where
  "filterAssetsForArchAndOs U release =
     \<lparr>rl_TagName = rl_TagName release,
      rl_Assets = filter (\<lambda>a. contains (as_BrowserDownloadURL a) (u_GOOS U) \<and>
        contains (as_BrowserDownloadURL a) (u_GOARCH U)) (rl_Assets release)\<rparr>"

definition getLastRelease :: "'w upd_api \<Rightarrow> Updater \<Rightarrow> (Release, 'w) action" where
  "getLastRelease U u =
     bind (u_get U (up_releaseURL u)) (\<lambda>(status, body).
     if status \<noteq> 200 then fail (Errorf ''call github api failed with code '' [])
     else bind (lift_res (u_release U body)) (\<lambda>out. ret (filterAssetsForArchAndOs U out)))"

definition LatestVersion :: "'w upd_api \<Rightarrow> Updater \<Rightarrow> (Version, 'w) action" where
  "LatestVersion U u =
     bind (getLastRelease U u) (\<lambda>release.
     if length (rl_Assets release) = 0 then fail (Sentinel ''no release found for your platform'')
     else lift_res (ParseVersion (rl_TagName release)))"

definition downloadAsset :: "'w upd_api \<Rightarrow> string \<Rightarrow> string \<Rightarrow> (unit, 'w) action" where
  "downloadAsset U url dest =
     bind (u_create U dest) (\<lambda>_.
     bind (u_get U url) (\<lambda>(status, body).
     if status \<noteq> 200 then fail (Errorf ''download asset failed, status code: %s'' [formatUint status])
     else u_write U dest body))"

definition extract_entry :: "'w upd_api \<Rightarrow> string \<Rightarrow> tar_entry \<Rightarrow> (unit, 'w) action" where
  "extract_entry U dest ent =
     (case ent of
        TarErr e \<Rightarrow> fail e
      | TarDir name \<Rightarrow> wrap ''make dir failed:%w'' [] (u_mkdir U (path_join dest name))
      | TarReg name content \<Rightarrow>
          bind (wrap ''create file failed:%w'' [] (u_create U (path_join dest name))) (\<lambda>_.
          wrap ''copy failed:%w'' [] (u_write U (path_join dest name) content))
      | TarOther \<Rightarrow> fail (Sentinel ''unknown file structure''))"

definition extractTarGz :: "'w upd_api \<Rightarrow> string \<Rightarrow> string \<Rightarrow> (unit, 'w) action" where
  "extractTarGz U source dest =
     bind (u_mkdirAll U dest) (\<lambda>_.
     bind (\<lambda>w. (u_untar U source w, w)) (\<lambda>entries.
     foreach (extract_entry U dest) entries))"

text \<open>The exchange of the two binaries, with the way back.\<close>

definition swap_binaries :: "'w upd_api \<Rightarrow> string \<Rightarrow> string \<Rightarrow> string \<Rightarrow> (unit, 'w) action" where
  "swap_binaries U targetPath newBinary oldBinary =
     bind (ignore (u_remove U oldBinary)) (\<lambda>_.
     bind (u_rename U targetPath oldBinary) (\<lambda>_.
     try_catch (u_rename U newBinary targetPath)
       (\<lambda>err. try_catch (u_rename U oldBinary targetPath)
          (\<lambda>_. fail (Wrapf ''rollback failed, %w'' [] err))
          (\<lambda>_. fail err))
       (\<lambda>_. ret ())))"

definition Update :: "'w upd_api \<Rightarrow> Updater \<Rightarrow> (unit, 'w) action" where
  "Update U u =
     bind (\<lambda>w. (u_executable U w, w)) (\<lambda>targetPath.
     bind (getLastRelease U u) (\<lambda>release.
     case rl_Assets release of
       [asset] \<Rightarrow>
         (let updateDir = path_dir targetPath; filename = path_base targetPath;
              assetTarFile = path_join ''/tmp'' (as_Name asset) in
          bind (downloadAsset U (as_BrowserDownloadURL asset) assetTarFile) (\<lambda>_.
          case index_of (as_Name asset) ''.'' of
            None \<Rightarrow> fail (Sentinel ''update failed to find path directory name'')
          | Some extIndex \<Rightarrow>
              (let downloadDest = path_join ''/tmp'' (take extIndex (as_Name asset));
                   newBinary = path_join updateDir (''.'' @ filename @ ''.new'');
                   oldBinary = path_join updateDir (''.'' @ filename @ ''.old'') in
               bind (extractTarGz U assetTarFile downloadDest) (\<lambda>_.
               bind (\<lambda>w. (u_open U (path_join downloadDest (up_execFileName u)) w, w)) (\<lambda>downloaded.
               bind (\<lambda>w. (u_stat U targetPath w, w)) (\<lambda>_.
               bind (u_create U newBinary) (\<lambda>_.
               bind (u_write U newBinary downloaded) (\<lambda>_.
               bind (swap_binaries U targetPath newBinary oldBinary) (\<lambda>_.
               bind (ignore (u_removeAll U downloadDest)) (\<lambda>_.
               ignore (u_removeAll U assetTarFile))))))))))
           )
     | _ \<Rightarrow> fail (Sentinel ''no release found for your platform'')))"

section \<open>cmd/selfupdate.go\<close>

text \<open>An answer other than y or n ends the command with the error of the read, if there was one.\<close>

definition doSelfUpdate :: "'w upd_api \<Rightarrow> string \<Rightarrow> (unit, 'w) action" where
  "doSelfUpdate U version =
     (let updater = upd_New ''mirzakhany'' ''dbctl'' ''dbctl'' in
      bind (LatestVersion U updater) (\<lambda>latest.
      bind (lift_res (ParseVersion (if version = ''snapshot'' then ''0.0.1'' else hd (splitOn (CHR ''-'') version)))) (\<lambda>v.
      if Greater latest v then ret ()
      else bind (u_readLine U) (\<lambda>input.
        if input = [CHR ''y'', CHR 0x0A] then Update U updater else ret ()))))"

section \<open>Versions are ordered\<close>

instantiation Version :: linorder
begin

definition less_eq_Version :: "Version \<Rightarrow> Version \<Rightarrow> bool" where
  "less_eq_Version v ob \<longleftrightarrow> (Major v, Minor v, Patch v) \<le> (Major ob, Minor ob, Patch ob)"

definition less_Version :: "Version \<Rightarrow> Version \<Rightarrow> bool" where
  "less_Version v ob \<longleftrightarrow> (Major v, Minor v, Patch v) < (Major ob, Minor ob, Patch ob)"

instance
  by standard (auto simp: less_eq_Version_def less_Version_def Version.expand)

end

lemma compareSegment_cases:
  "compareSegment a b < 0 \<longleftrightarrow> a < b" "compareSegment a b = 0 \<longleftrightarrow> a = b" "compareSegment a b > 0 \<longleftrightarrow> b < a"
  by (auto simp: compareSegment_def)

lemma Compare_less: "Compare v ob < 0 \<longleftrightarrow> v < ob"
  by (auto simp: Compare_def Let_def compareSegment_cases less_Version_def)

lemma Compare_eq: "Compare v ob = 0 \<longleftrightarrow> v = ob"
  by (auto simp: Compare_def Let_def compareSegment_cases Version.expand)

lemma Compare_greater: "Compare v ob > 0 \<longleftrightarrow> ob < v"
proof -
  have "Compare v ob > 0 \<longleftrightarrow> \<not> Compare v ob < 0 \<and> Compare v ob \<noteq> 0" by linarith
  also have "\<dots> \<longleftrightarrow> ob < v" unfolding Compare_less Compare_eq by auto
  finally show ?thesis .
qed

section \<open>Printing and parsing\<close>

lemma no_dot: "CHR ''.'' \<notin> set (formatUint n)"
  using formatUint_no[of "CHR ''.''" n "CHR ''.''"] by (auto simp: is_digit_def)

lemma parse_segment_format: "parse_segment (formatUint (unat (x :: u64))) = Ok x"
proof -
  have "unat x < 2 ^ 64" using unsigned_less[of x] by simp
  then show ?thesis by (simp add: parse_segment_def)
qed

lemma ParseVersion_String: "ParseVersion (Version_String v) = Ok v"
proof -
  obtain a b c where v: "v = Version a b c" by (cases v)
  let ?a = "formatUint (unat a)" and ?b = "formatUint (unat b)" and ?c = "formatUint (unat c)"
  have "splitOn (CHR ''.'') (join [CHR ''.''] [?a, ?b, ?c]) = [?a, ?b, ?c]"
    by (rule splitOn_join) (auto simp: no_dot)
  then have s: "splitOn (CHR ''.'') (trimPrefix (Version_String v) ''v'') = [?a, ?b, ?c]"
    by (simp add: Version_String_def v trimPrefix_def hasPrefix_def)
  have "version_match (Version_String v) = Some (?a, ''.'' @ ?b, ''.'' @ ?c)"
    unfolding version_match_def s Let_def using formatUint_digits by simp
  then show ?thesis
    by (simp add: ParseVersion_def trimPrefix_def hasPrefix_def parse_segment_format v)
qed

section \<open>Replacing the binary\<close>

text \<open>The files by their path; a rename moves the contents, and a failing one changes nothing.\<close>

definition rename_doc :: "'w upd_api \<Rightarrow> ('w \<Rightarrow> string \<rightharpoonup> string) \<Rightarrow> bool" where
  "rename_doc U F \<longleftrightarrow>
     (\<forall>a b w w1. u_rename U a b w = (Ok (), w1) \<longrightarrow> F w1 = (F w)(b := F w a, a := None)) \<and>
     (\<forall>a b w e w1. u_rename U a b w = (Err e, w1) \<longrightarrow> F w1 = F w) \<and>
     (\<forall>a b w. \<forall>q. fst (u_rename U a b w) \<noteq> Panic q) \<and>
     (\<forall>a w. F (snd (u_remove U a w)) = (F w)(a := None) \<or> F (snd (u_remove U a w)) = F w) \<and>
     (\<forall>a w. \<forall>q. fst (u_remove U a w) \<noteq> Panic q)"

lemma swap_binaries_doc:
  assumes doc: "rename_doc U F" and d: "distinct [t, n, ob]"
  shows "\<exists>r w1. swap_binaries U t n ob w = (r, w1) \<and>
    (case r of
       Ok _ \<Rightarrow> F w1 t = F w n
     | Err e \<Rightarrow> F w1 t = F w t \<or> (\<exists>e'. e = Wrapf ''rollback failed, %w'' [] e' \<and> F w1 ob = F w t)
     | Panic _ \<Rightarrow> False)"
proof -
  obtain r0 w0 where rm: "u_remove U ob w = (r0, w0)" by (cases "u_remove U ob w")
  have f0: "F w0 t = F w t" "F w0 n = F w n" "\<forall>q. r0 \<noteq> Panic q"
    using doc rm d unfolding rename_doc_def by (metis distinct_length_2_or_more fst_conv fun_upd_other snd_conv)+
  have d': "t \<noteq> n" "n \<noteq> t" "t \<noteq> ob" "ob \<noteq> t" "n \<noteq> ob" "ob \<noteq> n" using d by auto
  have ig: "ignore (u_remove U ob) w = (Ok (), w0)" using rm f0(3) by (cases r0) (simp_all add: ignore_def)
  have np: "u_rename U a b x \<noteq> (Panic q, x')" for a b x q x'
    using doc unfolding rename_doc_def by (metis fst_conv)
  obtain r1 w1 where m1: "u_rename U t ob w0 = (r1, w1)" by (cases "u_rename U t ob w0")
  show ?thesis
  proof (cases r1)
    case (Err e)
    then have "F w1 = F w0" using doc m1 unfolding rename_doc_def by blast
    then show ?thesis using m1 Err ig f0 by (simp add: swap_binaries_def bind_def)
  next
    case (Panic q)
    then show ?thesis using m1 np by simp
  next
    case (Ok u)
    then have f1: "F w1 = (F w0)(ob := F w0 t, t := None)" using doc m1 unfolding rename_doc_def by simp
    obtain r2 w2 where m2: "u_rename U n t w1 = (r2, w2)" by (cases "u_rename U n t w1")
    show ?thesis
    proof (cases r2)
      case ok2: (Ok u2)
      then have "F w2 = (F w1)(t := F w1 n, n := None)" using doc m2 unfolding rename_doc_def by simp
      then show ?thesis
        using m1 Ok m2 ok2 ig f0 f1 d' by (simp add: swap_binaries_def bind_def try_catch_def)
    next
      case (Panic q)
      then show ?thesis using m2 np by simp
    next
      case err2: (Err e)
      then have f2: "F w2 = F w1" using doc m2 unfolding rename_doc_def by blast
      obtain r3 w3 where m3: "u_rename U ob t w2 = (r3, w3)" by (cases "u_rename U ob t w2")
      show ?thesis
      proof (cases r3)
        case ok3: (Ok u3)
        then have "F w3 = (F w2)(t := F w2 ob, ob := None)" using doc m3 unfolding rename_doc_def by simp
        then show ?thesis
          using m1 Ok m2 err2 m3 ok3 ig f0 f1 f2 d' by (simp add: swap_binaries_def bind_def try_catch_def)
      next
        case err3: (Err e3)
        then have "F w3 = F w2" using doc m3 unfolding rename_doc_def by blast
        then show ?thesis
          using m1 Ok m2 err2 m3 err3 ig f0 f1 f2 d' by (simp add: swap_binaries_def bind_def try_catch_def)
      next
        case (Panic q)
        then show ?thesis using m3 np by simp
      qed
    qed
  qed
qed

end
