(* ===== verification/Logger.thy ===== *)
theory Logger
  imports Prelude
begin

text \<open>
  \<^verbatim>\<open>internal/logger/logger.go\<close>. The one logger of the program is a level; the provider is the list
  of the lines printed to it, a line being its operands.
\<close>

type_synonym LogLevel = int

definition LevelDebug :: LogLevel where "LevelDebug = 0"
definition LevelInfo :: LogLevel where "LevelInfo = 1"
definition LevelWarn :: LogLevel where "LevelWarn = 2"
definition LevelError :: LogLevel where "LevelError = 3"

lemmas level_defs = LevelDebug_def LevelInfo_def LevelWarn_def LevelError_def

definition LogLevel_String :: "LogLevel \<Rightarrow> string" where
  "LogLevel_String l =
     (if l = LevelDebug then ''DEBUG'' else if l = LevelInfo then ''INFO''
      else if l = LevelWarn then ''WARN'' else if l = LevelError then ''ERROR'' else '''')"

record logger_state =
  provider :: "string list list"
  logLvl :: LogLevel

definition lg_New :: "string list list \<Rightarrow> LogLevel \<Rightarrow> logger_state" where
  "lg_New p loglvl = \<lparr>provider = p, logLvl = loglvl\<rparr>"

definition SetProvider :: "string list list \<Rightarrow> logger_state \<Rightarrow> logger_state" where
  "SetProvider p l = l\<lparr>provider := p\<rparr>"

definition SetLevel :: "LogLevel \<Rightarrow> logger_state \<Rightarrow> logger_state" where
  "SetLevel loglvl l = (if loglvl < LevelDebug \<or> loglvl > LevelError then l else l\<lparr>logLvl := loglvl\<rparr>)"

definition lg_Println :: "string list \<Rightarrow> logger_state \<Rightarrow> logger_state" where
  "lg_Println v l = l\<lparr>provider := provider l @ [v]\<rparr>"

definition printWithLevel :: "LogLevel \<Rightarrow> string list \<Rightarrow> logger_state \<Rightarrow> logger_state" where
  "printWithLevel lvl v l = lg_Println ((LogLevel_String lvl @ '':'') # v) l"

definition lg_Info :: "string list \<Rightarrow> logger_state \<Rightarrow> logger_state" where
  "lg_Info v l = (if logLvl l > LevelInfo then l else printWithLevel LevelInfo v l)"

definition lg_Debug :: "string list \<Rightarrow> logger_state \<Rightarrow> logger_state" where
  "lg_Debug v l = (if logLvl l > LevelDebug then l else printWithLevel LevelDebug v l)"

definition lg_Warn :: "string list \<Rightarrow> logger_state \<Rightarrow> logger_state" where
  "lg_Warn v l = (if logLvl l > LevelWarn then l else printWithLevel LevelWarn v l)"

definition lg_Error :: "string list \<Rightarrow> logger_state \<Rightarrow> logger_state" where
  "lg_Error v l = (if logLvl l > LevelError then l else printWithLevel LevelError v l)"

lemmas lg_defs = lg_Info_def lg_Debug_def lg_Warn_def lg_Error_def printWithLevel_def lg_Println_def
  SetLevel_def level_defs

section \<open>Levels\<close>

definition level_ok :: "logger_state \<Rightarrow> bool" where
  "level_ok l \<longleftrightarrow> LevelDebug \<le> logLvl l \<and> logLvl l \<le> LevelError"

lemma level_ok_kept:
  assumes "level_ok l"
  shows "level_ok (SetLevel n l)" "level_ok (SetProvider p l)" "level_ok (lg_Info v l)"
    "level_ok (lg_Debug v l)" "level_ok (lg_Warn v l)" "level_ok (lg_Error v l)"
  using assms by (auto simp: level_ok_def lg_defs SetProvider_def)

end
