(* ===== verification/CmdSpec.thy ===== *)
theory CmdSpec
  imports RefWorld Selfupdate Logger
begin

text \<open>
  The properties of the commands and of the tools they share: stop removes what it names and nothing
  else, testing runs its parts in order, ports are free and not public by default, waiting ends, a
  failed update keeps the old program.
\<close>

section \<open>The world of the witnesses\<close>

text \<open>Two instances of the program, one of them labelled, and a container that is none of its business.\<close>

definition w_run :: rworld where
  "w_run = w0\<lparr>rw_ids := 3, rw_dk := \<lparr>dv_running =
     [\<lparr>cs_ID = id_of 0, cs_Names = [''/dbctl_pg''],
       cs_Labels = [(LabelManagedBy, LabelDBctl), (LabelType, LabelPostgres), (LabelCustom, ''x'')]\<rparr>,
      \<lparr>cs_ID = id_of 1, cs_Names = [''/dbctl_rs''], cs_Labels = [(LabelManagedBy, LabelDBctl), (LabelType, LabelRedis)]\<rparr>,
      \<lparr>cs_ID = id_of 2, cs_Names = [''/other''], cs_Labels = []\<rparr>], dv_created = Map.empty\<rparr>\<rparr>"

lemma dkv_run: "dkv w_run = rw_dk w_run"
proof -
  have "dk_wf (rw_dk w_run) (rw_ids w_run)" by (auto simp: dk_wf_def w_run_def)
  then show ?thesis by (simp add: dkv_def)
qed

lemma running_run [simp]: "map cs_ID (dv_running (dkv w_run)) = [id_of 0, id_of 1, id_of 2]"
  unfolding dkv_run by (simp add: w_run_def)

section \<open>stop\<close>

text \<open>
  Stopping by types removes exactly the running containers that carry the program's mark, one of
  the types and, if one is given, the label; instances of other types, with other labels, and
  containers of other programs keep running.
\<close>

theorem stop_by_types:
  assumes "docker_doc S V" and "args \<noteq> []" and "\<forall>a\<in>set args. itsDBType a"
  shows "\<exists>w1. runStop S label args w = (Ok (), w1) \<and>
    dv_running (V w1) = filter (\<lambda>c. \<not> stopped_by args label c) (dv_running (V w))"
proof -
  have "stop_rest S args = ret ()" using assms(3) by (auto simp: stop_rest_def split: list.splits)
  then show ?thesis using runStop_types_doc[OF assms(1,2), of label w] by auto
qed

theorem stop_by_types_witness:
  "\<exists>w1. runStop ref '''' [''pg'', ''mongodb''] w_run = (Ok (), w1) \<and> map cs_ID (dv_running (dkv w1)) = [id_of 1, id_of 2]"
proof -
  have a: "\<forall>a\<in>set [''pg'', ''mongodb'']. itsDBType a" by (simp add: itsDBType_def)
  have s: "stopped_by [''pg'', ''mongodb''] '''' c \<longleftrightarrow> map_of (cs_Labels c) LabelManagedBy = Some LabelDBctl \<and>
      map_of (cs_Labels c) LabelType \<in> {Some LabelPostgres, Some LabelMongoDB}" for c
    by (auto simp: stopped_by_def stop_types_def carries_InstanceLabels)
  show ?thesis
    using stop_by_types[OF ref_docker_doc _ a, of "''''" w_run] unfolding s dkv_run
    by (auto simp: w_run_def label_defs LabelPostgres_def LabelMongoDB_def LabelRedis_def)
qed

text \<open>
  \<^verbatim>\<open>stop all\<close> removes every container the program started and no other.
\<close>

theorem stop_all:
  assumes "docker_doc S V"
  shows "\<exists>w1. runStop S label [''all''] w = (Ok (), w1) \<and>
    dv_running (V w1) = filter (\<lambda>c. map_of (cs_Labels c) LabelManagedBy \<noteq> Some LabelDBctl) (dv_running (V w))"
proof -
  have n: "\<not> itsDBType ''all''" by (simp add: itsDBType_def)
  obtain w1 where "runStop S label [''all''] w = stop_rest S [''all''] w1" "dv_running (V w1) = dv_running (V w)"
    using runStop_types_doc[OF assms, of "[''all'']" label w] not_stopped_by[OF n] by auto
  then show ?thesis using stop_all_doc[OF assms, of w1] by simp
qed

theorem stop_all_witness:
  "\<exists>w1. runStop ref '''' [''all''] w_run = (Ok (), w1) \<and> map cs_ID (dv_running (dkv w1)) = [id_of 2]"
  using stop_all[OF ref_docker_doc, of "''''" w_run] unfolding dkv_run
  by (auto simp: w_run_def label_defs)

text \<open>
  C33: stopping by a label that some running instance has removes exactly the instances of the program
  with that label, of every type.
\<close>

theorem stop_by_label:
  assumes "docker_doc S V" and "\<not> itsDBType l" and "l \<noteq> ''all''" and "\<exists>c\<in>set (dv_running (V w)). labelled l c"
  shows "\<exists>w1. runStop S label [l] w = (Ok (), w1) \<and>
    dv_running (V w1) = filter (\<lambda>c. \<not> labelled l c) (dv_running (V w))"
proof -
  obtain w1 where "runStop S label [l] w = stop_rest S [l] w1" "dv_running (V w1) = dv_running (V w)"
    using runStop_types_doc[OF assms(1), of "[l]" label w] not_stopped_by[OF assms(2)] by auto
  then show ?thesis using stop_label_doc[OF assms(1-3), of w1] assms(4) by simp
qed

theorem stop_by_label_witness:
  "\<exists>w1. runStop ref '''' [''x''] w_run = (Ok (), w1) \<and> map cs_ID (dv_running (dkv w1)) = [id_of 1, id_of 2]"
proof -
  have "\<exists>c\<in>set (dv_running (dkv w_run)). labelled ''x'' c"
    unfolding dkv_run by (simp add: w_run_def labelled_def label_defs)
  from stop_by_label[OF ref_docker_doc _ _ this, of "''''"] show ?thesis
    unfolding dkv_run by (auto simp: itsDBType_def w_run_def labelled_def label_defs)
qed

text \<open>Two or more arguments that are no types are accepted and nothing is removed.\<close>

lemma stop_ids_ignored:
  assumes "docker_doc S V" and "\<not> itsDBType a" and "\<not> itsDBType b"
  shows "\<exists>w1. runStop S label [a, b] w = (Ok (), w1) \<and> dv_running (V w1) = dv_running (V w)"
proof -
  have "\<not> stopped_by [a, b] label c" for c
    using assms(2,3) by (auto simp: stopped_by_def stop_types_def itsDBType_def)
  then show ?thesis using runStop_types_doc[OF assms(1), of "[a, b]" label w] by (auto simp: stop_rest_def)
qed

section \<open>list\<close>



section \<open>testing\<close>

text \<open>
  The parts are started one after the other, each detached; the first one that fails ends the
  command with an error that names it, and neither a later part nor the api server is started.
\<close>

theorem testing_stops_at_failure:
  assumes "testing_split [] args = cs @ c # ds"
    and "runs_to execute (map (\<lambda>c. ''start'' # ''-d'' # c) cs) w w1"
    and "execute (''start'' # ''-d'' # c) w1 = Some (Err e, w2)"
  shows "runTesting execute args apiPort w = Some (Err (Wrapf ''starting %s failed: %w'' [join '' '' c] e), w2)"
  using testing_run_stops[OF assms(2,3), of ds] assms(1) by (simp add: runTesting_def may_bind_def may_try_def may_def)

theorem testing_stops_at_failure_witness:
  "runTesting (\<lambda>as w. if as = [''start'', ''-d'', ''rs''] then Some (Err ErrNoInstance, w) else Some (Ok (), w + 1))
     [''pg'', ''-'', ''rs'', ''-'', ''mdb''] (may (ret ''1988'')) (0 :: nat) =
   Some (Err (Wrapf ''starting %s failed: %w'' [''rs''] ErrNoInstance), 1)"
proof -
  let ?e = "\<lambda>as w. if as = [''start'', ''-d'', ''rs''] then Some (Err ErrNoInstance, w) else Some (Ok (), w + (1 :: nat))"
  have "runTesting ?e [''pg'', ''-'', ''rs'', ''-'', ''mdb''] (may (ret ''1988'')) 0 =
      Some (Err (Wrapf ''starting %s failed: %w'' [join '' '' [''rs'']] ErrNoInstance), 1)"
    by (rule testing_stops_at_failure[where cs = "[[''pg'']]" and ds = "[[''mdb'']]" and ?w1.0 = 1]) simp_all
  then show ?thesis by simp
qed

section \<open>Ports\<close>

text \<open>
  C35: picking a port ends as soon as one of the random candidates can be listened on, within the range
  from 1024 to 65535, and the port it returns was free when it was tried.
\<close>

theorem available_port_found:
  assumes "rand_doc S" and "GetRandomPort S w = (p0, w1)" and "free_after S n p0 w1"
  shows "\<exists>p w2 w3. GetAvailablePort S w = Some (Ok p, w3) \<and> 1024 \<le> p \<and> p \<le> 65535 \<and>
    IsPortAvailable S p w2 = (Ok True, w3)"
proof -
  have "minPort \<le> p0 \<and> p0 \<le> maxPort" by (rule GetRandomPort_range[OF assms(1,2)])
  then obtain p wa wb where "available_loop S p0 w1 = Some (Ok p, wb)" "minPort \<le> p" "p \<le> maxPort"
    "IsPortAvailable S p wa = (Ok True, wb)"
    using available_loop_total[OF assms(3,1)] by blast
  then show ?thesis using assms(2) by (auto simp: GetAvailablePort_def minPort_def maxPort_def)
qed

theorem available_port_found_witness:
  "\<exists>p w3. GetAvailablePort ref w0 = Some (Ok p, w3) \<and> 1024 \<le> p \<and> p \<le> 65535"
proof -
  obtain p0 w1 where r: "GetRandomPort ref w0 = (p0, w1)" by (cases "GetRandomPort ref w0")
  have "free_after ref 0 p0 w1" by (simp add: IsPortAvailable_def try_catch_def ref_os_def)
  from available_port_found[OF ref_rand_doc r this] show ?thesis by blast
qed



text \<open>
  The polling of the api server's port. \<open>expires S k w\<close>: the context of the wait ends within \<open>k\<close>
  further ticks.
\<close>

fun expires :: "'w sys \<Rightarrow> nat \<Rightarrow> 'w \<Rightarrow> bool" where
  "expires S 0 w = fst (waitTick (os S) w)"
| "expires S (Suc k) w = (fst (waitTick (os S) w) \<or> expires S k (snd (waitTick (os S) w)))"

lemma waitForPort_ends:
  "expires S k w \<Longrightarrow> \<exists>r w1. waitForPort S port timeout w = Some (r, w1) \<and>
     (r = Ok () \<and> canDial (os S) (joinHostPort ''127.0.0.1'' port) w1 \<or> (\<exists>e. r = Err e))"
proof (induction k arbitrary: w)
  case 0
  then show ?case by (subst (1) waitForPort.simps) (auto split: prod.splits)
next
  case (Suc k)
  then show ?case by (subst (1) waitForPort.simps) (auto split: prod.splits)
qed

text \<open>
  C37: waiting for the api server ends when its context does at the latest, with success only when the
  port answers.
\<close>

theorem wait_for_port_ends:
  assumes "expires S k w"
  shows "\<exists>r w1. waitForPort S port timeout w = Some (r, w1) \<and>
    (r = Ok () \<and> canDial (os S) (joinHostPort ''127.0.0.1'' port) w1 \<or> (\<exists>e. r = Err e))"
  by (rule waitForPort_ends[OF assms])

theorem wait_for_port_ends_witness: "\<exists>e w1. waitForPort ref ''1988'' ''10s'' w0 = Some (Err e, w1)"
proof -
  have "expires ref 0 w0" by (simp add: ref_os_def)
  from wait_for_port_ends[OF this, of "''1988''" "''10s''"] show ?thesis by (auto simp: ref_os_def)
qed

section \<open>Self update\<close>

text \<open>
  C40: reading the printed form of a version gives the version back, for every 64-bit major, minor and patch
  number.
\<close>

theorem version_roundtrip: "ParseVersion (Version_String v) = Ok v"
  by (rule ParseVersion_String)

text \<open>
  Comparing versions is the lexicographic comparison of major, minor and patch number.
\<close>

theorem version_compare_lexicographic:
  "Compare v u = (if (Major v, Minor v, Patch v) < (Major u, Minor u, Patch u) then -1 else if v = u then 0 else 1)"
  by (cases v; cases u) (auto simp: Compare_def compareSegment_def Let_def)

text \<open>The method is true of the smaller version, against its name.\<close>

lemma greater_is_less: "Greater v u \<longleftrightarrow> v < u"
  by (simp add: Greater_def Compare_less)

text \<open>
  C39: swapping in the downloaded program either puts it at the place of the running one, or fails and
  leaves the running one in its place, or reports a failed rollback with the running one kept under
  the name of the backup: the program is never lost.
\<close>

theorem update_never_loses_program:
  assumes "rename_doc U F" and "distinct [target, fresh, backup]"
  shows "\<exists>r w1. swap_binaries U target fresh backup w = (r, w1) \<and>
    (case r of
       Ok _ \<Rightarrow> F w1 target = F w fresh
     | Err e \<Rightarrow> F w1 target = F w target \<or> (\<exists>e'. e = Wrapf ''rollback failed, %w'' [] e' \<and> F w1 backup = F w target)
     | Panic _ \<Rightarrow> False)"
  by (rule swap_binaries_doc[OF assms])

text \<open>A disk on which renaming works when the source is there.\<close>

definition upd0 :: "(string \<rightharpoonup> string) upd_api" where
  "upd0 = \<lparr>u_GOOS = ''linux'', u_GOARCH = ''amd64'', u_executable = (\<lambda>w. Ok ''/bin/dbctl''),
     u_get = (\<lambda>u. ret (200, '''')), u_release = (\<lambda>b. Ok \<lparr>rl_TagName = ''v1.0.0'', rl_Assets = []\<rparr>),
     u_create = (\<lambda>f w. (Ok (), w(f \<mapsto> ''''))), u_write = (\<lambda>f s w. (Ok (), w(f \<mapsto> s))),
     u_mkdirAll = (\<lambda>d. ret ()), u_mkdir = (\<lambda>d. ret ()), u_untar = (\<lambda>f w. Ok []), u_open = (\<lambda>f w. Ok ''''),
     u_stat = (\<lambda>f w. Ok ()), u_remove = (\<lambda>f w. (Ok (), w(f := None))), u_removeAll = (\<lambda>f. ret ()),
     u_rename = (\<lambda>a b w. if w a = None then (Err ErrNotExist, w) else (Ok (), w(b := w a, a := None))),
     u_readLine = ret ''''\<rparr>"

lemma upd0_rename: "rename_doc upd0 (\<lambda>w. w)"
  by (auto simp: rename_doc_def upd0_def split: if_splits)

theorem update_never_loses_program_witness:
  "\<exists>e w1. swap_binaries upd0 ''t'' ''n'' ''o'' [''t'' \<mapsto> ''old''] = (Err e, w1) \<and> w1 ''t'' = Some ''old''"
proof -
  have d: "distinct [''t'', ''n'', ''o'']" by simp
  have "fst (swap_binaries upd0 ''t'' ''n'' ''o'' [''t'' \<mapsto> ''old'']) = Err ErrNotExist"
    by (simp add: swap_binaries_def bind_def ignore_def try_catch_def upd0_def)
  with update_never_loses_program[OF upd0_rename d, of "[''t'' \<mapsto> ''old'']"] show ?thesis
    by (auto simp: ErrNotExist_def)
qed

end
