(* ===== verification/EndToEnd.thy ===== *)
theory EndToEnd
  imports Handlers
begin

text \<open>
  The client and the server put together: a request of the client is carried to the routes of a
  server (\<open>wire_to\<close>), which finds the instance it was started with and calls the redis provider.
\<close>

section \<open>The server's side\<close>

text \<open>The instance of the server's snapshot as the handler configures the provider for it.\<close>

definition instance_redis :: "Instance \<Rightarrow> Redis" where
  "instance_redis i = \<lparr>rs_containerID = '''', rs_cfg = rs_default\<lparr>
     rs_user := (if in_User i = '''' then rs_DefaultUser else in_User i),
     rs_pass := (if in_Pass i = '''' then rs_DefaultPass else in_Pass i),
     rs_port := (if in_Port i = 0 then rs_DefaultPort else in_Port i), rs_dbIndex := 0\<rparr>\<rparr>"

text \<open>
  Temporary directories can be made and are empty; making and removing them does not touch the
  databases, and the redis client does not touch the directories.
\<close>

definition fresh_tmp :: "'w sys \<Rightarrow> ('w \<Rightarrow> redis_view) \<Rightarrow> bool" where
  "fresh_tmp S V \<longleftrightarrow>
     (\<forall>a b w. \<exists>n w1. mkdirTemp (os S) a b w = (Ok n, w1) \<and> rv_dbs (V w1) = rv_dbs (V w) \<and>
        rs_getFiles S n w1 = Ok [] \<and> quiet_rd S (\<lambda>w. rs_getFiles S n w = Ok [])) \<and>
     (\<forall>n w. rv_dbs (V (removeAll (os S) n w)) = rv_dbs (V w))"

lemma fresh_mkdir:
  "fresh_tmp S V \<Longrightarrow> \<exists>n w1. mkdirTemp (os S) a b w = (Ok n, w1) \<and> rv_dbs (V w1) = rv_dbs (V w) \<and>
     rs_getFiles S n w1 = Ok [] \<and> quiet_rd S (\<lambda>w. rs_getFiles S n w = Ok [])"
  unfolding fresh_tmp_def by (drule conjunct1) (drule spec[of _ a], drule spec[of _ b], drule spec[of _ w])

lemma fresh_remove: "fresh_tmp S V \<Longrightarrow> rv_dbs (V (removeAll (os S) n w)) = rv_dbs (V w)"
  unfolding fresh_tmp_def by simp

lemma createRedisDB_instance:
  assumes "ar_InstancePort r = 0" and "ar_InstanceUser r = ''''" and "ar_InstancePass r = ''''"
  shows "createRedisDB S (fill_instance i r) w = rs_CreateDB S (instance_redis i)
    (Some \<lparr>rq_Migrations = '''', rq_Fixtures = ar_Fixtures r, rq_WithDefaultMigrations = False\<rparr>) w"
  using assms
  by (auto simp: createRedisDB_def fill_instance_def instance_redis_def rs_New_def rs_WithHost_def bind_def Let_def)

text \<open>The redis database that a creation without files and without instance details makes.\<close>

definition plain_redis_request :: "http_request \<Rightarrow> bool" where
  "plain_redis_request r \<longleftrightarrow> hr_Method r = ''POST'' \<and> FormValue r ''type'' = TypeRedis \<and>
     FormValue r ''instance_port'' = ''0'' \<and> FormValue r ''instance_user'' = '''' \<and>
     FormValue r ''instance_pass'' = '''' \<and> hr_Files r = Some [(''migrations'', []), (''fixtures'', [])]"

definition created_response :: "string res \<Rightarrow> http_response res" where
  "created_response r = (case r of Ok uri \<Rightarrow> Ok (StatusOK, JUri uri) | Err e \<Rightarrow> Ok (StatusInternalServerError, JErr e)
     | Panic q \<Rightarrow> Panic q)"

lemma create_in_redis:
  assumes "rs_ready S V n (instance_redis i)" and "map_of (sv_instances s) TypeRedis = Some (Some i)"
    and "plain_redis_request r" and "ar_Type req = TypeRedis" and "ar_InstancePort req = 0"
    and "ar_InstanceUser req = ''''" and "ar_InstancePass req = ''''"
    and "rs_getFiles S fd w = Ok []" and "quiet_rd S (\<lambda>w. rs_getFiles S fd w = Ok [])"
  shows "\<exists>w1. create_in sha S s r req md fd w = (created_response (rs_create_result (instance_redis i) n (V w)), w1) \<and>
    rv_dbs (V w1) = claim_first n (V w)"
proof -
  let ?rq = "Some \<lparr>rq_Migrations = '''', rq_Fixtures = fd, rq_WithDefaultMigrations = False\<rparr>"
  have "no_fixtures S ?rq w" using assms(8,9) by (simp add: no_fixtures_def)
  then obtain w1 where c: "rs_CreateDB S (instance_redis i) ?rq w = (rs_create_result (instance_redis i) n (V w), w1)"
    and v: "rv_dbs (V w1) = claim_first n (V w)"
    using rs_CreateDB_doc[OF assms(1)] by blast
  let ?req = "req\<lparr>ar_Migrations := md, ar_Fixtures := fd\<rparr>"
  have t: "ar_Type (fill_instance i ?req) = TypeRedis" "TypeRedis \<noteq> TypePostgres"
    using assms(4) by (simp_all add: fill_instance_def TypeRedis_def TypePostgres_def)
  have "create_for sha S (fill_instance i ?req) w = (rs_create_result (instance_redis i) n (V w), w1)"
    using createRedisDB_instance[of ?req S i w] assms(5-7) c t by (simp add: create_for_def)
  then have "create_in sha S s r req md fd w = (created_response (rs_create_result (instance_redis i) n (V w)), w1)"
    using assms(2-4)
    by (auto simp: create_in_def readMulipartFiles_def plain_redis_request_def applyInstance_def instanceFor_def
        try_catch_def bind_def JSONError_def created_response_def split: res.splits)
  with v show ?thesis by blast
qed

lemma api_CreateDB_redis:
  assumes "rs_ready S V n (instance_redis i)" and "map_of (sv_instances s) TypeRedis = Some (Some i)"
    and "plain_redis_request r" and "fresh_tmp S V"
  shows "\<exists>w1. api_CreateDB sha S s r w = (created_response (rs_create_result (instance_redis i) n (V w)), w1) \<and>
    rv_dbs (V w1) = claim_first n (V w)"
proof -
  obtain md w1 where m: "mkdirTemp (os S) ''/tmp'' ''migrations-*'' w = (Ok md, w1)" "rv_dbs (V w1) = rv_dbs (V w)"
    using fresh_mkdir[OF assms(4)] by blast
  obtain fd w2 where f: "mkdirTemp (os S) ''/tmp'' ''fixtures-*'' w1 = (Ok fd, w2)" "rv_dbs (V w2) = rv_dbs (V w1)"
    and e: "rs_getFiles S fd w2 = Ok []" "quiet_rd S (\<lambda>w. rs_getFiles S fd w = Ok [])"
    using fresh_mkdir[OF assms(4)] by blast
  have "parseUint 32 ''0'' = Ok 0" using parse_port[of 0] by (simp add: formatUint_0)
  then have p: "form_port r = Ok 0" using assms(3) by (simp add: form_port_def plain_redis_request_def)
  let ?req = "(form_request r)\<lparr>ar_InstancePort := 0\<rparr>"
  have q: "ar_Type ?req = TypeRedis" "ar_InstanceUser ?req = ''''" "ar_InstancePass ?req = ''''"
    using assms(3) by (simp_all add: form_request_def plain_redis_request_def)
  obtain w3 where c: "create_in sha S s r ?req md fd w2 = (created_response (rs_create_result (instance_redis i) n (V w2)), w3)"
    and v: "rv_dbs (V w3) = claim_first n (V w2)"
    using create_in_redis[OF assms(1-3) q(1) _ q(2,3) e, of sha md] by auto
  have same: "first_free n (V w2) = first_free n (V w)"
    using claimed_dbs[of "V w2" "V w"] m f by (simp add: first_free_def)
  have "validateType TypeRedis = Ok ()" "TypeRedis \<noteq> ''''" by (simp_all add: validateType_def TypeRedis_def)
  moreover have "hr_Method r = ''POST''" using assms(3) by (simp add: plain_redis_request_def)
  ultimately have "api_CreateDB sha S s r w =
      (created_response (rs_create_result (instance_redis i) n (V w)), removeAll (os S) md (removeAll (os S) fd w3))"
    using m(1) f(1) c p q(1) same
    by (simp add: api_CreateDB_def try_catch_def with_defer_def rs_create_result_def)
  moreover have "rv_dbs (V (removeAll (os S) md (removeAll (os S) fd w3))) = claim_first n (V w)"
    using v same m(2) f(2) by (simp add: fresh_remove[OF assms(4)] claim_first_def split: option.splits)
  ultimately show ?thesis by blast
qed

section \<open>The client's side\<close>

text \<open>A configuration without files to upload that leaves the choice of the instance to the server.\<close>

definition plain_config :: "cl_config \<Rightarrow> bool" where
  "plain_config c \<longleftrightarrow> cl_migrations c = '''' \<and> cl_fixtures c = '''' \<and> cl_instancePort c = 0 \<and>
     cl_instanceUser c = '''' \<and> cl_instancePass c = ''''"

lemma wire_to_path:
  "wire_to sha S J s base method (base @ path) wire = serve sha S J s path (received method wire)"
  by (simp add: wire_to_def hasPrefix_def trimPrefix_def)

lemma cl_CreateDB_redis:
  assumes r: "rs_ready S V n (instance_redis i)" and s: "map_of (sv_instances s) TypeRedis = Some (Some i)"
    and t: "fresh_tmp S V" and c: "configFrom S opts w = Ok cfg" "plain_config cfg"
  shows "\<exists>res w1. cl_CreateDB rx S (wire_to sha S J s (getHostURL cfg)) DatabaseRedis opts w = (res, w1) \<and>
    rv_dbs (V w1) = claim_first n (V w) \<and>
    (case first_free n (V w) of Some k \<Rightarrow> res = Ok (rs_db_uri (instance_redis i) k) | None \<Rightarrow> \<exists>e. res = Err e)"
proof -
  let ?q = "\<lparr>cq_Type = DatabaseRedis, cq_Migrations = '''', cq_MigrationsRegex = cl_migrationsFileRegex cfg,
      cq_Fixtures = '''', cq_WithDefaultMigrations = cl_withDefaultMigrations cfg, cq_InstancePort = 0,
      cq_InstanceUser = '''', cq_InstancePass = '''', cq_InstanceName = cl_instanceDBName cfg\<rparr>"
  let ?ps = "map (\<lambda>(k, v). FieldPart k v) (form_fields ?q)"
  have ps: "create_parts rx S ?q w = Ok ?ps" by (simp add: create_parts_def getFilesList_def wrap_err_def)
  have pr: "plain_redis_request (received ''POST'' (Multipart ?ps))"
    by (simp add: plain_redis_request_def received_def form_of_fields files_of_fields FormValue_def gm_get_def
        form_fields_def DatabaseRedis_def TypeRedis_def formatUint_0)
  obtain w1 where a: "api_CreateDB sha S s (received ''POST'' (Multipart ?ps)) w =
      (created_response (rs_create_result (instance_redis i) n (V w)), w1)" and v: "rv_dbs (V w1) = claim_first n (V w)"
    using api_CreateDB_redis[OF r s pr t] by blast
  have h: "wire_to sha S J s (getHostURL cfg) ''POST'' (getHostURL cfg @ ''/create'') (Multipart ?ps) w =
      (created_response (rs_create_result (instance_redis i) n (V w)), w1)"
    unfolding wire_to_path by (simp add: serve_def a)
  let ?d = "httpDoCreateDBRequest rx S (wire_to sha S J s (getHostURL cfg)) ?q (getHostURL cfg) w"
  have "cl_CreateDB rx S (wire_to sha S J s (getHostURL cfg)) DatabaseRedis opts w =
      wrap ''create %s database failed: %w'' [DatabaseRedis]
        (httpDoCreateDBRequest rx S (wire_to sha S J s (getHostURL cfg)) ?q (getHostURL cfg)) w"
    using c by (simp add: cl_CreateDB_def plain_config_def cl_abs_def bind_def)
  moreover have "case first_free n (V w) of
      Some k \<Rightarrow> ?d = (Ok (rs_db_uri (instance_redis i) k), w1) | None \<Rightarrow> \<exists>e. ?d = (Err e, w1)"
    using ps h
    by (auto simp: httpDoCreateDBRequest_def bind_def rs_create_result_def created_response_def checkForError_def
        decode_uri_def StatusOK_def StatusInternalServerError_def split: option.splits)
  ultimately show ?thesis using v by (auto simp: wrap_def split: option.splits)
qed

text \<open>A removal reaches the provider that the type names, with the address of the client.\<close>

definition removal_sent :: "json_api \<Rightarrow> string \<Rightarrow> bool" where
  "removal_sent J ty \<longleftrightarrow> (\<forall>u. dec_remove J (enc_remove J (ty, u)) = Ok (ty, u))"

lemma cl_RemoveDB_sent:
  assumes d: "remove_for S ty uri w = (Ok (), w1)" and ty: "ty \<in> {DatabasePostgres, DatabaseRedis, DatabaseMongoDB}"
    and u: "uri \<noteq> ''''" and j: "dec_remove J (enc_remove J (ty, uri)) = Ok (ty, uri)" and c: "configFrom S opts w = Ok cfg"
  shows "cl_RemoveDB J S (wire_to sha S J s (getHostURL cfg)) ty uri opts w = (Ok (), w1)"
proof -
  have "validateType ty = Ok ()" "ty \<noteq> ''''"
    using ty by (auto simp: validateType_def DatabaseRedis_def DatabasePostgres_def DatabaseMongoDB_def TypeRedis_def
        TypePostgres_def TypeMongoDB_def)
  then have "api_RemoveDB S J (received ''DELETE'' (JsonBody (enc_remove J (ty, uri)))) w = (Ok (StatusNoContent, NoBody), w1)"
    using j u d by (simp add: api_RemoveDB_def received_def try_catch_def)
  then show ?thesis
    using c by (simp add: cl_RemoveDB_def httpDoRemoveDBRequest_def wire_to_path serve_def bind_def
        checkForError_def StatusNoContent_def)
qed

text \<open>A helper of the client's tests: what it returns for the cleanup removes what was created.\<close>

lemma MustCreateDB_cleanup:
  assumes "cl_CreateDB rx S H ty opts w = (Ok uri, w1)"
  shows "MustCreateDB rx J S H ty opts w = (Ok (uri, cl_RemoveDB J S H ty uri opts), w1)"
  using assms by (simp add: MustCreateDB_def bind_def)

lemma cl_RemoveDB_redis:
  assumes r: "rs_ready S V n p" and k: "rs_credentials_kept (rs_cfg p)" and i: "0 < i" "i < n"
    and j: "dec_remove J (enc_remove J (DatabaseRedis, rs_db_uri p i)) = Ok (DatabaseRedis, rs_db_uri p i)"
    and c: "configFrom S opts w = Ok cfg"
  shows "\<exists>w1. cl_RemoveDB J S (wire_to sha S J s (getHostURL cfg)) DatabaseRedis (rs_db_uri p i) opts w = (Ok (), w1) \<and>
    rv_dbs (V w1) = release_db i (rv_dbs (V w))"
proof -
  obtain w1 where d: "removeRedisDB S (rs_db_uri p i) w = (Ok (), w1)"
    and v: "rv_dbs (V w1) = release_db i (rv_dbs (V w))"
    using removeRedisDB_doc[OF r k i] by blast
  have "rs_db_uri p i \<noteq> ''''" by (simp add: rs_db_uri_def url_string_def db_uri_def)
  moreover have "remove_for S DatabaseRedis (rs_db_uri p i) w = (Ok (), w1)"
    using d by (simp add: remove_for_def DatabaseRedis_def TypeRedis_def TypePostgres_def)
  ultimately show ?thesis using cl_RemoveDB_sent[OF _ _ _ j c] v by auto
qed

end
