(* ===== verification/Session.thy ===== *)
theory Session
  imports EndToEnd
begin

text \<open>
  Sessions: any sequence of requests that clients make to one server for redis databases, against an
  abstract pool of numbered databases. The pool knows which indexes are claimed and what the
  databases hold; the program keeps the claims as keys of database 0. \<open>pool_of\<close> is the abstraction
  function, and every step of the program is the step of the pool.
\<close>

section \<open>The abstract pool\<close>

record pool =
  po_claims :: "nat set"
  po_data :: "nat \<Rightarrow> string \<rightharpoonup> string"

datatype pool_op = Claim | Release nat

datatype 'a outcome = Given 'a | Refused | Released

definition pool_free :: "nat \<Rightarrow> pool \<Rightarrow> nat option" where
  "pool_free n a = List.find (\<lambda>k. k \<notin> po_claims a) [1..<n]"

definition pool_clear :: "nat \<Rightarrow> pool \<Rightarrow> pool" where
  "pool_clear k a = a\<lparr>po_data := (po_data a)(k := Map.empty)\<rparr>"

fun pool_step :: "nat \<Rightarrow> pool_op \<Rightarrow> pool \<Rightarrow> nat outcome \<times> pool" where
  "pool_step n Claim a = (case pool_free n a of
       Some k \<Rightarrow> (Given k, pool_clear k (a\<lparr>po_claims := insert k (po_claims a)\<rparr>))
     | None \<Rightarrow> (Refused, a))"
| "pool_step n (Release k) a = (Released, pool_clear k (a\<lparr>po_claims := po_claims a - {k}\<rparr>))"

fun pool_session :: "nat \<Rightarrow> pool_op list \<Rightarrow> pool \<Rightarrow> nat outcome list \<times> pool" where
  "pool_session n [] a = ([], a)"
| "pool_session n (x # xs) a =
     (let (r, a1) = pool_step n x a; (rs, a2) = pool_session n xs a1 in (r # rs, a2))"

text \<open>Only databases of the instance are given back; index 0 holds the claims.\<close>

fun pool_op_ok :: "nat \<Rightarrow> pool_op \<Rightarrow> bool" where
  "pool_op_ok n Claim = True"
| "pool_op_ok n (Release k) = (0 < k \<and> k < n)"

section \<open>The clients\<close>

definition given :: "string res \<Rightarrow> string outcome" where
  "given r = (case r of Ok u \<Rightarrow> Given u | _ \<Rightarrow> Refused)"

definition released :: "unit res \<Rightarrow> string outcome" where
  "released r = (case r of Ok _ \<Rightarrow> Released | _ \<Rightarrow> Refused)"

text \<open>One request; \<open>addr\<close> is the address of an index.\<close>

fun client_step :: "(string \<Rightarrow> (string \<Rightarrow> bool) res) \<Rightarrow> json_api \<Rightarrow> 'w sys \<Rightarrow> 'w transport \<Rightarrow>
    (cl_config, 'w) go_option list \<Rightarrow> (nat \<Rightarrow> string) \<Rightarrow> pool_op \<Rightarrow> 'w \<Rightarrow> string outcome \<times> 'w" where
  "client_step rx J S H opts addr Claim w =
     (case cl_CreateDB rx S H DatabaseRedis opts w of (r, w1) \<Rightarrow> (given r, w1))"
| "client_step rx J S H opts addr (Release k) w =
     (case cl_RemoveDB J S H DatabaseRedis (addr k) opts w of (r, w1) \<Rightarrow> (released r, w1))"

fun client_session :: "(string \<Rightarrow> (string \<Rightarrow> bool) res) \<Rightarrow> json_api \<Rightarrow> 'w sys \<Rightarrow> 'w transport \<Rightarrow>
    (cl_config, 'w) go_option list \<Rightarrow> (nat \<Rightarrow> string) \<Rightarrow> pool_op list \<Rightarrow> 'w \<Rightarrow> string outcome list \<times> 'w" where
  "client_session rx J S H opts addr [] w = ([], w)"
| "client_session rx J S H opts addr (x # xs) w =
     (let (r, w1) = client_step rx J S H opts addr x w;
          (rs, w2) = client_session rx J S H opts addr xs w1 in (r # rs, w2))"

section \<open>The program implements the pool\<close>

definition pool_of :: "redis_view \<Rightarrow> pool" where
  "pool_of v = \<lparr>po_claims = claimed_in v, po_data = (rv_dbs v)(0 := Map.empty)\<rparr>"

lemma pool_of_claims [simp]: "po_claims (pool_of v) = claimed_in v"
  by (simp add: pool_of_def)

lemma pool_of_dbs: "rv_dbs v = rv_dbs v' \<Longrightarrow> pool_of v = pool_of v'"
  by (simp add: pool_of_def claimed_in_def)

lemma pool_free_of: "pool_free n (pool_of v) = first_free n v"
  by (simp add: pool_free_def pool_of_def first_free_def)

lemma pool_of_claim:
  assumes "0 < k" and "rv_dbs v1 = claim_db k (rv_dbs v)"
  shows "pool_of v1 = pool_clear k ((pool_of v)\<lparr>po_claims := insert k (claimed_in v)\<rparr>)"
proof -
  have "claimed_in v1 = insert k (claimed_in v)" using assms by (auto simp: claimed_in_def claim_db_def)
  moreover have "(rv_dbs v1)(0 := Map.empty) = ((rv_dbs v)(0 := Map.empty))(k := Map.empty)"
    using assms by (auto simp: claim_db_def fun_eq_iff)
  ultimately show ?thesis by (simp add: pool_of_def pool_clear_def)
qed

lemma pool_of_release:
  assumes "0 < k" and "rv_dbs v1 = release_db k (rv_dbs v)"
  shows "pool_of v1 = pool_clear k ((pool_of v)\<lparr>po_claims := claimed_in v - {k}\<rparr>)"
proof -
  have "claimed_in v1 = claimed_in v - {k}" using assms by (auto simp: claimed_in_def release_db_def split: if_splits)
  moreover have "(rv_dbs v1)(0 := Map.empty) = ((rv_dbs v)(0 := Map.empty))(k := Map.empty)"
    using assms by (auto simp: release_db_def fun_eq_iff)
  ultimately show ?thesis by (simp add: pool_of_def pool_clear_def)
qed

text \<open>What the clients, the server and the redis instance have to be like.\<close>

definition session_ready :: "json_api \<Rightarrow> 'w sys \<Rightarrow> ('w \<Rightarrow> redis_view) \<Rightarrow> nat \<Rightarrow> Instance \<Rightarrow> Server \<Rightarrow>
    (cl_config, 'w) go_option list \<Rightarrow> cl_config \<Rightarrow> bool" where
  "session_ready J S V n i s opts cfg \<longleftrightarrow>
     rs_ready S V n (instance_redis i) \<and> map_of (sv_instances s) TypeRedis = Some (Some i) \<and>
     fresh_tmp S V \<and> (\<forall>w. configFrom S opts w = Ok cfg) \<and> plain_config cfg \<and>
     rs_credentials_kept (rs_cfg (instance_redis i)) \<and>
     removal_sent J DatabaseRedis"

lemma client_step_refines:
  assumes r: "session_ready J S V n i s opts cfg" and k: "pool_op_ok n x"
  defines "addr \<equiv> rs_db_uri (instance_redis i)"
  shows "\<exists>w1. client_step rx J S (wire_to sha S J s (getHostURL cfg)) opts addr x w =
      (map_outcome addr (fst (pool_step n x (pool_of (V w)))), w1) \<and>
    pool_of (V w1) = snd (pool_step n x (pool_of (V w)))"
proof (cases x)
  case Claim
  obtain res w1 where c: "cl_CreateDB rx S (wire_to sha S J s (getHostURL cfg)) DatabaseRedis opts w = (res, w1)"
    and v: "rv_dbs (V w1) = claim_first n (V w)"
    and res: "case first_free n (V w) of Some k \<Rightarrow> res = Ok (addr k) | None \<Rightarrow> \<exists>e. res = Err e"
    using cl_CreateDB_redis[of S V n i s opts w cfg rx sha J] r unfolding session_ready_def addr_def by blast
  show ?thesis
  proof (cases "first_free n (V w)")
    case None
    then have "pool_of (V w1) = pool_of (V w)" using v by (intro pool_of_dbs) (simp add: claim_first_def)
    then show ?thesis using None Claim c res by (auto simp: pool_free_of given_def)
  next
    case (Some k)
    then have "0 < k" by (simp add: first_free_Some)
    moreover have "rv_dbs (V w1) = claim_db k (rv_dbs (V w))" using v Some by (simp add: claim_first_def)
    ultimately show ?thesis
      using Some Claim c res pool_of_claim[of k] by (simp add: pool_free_of given_def)
  qed
next
  case (Release k)
  obtain w1 where c: "cl_RemoveDB J S (wire_to sha S J s (getHostURL cfg)) DatabaseRedis (addr k) opts w = (Ok (), w1)"
    and v: "rv_dbs (V w1) = release_db k (rv_dbs (V w))"
    using cl_RemoveDB_redis[of S V n "instance_redis i" k J opts w cfg sha s] r k Release
    unfolding session_ready_def addr_def removal_sent_def by auto
  have "0 < k" using k Release by simp
  from pool_of_release[OF this v] show ?thesis using c Release by (simp add: released_def)
qed

text \<open>The same for runs: the pool's step is taken wherever the program's is.\<close>

lemma client_session_sim:
  assumes r: "session_ready J S V n i s opts cfg" and "list_all (pool_op_ok n) xs"
  defines "addr \<equiv> rs_db_uri (instance_redis i)"
  shows "\<exists>w1. client_session rx J S (wire_to sha S J s (getHostURL cfg)) opts addr xs w =
      (map (map_outcome addr) (fst (pool_session n xs (pool_of (V w)))), w1) \<and>
    pool_of (V w1) = snd (pool_session n xs (pool_of (V w)))"
  using assms(2)
proof (induction xs arbitrary: w)
  case Nil
  then show ?case by simp
next
  case (Cons x xs)
  obtain w1 where 1: "client_step rx J S (wire_to sha S J s (getHostURL cfg)) opts addr x w =
      (map_outcome addr (fst (pool_step n x (pool_of (V w)))), w1)"
    "pool_of (V w1) = snd (pool_step n x (pool_of (V w)))"
    using client_step_refines[OF r, of x rx sha w] Cons.prems unfolding addr_def by auto
  obtain w2 where "client_session rx J S (wire_to sha S J s (getHostURL cfg)) opts addr xs w1 =
      (map (map_outcome addr) (fst (pool_session n xs (pool_of (V w1)))), w2)"
    "pool_of (V w2) = snd (pool_session n xs (pool_of (V w1)))"
    using Cons by auto
  then show ?case using 1 by (simp add: case_prod_beta Let_def)
qed

end
