(* ===== verification/UploadRequest.thy ===== *)
theory UploadRequest
  imports Dirs EndToEnd
begin

text \<open>
  A creation with files, from the call of the client to the call of the provider: the client packs the
  files of its directories, the server unpacks them into temporary directories, fills in the instance
  it knows and hands the request to the provider. What is left to show for a provider is what it makes
  of two directories that hold the client's files.
\<close>

section \<open>The parts of a request\<close>

definition given_files :: "'w sys \<Rightarrow> 'w \<Rightarrow> string \<Rightarrow> (string \<times> string) list \<Rightarrow> bool" where
  "given_files S w path ss \<longleftrightarrow> (if path = '''' then ss = [] else dir_files S w path ss)"

definition file_part :: "string \<Rightarrow> string \<times> string \<Rightarrow> part" where
  "file_part field f = FilePart field (pathEscape (fst f)) (snd f)"

definition field_part :: "string \<times> string \<Rightarrow> part" where
  "field_part kv = FieldPart (fst kv) (snd kv)"

definition all_parts :: "cl_request \<Rightarrow> (string \<times> string) list \<Rightarrow> (string \<times> string) list \<Rightarrow> part list" where
  "all_parts q ms fs = map (file_part ''migrations'') ms @ map (file_part ''fixtures'') fs @ map field_part (form_fields q)"

lemma given_names: "given_files S w path ss \<Longrightarrow> upload_names ss"
  by (auto simp: given_files_def upload_names_dir split: if_splits)

lemma getFilesList_given:
  "given_files S w path ss \<Longrightarrow> getFilesList rx S path '''' w = Ok (map (as_upload path) ss)"
proof (cases "path = ''''")
  case False
  then show "given_files S w path ss \<Longrightarrow> ?thesis" using getFilesList_dir by (simp add: given_files_def)
qed (simp add: given_files_def getFilesList_def)

lemma add_files_given:
  assumes "given_files S w path ss"
  shows "add_files S field (map (as_upload path) ss) w = Ok (map (file_part field) ss)"
proof -
  have "\<forall>f\<in>set ss. readFile (os S) (file_at path (fst f)) w = Ok (snd f)"
    using assms by (auto simp: given_files_def dir_files_def split: if_splits)
  then show ?thesis by (induction ss) (simp_all add: addFileToWriter_def as_upload_def file_part_def)
qed

lemma create_parts_given:
  assumes "given_files S w (cq_Migrations q) ms" and "given_files S w (cq_Fixtures q) fs" and "cq_MigrationsRegex q = ''''"
  shows "create_parts rx S q w = Ok (all_parts q ms fs)"
proof -
  have "(\<lambda>(k, v). FieldPart k v) = field_part" by (auto simp: field_part_def fun_eq_iff)
  then show ?thesis
    using getFilesList_given[OF assms(1), of rx] getFilesList_given[OF assms(2), of rx]
      add_files_given[OF assms(1), of "''migrations''"] add_files_given[OF assms(2), of "''fixtures''"] assms(3)
    by (simp add: create_parts_def wrap_err_def all_parts_def)
qed

lemma files_of_file_part: "files_of key (map (file_part field) ss) =
    (if field = key then map (\<lambda>f. (path_base (pathEscape (fst f)), Ok (snd f))) ss else [])"
  by (cases "field = key"; induction ss) (simp_all add: file_part_def)

lemma files_of_field_part: "files_of key (map field_part kv) = []"
  by (induction kv) (simp_all add: field_part_def)

lemma form_of_file_part: "form_of (map (file_part field) ss) = []"
  by (induction ss) (simp_all add: file_part_def)

lemma form_of_field_part: "form_of (map field_part kv) = kv"
  by (induction kv) (simp_all add: field_part_def)

lemmas parts_received = files_of_file_part files_of_field_part form_of_file_part form_of_field_part

lemma received_form: "hr_Form (received m (Multipart (all_parts q ms fs))) = form_fields q"
  by (simp add: received_def all_parts_def form_of_append parts_received)

lemma received_store:
  assumes "upload_names ms" and "upload_names fs"
  shows "readMulipartFiles S (received m (Multipart (all_parts q ms fs))) ''migrations'' dst = foreach (store S dst) ms"
    and "readMulipartFiles S (received m (Multipart (all_parts q ms fs))) ''fixtures'' dst = foreach (store S dst) fs"
proof -
  have w: "foreach (writeMultipartFile S dst) (map (\<lambda>f. (path_base (pathEscape (fst f)), Ok (snd f))) ss) =
      foreach (store S dst) ss" if "upload_names ss" for ss
    using that by (induction ss) (simp_all add: upload_names_def writeMultipartFile_store[OF upload_name_roundtrip])
  show "readMulipartFiles S (received m (Multipart (all_parts q ms fs))) ''migrations'' dst = foreach (store S dst) ms"
    "readMulipartFiles S (received m (Multipart (all_parts q ms fs))) ''fixtures'' dst = foreach (store S dst) fs"
    using w[OF assms(1)] w[OF assms(2)]
    by (simp_all add: readMulipartFiles_def received_def all_parts_def files_of_append parts_received)
qed

section \<open>The server's directories\<close>

text \<open>Both directories of the request hold the client's files, and keep them while the disk is left alone.\<close>

definition holds_files :: "'w sys \<Rightarrow> ('w \<Rightarrow> bool) \<Rightarrow> string \<Rightarrow> (string \<times> string) list \<Rightarrow> bool" where
  "holds_files S Q d ss \<longleftrightarrow> (\<forall>w. Q w \<longrightarrow> dir_files S w d ss)"

lemma upload_both:
  assumes m: "machine_doc S F D V" and n: "upload_names ms" "upload_names fs"
    and x: "rel_name x" "slash \<notin> set x" and y: "rel_name y" "slash \<notin> set y" and xy: "x \<noteq> y"
  defines "md \<equiv> file_at ''/tmp'' x" and "fd \<equiv> file_at ''/tmp'' y"
  assumes D: "md \<in> D w" "fd \<in> D w"
    and empty: "\<forall>p\<in>dom (F w). \<not> hasPrefix p (file_at md []) \<and> \<not> hasPrefix p (file_at fd [])"
  shows "\<exists>w1 w2. foreach (store S md) ms w = (Ok (), w1) \<and> foreach (store S fd) fs w1 = (Ok (), w2) \<and>
    V w2 = V w \<and> holds_files S (\<lambda>w. F w = F w2 \<and> D w = D w2) md ms \<and>
    holds_files S (\<lambda>w. F w = F w2 \<and> D w = D w2) fd fs"
proof -
  have c: "clean_dir md" "clean_dir fd" using clean_tmp x(1) y(1) by (simp_all add: md_def fd_def)
  obtain w1 where 1: "foreach (store S md) ms w = (Ok (), w1)" "F w1 = F w ++ files_at md ms" "D w1 = D w" "V w1 = V w"
    using store_all_machine[OF m c(1) n(1)] by blast
  obtain w2 where 2: "foreach (store S fd) fs w1 = (Ok (), w2)" "F w2 = F w1 ++ files_at fd fs" "D w2 = D w1" "V w2 = V w1"
    using store_all_machine[OF m c(2) n(2)] by blast
  have none: "F w (file_at md r) = None" "F w (file_at fd r) = None" for r
    using empty hasPrefix_file_at by blast+
  have "\<not> hasPrefix (file_at md r) (file_at fd [])" "\<not> hasPrefix (file_at fd r) (file_at md [])" for r
    using tmp_siblings[OF x(2) y(2)] tmp_siblings[OF y(2) x(2)] xy unfolding md_def fd_def by blast+
  then have sep: "files_at fd fs (file_at md r) = None" "files_at md ms (file_at fd r) = None" for r
    by (simp_all add: files_at_other)
  have "\<forall>r. F w2 (file_at md r) = map_of ms r" "\<forall>r. F w2 (file_at fd r) = map_of fs r"
    using none sep by (auto simp: 2(2) 1(2) map_add_def split: option.splits)
  moreover have "md \<in> D w2" "fd \<in> D w2" using D 1(3) 2(3) by simp_all
  ultimately have "holds_files S (\<lambda>w. F w = F w2 \<and> D w = D w2) md ms"
    "holds_files S (\<lambda>w. F w = F w2 \<and> D w = D w2) fd fs"
    unfolding holds_files_def using dir_files_machine[OF m c(1) _ n(1)] dir_files_machine[OF m c(2) _ n(2)] by simp_all
  then show ?thesis using 1 2 by auto
qed
section \<open>The handler\<close>

text \<open>A request that leaves the choice of the instance to the server and asks for its own migrations.\<close>

definition files_request :: "string \<Rightarrow> cl_request \<Rightarrow> bool" where
  "files_request ty q \<longleftrightarrow> cq_Type q = ty \<and> cq_MigrationsRegex q = '''' \<and> \<not> cq_WithDefaultMigrations q \<and>
     cq_InstancePort q = 0 \<and> cq_InstanceUser q = '''' \<and> cq_InstancePass q = '''' \<and> cq_InstanceName q = ''''"

text \<open>What reaches the provider: the instance of the server and the two directories.\<close>

definition server_request :: "Instance \<Rightarrow> string \<Rightarrow> string \<Rightarrow> string \<Rightarrow> api_request" where
  "server_request i ty md fd =
     \<lparr>ar_Type = ty, ar_Migrations = md, ar_Fixtures = fd, ar_WithDefaultMigrations = False, ar_InstanceHost = '''',
      ar_InstancePort = in_Port i, ar_InstanceUser = in_User i, ar_InstancePass = in_Pass i, ar_InstanceName = in_Name i\<rparr>"

lemma form_request_files:
  assumes "files_request ty q"
  shows "form_port (received ''POST'' (Multipart (all_parts q ms fs))) = Ok 0"
    and "fill_instance i ((form_request (received ''POST'' (Multipart (all_parts q ms fs))))
      \<lparr>ar_InstancePort := 0, ar_Migrations := md, ar_Fixtures := fd\<rparr>) = server_request i ty md fd"
    and "ar_Type (form_request (received ''POST'' (Multipart (all_parts q ms fs)))) = ty"
proof -
  let ?r = "received ''POST'' (Multipart (all_parts q ms fs))"
  have f: "FormValue ?r ''type'' = ty" "FormValue ?r ''instance_port'' = ''0''" "FormValue ?r ''instance_user'' = ''''"
    "FormValue ?r ''instance_pass'' = ''''" "FormValue ?r ''instance_name'' = ''''" "FormValue ?r ''instance_host'' = ''''"
    "FormValue ?r ''with_default_migrations'' = ''false''"
    using assms by (simp_all add: FormValue_def received_form gm_get_def form_fields_def files_request_def formatUint_0)
  have "parseUint 32 ''0'' = Ok 0" using parse_port[of 0] by (simp add: formatUint_0)
  then show "form_port ?r = Ok 0" by (simp add: form_port_def f)
  have "isTrue ''false'' = False" by code_simp
  then show "fill_instance i ((form_request ?r)\<lparr>ar_InstancePort := 0, ar_Migrations := md, ar_Fixtures := fd\<rparr>) =
      server_request i ty md fd"
    by (simp add: form_request_def fill_instance_def server_request_def f)
  show "ar_Type (form_request ?r) = ty" by (simp add: form_request_def f)
qed

lemma create_in_files:
  assumes n: "upload_names ms" "upload_names fs" and q: "files_request ty q"
    and i: "map_of (sv_instances s) ty = Some (Some i)"
    and st: "foreach (store S md) ms w = (Ok (), w1)" "foreach (store S fd) fs w1 = (Ok (), w2)"
    and c: "create_for sha S (server_request i ty md fd) w2 = (Ok u, w3)"
  shows "create_in sha S s (received ''POST'' (Multipart (all_parts q ms fs)))
      ((form_request (received ''POST'' (Multipart (all_parts q ms fs))))\<lparr>ar_InstancePort := 0\<rparr>) md fd w =
    (Ok (StatusOK, JUri u), w3)"
  using i st c form_request_files(2)[OF q, where i = i and ms = ms and fs = fs and md = md and fd = fd] form_request_files(3)[OF q, of ms fs]
  by (simp add: create_in_def received_store[OF n] try_catch_def applyInstance_def instanceFor_def bind_def)

lemma api_CreateDB_files:
  assumes m: "machine_doc S F D V" and n: "upload_names ms" "upload_names fs" and q: "files_request ty q"
    and ty: "validateType ty = Ok ()" "ty \<noteq> ''''"
    and i: "map_of (sv_instances s) ty = Some (Some i)"
    and provider: "\<And>md fd w1. V w1 = V w \<Longrightarrow> clean_dir md \<Longrightarrow> clean_dir fd \<Longrightarrow>
      holds_files S (\<lambda>w. F w = F w1 \<and> D w = D w1) md ms \<Longrightarrow> holds_files S (\<lambda>w. F w = F w1 \<and> D w = D w1) fd fs \<Longrightarrow>
      \<exists>u w2. create_for sha S (server_request i ty md fd) w1 = (Ok u, w2) \<and> P u (V w2)"
  shows "\<exists>u w1. api_CreateDB sha S s (received ''POST'' (Multipart (all_parts q ms fs))) w = (Ok (StatusOK, JUri u), w1) \<and>
    P u (V w1)"
proof -
  note mk = machine_mkdirTemp[OF machine_docD(10)[OF m]]
  obtain x w1 where 1: "mkdirTemp (os S) ''/tmp'' ''migrations-*'' w = (Ok (file_at ''/tmp'' x), w1)" "rel_name x" "slash \<notin> set x"
    "D w1 = insert (file_at ''/tmp'' x) (D w)" "F w1 = F w" "V w1 = V w"
    "\<forall>p\<in>dom (F w). \<not> hasPrefix p (file_at (file_at ''/tmp'' x) [])"
    using mk[of "''migrations-*''" w] by blast
  obtain y w2 where 2: "mkdirTemp (os S) ''/tmp'' ''fixtures-*'' w1 = (Ok (file_at ''/tmp'' y), w2)" "rel_name y" "slash \<notin> set y"
    "file_at ''/tmp'' y \<notin> D w1" "D w2 = insert (file_at ''/tmp'' y) (D w1)" "F w2 = F w1" "V w2 = V w1"
    "\<forall>p\<in>dom (F w1). \<not> hasPrefix p (file_at (file_at ''/tmp'' y) [])"
    using mk[of "''fixtures-*''" w1] by blast
  let ?md = "file_at ''/tmp'' x" and ?fd = "file_at ''/tmp'' y"
  have "x \<noteq> y" using 1(4) 2(4) by blast
  moreover have "?md \<in> D w2" "?fd \<in> D w2" using 1(4) 2(5) by simp_all
  moreover have "\<forall>p\<in>dom (F w2). \<not> hasPrefix p (file_at ?md []) \<and> \<not> hasPrefix p (file_at ?fd [])" using 1(5,7) 2(6,8) by simp
  ultimately obtain w3 w4 where st: "foreach (store S ?md) ms w2 = (Ok (), w3)" "foreach (store S ?fd) fs w3 = (Ok (), w4)"
    and v: "V w4 = V w2" and h: "holds_files S (\<lambda>w. F w = F w4 \<and> D w = D w4) ?md ms"
      "holds_files S (\<lambda>w. F w = F w4 \<and> D w = D w4) ?fd fs"
    using upload_both[OF m n 1(2,3) 2(2,3)] by blast
  have "V w4 = V w" using v 1(6) 2(7) by simp
  from provider[OF this clean_tmp[OF 1(2)] clean_tmp[OF 2(2)] h]
  obtain u w5 where c: "create_for sha S (server_request i ty ?md ?fd) w4 = (Ok u, w5)" and P: "P u (V w5)" by blast
  let ?r = "received ''POST'' (Multipart (all_parts q ms fs))"
  have "api_CreateDB sha S s ?r w = (Ok (StatusOK, JUri u), removeAll (os S) ?md (removeAll (os S) ?fd w5))"
    using 1(1) 2(1) create_in_files[OF n q i st c] form_request_files(1,3)[OF q, of ms fs] ty
    by (simp add: api_CreateDB_def try_catch_def with_defer_def) (simp add: received_def)
  moreover have "V (removeAll (os S) ?md (removeAll (os S) ?fd w5)) = V w5" by (simp add: machine_docD(8)[OF m])
  ultimately show ?thesis using P by auto
qed

section \<open>The client\<close>

text \<open>A configuration that leaves the instance to the server and may name directories to upload.\<close>

definition files_config :: "cl_config \<Rightarrow> bool" where
  "files_config c \<longleftrightarrow> cl_migrationsFileRegex c = '''' \<and> \<not> cl_withDefaultMigrations c \<and> cl_instancePort c = 0 \<and>
     cl_instanceUser c = '''' \<and> cl_instancePass c = '''' \<and> cl_instanceDBName c = ''''"

lemma cl_abs_given: "given_files S w path ss \<Longrightarrow> cl_abs S fmt path w = Ok path"
  by (cases "path = ''''") (simp_all add: given_files_def cl_abs_def wrap_err_def clean_Abs dir_filesD(1))

lemma cl_CreateDB_files:
  assumes m: "machine_doc S F D V" and cfg: "configFrom S opts w = Ok cfg" "files_config cfg"
    and ms: "given_files S w (cl_migrations cfg) ms" and fs: "given_files S w (cl_fixtures cfg) fs"
    and ty: "ty \<in> {DatabasePostgres, DatabaseRedis, DatabaseMongoDB}"
    and i: "map_of (sv_instances s) ty = Some (Some i)"
    and provider: "\<And>md fd w1. V w1 = V w \<Longrightarrow> clean_dir md \<Longrightarrow> clean_dir fd \<Longrightarrow>
      holds_files S (\<lambda>w. F w = F w1 \<and> D w = D w1) md ms \<Longrightarrow> holds_files S (\<lambda>w. F w = F w1 \<and> D w = D w1) fd fs \<Longrightarrow>
      \<exists>u w2. create_for sha S (server_request i ty md fd) w1 = (Ok u, w2) \<and> P u (V w2)"
  shows "\<exists>u w1. cl_CreateDB rx S (wire_to sha S J s (getHostURL cfg)) ty opts w = (Ok u, w1) \<and> P u (V w1)"
proof -
  let ?q = "\<lparr>cq_Type = ty, cq_Migrations = cl_migrations cfg, cq_MigrationsRegex = cl_migrationsFileRegex cfg,
      cq_Fixtures = cl_fixtures cfg, cq_WithDefaultMigrations = cl_withDefaultMigrations cfg,
      cq_InstancePort = cl_instancePort cfg, cq_InstanceUser = cl_instanceUser cfg,
      cq_InstancePass = cl_instancePass cfg, cq_InstanceName = cl_instanceDBName cfg\<rparr>"
  have q: "files_request ty ?q" using cfg(2) by (simp add: files_request_def files_config_def)
  have p: "create_parts rx S ?q w = Ok (all_parts ?q ms fs)"
    using ms fs cfg(2) by (intro create_parts_given) (simp_all add: files_config_def)
  have v: "validateType ty = Ok ()" "ty \<noteq> ''''"
    using ty by (auto simp: validateType_def type_defs DatabasePostgres_def DatabaseRedis_def DatabaseMongoDB_def)
  obtain u w1 where a: "api_CreateDB sha S s (received ''POST'' (Multipart (all_parts ?q ms fs))) w = (Ok (StatusOK, JUri u), w1)"
    and P: "P u (V w1)"
    using api_CreateDB_files[OF m given_names[OF ms] given_names[OF fs] q v i provider] by blast
  have "wire_to sha S J s (getHostURL cfg) ''POST'' (getHostURL cfg @ ''/create'') (Multipart (all_parts ?q ms fs)) w =
      (Ok (StatusOK, JUri u), w1)"
    unfolding wire_to_path by (simp add: serve_def a)
  then have "httpDoCreateDBRequest rx S (wire_to sha S J s (getHostURL cfg)) ?q (getHostURL cfg) w = (Ok u, w1)"
    by (simp add: httpDoCreateDBRequest_def bind_def p checkForError_def StatusOK_def decode_uri_def)
  then have "cl_CreateDB rx S (wire_to sha S J s (getHostURL cfg)) ty opts w = (Ok u, w1)"
    using cfg(1) ty cl_abs_given[OF ms] cl_abs_given[OF fs]
    by (auto simp: cl_CreateDB_def bind_def wrap_def wrap_err_def)
  with P show ?thesis by blast
qed

end
