(* ===== verification/PgEndToEnd.thy ===== *)
theory PgEndToEnd
  imports UploadRequest
begin

text \<open>
  The whole way of a postgres creation with files: the migrations and fixtures of the client's
  directories become the contents of a new database of the instance the server knows.
\<close>

section \<open>The scripts of a directory\<close>

text \<open>The migrations of a directory, in the order in which they run.\<close>

definition up_migrations :: "(string \<times> string) list \<Rightarrow> (string \<times> string) list" where
  "up_migrations ss = filter (\<lambda>f. \<not> hasSuffix (toLower (fst f)) ''down.sql'') (kept pg_keep ss)"

lemma lower_char_slash [simp]: "lower_char slash = slash"
  by (simp add: lower_char_def)

lemma lower_slash: "toLower (slash # r) = slash # toLower r"
  by (cases r; cases "tl r") auto

lemma toLower_slash: "toLower (a @ slash # r) = toLower a @ slash # toLower r"
proof (induction a rule: toLower.induct)
  case (1 a b c s)
  then show ?case by simp
next
  case (2 a b)
  have "toLower (a # b # slash # r) = toLower [a, b] @ slash # toLower r"
    by (cases r) (auto simp: lower_slash)
  then show ?case by simp
next
  case (3 a)
  have "toLower (a # slash # r) = lower_char a # toLower (slash # r)" by (cases r) auto
  then show ?case by (simp add: lower_slash)
qed (simp add: lower_slash)

lemma hasSuffix_slash:
  assumes "slash \<notin> set p"
  shows "hasSuffix (a @ slash # r) p \<longleftrightarrow> hasSuffix r p"
proof
  assume "hasSuffix (a @ slash # r) p"
  then obtain t where t: "a @ slash # r = t @ p" by (auto simp: hasSuffix_iff)
  then consider us where "a = t @ us" "us @ slash # r = p" | us where "a @ us = t" "slash # r = us @ p"
    by (auto simp: append_eq_append_conv2)
  then show "hasSuffix r p"
  proof cases
    case 1
    then have "slash \<in> set p" by auto
    then show ?thesis using assms by blast
  next
    case 2
    then show ?thesis using assms by (cases us) (auto simp: hasSuffix_iff)
  qed
next
  assume "hasSuffix r p"
  then obtain t where "r = t @ p" by (auto simp: hasSuffix_iff)
  then have "a @ slash # r = (a @ slash # t) @ p" by simp
  then show "hasSuffix (a @ slash # r) p" unfolding hasSuffix_iff by blast
qed

lemma MigrationFiles_dir:
  "MigrationFiles (map (\<lambda>f. file_at d (fst f)) (kept pg_keep ss)) = map (\<lambda>f. file_at d (fst f)) (up_migrations ss)"
proof -
  have "hasSuffix (toLower (file_at d r)) ''down.sql'' = hasSuffix (toLower r) ''down.sql''" for r
    by (simp add: file_at_def toLower_slash hasSuffix_slash)
  then show ?thesis by (simp add: MigrationFiles_def up_migrations_def filter_map o_def)
qed

lemma up_migrations_sub: "set (up_migrations ss) \<subseteq> set ss"
  by (auto simp: up_migrations_def kept_def)

lemma reads_dir:
  assumes "holds_files S Q d ss" and "set xs \<subseteq> set ss"
  shows "reads S Q (map (\<lambda>f. file_at d (fst f)) xs) (map snd xs)"
proof -
  have "\<forall>w. Q w \<longrightarrow> readFile (os S) (file_at d (fst f)) w = Ok (snd f)" if "f \<in> set xs" for f
  proof -
    have "f \<in> set ss" using assms(2) that by blast
    then show ?thesis using assms(1) by (auto simp: holds_files_def dest: dir_filesD(7))
  qed
  then show ?thesis by (simp add: reads_def list_all2_conv_all_nth)
qed

lemma templateName_dir:
  assumes "dir_files S w d ss" and "set xs \<subseteq> set ss"
  shows "templateName sha S d (map (\<lambda>f. file_at d (fst f)) xs) w = Ok (template_of sha xs)"
proof -
  have f: "rel_name (fst f) \<and> readFile (os S) (file_at d (fst f)) w = Ok (snd f)" if "f \<in> set xs" for f
    using dir_filesD(7)[OF assms(1)] assms(2) that by blast
  have c: "clean_dir d" by (rule dir_filesD(1)[OF assms(1)])
  have "migrations_at S w d xs"
    using f c by (auto simp: migrations_at_def file_at_join)
  moreover have "map (\<lambda>(n, b). path_join d n) xs = map (\<lambda>f. file_at d (fst f)) xs"
    using f c by (auto simp: file_at_join)
  ultimately show ?thesis using templateName_at by metis
qed

section \<open>The provider\<close>

text \<open>Creating a database without migrations to run.\<close>

lemma pg_make_plain:
  assumes doc: "pg_doc S V U G" and c: "c \<in> dom (pv_conn (V w))" and n: "ident_ok n" "pv_dbs (V w) n = None"
    and f: "rq_Migrations req \<noteq> []" "pg_getFiles S (rq_Migrations req) w = Ok files" "MigrationFiles files = []"
    and d: "\<not> rq_WithDefaultMigrations req"
  shows "\<exists>w1. pg_make sha S p req c n u w = (Ok (), w1) \<and> pv_dbs (V w1) = (pv_dbs (V w))(n \<mapsto> [])"
  using createDatabase_doc[OF doc c n] f d
  by (auto simp: pg_make_def createDatabaseFromMigrations_def bind_def wrap_def Let_def)

text \<open>What the databases are afterwards: the template of the migrations, if there are any, and the new one.\<close>

definition with_template :: "(string \<Rightarrow> string) \<Rightarrow> (string \<times> string) list \<Rightarrow> (string \<rightharpoonup> string list) \<Rightarrow> string \<rightharpoonup> string list" where
  "with_template sha ups dbs = (if ups = [] then dbs else dbs(template_of sha ups \<mapsto> map snd ups))"

text \<open>A template of other migrations under the same name, or one in use, is excluded.\<close>

definition template_usable :: "(string \<Rightarrow> string) \<Rightarrow> (string \<times> string) list \<Rightarrow> pg_view \<Rightarrow> string \<Rightarrow> bool" where
  "template_usable sha ups v own \<longleftrightarrow>
     pv_dbs v (template_of sha ups) \<in> {None, Some (map snd ups)} \<and> template_of sha ups \<noteq> own \<and>
     template_of sha ups \<notin> ran (pv_conn v)"

lemma pg_CreateDB_dirs:
  assumes r: "pg_ready S V U G p w" and q: "undisturbed S Q" "Q w"
    and ms: "holds_files S Q md ms" and fs: "holds_files S Q fd fs"
    and run: "runs G [] (map snd (up_migrations ms))" "runs G (map snd (up_migrations ms)) (map snd (kept pg_keep fs))"
    and t: "template_usable sha (up_migrations ms) (V w) (pg_name (pg_cfg p))"
  shows "\<exists>now w1. pg_CreateDB sha S p \<lparr>rq_Migrations = md, rq_Fixtures = fd, rq_WithDefaultMigrations = False\<rparr> w =
      (Ok (pg_db_uri p (stamp now)), w1) \<and> pv_dbs (V w) (stamp now) = None \<and> ident_ok (stamp now) \<and>
    pv_dbs (V w1) = (with_template sha (up_migrations ms) (pv_dbs (V w)))
      (stamp now \<mapsto> map snd (up_migrations ms) @ map snd (kept pg_keep fs))"
proof -
  let ?req = "\<lparr>rq_Migrations = md, rq_Fixtures = fd, rq_WithDefaultMigrations = False\<rparr>"
  let ?ms = "map (\<lambda>f. file_at md (fst f)) (kept pg_keep ms)" and ?fs = "map (\<lambda>f. file_at fd (fst f)) (kept pg_keep fs)"
  have doc: "pg_doc S V U G" using r by (simp add: pg_ready_def)
  have dm: "dir_files S w md ms" using ms q(2) by (simp add: holds_files_def)
  have mdne: "md \<noteq> []" using dir_filesD(1)[OF dm] by auto
  have gm: "\<forall>w. Q w \<longrightarrow> pg_getFiles S (rq_Migrations ?req) w = Ok ?ms"
    using ms pg_getFiles_dir[of S _ md ms] by (simp add: holds_files_def)
  have gf: "\<forall>w. Q w \<longrightarrow> pg_getFiles S (rq_Fixtures ?req) w = Ok ?fs"
    using fs pg_getFiles_dir[of S _ fd fs] by (simp add: holds_files_def)
  have rf: "reads S Q ?fs (map snd (kept pg_keep fs))" by (rule reads_dir[OF fs]) (simp add: kept_def)
  show ?thesis
  proof (cases "up_migrations ms = []")
    case True
    then have none: "MigrationFiles ?ms = []" by (simp add: MigrationFiles_dir)
    have "\<exists>w2. pg_make sha S p ?req c (stamp now) (U (stamp now)) w1 = (Ok (), w2) \<and>
        pv_dbs (V w2) = (pv_dbs (V w))(stamp now \<mapsto> [])"
      if "Q w1" "c \<in> dom (pv_conn (V w1))" "pv_dbs (V w1) = pv_dbs (V w)" "ident_ok (stamp now)"
        "pv_dbs (V w1) (stamp now) = None" for c now w1
      using pg_make_plain[OF doc that(2,4,5), where req = ?req and files = ?ms] gm that(1,3) none mdne by simp
    then show ?thesis
      using pg_CreateDB_made[OF r q _ gf rf, where sha = sha and cs = "[]" and D = "pv_dbs (V w)"] run(2) True by (simp add: with_template_def)
  next
    case False
    have rm: "reads S Q (MigrationFiles ?ms) (map snd (up_migrations ms))"
      unfolding MigrationFiles_dir by (rule reads_dir[OF ms up_migrations_sub])
    have tn: "\<forall>w. Q w \<longrightarrow> templateName sha S (rq_Migrations ?req) (MigrationFiles ?ms) w = Ok (template_of sha (up_migrations ms))"
      using ms templateName_dir[OF _ up_migrations_sub, of S _ md ms sha] unfolding MigrationFiles_dir by (simp add: holds_files_def)
    have ne: "MigrationFiles ?ms \<noteq> []" using False by (simp add: MigrationFiles_dir)
    have "\<not> rq_WithDefaultMigrations ?req" "rq_Migrations ?req \<noteq> []" using mdne by simp_all
    from pg_CreateDB_migrations[OF r q this gm ne rm run(1) tn _ _ _ gf rf run(2)] show ?thesis
      using t False by (simp add: template_usable_def with_template_def)
  qed
qed

section \<open>The client\<close>

text \<open>The instance of the server's snapshot as the handler configures the provider for it.\<close>

definition instance_pg :: "Instance \<Rightarrow> Postgres" where
  "instance_pg i = \<lparr>pg_containerID = '''', pg_cfg = pg_default\<lparr>
     pg_user := (if in_User i = '''' then pg_DefaultUser else in_User i),
     pg_pass := (if in_Pass i = '''' then pg_DefaultPass else in_Pass i),
     pg_name := (if in_Name i = '''' then pg_DefaultName else in_Name i),
     pg_port := (if in_Port i = 0 then pg_DefaultPort else in_Port i)\<rparr>\<rparr>"

lemma create_for_pg:
  "create_for sha S (server_request i DatabasePostgres md fd) =
     pg_CreateDB sha S (instance_pg i) \<lparr>rq_Migrations = md, rq_Fixtures = fd, rq_WithDefaultMigrations = False\<rparr>"
  by (rule ext) (simp add: create_for_def server_request_def createPostgresDB_def instance_pg_def pg_New_def pg_WithHost_def
      bind_def type_defs DatabasePostgres_def Let_def)

lemma pg_ready_view: "pg_ready S V U G p w \<Longrightarrow> V w1 = V w \<Longrightarrow> pg_ready S V U G p w1"
  by (simp add: pg_ready_def)

lemma cl_CreateDB_pg:
  assumes m: "machine_doc S F D V" and k: "\<And>X Y. undisturbed S (\<lambda>w. F w = X \<and> D w = Y)"
    and r: "pg_ready S V U G (instance_pg i) w" and i: "map_of (sv_instances s) DatabasePostgres = Some (Some i)"
    and cfg: "configFrom S opts w = Ok cfg" "files_config cfg"
    and ms: "given_files S w (cl_migrations cfg) ms" and fs: "given_files S w (cl_fixtures cfg) fs"
    and run: "runs G [] (map snd (up_migrations ms))" "runs G (map snd (up_migrations ms)) (map snd (kept pg_keep fs))"
    and t: "template_usable sha (up_migrations ms) (V w) (pg_name (pg_cfg (instance_pg i)))"
  shows "\<exists>now w1. cl_CreateDB rx S (wire_to sha S J s (getHostURL cfg)) DatabasePostgres opts w =
      (Ok (pg_db_uri (instance_pg i) (stamp now)), w1) \<and> pv_dbs (V w) (stamp now) = None \<and> ident_ok (stamp now) \<and>
    pv_dbs (V w1) = (with_template sha (up_migrations ms) (pv_dbs (V w)))
      (stamp now \<mapsto> map snd (up_migrations ms) @ map snd (kept pg_keep fs))"
proof -
  let ?P = "\<lambda>u v. \<exists>now. u = pg_db_uri (instance_pg i) (stamp now) \<and> pv_dbs (V w) (stamp now) = None \<and> ident_ok (stamp now) \<and>
    pv_dbs v = (with_template sha (up_migrations ms) (pv_dbs (V w)))
      (stamp now \<mapsto> map snd (up_migrations ms) @ map snd (kept pg_keep fs))"
  have "\<exists>u w2. create_for sha S (server_request i DatabasePostgres md fd) w1 = (Ok u, w2) \<and> ?P u (V w2)"
    if v: "V w1 = V w" and h: "holds_files S (\<lambda>w. F w = F w1 \<and> D w = D w1) md ms"
      "holds_files S (\<lambda>w. F w = F w1 \<and> D w = D w1) fd fs" for md fd w1
    using pg_CreateDB_dirs[OF pg_ready_view[OF r v] k _ h run, of sha] t v by (auto simp: create_for_pg)
  then have "\<exists>u w1. cl_CreateDB rx S (wire_to sha S J s (getHostURL cfg)) DatabasePostgres opts w = (Ok u, w1) \<and> ?P u (V w1)"
    using cl_CreateDB_files[OF m cfg ms fs _ i, where P = ?P and sha = sha and rx = rx and J = J] by simp
  then show ?thesis by blast
qed

section \<open>A test and its cleanup\<close>

lemma cl_RemoveDB_pg:
  assumes up: "pg_up S V U G (instance_pg i) w" and nm: "pg_DefaultName \<in> dom (pv_dbs (V w))"
    and n: "ident_ok n" "n \<noteq> pg_DefaultName" "hd n \<noteq> CHR ''/''"
    and j: "removal_sent J DatabasePostgres" and c: "configFrom S opts w = Ok cfg"
  shows "\<exists>w1. cl_RemoveDB J S (wire_to sha S J s (getHostURL cfg)) DatabasePostgres (pg_db_uri (instance_pg i) n) opts w =
      (Ok (), w1) \<and> pv_dbs (V w1) = (pv_dbs (V w))(n := None)"
proof -
  have u: "pg_user (pg_cfg (instance_pg i)) \<noteq> ''''" by (simp add: instance_pg_def pg_DefaultUser_def)
  obtain w1 where d: "removePostgresDB S (pg_db_uri (instance_pg i) n) w = (Ok (), w1)"
    and v: "pv_dbs (V w1) = (pv_dbs (V w))(n := None)"
    using removePostgresDB_doc[OF up u nm n] by blast
  have "pg_db_uri (instance_pg i) n \<noteq> ''''" by (simp add: pg_db_uri_def url_string_def db_uri_def)
  moreover have "remove_for S DatabasePostgres (pg_db_uri (instance_pg i) n) w = (Ok (), w1)"
    using d by (simp add: remove_for_def DatabasePostgres_def TypePostgres_def)
  ultimately show ?thesis using cl_RemoveDB_sent[OF _ _ _ _ c] j v by (auto simp: removal_sent_def)
qed

lemma stamp_not_default: "stamp now \<noteq> pg_DefaultName"
  by (simp add: stamp_def pg_DefaultName_def)

lemma template_of_not_stamp: "template_of sha ms \<noteq> stamp now"
proof
  assume "template_of sha ms = stamp now"
  then obtain r where "''tpl_'' @ r = formatUint now" by (auto simp: template_of_def stamp_def)
  then have "CHR ''t'' \<in> set (formatUint now)" by (metis append_Cons list.set_intros(1))
  then show False using formatUint_digits[of now] by (auto simp: is_digit_def)
qed

lemma pg_test_cycle:
  assumes m: "machine_doc S F D V" and k: "\<And>X Y. undisturbed S (\<lambda>w. F w = X \<and> D w = Y)"
    and r: "pg_ready S V U G (instance_pg i) w" and i: "map_of (sv_instances s) DatabasePostgres = Some (Some i)"
    and nm: "pg_DefaultName \<in> dom (pv_dbs (V w))" and j: "removal_sent J DatabasePostgres"
    and cfg: "\<forall>w. configFrom S opts w = Ok cfg" "files_config cfg"
    and ms: "given_files S w (cl_migrations cfg) ms" and fs: "given_files S w (cl_fixtures cfg) fs"
    and run: "runs G [] (map snd (up_migrations ms))" "runs G (map snd (up_migrations ms)) (map snd (kept pg_keep fs))"
    and t: "template_usable sha (up_migrations ms) (V w) (pg_name (pg_cfg (instance_pg i)))"
  shows "\<exists>name cleanup w1 w2.
    MustCreatePostgresDB rx J S (wire_to sha S J s (getHostURL cfg)) opts w = (Ok (pg_db_uri (instance_pg i) name, cleanup), w1) \<and>
    pv_dbs (V w) name = None \<and> pv_dbs (V w1) = (with_template sha (up_migrations ms) (pv_dbs (V w)))
      (name \<mapsto> map snd (up_migrations ms) @ map snd (kept pg_keep fs)) \<and>
    cleanup w1 = (Ok (), w2) \<and> pv_dbs (V w2) = with_template sha (up_migrations ms) (pv_dbs (V w))"
proof -
  let ?H = "wire_to sha S J s (getHostURL cfg)" and ?T = "with_template sha (up_migrations ms) (pv_dbs (V w))"
  obtain now w1 where c: "cl_CreateDB rx S ?H DatabasePostgres opts w = (Ok (pg_db_uri (instance_pg i) (stamp now)), w1)"
    and fr: "pv_dbs (V w) (stamp now) = None" and n: "ident_ok (stamp now)"
    and v: "pv_dbs (V w1) = ?T(stamp now \<mapsto> map snd (up_migrations ms) @ map snd (kept pg_keep fs))"
    using cl_CreateDB_pg[OF m k r i cfg(1)[rule_format] cfg(2) ms fs run t, where rx = rx and J = J] by blast
  have T: "?T (stamp now) = None" using fr template_of_not_stamp[of sha "up_migrations ms" now] by (auto simp: with_template_def)
  have sub: "dom (pv_dbs (V w)) \<subseteq> dom (pv_dbs (V w1))" unfolding v by (auto simp: with_template_def)
  have "pg_up S V U G (instance_pg i) w1" using pg_ready_up[OF r] sub by (auto simp: pg_up_def)
  moreover have "pg_DefaultName \<in> dom (pv_dbs (V w1))" using nm sub by blast
  ultimately obtain w2 where d: "cl_RemoveDB J S ?H DatabasePostgres (pg_db_uri (instance_pg i) (stamp now)) opts w1 = (Ok (), w2)"
    and v2: "pv_dbs (V w2) = (pv_dbs (V w1))(stamp now := None)"
    using cl_RemoveDB_pg[OF _ _ n stamp_not_default stamp_props(2) j cfg(1)[rule_format]] by blast
  have "pv_dbs (V w2) = ?T" unfolding v2 v using T by (simp add: fun_upd_idem_iff)
  then show ?thesis using MustCreateDB_cleanup[OF c] fr v d unfolding MustCreatePostgresDB_def by blast
qed

end
