(* ===== verification/MgEndToEnd.thy ===== *)
theory MgEndToEnd
  imports UploadRequest
begin

text \<open>
  The whole way of a mongodb creation with files: the JSON files of the client's directories become the
  collections of a new database of the instance the server knows.
\<close>

section \<open>The JSON files of a directory\<close>

text \<open>The collections and documents of the files: a file \<^verbatim>\<open>users.json\<close> is loaded into \<^verbatim>\<open>users\<close>.\<close>

definition json_scripts :: "'w sys \<Rightarrow> (string \<times> string) list \<Rightarrow> (string \<times> string list) list \<Rightarrow> bool" where
  "json_scripts S ss xs \<longleftrightarrow>
     list_all2 (\<lambda>f kd. entry_name (fst f) = fst kd @ ''.json'' \<and> json_docs (mgs S) (snd f) = Ok (snd kd)) (kept mdb_keep ss) xs"

lemma path_ext_json: "entry_name p = k @ ''.json'' \<Longrightarrow> path_ext p = ''.json''"
  by (simp add: path_ext_def entry_name_def)

lemma path_base_json:
  assumes "entry_name p = k @ ''.json''"
  shows "path_base p = k @ ''.json''"
proof -
  have ne: "splitOn slash p \<noteq> []" by (induction p) (auto split: list.splits)
  have "p = join ''/'' (butlast (splitOn slash p) @ [k @ ''.json''])"
    using assms join_splitOn[of slash p] append_butlast_last_id[OF ne] by (simp add: entry_name_def)
  then obtain q where q: "p = q @ ''n''"
  proof (cases "butlast (splitOn slash p) = []")
    case False
    then have "p = (join ''/'' (butlast (splitOn slash p)) @ ''/'' @ k @ ''.jso'') @ ''n''"
      using \<open>p = join _ _\<close> join_append[OF False, of "[k @ ''.json'']" "''/''"] by simp
    then show thesis using that by blast
  qed (use \<open>p = join _ _\<close> that[of "k @ ''.jso''"] in simp)
  then have "dropWhile (\<lambda>c. c = slash) (rev p) = rev p" by simp
  then show ?thesis using q assms by (simp add: path_base_def entry_name_def)
qed

lemma json_files_dir:
  assumes "holds_files S Q d ss" and "json_scripts S ss xs"
  shows "list_all2 (json_file S Q) (map (\<lambda>f. file_at d (fst f)) (kept mdb_keep ss)) xs"
proof -
  have "json_file S Q (file_at d (fst f)) kd"
    if f: "f \<in> set (kept mdb_keep ss)" and k: "entry_name (fst f) = fst kd @ ''.json''" "json_docs (mgs S) (snd f) = Ok (snd kd)"
    for f kd
  proof -
    have "f \<in> set ss" using f by (simp add: kept_def)
    then have "\<forall>w. Q w \<longrightarrow> readFile (os S) (file_at d (fst f)) w = Ok (snd f)"
      using assms(1) by (auto simp: holds_files_def dest: dir_filesD(7))
    moreover have "entry_name (file_at d (fst f)) = fst kd @ ''.json''" using k(1) by simp
    ultimately show ?thesis using k(2) path_ext_json path_base_json by (auto simp: json_file_def)
  qed
  then show ?thesis
    using assms(2) unfolding json_scripts_def list_all2_map1 by (rule list.rel_mono_strong[rotated]) auto
qed

section \<open>The provider\<close>

lemma mdb_CreateDB_dirs:
  assumes r: "mg_ready S V G m w" and q: "quiet_mg S Q" "\<And>w. Q w \<Longrightarrow> Q (snd (nowNano (os S) w))" "Q w"
    and d: "clean_dir md" "clean_dir fd"
    and ms: "holds_files S Q md ms" "json_scripts S ms mx" "takes G (\<lambda>_. []) mx"
    and fs: "holds_files S Q fd fs" "json_scripts S fs fx" "takes G (load (\<lambda>_. []) mx) fx"
  shows "\<exists>now w1. mdb_CreateDB S m \<lparr>rq_Migrations = md, rq_Fixtures = fd, rq_WithDefaultMigrations = False\<rparr> w =
      (Ok (mdb_db_uri m (stamp now)), w1) \<and> mv_docs (V w) (stamp now) = (\<lambda>_. []) \<and> mg_name (stamp now) \<and>
    mv_docs (V w1) = (mv_docs (V w))(stamp now := load (load (\<lambda>_. []) mx) fx) \<and> mv_conn (V w1) = mv_conn (V w)"
proof -
  have g: "request_files S Q d (map (\<lambda>f. file_at d (fst f)) (kept mdb_keep ss))"
    if "holds_files S Q d ss" "clean_dir d" for d ss
    using that mdb_getFiles_dir[of S _ d ss] by (auto simp: request_files_def holds_files_def)
  show ?thesis
    by (rule mdb_CreateDB_doc[OF r q]) (use g[OF ms(1) d(1)] g[OF fs(1) d(2)] json_files_dir[OF ms(1,2)]
      json_files_dir[OF fs(1,2)] ms(3) fs(3) in simp_all)
qed

section \<open>The client\<close>

definition instance_mdb :: "Instance \<Rightarrow> MongoDB" where
  "instance_mdb i = \<lparr>mdb_containerID = '''', mdb_cfg = mdb_default\<lparr>
     mdb_user := (if in_User i = '''' then mdb_DefaultUser else in_User i),
     mdb_pass := (if in_Pass i = '''' then mdb_DefaultPass else in_Pass i),
     mdb_name := (if in_Name i = '''' then mdb_DefaultName else in_Name i),
     mdb_port := (if in_Port i = 0 then mdb_DefaultPort else in_Port i)\<rparr>\<rparr>"

lemma create_for_mdb:
  "create_for sha S (server_request i DatabaseMongoDB md fd) =
     mdb_CreateDB S (instance_mdb i) \<lparr>rq_Migrations = md, rq_Fixtures = fd, rq_WithDefaultMigrations = False\<rparr>"
  by (rule ext) (simp add: create_for_def server_request_def createMongoDBDB_def instance_mdb_def mdb_New_def mdb_WithHost_def
      bind_def type_defs DatabaseMongoDB_def Let_def)

lemma mg_ready_view: "mg_ready S V G m w \<Longrightarrow> V w1 = V w \<Longrightarrow> mg_ready S V G m w1"
  by (simp add: mg_ready_def)

lemma cl_CreateDB_mdb:
  assumes m: "machine_doc S F D V"
    and k: "\<And>X Y. quiet_mg S (\<lambda>w. F w = X \<and> D w = Y)"
      "\<And>w. F (snd (nowNano (os S) w)) = F w \<and> D (snd (nowNano (os S) w)) = D w"
    and r: "mg_ready S V G (instance_mdb i) w" and i: "map_of (sv_instances s) DatabaseMongoDB = Some (Some i)"
    and cfg: "configFrom S opts w = Ok cfg" "files_config cfg"
    and ms: "given_files S w (cl_migrations cfg) ms" "json_scripts S ms mx" "takes G (\<lambda>_. []) mx"
    and fs: "given_files S w (cl_fixtures cfg) fs" "json_scripts S fs fx" "takes G (load (\<lambda>_. []) mx) fx"
  shows "\<exists>now w1. cl_CreateDB rx S (wire_to sha S J s (getHostURL cfg)) DatabaseMongoDB opts w =
      (Ok (mdb_db_uri (instance_mdb i) (stamp now)), w1) \<and> mv_docs (V w) (stamp now) = (\<lambda>_. []) \<and> mg_name (stamp now) \<and>
    mv_docs (V w1) = (mv_docs (V w))(stamp now := load (load (\<lambda>_. []) mx) fx)"
proof -
  let ?P = "\<lambda>u v. \<exists>now. u = mdb_db_uri (instance_mdb i) (stamp now) \<and> mv_docs (V w) (stamp now) = (\<lambda>_. []) \<and> mg_name (stamp now) \<and>
    mv_docs v = (mv_docs (V w))(stamp now := load (load (\<lambda>_. []) mx) fx)"
  have "\<exists>u w2. create_for sha S (server_request i DatabaseMongoDB md fd) w1 = (Ok u, w2) \<and> ?P u (V w2)"
    if v: "V w1 = V w" and d: "clean_dir md" "clean_dir fd" and h: "holds_files S (\<lambda>w. F w = F w1 \<and> D w = D w1) md ms"
      "holds_files S (\<lambda>w. F w = F w1 \<and> D w = D w1) fd fs" for md fd w1
    using mdb_CreateDB_dirs[OF mg_ready_view[OF r v] k(1) _ _ d h(1) ms(2,3) h(2) fs(2,3)] k(2) v
    by (auto simp: create_for_mdb)
  then have "\<exists>u w1. cl_CreateDB rx S (wire_to sha S J s (getHostURL cfg)) DatabaseMongoDB opts w = (Ok u, w1) \<and> ?P u (V w1)"
    using cl_CreateDB_files[OF m cfg ms(1) fs(1) _ i, where P = ?P and sha = sha and rx = rx and J = J] by simp
  then show ?thesis by blast
qed

section \<open>A test and its cleanup\<close>

text \<open>The server removes with the default database name, so the instance has to be one of that name.\<close>

lemma cl_RemoveDB_mdb:
  assumes up: "mg_up S V G (instance_mdb i)" and nm: "in_Name i \<in> {'''', mdb_DefaultName}" and n: "mg_name n"
    and j: "removal_sent J DatabaseMongoDB" and c: "configFrom S opts w = Ok cfg"
  shows "\<exists>w1. cl_RemoveDB J S (wire_to sha S J s (getHostURL cfg)) DatabaseMongoDB (mdb_db_uri (instance_mdb i) n) opts w =
      (Ok (), w1) \<and> mv_docs (V w1) = (mv_docs (V w))(n := (\<lambda>_. []))"
proof -
  have u: "mdb_user (mdb_cfg (instance_mdb i)) \<noteq> ''''" "mdb_name (mdb_cfg (instance_mdb i)) = mdb_DefaultName"
    using nm by (auto simp: instance_mdb_def mdb_DefaultUser_def)
  obtain w1 where d: "removeMongoDBDB S (mdb_db_uri (instance_mdb i) n) w = (Ok (), w1)"
    and v: "mv_docs (V w1) = (mv_docs (V w))(n := (\<lambda>_. []))"
    using removeMongoDBDB_doc[OF up u n] by blast
  have "mdb_db_uri (instance_mdb i) n \<noteq> ''''" by (simp add: mdb_db_uri_def url_string_def db_uri_def)
  moreover have "remove_for S DatabaseMongoDB (mdb_db_uri (instance_mdb i) n) w = (Ok (), w1)"
    using d by (simp add: remove_for_def DatabaseMongoDB_def TypeMongoDB_def TypeRedis_def TypePostgres_def)
  ultimately show ?thesis using cl_RemoveDB_sent[OF _ _ _ _ c] j v by (auto simp: removal_sent_def)
qed

lemma mdb_test_cycle:
  assumes m: "machine_doc S F D V"
    and k: "\<And>X Y. quiet_mg S (\<lambda>w. F w = X \<and> D w = Y)"
      "\<And>w. F (snd (nowNano (os S) w)) = F w \<and> D (snd (nowNano (os S) w)) = D w"
    and r: "mg_ready S V G (instance_mdb i) w" and i: "map_of (sv_instances s) DatabaseMongoDB = Some (Some i)"
    and nm: "in_Name i \<in> {'''', mdb_DefaultName}" and j: "removal_sent J DatabaseMongoDB"
    and cfg: "\<forall>w. configFrom S opts w = Ok cfg" "files_config cfg"
    and ms: "given_files S w (cl_migrations cfg) ms" "json_scripts S ms mx" "takes G (\<lambda>_. []) mx"
    and fs: "given_files S w (cl_fixtures cfg) fs" "json_scripts S fs fx" "takes G (load (\<lambda>_. []) mx) fx"
  shows "\<exists>name cleanup w1 w2.
    MustCreateMongoDB rx J S (wire_to sha S J s (getHostURL cfg)) opts w = (Ok (mdb_db_uri (instance_mdb i) name, cleanup), w1) \<and>
    mv_docs (V w) name = (\<lambda>_. []) \<and> mv_docs (V w1) = (mv_docs (V w))(name := load (load (\<lambda>_. []) mx) fx) \<and>
    cleanup w1 = (Ok (), w2) \<and> mv_docs (V w2) = mv_docs (V w)"
proof -
  let ?H = "wire_to sha S J s (getHostURL cfg)"
  obtain now w1 where c: "cl_CreateDB rx S ?H DatabaseMongoDB opts w = (Ok (mdb_db_uri (instance_mdb i) (stamp now)), w1)"
    and fr: "mv_docs (V w) (stamp now) = (\<lambda>_. [])" and n: "mg_name (stamp now)"
    and v: "mv_docs (V w1) = (mv_docs (V w))(stamp now := load (load (\<lambda>_. []) mx) fx)"
    using cl_CreateDB_mdb[OF m k r i cfg(1)[rule_format] cfg(2) ms fs, where rx = rx and J = J and sha = sha] by blast
  have "mg_up S V G (instance_mdb i)" using r by (simp add: mg_ready_def)
  then obtain w2 where d: "cl_RemoveDB J S ?H DatabaseMongoDB (mdb_db_uri (instance_mdb i) (stamp now)) opts w1 = (Ok (), w2)"
    and v2: "mv_docs (V w2) = (mv_docs (V w1))(stamp now := (\<lambda>_. []))"
    using cl_RemoveDB_mdb[OF _ nm n j cfg(1)[rule_format]] by blast
  have "mv_docs (V w2) = mv_docs (V w)" unfolding v2 v using fr by (simp add: fun_upd_idem_iff)
  then show ?thesis using MustCreateDB_cleanup[OF c] fr v d unfolding MustCreateMongoDB_def by blast
qed

end
