(* ===== verification/RedisLoad.thy ===== *)
theory RedisLoad
  imports RedisPool UploadRequest
begin

text \<open>
  Redis databases with fixtures: the commands of the fixture files are run on the new database and on
  no other, over all layers from the client's directory to the server.
\<close>

section \<open>Commands on data\<close>

text \<open>
  The addresses \<open>U\<close> of the databases, and commands \<open>K\<close> that work on the selected database only, as
  the function \<open>X\<close> says. SELECT or FLUSHALL are not of this kind.
\<close>

definition redis_data :: "'w sys \<Rightarrow> ('w \<Rightarrow> redis_view) \<Rightarrow> nat \<Rightarrow> (nat \<Rightarrow> string) \<Rightarrow> (string list \<Rightarrow> bool) \<Rightarrow>
    (string list \<Rightarrow> (string \<rightharpoonup> string) \<Rightarrow> string \<rightharpoonup> string) \<Rightarrow> bool" where
  "redis_data S V n U K X \<longleftrightarrow>
     (\<forall>w i. i < n \<longrightarrow> (\<exists>c w1. rd_dial (rds S) (U i) w = (Ok c, w1) \<and> rv_dbs (V w1) = rv_dbs (V w) \<and> rv_sel (V w1) c = i)) \<and>
     (\<forall>w c as. K as \<longrightarrow> (\<exists>r w1. rd_do (rds S) c as w = (Ok r, w1) \<and>
        V w1 = (V w)\<lparr>rv_dbs := (rv_dbs (V w))(rv_sel (V w) c := X as (rv_dbs (V w) (rv_sel (V w) c)))\<rparr>))"

lemma redis_dataD:
  assumes "redis_data S V n U K X"
  shows "i < n \<Longrightarrow> \<exists>c w1. rd_dial (rds S) (U i) w = (Ok c, w1) \<and> rv_dbs (V w1) = rv_dbs (V w) \<and> rv_sel (V w1) c = i"
    and "K as \<Longrightarrow> \<exists>r w1. rd_do (rds S) c as w = (Ok r, w1) \<and>
        V w1 = (V w)\<lparr>rv_dbs := (rv_dbs (V w))(rv_sel (V w) c := X as (rv_dbs (V w) (rv_sel (V w) c)))\<rparr>"
  using assms unfolding redis_data_def by simp_all

text \<open>What the commands of some lines make of a database; blank lines and comments are empty commands.\<close>

fun run_cmds :: "(string list \<Rightarrow> (string \<rightharpoonup> string) \<Rightarrow> string \<rightharpoonup> string) \<Rightarrow> string list list \<Rightarrow> (string \<rightharpoonup> string) \<Rightarrow>
    string \<rightharpoonup> string" where
  "run_cmds X [] m = m"
| "run_cmds X (as # cmds) m = run_cmds X cmds (if as = [] then m else X as m)"

lemma run_cmds_append: "run_cmds X (as @ bs) m = run_cmds X bs (run_cmds X as m)"
  by (induction as arbitrary: m) simp_all

lemma send_all_doc:
  assumes "redis_data S V n U K X"
  shows "\<forall>as\<in>set cmds. as \<noteq> [] \<longrightarrow> K as \<Longrightarrow> \<exists>w1. foreach (send S c) cmds w = (Ok (), w1) \<and> rv_sel (V w1) = rv_sel (V w) \<and>
    rv_dbs (V w1) = (rv_dbs (V w))(rv_sel (V w) c := run_cmds X cmds (rv_dbs (V w) (rv_sel (V w) c)))"
proof (induction cmds arbitrary: w)
  case Nil
  then show ?case by simp
next
  case (Cons as cmds)
  show ?case
  proof (cases "as = []")
    case True
    then show ?thesis using Cons by (simp add: send_def)
  next
    case False
    then obtain r w1 where d: "rd_do (rds S) c as w = (Ok r, w1)"
      and v: "V w1 = (V w)\<lparr>rv_dbs := (rv_dbs (V w))(rv_sel (V w) c := X as (rv_dbs (V w) (rv_sel (V w) c)))\<rparr>"
      using redis_dataD(2)[OF assms, of as c w] Cons.prems by auto
    obtain w2 where "foreach (send S c) cmds w1 = (Ok (), w2)" "rv_sel (V w2) = rv_sel (V w1)"
      "rv_dbs (V w2) = (rv_dbs (V w1))(rv_sel (V w1) c := run_cmds X cmds (rv_dbs (V w1) (rv_sel (V w1) c)))"
    proof -
      have "\<forall>as\<in>set cmds. as \<noteq> [] \<longrightarrow> K as" using Cons.prems by simp
      from Cons.IH[OF this, of w1] show thesis using that by blast
    qed
    moreover have "send S c as w = (Ok (), w1)" using d False by (simp add: send_def try_catch_def)
    ultimately show ?thesis using v False by (intro exI[of _ w2]) (simp add: bind_def)
  qed
qed

section \<open>Fixture files\<close>

text \<open>A text file whose lines spell the commands \<open>cmds\<close>, all of them on data.\<close>

definition spells :: "(string list \<Rightarrow> bool) \<Rightarrow> string \<Rightarrow> string list list \<Rightarrow> bool" where
  "spells K content cmds \<longleftrightarrow> list_all2 (\<lambda>l as. command_of_line l = Ok as) (splitOn (CHR 0x0A) content) cmds \<and>
     (\<forall>as\<in>set cmds. as \<noteq> [] \<longrightarrow> K as)"

definition text_fixture :: "'w sys \<Rightarrow> ('w \<Rightarrow> bool) \<Rightarrow> (string list \<Rightarrow> bool) \<Rightarrow> string \<Rightarrow> string list list \<Rightarrow> bool" where
  "text_fixture S Q K f cmds \<longleftrightarrow> \<not> equalFold (path_ext f) ''.lua'' \<and>
     (\<exists>b. (\<forall>w. Q w \<longrightarrow> readFile (os S) f w = Ok b) \<and> spells K b cmds)"

lemma apply_fixture_doc:
  assumes d: "redis_data S V n U K X" and f: "text_fixture S Q K f cmds" and "Q w"
  shows "\<exists>w1. apply_fixture S c f w = (Ok (), w1) \<and> rv_sel (V w1) = rv_sel (V w) \<and>
    rv_dbs (V w1) = (rv_dbs (V w))(rv_sel (V w) c := run_cmds X cmds (rv_dbs (V w) (rv_sel (V w) c)))"
proof -
  obtain b where b: "readFile (os S) f w = Ok b" and nl: "\<not> equalFold (path_ext f) ''.lua''" and sp: "spells K b cmds"
    using f assms(3) by (auto simp: text_fixture_def)
  obtain w1 where s: "foreach (send S c) cmds w = (Ok (), w1)" and v: "rv_sel (V w1) = rv_sel (V w)"
    "rv_dbs (V w1) = (rv_dbs (V w))(rv_sel (V w) c := run_cmds X cmds (rv_dbs (V w) (rv_sel (V w) c)))"
    using send_all_doc[OF d, of cmds c w] sp by (auto simp: spells_def)
  have "snd (applyCommands S c b w) = w1 \<and> is_ok (fst (applyCommands S c b w))"
    using apply_lines_send[of "splitOn (CHR 0x0A) b" cmds S c 0 w] sp s by (simp add: spells_def applyCommands_def)
  then have "applyCommands S c b w = (Ok (), w1)"
    by (cases "applyCommands S c b w") (auto simp: is_ok_iff)
  then show ?thesis using b nl v by (simp add: apply_fixture_def bind_def wrap_def)
qed

lemma quiet_send_lines: "quiet_rd S P \<Longrightarrow> preserves P (apply_lines S c i ls)"
proof (induction ls arbitrary: i)
  case Nil
  show ?case unfolding apply_lines.simps by (intro keeps)
next
  case (Cons l ls)
  have "preserves P (rd_do (rds S) c as)" for as using Cons.prems by (simp add: quiet_rd_def)
  then show ?case unfolding apply_lines.simps by (intro keeps Cons.IH[OF Cons.prems])
qed

lemma quiet_apply_fixture:
  assumes q: "quiet_rd S P"
  shows "preserves P (apply_fixture S c f)"
proof -
  have "preserves P (rd_eval (rds S) c q)" for q using q by (simp add: quiet_rd_def)
  then show ?thesis unfolding apply_fixture_def applyCommands_def by (intro keeps quiet_send_lines[OF q])
qed

lemma apply_fixtures_doc:
  assumes d: "redis_data S V n U K X" and q: "quiet_rd S Q"
  shows "list_all2 (text_fixture S Q K) files css \<Longrightarrow> Q w \<Longrightarrow>
    \<exists>w1. rs_applyFixtures S c files w = (Ok (), w1) \<and> rv_sel (V w1) = rv_sel (V w) \<and>
      rv_dbs (V w1) = (rv_dbs (V w))(rv_sel (V w) c := run_cmds X (concat css) (rv_dbs (V w) (rv_sel (V w) c)))"
proof (induction files css arbitrary: w rule: list_all2_induct)
  case Nil
  then show ?case by (simp add: rs_applyFixtures_def)
next
  case (Cons f files cmds css)
  obtain w1 where a: "apply_fixture S c f w = (Ok (), w1)" and v: "rv_sel (V w1) = rv_sel (V w)"
    "rv_dbs (V w1) = (rv_dbs (V w))(rv_sel (V w) c := run_cmds X cmds (rv_dbs (V w) (rv_sel (V w) c)))"
    using apply_fixture_doc[OF d Cons.hyps(1) Cons.prems] by blast
  have "Q w1" by (rule stays[OF quiet_apply_fixture[OF q] Cons.prems a])
  from Cons.IH[OF this] obtain w2 where "rs_applyFixtures S c files w1 = (Ok (), w2)" "rv_sel (V w2) = rv_sel (V w1)"
    "rv_dbs (V w2) = (rv_dbs (V w1))(rv_sel (V w1) c := run_cmds X (concat css) (rv_dbs (V w1) (rv_sel (V w1) c)))"
    by blast
  then show ?case using a v by (intro exI[of _ w2]) (simp add: rs_applyFixtures_def bind_def run_cmds_append)
qed

section \<open>CreateDB with fixtures\<close>

text \<open>The databases after index \<open>k\<close> was handed out and the commands were run on it.\<close>

definition load_db :: "(string list \<Rightarrow> (string \<rightharpoonup> string) \<Rightarrow> string \<rightharpoonup> string) \<Rightarrow> nat \<Rightarrow> string list list \<Rightarrow>
    (nat \<Rightarrow> string \<rightharpoonup> string) \<Rightarrow> nat \<Rightarrow> string \<rightharpoonup> string" where
  "load_db X k cmds dbs = (claim_db k dbs)(k := run_cmds X cmds Map.empty)"

lemma rs_CreateDB_fixtures:
  assumes r: "rs_ready S V n p" and d: "redis_data S V n U K X" and u: "\<And>w k. rs_URI S (rs_db_of p k) w = U k"
    and q: "quiet_rd S Q" "Q w" and dir: "rq_Fixtures rq \<noteq> ''''"
    and files: "\<forall>w. Q w \<longrightarrow> rs_getFiles S (rq_Fixtures rq) w = Ok files" "list_all2 (text_fixture S Q K) files css"
    and k: "first_free n (V w) = Some k"
  shows "\<exists>w1. rs_CreateDB S p (Some rq) w = (Ok (rs_db_uri p k), w1) \<and>
    rv_dbs (V w1) = load_db X k (concat css) (rv_dbs (V w))"
proof -
  obtain uri where doc: "redis_doc S V n uri" and n: "2 \<le> n" "n < 2 ^ 63" and pu: "plain_user p"
    using r by (auto simp: rs_ready_def)
  have kn: "0 < k" "k < n" using k by (simp_all add: first_free_Some)
  obtain c w1 where d1: "rd_dial (rds S) (rs_adminURI S p w) w = (Ok c, w1)"
    and v1: "rv_dbs (V w1) = rv_dbs (V w)" "rv_sel (V w1) c = 0"
    using rs_dial_ready[OF r] by blast
  have ff: "first_free n (V w1) = Some k"
    using claimed_dbs[OF v1(1)] k by (simp add: first_free_def)
  obtain w2 where a: "acquireDBIndex S c w1 = (Ok (int k), w2)" and v2: "rv_dbs (V w2) = claim_db k (rv_dbs (V w))"
    using acquireDBIndex_doc[OF doc n v1(2)] unfolding ff v1(1) by auto
  have "preserves Q (rd_dial (rds S) x)" for x using q(1) by (simp add: quiet_rd_def)
  note kd = stays[OF this]
  have "Q w1" by (rule kd[OF q(2) d1])
  then have k2: "Q w2" by (rule stays[OF quiet_acquireDBIndex[OF q(1)] _ a])
  obtain w3 where f: "rs_applyFixturesTo S (U k) files w2 = (Ok (), w3)"
    and v3: "rv_dbs (V w3) = load_db X k (concat css) (rv_dbs (V w))"
  proof (cases "files = []")
    case True
    then have "css = []" using files(2) by simp
    moreover have "claim_db k D = (claim_db k D)(k := Map.empty)" for D by (simp add: claim_db_def)
    ultimately show thesis using that[of w2] True v2 by (simp add: rs_applyFixturesTo_def load_db_def)
  next
    case False
    obtain c2 w4 where d4: "rd_dial (rds S) (U k) w2 = (Ok c2, w4)" and v4: "rv_dbs (V w4) = rv_dbs (V w2)" "rv_sel (V w4) c2 = k"
      using redis_dataD(1)[OF d kn(2)] by blast
    have "Q w4" by (rule kd[OF k2 d4])
    from apply_fixtures_doc[OF d q(1) files(2) this]
    obtain w5 where a5: "rs_applyFixtures S c2 files w4 = (Ok (), w5)"
      and v5: "rv_dbs (V w5) = (rv_dbs (V w4))(k := run_cmds X (concat css) (rv_dbs (V w4) k))"
      using v4(2) by metis
    have "rv_dbs (V (rd_close (rds S) c2 w5)) = load_db X k (concat css) (rv_dbs (V w))"
      using v5 v4(1) v2 by (simp add: redis_close[OF doc] load_db_def claim_db_def)
    then show thesis
      using that[of "rd_close (rds S) c2 w5"] d4 a5 False by (simp add: rs_applyFixturesTo_def bind_def with_defer_def)
  qed
  have "rv_dbs (V (rd_close (rds S) c w3)) = rv_dbs (V w3)" by (rule redis_close[OF doc])
  moreover have "rs_CreateDB S p (Some rq) w = (Ok (rs_db_uri p k), rd_close (rds S) c w3)"
    unfolding rs_CreateDB_def using d1 a f dir files(1) k2 pu rs_db_of_uri[OF pu, of S _ k]
    by (simp add: bind_def with_defer_def wrap_def rs_New_db u)
  ultimately show ?thesis using v3 by simp
qed

section \<open>The client\<close>

text \<open>The fixtures of a directory, in the order in which they run, and the commands they spell.\<close>

definition fixture_scripts :: "(string list \<Rightarrow> bool) \<Rightarrow> (string \<times> string) list \<Rightarrow> string list list list \<Rightarrow> bool" where
  "fixture_scripts K ss css \<longleftrightarrow>
     list_all2 (\<lambda>f cmds. \<not> equalFold (path_ext (fst f)) ''.lua'' \<and> spells K (snd f) cmds) (kept rs_keep ss) css"

lemma path_ext_at [simp]: "path_ext (file_at d r) = path_ext r"
  by (simp add: path_ext_def entry_name_at[unfolded entry_name_def])

lemma text_fixtures_dir:
  assumes "holds_files S Q d ss" and "fixture_scripts K ss css"
  shows "list_all2 (text_fixture S Q K) (map (\<lambda>f. file_at d (fst f)) (kept rs_keep ss)) css"
proof -
  have "text_fixture S Q K (file_at d (fst f)) cmds"
    if f: "f \<in> set (kept rs_keep ss)" and k: "\<not> equalFold (path_ext (fst f)) ''.lua''" "spells K (snd f) cmds" for f cmds
  proof -
    have "f \<in> set ss" using f by (simp add: kept_def)
    then have "\<forall>w. Q w \<longrightarrow> readFile (os S) (file_at d (fst f)) w = Ok (snd f)"
      using assms(1) by (auto simp: holds_files_def dest: dir_filesD(7))
    then show ?thesis using k by (auto simp: text_fixture_def)
  qed
  then show ?thesis
    using assms(2) unfolding fixture_scripts_def list_all2_map1 by (rule list.rel_mono_strong[rotated]) auto
qed

lemma create_for_redis:
  "create_for sha S (server_request i DatabaseRedis md fd) =
     rs_CreateDB S (instance_redis i) (Some \<lparr>rq_Migrations = '''', rq_Fixtures = fd, rq_WithDefaultMigrations = False\<rparr>)"
  by (rule ext) (auto simp: create_for_def server_request_def createRedisDB_def instance_redis_def rs_New_def rs_WithHost_def
      bind_def type_defs DatabaseRedis_def Let_def)

lemma cl_CreateDB_redis_files:
  assumes m: "machine_doc S F D V" and k: "\<And>X Y. quiet_rd S (\<lambda>w. F w = X \<and> D w = Y)"
    and r: "rs_ready S V n (instance_redis i)" and d: "redis_data S V n U K X"
    and u: "\<And>w j. rs_URI S (rs_db_of (instance_redis i) j) w = U j"
    and i: "map_of (sv_instances s) DatabaseRedis = Some (Some i)"
    and cfg: "configFrom S opts w = Ok cfg" "files_config cfg"
    and ms: "given_files S w (cl_migrations cfg) ms"
    and fs: "given_files S w (cl_fixtures cfg) fs" "fixture_scripts K fs css"
    and j: "first_free n (V w) = Some j"
  shows "\<exists>w1. cl_CreateDB rx S (wire_to sha S J s (getHostURL cfg)) DatabaseRedis opts w =
      (Ok (rs_db_uri (instance_redis i) j), w1) \<and> rv_dbs (V w1) = load_db X j (concat css) (rv_dbs (V w))"
proof -
  let ?P = "\<lambda>u v. u = rs_db_uri (instance_redis i) j \<and> rv_dbs v = load_db X j (concat css) (rv_dbs (V w))"
  have "\<exists>u w2. create_for sha S (server_request i DatabaseRedis md fd) w1 = (Ok u, w2) \<and> ?P u (V w2)"
    if v: "V w1 = V w" and c: "clean_dir fd" and h: "holds_files S (\<lambda>w. F w = F w1 \<and> D w = D w1) fd fs" for md fd w1
  proof -
    let ?rq = "\<lparr>rq_Migrations = '''', rq_Fixtures = fd, rq_WithDefaultMigrations = False\<rparr>"
    have "rq_Fixtures ?rq \<noteq> ''''" using c by auto
    moreover have "\<forall>w. F w = F w1 \<and> D w = D w1 \<longrightarrow>
        rs_getFiles S (rq_Fixtures ?rq) w = Ok (map (\<lambda>f. file_at fd (fst f)) (kept rs_keep fs))"
      using h rs_getFiles_dir[of S _ fd fs] by (simp add: holds_files_def)
    ultimately show ?thesis
      using rs_CreateDB_fixtures[OF r d u k _ _ _ text_fixtures_dir[OF h fs(2)], of w1 ?rq j] j v by (auto simp: create_for_redis)
  qed
  then have "\<exists>u w1. cl_CreateDB rx S (wire_to sha S J s (getHostURL cfg)) DatabaseRedis opts w = (Ok u, w1) \<and> ?P u (V w1)"
    using cl_CreateDB_files[OF m cfg ms fs(1) _ i, where P = ?P and sha = sha and rx = rx and J = J] by simp
  then show ?thesis by simp
qed

text \<open>The commands touch the database itself only, so giving it back restores the claims.\<close>

lemma redis_test_cycle:
  assumes m: "machine_doc S F D V" and k: "\<And>X Y. quiet_rd S (\<lambda>w. F w = X \<and> D w = Y)"
    and r: "rs_ready S V n (instance_redis i)" and d: "redis_data S V n U K X"
    and u: "\<And>w j. rs_URI S (rs_db_of (instance_redis i) j) w = U j"
    and i: "map_of (sv_instances s) DatabaseRedis = Some (Some i)"
    and kept: "rs_credentials_kept (rs_cfg (instance_redis i))" and j: "removal_sent J DatabaseRedis"
    and cfg: "\<forall>w. configFrom S opts w = Ok cfg" "files_config cfg"
    and ms: "given_files S w (cl_migrations cfg) ms"
    and fs: "given_files S w (cl_fixtures cfg) fs" "fixture_scripts K fs css"
    and free: "\<not> {0<..<n} \<subseteq> claimed_in (V w)"
  shows "\<exists>k cleanup w1 w2.
    MustCreateRedisDB rx J S (wire_to sha S J s (getHostURL cfg)) opts w = (Ok (rs_db_uri (instance_redis i) k, cleanup), w1) \<and>
    0 < k \<and> k < n \<and> k \<notin> claimed_in (V w) \<and> claimed_in (V w1) = insert k (claimed_in (V w)) \<and>
    rv_dbs (V w1) k = run_cmds X (concat css) Map.empty \<and> (\<forall>l. 0 < l \<longrightarrow> l \<noteq> k \<longrightarrow> rv_dbs (V w1) l = rv_dbs (V w) l) \<and>
    cleanup w1 = (Ok (), w2) \<and> claimed_in (V w2) = claimed_in (V w) \<and> rv_dbs (V w2) k = Map.empty \<and>
    (\<forall>l. 0 < l \<longrightarrow> l \<noteq> k \<longrightarrow> rv_dbs (V w2) l = rv_dbs (V w) l)"
proof -
  let ?H = "wire_to sha S J s (getHostURL cfg)" and ?u = "rs_db_uri (instance_redis i)"
  obtain k where f: "first_free n (V w) = Some k" using free first_free_None[of n "V w"] by (cases "first_free n (V w)") auto
  then have kn: "0 < k" "k < n" "k \<notin> claimed_in (V w)" by (simp_all add: first_free_Some)
  obtain w1 where c: "cl_CreateDB rx S ?H DatabaseRedis opts w = (Ok (?u k), w1)"
    and v: "rv_dbs (V w1) = load_db X k (concat css) (rv_dbs (V w))"
    using cl_CreateDB_redis_files[OF m assms(2) r d u i cfg(1)[rule_format] cfg(2) ms fs f, where rx = rx and J = J] by blast
  obtain w2 where e: "cl_RemoveDB J S ?H DatabaseRedis (?u k) opts w1 = (Ok (), w2)"
    and v2: "rv_dbs (V w2) = release_db k (rv_dbs (V w1))"
    using cl_RemoveDB_redis[OF r kept kn(1,2) _ cfg(1)[rule_format], where J = J and w = w1 and sha = sha] j by (auto simp: removal_sent_def)
  have c1: "claimed_in (V w1) = insert k (claimed_in (V w))"
    using v kn(1) by (auto simp: claimed_in_def load_db_def claim_db_def)
  have c2: "claimed_in (V w2) = claimed_in (V w)"
    using v v2 kn by (auto simp: claimed_in_def load_db_def claim_db_def release_db_def split: if_splits)
  have o1: "rv_dbs (V w1) k = run_cmds X (concat css) Map.empty" "\<forall>l. 0 < l \<longrightarrow> l \<noteq> k \<longrightarrow> rv_dbs (V w1) l = rv_dbs (V w) l"
    using v by (simp_all add: load_db_def claim_db_def)
  have o2: "rv_dbs (V w2) k = Map.empty" "\<forall>l. 0 < l \<longrightarrow> l \<noteq> k \<longrightarrow> rv_dbs (V w2) l = rv_dbs (V w) l"
    using v v2 by (simp_all add: load_db_def claim_db_def release_db_def)
  show ?thesis
    using MustCreateDB_cleanup[OF c] kn c1 o1 e c2 o2 unfolding MustCreateRedisDB_def by blast
qed

end
