(* ===== verification/Pflag.thy ===== *)
theory Pflag
  imports GoURL
begin

text \<open>
  The flags of a command: the part of the package \<^verbatim>\<open>pflag\<close> (vendored under
  \<^verbatim>\<open>vendor/github.com/spf13/pflag\<close>) that the commands use. A flag set is a list of declarations; the
  values that were set live in a state of their own and stay there from one parse to the next.
\<close>

section \<open>Numbers with a base prefix\<close>

text \<open>
  \<^verbatim>\<open>strconv.ParseUint(s, 0, bits)\<close> and \<^verbatim>\<open>ParseInt(s, 0, 64)\<close>. Beside the error they return a number,
  which the flag keeps.
\<close>

definition letter_in :: "char \<Rightarrow> string \<Rightarrow> bool" where
  "letter_in c cs \<longleftrightarrow> c \<in> set cs"

definition byte_digit :: "char \<Rightarrow> nat option" where
  "byte_digit c = (let n = of_char c :: nat in
     if is_digit c then Some (n - 48)
     else if 97 \<le> n \<and> n \<le> 122 then Some (n - 87)
     else if 65 \<le> n \<and> n \<le> 90 then Some (n - 55)
     else None)"

fun scan_uint :: "nat \<Rightarrow> nat \<Rightarrow> nat \<Rightarrow> string \<Rightarrow> nat \<times> go_error option" where
  "scan_uint base maxVal n [] = (n, None)"
| "scan_uint base maxVal n (c # s) =
     (if c = CHR ''_'' then scan_uint base maxVal n s
      else case byte_digit c of
          None \<Rightarrow> (0, Some err_syntax)
        | Some d \<Rightarrow>
            if base \<le> d then (0, Some err_syntax)
            else if maxVal < base * n + d then (maxVal, Some err_range)
            else scan_uint base maxVal (base * n + d) s)"

fun underscore_scan :: "bool \<Rightarrow> char \<Rightarrow> string \<Rightarrow> bool" where
  "underscore_scan hex saw [] = (saw \<noteq> CHR ''_'')"
| "underscore_scan hex saw (c # s) =
     (if is_digit c \<or> (hex \<and> letter_in c ''abcdefABCDEF'') then underscore_scan hex (CHR ''0'') s
      else if c = CHR ''_'' then saw = CHR ''0'' \<and> underscore_scan hex (CHR ''_'') s
      else saw \<noteq> CHR ''_'' \<and> underscore_scan hex (CHR ''!'') s)"

definition underscoreOK :: "string \<Rightarrow> bool" where
  "underscoreOK s0 =
     (let s = (if s0 \<noteq> [] \<and> letter_in (hd s0) ''-+'' then tl s0 else s0) in
      if 2 \<le> length s \<and> hd s = CHR ''0'' \<and> letter_in (s ! 1) ''bBoOxX''
      then underscore_scan (letter_in (s ! 1) ''xX'') (CHR ''0'') (drop 2 s)
      else underscore_scan False (CHR ''^'') s)"

definition base_of :: "string \<Rightarrow> nat \<times> string" where
  "base_of s =
     (if hd s \<noteq> CHR ''0'' then (10, s)
      else if 3 \<le> length s \<and> letter_in (s ! 1) ''bB'' then (2, drop 2 s)
      else if 3 \<le> length s \<and> letter_in (s ! 1) ''oO'' then (8, drop 2 s)
      else if 3 \<le> length s \<and> letter_in (s ! 1) ''xX'' then (16, drop 2 s)
      else (8, drop 1 s))"

definition parseUint0 :: "nat \<Rightarrow> string \<Rightarrow> nat \<times> go_error option" where
  "parseUint0 bits s =
     (if s = [] then (0, Some err_syntax)
      else case base_of s of (base, body) \<Rightarrow>
        (case scan_uint base (2 ^ bits - 1) 0 body of
           (n, None) \<Rightarrow> if CHR ''_'' \<in> set body \<and> \<not> underscoreOK s then (0, Some err_syntax) else (n, None)
         | r \<Rightarrow> r))"

definition parseInt0 :: "string \<Rightarrow> int \<times> go_error option" where
  "parseInt0 s =
     (if s = [] then (0, Some err_syntax)
      else
        let neg = hd s = CHR ''-'';
            body = (if letter_in (hd s) ''+-'' then tl s else s)
        in case parseUint0 64 body of (un, e) \<Rightarrow>
          if e \<noteq> None \<and> e \<noteq> Some err_range then (0, e)
          else if \<not> neg \<and> 2 ^ 63 \<le> un then (2 ^ 63 - 1, Some err_range)
          else if neg \<and> 2 ^ 63 < un then (- (2 ^ 63), Some err_range)
          else (if neg then - int un else int un, None))"

section \<open>Flags\<close>

datatype fvalue = FString string | FBool bool | FUint32 u32 | FInt int

record flag_decl =
  fd_name :: string
  fd_short :: string
  fd_value :: fvalue

text \<open>The value of a flag that is given without one; only a boolean flag has it.\<close>

definition NoOptDefVal :: "flag_decl \<Rightarrow> string" where
  "NoOptDefVal d = (case fd_value d of FBool b \<Rightarrow> ''true'' | _ \<Rightarrow> '''')"

text \<open>
  \<^verbatim>\<open>Value.Set\<close> of the four types. A boolean or a number is overwritten also by a value that cannot be
  read: by the number that comes with the error.
\<close>

fun set_value :: "fvalue \<Rightarrow> string \<Rightarrow> fvalue \<times> go_error option" where
  "set_value (FString x) s = (FString s, None)"
| "set_value (FBool x) s = (case parseBool s of Ok b \<Rightarrow> (FBool b, None) | Err e \<Rightarrow> (FBool False, Some e)
     | Panic p \<Rightarrow> (FBool False, None))"
| "set_value (FUint32 x) s = (case parseUint0 32 s of (n, e) \<Rightarrow> (FUint32 (of_nat n), e))"
| "set_value (FInt x) s = (case parseInt0 s of (n, e) \<Rightarrow> (FInt n, e))"

text \<open>A flag is known by the command that declares it and its name; a flag set may hold flags of several.\<close>

type_synonym cmd_path = "string list"
type_synonym flag_ref = "cmd_path \<times> flag_decl"
type_synonym flag_set = "flag_ref list"

record cli_state =
  pf_vals :: "cmd_path \<times> string \<Rightarrow> fvalue option"
  pf_sets :: "cmd_path \<Rightarrow> flag_set option"

definition flag_value :: "cli_state \<Rightarrow> flag_ref \<Rightarrow> fvalue" where
  "flag_value st f = (case f of (p, d) \<Rightarrow>
     (case pf_vals st (p, fd_name d) of Some v \<Rightarrow> v | None \<Rightarrow> fd_value d))"

definition flag_title :: "flag_decl \<Rightarrow> string" where
  "flag_title d = (if fd_short d \<noteq> '''' then ''-'' @ fd_short d @ '', --'' @ fd_name d else ''--'' @ fd_name d)"

definition Set :: "flag_ref \<times> string \<Rightarrow> (unit, cli_state) action" where
  "Set fs st = (case fs of ((p, d), s) \<Rightarrow>
     (case set_value (fd_value d) s of (v, e) \<Rightarrow>
       (case e of None \<Rightarrow> Ok ()
          | Some e \<Rightarrow> Err (Errorf ''invalid argument %q for %q flag: %v'' [s, flag_title d, error_text e]),
        st\<lparr>pf_vals := (pf_vals st)((p, fd_name d) \<mapsto> v)\<rparr>)))"

definition Lookup :: "flag_set \<Rightarrow> string \<Rightarrow> flag_ref option" where
  "Lookup fs name = List.find (\<lambda>f. fd_name (snd f) = name) fs"

definition ShorthandLookup :: "flag_set \<Rightarrow> char \<Rightarrow> flag_ref option" where
  "ShorthandLookup fs c = List.find (\<lambda>f. fd_short (snd f) = [c]) fs"

text \<open>Adding a flag panics when its name or its shorthand is taken.\<close>

definition AddFlag :: "flag_set \<Rightarrow> flag_ref \<Rightarrow> flag_set res" where
  "AddFlag fs f =
     (if Lookup fs (fd_name (snd f)) \<noteq> None then Panic ''flag redefined''
      else if fd_short (snd f) = '''' then Ok (fs @ [f])
      else if length (fd_short (snd f)) > 1 then Panic ''shorthand is more than one ASCII character''
      else if ShorthandLookup fs (hd (fd_short (snd f))) \<noteq> None then Panic ''unable to redefine shorthand''
      else Ok (fs @ [f]))"

fun AddFlagSet :: "flag_set \<Rightarrow> flag_set \<Rightarrow> flag_set res" where
  "AddFlagSet fs [] = Ok fs"
| "AddFlagSet fs (f # newSet) =
     (if Lookup fs (fd_name (snd f)) = None then bind_res (AddFlag fs f) (\<lambda>fs. AddFlagSet fs newSet)
      else AddFlagSet fs newSet)"

section \<open>Parsing\<close>

definition ErrHelp :: go_error where
  "ErrHelp = Sentinel ''pflag: help requested''"

text \<open>
  What an argument that starts with a dash sets: flags with their values, and whether the argument
  after it was used up as a value.
\<close>

definition parseLongArg :: "flag_set \<Rightarrow> string \<Rightarrow> string list \<Rightarrow> (flag_ref \<times> string) list \<times> bool res" where
  "parseLongArg fs s args =
     (let name = drop 2 s in
      if name = [] \<or> hd name = CHR ''-'' \<or> hd name = CHR ''='' then ([], Err (Errorf ''bad flag syntax: %s'' [s]))
      else case str_cut (CHR ''='') name of (key, val) \<Rightarrow>
        (case Lookup fs key of
           None \<Rightarrow> ([], Err (if key = ''help'' then ErrHelp else Errorf ''unknown flag: --%s'' [key]))
         | Some f \<Rightarrow>
             if CHR ''='' \<in> set name then ([(f, val)], Ok False)
             else if NoOptDefVal (snd f) \<noteq> '''' then ([(f, NoOptDefVal (snd f))], Ok False)
             else case args of
                 a # _ \<Rightarrow> ([(f, a)], Ok True)
               | [] \<Rightarrow> ([], Err (Errorf ''flag needs an argument: %s'' [s]))))"

text \<open>The letters after a single dash; a flag that takes a value takes the letters that are left.\<close>

fun parseShortArg :: "flag_set \<Rightarrow> string \<Rightarrow> string list \<Rightarrow> (flag_ref \<times> string) list \<times> bool res" where
  "parseShortArg fs [] args = ([], Ok False)"
| "parseShortArg fs (c # cs) args =
     (if hasPrefix (c # cs) ''test.'' then ([], Ok False)
      else case ShorthandLookup fs c of
        None \<Rightarrow> ([], Err (if c = CHR ''h'' then ErrHelp else Errorf ''unknown shorthand flag: %q in -%s'' [[c], c # cs]))
      | Some f \<Rightarrow>
          if 1 < length cs \<and> hd cs = CHR ''='' then ([(f, tl cs)], Ok False)
          else if NoOptDefVal (snd f) \<noteq> '''' then
            (case parseShortArg fs cs args of (sets, r) \<Rightarrow> ((f, NoOptDefVal (snd f)) # sets, r))
          else if cs \<noteq> [] then ([(f, cs)], Ok False)
          else case args of
              a # _ \<Rightarrow> ([(f, a)], Ok True)
            | [] \<Rightarrow> ([], Err (Errorf ''flag needs an argument: %q in -%s'' [[c], c # cs])))"

text \<open>
  A list of arguments: the flags it sets in their order, then the arguments that are left over or the
  error that ends the parse. Without \<open>interspersed\<close> the flags end at the first other argument.
\<close>

fun parseArgs :: "bool \<Rightarrow> flag_set \<Rightarrow> string list \<Rightarrow> (flag_ref \<times> string) list \<times> string list res" where
  "parseArgs interspersed fs [] = ([], Ok [])"
| "parseArgs interspersed fs (s # args) =
     (if length s < 2 \<or> hd s \<noteq> CHR ''-'' then
        (if \<not> interspersed then ([], Ok (s # args))
         else case parseArgs interspersed fs args of (sets, r) \<Rightarrow> (sets, bind_res r (\<lambda>out. Ok (s # out))))
      else if s = ''--'' then ([], Ok args)
      else case (if s ! 1 = CHR ''-'' then parseLongArg fs s args else parseShortArg fs (tl s) args) of
          (sets, Ok used) \<Rightarrow>
            (case parseArgs interspersed fs (drop (if used then 1 else 0) args) of (sets2, r) \<Rightarrow> (sets @ sets2, r))
        | (sets, Err e) \<Rightarrow> (sets, Err e)
        | (sets, Panic p) \<Rightarrow> (sets, Panic p))"

text \<open>\<^verbatim>\<open>FlagSet.Parse\<close>: a value that cannot be set ends the parse before anything after it.\<close>

definition Parse :: "bool \<Rightarrow> flag_set \<Rightarrow> string list \<Rightarrow> (string list, cli_state) action" where
  "Parse interspersed fs args =
     (case parseArgs interspersed fs args of (sets, r) \<Rightarrow> bind (foreach Set sets) (\<lambda>_. lift_res r))"

section \<open>Reading\<close>

fun value_type :: "fvalue \<Rightarrow> string" where
  "value_type (FString s) = ''string''"
| "value_type (FBool b) = ''bool''"
| "value_type (FUint32 n) = ''uint32''"
| "value_type (FInt n) = ''int''"

definition getFlagType :: "flag_set \<Rightarrow> cli_state \<Rightarrow> string \<Rightarrow> string \<Rightarrow> fvalue res" where
  "getFlagType fs st name ftype =
     (case Lookup fs name of
        None \<Rightarrow> Err (Errorf ''flag accessed but not defined: %s'' [name])
      | Some f \<Rightarrow>
          if value_type (flag_value st f) \<noteq> ftype
          then Err (Errorf ''trying to get %s value of flag of type %s'' [ftype, value_type (flag_value st f)])
          else Ok (flag_value st f))"

definition GetString :: "flag_set \<Rightarrow> cli_state \<Rightarrow> string \<Rightarrow> string res" where
  "GetString fs st name = bind_res (getFlagType fs st name ''string'') (\<lambda>v. case v of FString s \<Rightarrow> Ok s)"

definition GetBool :: "flag_set \<Rightarrow> cli_state \<Rightarrow> string \<Rightarrow> bool res" where
  "GetBool fs st name = bind_res (getFlagType fs st name ''bool'') (\<lambda>v. case v of FBool b \<Rightarrow> Ok b)"

definition GetUint32 :: "flag_set \<Rightarrow> cli_state \<Rightarrow> string \<Rightarrow> u32 res" where
  "GetUint32 fs st name = bind_res (getFlagType fs st name ''uint32'') (\<lambda>v. case v of FUint32 n \<Rightarrow> Ok n)"

definition GetInt :: "flag_set \<Rightarrow> cli_state \<Rightarrow> string \<Rightarrow> int res" where
  "GetInt fs st name = bind_res (getFlagType fs st name ''int'') (\<lambda>v. case v of FInt n \<Rightarrow> Ok n)"

section \<open>Numbers read back\<close>

lemma byte_digit_digit: "is_digit c \<Longrightarrow> byte_digit c = Some (digit_val c)"
  by (simp add: byte_digit_def digit_val_def)

lemma scan_uint_digits:
  "parse_digits (2 ^ bits) n s = Ok m \<Longrightarrow> scan_uint 10 (2 ^ bits - 1) n s = (m, None)"
proof (induction s arbitrary: n)
  case Nil
  then show ?case by simp
next
  case (Cons c s)
  then have c: "is_digit c" "10 * n + digit_val c < 2 ^ bits" by (auto split: if_splits)
  moreover have "digit_val c < 10" using c(1) by (auto simp: is_digit_def digit_val_def Let_def)
  moreover have "c \<noteq> CHR ''_''" using c(1) by (auto simp: is_digit_def)
  ultimately show ?case using Cons by (auto simp: byte_digit_digit)
qed

lemma formatUint_leading: "0 < n \<Longrightarrow> hd (formatUint n) \<noteq> CHR ''0''"
proof (induction n rule: formatUint.induct)
  case (1 n)
  show ?case
  proof (cases "n < 10")
    case True
    then have "digit_val (digit_char n) = n" by (rule digit_char_props)
    moreover have "digit_val (CHR ''0'') = 0" by code_simp
    ultimately have "digit_char n \<noteq> CHR ''0''" using 1(2) by auto
    then show ?thesis using True by (subst formatUint.simps) simp
  next
    case False
    then show ?thesis using 1 by (subst formatUint.simps) simp
  qed
qed

lemma parseUint0_formatUint [simp]:
  assumes "n < 2 ^ bits"
  shows "parseUint0 bits (formatUint n) = (n, None)"
proof (cases "n = 0")
  case True
  have "base_of ''0'' = (8, [])" by code_simp
  then show ?thesis using True by (simp add: parseUint0_def formatUint_0)
next
  case False
  then have "base_of (formatUint n) = (10, formatUint n)" using formatUint_leading[of n] by (simp add: base_of_def)
  moreover have "CHR ''_'' \<notin> set (formatUint n)" using formatUint_no[of "CHR ''_''" n "CHR ''_''"] by (auto simp: is_digit_def)
  ultimately show ?thesis
    using scan_uint_digits[OF parse_formatUint[OF assms]] by (simp add: parseUint0_def)
qed

end
