(* ===== verification/CommandLine.thy ===== *)
theory CommandLine
  imports Cmd Pflag Selfupdate
begin

text \<open>
  From the words of the command line to the run function of a command: the tree of commands that
  \<^verbatim>\<open>main.go\<close> builds, with the flags they declare, and the part of the package \<^verbatim>\<open>cobra\<close> (vendored under
  \<^verbatim>\<open>vendor/github.com/spf13/cobra\<close>) that finds a command, parses its flags and runs it. The values
  of flags and the merged flag sets are a state that one run leaves to the next: \<^verbatim>\<open>testing\<close> runs several
  commands in one process.
\<close>

section \<open>Commands\<close>

text \<open>The run functions; the last three belong to the commands that \<^verbatim>\<open>cobra\<close> adds itself.\<close>

datatype runner = RunPostgres | RunRedis | RunMongoDB | RunStop | RunList | RunSelfUpdate | RunAPIServer
  | RunDescribePostgres | RunTesting | RunHelp | RunCompletion | RunComplete

datatype command = Command
  (cm_Use: string) (cm_Version: string) (cm_Aliases: "string list")
  (cm_Flags: "flag_decl list") (cm_PersistentFlags: "flag_decl list") (cm_Interspersed: bool)
  (cm_Run: "runner option") (cm_Commands: "command list")

definition cm_Name :: "command \<Rightarrow> string" where
  "cm_Name c = takeWhile (\<lambda>b. b \<noteq> CHR '' '') (cm_Use c)"

definition StringP :: "string \<Rightarrow> string \<Rightarrow> string \<Rightarrow> flag_decl" where
  "StringP name short value = \<lparr>fd_name = name, fd_short = short, fd_value = FString value\<rparr>"

definition BoolP :: "string \<Rightarrow> string \<Rightarrow> bool \<Rightarrow> flag_decl" where
  "BoolP name short value = \<lparr>fd_name = name, fd_short = short, fd_value = FBool value\<rparr>"

definition Uint32P :: "string \<Rightarrow> string \<Rightarrow> u32 \<Rightarrow> flag_decl" where
  "Uint32P name short value = \<lparr>fd_name = name, fd_short = short, fd_value = FUint32 value\<rparr>"

definition IntP :: "string \<Rightarrow> string \<Rightarrow> int \<Rightarrow> flag_decl" where
  "IntP name short value = \<lparr>fd_name = name, fd_short = short, fd_value = FInt value\<rparr>"

lemmas flag_makers = StringP_def BoolP_def Uint32P_def IntP_def

section \<open>The commands of the program\<close>

definition GetPgCmd :: command where
  "GetPgCmd = Command ''postgres'' '''' [''pg'']
     [Uint32P ''port'' ''p'' pg_DefaultPort, StringP ''user'' ''u'' pg_DefaultUser, StringP ''pass'' '''' pg_DefaultPass,
      StringP ''name'' ''n'' pg_DefaultName, StringP ''version'' ''v'' '''', StringP ''migrations'' ''m'' '''',
      StringP ''fixtures'' ''f'' '''']
     [] True (Some RunPostgres) []"

definition GetRedisCmd :: command where
  "GetRedisCmd = Command ''redis'' '''' [''rs'']
     [Uint32P ''port'' ''p'' rs_DefaultPort, IntP ''db'' '''' 0, StringP ''user'' ''u'' '''', StringP ''pass'' '''' '''',
      StringP ''version'' ''v'' '''', StringP ''fixtures'' ''f'' '''']
     [] True (Some RunRedis) []"

definition GetMongoDBCmd :: command where
  "GetMongoDBCmd = Command ''mongodb'' '''' [''mongo'', ''mdb'']
     [Uint32P ''port'' ''p'' mdb_DefaultPort, StringP ''user'' ''u'' mdb_DefaultUser, StringP ''pass'' '''' mdb_DefaultPass,
      StringP ''name'' ''n'' mdb_DefaultName, StringP ''version'' ''v'' '''', StringP ''migrations'' ''m'' '''',
      StringP ''fixtures'' ''f'' '''']
     [] True (Some RunMongoDB) []"

definition GetStartCmd :: command where
  "GetStartCmd = Command ''start'' '''' [] [] [BoolP ''detach'' ''d'' False, BoolP ''ui'' '''' False] True None
     [GetPgCmd, GetRedisCmd, GetMongoDBCmd]"

definition GetStopCmd :: command where
  "GetStopCmd = Command ''stop {rs pg mdb id all <label>}'' '''' [] [] [] True (Some RunStop) []"

definition GetListCmd :: command where
  "GetListCmd = Command ''list'' '''' [''ls''] [] [] True (Some RunList) []"

definition GetSelfUpdateCmd :: command where
  "GetSelfUpdateCmd = Command ''self-update'' '''' [] [] [] True (Some RunSelfUpdate) []"

definition GetTestingAPIServerCmd :: command where
  "GetTestingAPIServerCmd = Command ''api-server'' '''' [''api-server'']
     [StringP ''port'' ''p'' api_DefaultPort, BoolP ''testing'' ''t'' False] [] True (Some RunAPIServer) []"

definition GetDescribePgCmd :: command where
  "GetDescribePgCmd = Command ''postgres'' '''' [''pg'']
     [StringP ''version'' ''v'' '''', StringP ''migrations'' ''m'' '''', StringP ''schema'' ''s'' ''public'',
      StringP ''table'' ''t'' ''*'']
     [] True (Some RunDescribePostgres) []"

definition GetDescribeCmd :: command where
  "GetDescribeCmd = Command ''describe'' '''' [] [] [] True None [GetDescribePgCmd]"

definition GetStartTestingCmd :: command where
  "GetStartTestingCmd = Command ''testing -- pg [options] - rs [options]'' '''' []
     [StringP ''api-port'' '''' api_DefaultPort] [] False (Some RunTesting) []"

definition GetRootCmd :: "string \<Rightarrow> command list \<Rightarrow> command" where
  "GetRootCmd version commands = Command ''dbctl'' version [] []
     [StringP ''label'' '''' '''', StringP ''listen'' '''' ''''] True None commands"

definition dbctl_root :: "string \<Rightarrow> command" where
  "dbctl_root version = GetRootCmd version
     [GetStartCmd, GetStopCmd, GetListCmd, GetSelfUpdateCmd, GetTestingAPIServerCmd, GetDescribeCmd, GetStartTestingCmd]"

lemmas app_commands = GetPgCmd_def GetRedisCmd_def GetMongoDBCmd_def GetStartCmd_def GetStopCmd_def GetListCmd_def
  GetSelfUpdateCmd_def GetTestingAPIServerCmd_def GetDescribePgCmd_def GetDescribeCmd_def GetStartTestingCmd_def
  GetRootCmd_def dbctl_root_def

section \<open>Flag sets of a command\<close>

text \<open>A command below its parents, the nearest first.\<close>

type_synonym parents = "(cmd_path \<times> command) list"

definition declared :: "cmd_path \<Rightarrow> flag_decl list \<Rightarrow> flag_set" where
  "declared p ds = map (\<lambda>d. (p, d)) ds"

definition Flags :: "cli_state \<Rightarrow> cmd_path \<Rightarrow> command \<Rightarrow> flag_set" where
  "Flags st p c = (case pf_sets st p of Some fs \<Rightarrow> fs | None \<Rightarrow> declared p (cm_Flags c))"

fun parentsPflags :: "flag_set \<Rightarrow> parents \<Rightarrow> flag_set res" where
  "parentsPflags fs [] = Ok fs"
| "parentsPflags fs ((p, c) # ps) =
     bind_res (AddFlagSet fs (declared p (cm_PersistentFlags c))) (\<lambda>fs. parentsPflags fs ps)"

definition put_flags :: "cmd_path \<Rightarrow> flag_set res \<Rightarrow> (unit, cli_state) action" where
  "put_flags p r = bind (lift_res r) (\<lambda>fs st. (Ok (), st\<lparr>pf_sets := (pf_sets st)(p \<mapsto> fs)\<rparr>))"

definition mergePersistentFlags :: "parents \<Rightarrow> cmd_path \<Rightarrow> command \<Rightarrow> (unit, cli_state) action" where
  "mergePersistentFlags ps p c st = put_flags p
     (bind_res (AddFlagSet (Flags st p c) (declared p (cm_PersistentFlags c))) (\<lambda>fs.
      bind_res (parentsPflags [] ps) (AddFlagSet fs))) st"

definition DisableFlagParsing :: "command \<Rightarrow> bool" where
  "DisableFlagParsing c \<longleftrightarrow> cm_Run c = Some RunComplete"

definition ParseFlags :: "parents \<Rightarrow> cmd_path \<Rightarrow> command \<Rightarrow> string list \<Rightarrow> (string list, cli_state) action" where
  "ParseFlags ps p c args =
     (if DisableFlagParsing c then ret args
      else bind (mergePersistentFlags ps p c) (\<lambda>_ st. Parse (cm_Interspersed c) (Flags st p c) args st))"

section \<open>Finding a command\<close>

definition findNext :: "command list \<Rightarrow> string \<Rightarrow> command option" where
  "findNext cs arg = List.find (\<lambda>c. cm_Name c = arg \<or> arg \<in> set (cm_Aliases c)) cs"

lemma findNext_in: "findNext cs arg = Some c \<Longrightarrow> c \<in> set cs"
  by (auto simp: findNext_def find_Some_iff)

lemma findNext_size [termination_simp]: "findNext (cm_Commands c) arg = Some d \<Longrightarrow> size d < size c"
  using findNext_in[of "cm_Commands c" arg d] size_list_estimation'[of d "cm_Commands c" "size d" size]
  by (cases c) auto

definition hasNoOptDefVal :: "string \<Rightarrow> flag_set \<Rightarrow> bool" where
  "hasNoOptDefVal name fs = (case Lookup fs name of None \<Rightarrow> False | Some f \<Rightarrow> NoOptDefVal (snd f) \<noteq> '''')"

definition shortHasNoOptDefVal :: "string \<Rightarrow> flag_set \<Rightarrow> bool" where
  "shortHasNoOptDefVal name fs =
     (if name = '''' then False
      else case ShorthandLookup fs (hd name) of None \<Rightarrow> False | Some f \<Rightarrow> NoOptDefVal (snd f) \<noteq> '''')"

definition isFlagArg :: "string \<Rightarrow> bool" where
  "isFlagArg arg \<longleftrightarrow> (3 \<le> length arg \<and> arg ! 1 = CHR ''-'') \<or>
     (2 \<le> length arg \<and> hd arg = CHR ''-'' \<and> arg ! 1 \<noteq> CHR ''-'')"

text \<open>An argument that takes the next one as its value.\<close>

definition takes_value :: "flag_set \<Rightarrow> string \<Rightarrow> bool" where
  "takes_value fs s \<longleftrightarrow>
     hasPrefix s ''--'' \<and> CHR ''='' \<notin> set s \<and> \<not> hasNoOptDefVal (drop 2 s) fs \<or>
     hasPrefix s ''-'' \<and> CHR ''='' \<notin> set s \<and> length s = 2 \<and> \<not> shortHasNoOptDefVal (drop 1 s) fs"

fun stripFlags :: "flag_set \<Rightarrow> string list \<Rightarrow> string list" where
  "stripFlags fs [] = []"
| "stripFlags fs (s # args) =
     (if s = ''--'' then []
      else if takes_value fs s then (if length args \<le> 1 then [] else stripFlags fs (tl args))
      else if s \<noteq> '''' \<and> \<not> hasPrefix s ''-'' then s # stripFlags fs args
      else stripFlags fs args)"

text \<open>
  \<^verbatim>\<open>Find\<close>, up to its check of the arguments, which does not matter where it is called: the command that
  is found. The flag sets of the commands on the way are merged.
\<close>

function Find :: "parents \<Rightarrow> cmd_path \<Rightarrow> command \<Rightarrow> string list \<Rightarrow> (command, cli_state) action" where
  "Find ps p c args st =
     (if args = [] then (Ok c, st)
      else case mergePersistentFlags ps p c st of
          (Ok _, st) \<Rightarrow>
            (case stripFlags (Flags st p c) args of
               [] \<Rightarrow> (Ok c, st)
             | next # _ \<Rightarrow>
                (case findNext (cm_Commands c) next of
                   None \<Rightarrow> (Ok c, st)
                 | Some d \<Rightarrow> Find ((p, c) # ps) (p @ [cm_Name d]) d (remove1 next args) st))
        | (Err e, st) \<Rightarrow> (Err e, st)
        | (Panic q, st) \<Rightarrow> (Panic q, st))"
  by pat_completeness auto

termination
  by (relation "measure (\<lambda>(ps, p, c, args, st). size c)") (auto dest: findNext_size)

text \<open>
  The loop of \<^verbatim>\<open>Traverse\<close> over the arguments of one command: the subcommand they name, the flags
  before it and what comes after it.
\<close>

fun next_command :: "flag_set \<Rightarrow> command list \<Rightarrow> string list \<Rightarrow> bool \<Rightarrow> string list \<Rightarrow>
    (command \<times> string list \<times> string list) option" where
  "next_command fs cs flags inFlag [] = None"
| "next_command fs cs flags inFlag (arg # args) =
     (if hasPrefix arg ''--'' \<and> CHR ''='' \<notin> set arg then
        next_command fs cs (flags @ [arg]) (\<not> hasNoOptDefVal (drop 2 arg) fs) args
      else if hasPrefix arg ''-'' \<and> CHR ''='' \<notin> set arg \<and> length arg = 2 \<and> \<not> shortHasNoOptDefVal (drop 1 arg) fs then
        next_command fs cs (flags @ [arg]) True args
      else if inFlag then next_command fs cs (flags @ [arg]) False args
      else if isFlagArg arg then next_command fs cs (flags @ [arg]) inFlag args
      else (case findNext cs arg of None \<Rightarrow> None | Some d \<Rightarrow> Some (d, flags, args)))"

lemma next_command_size [termination_simp]:
  "next_command fs (cm_Commands c) flags inFlag args = Some (d, fl, rest) \<Longrightarrow> size d < size c"
  by (induction fs "cm_Commands c" flags inFlag args rule: next_command.induct)
    (auto split: if_splits option.splits dest: findNext_size)

function Traverse :: "parents \<Rightarrow> cmd_path \<Rightarrow> command \<Rightarrow> string list \<Rightarrow>
    (parents \<times> cmd_path \<times> command \<times> string list, cli_state) action" where
  "Traverse ps p c args st =
     (case next_command (Flags st p c) (cm_Commands c) [] False args of
        None \<Rightarrow> (Ok (ps, p, c, args), st)
      | Some (d, flags, rest) \<Rightarrow>
          (case ParseFlags ps p c flags st of
             (Ok _, st) \<Rightarrow> Traverse ((p, c) # ps) (p @ [cm_Name d]) d rest st
           | (Err e, st) \<Rightarrow> (Err e, st)
           | (Panic q, st) \<Rightarrow> (Panic q, st)))"
  by pat_completeness auto

termination
  by (relation "measure (\<lambda>(ps, p, c, args, st). size c)") (auto dest: next_command_size)

declare Find.simps [simp del] Traverse.simps [simp del]

section \<open>Running a command\<close>

type_synonym 'w cli = "'w \<times> cli_state"

text \<open>Parts of a run that only concern the flags, or only the world.\<close>

definition on_cli :: "('a, cli_state) action \<Rightarrow> ('a, 'w cli) maybe_action" where
  "on_cli m = (\<lambda>(w, st). case m st of (r, st1) \<Rightarrow> Some (r, (w, st1)))"

definition on_world :: "('a, 'w) maybe_action \<Rightarrow> ('a, 'w cli) maybe_action" where
  "on_world m = (\<lambda>(w, st). case m w of None \<Rightarrow> None | Some (r, w1) \<Rightarrow> Some (r, (w1, st)))"

definition read_flags :: "cmd_path \<Rightarrow> command \<Rightarrow> (flag_set \<Rightarrow> cli_state \<Rightarrow> 'a res) \<Rightarrow> ('a, 'w cli) maybe_action" where
  "read_flags p c f = on_cli (\<lambda>st. (f (Flags st p c) st, st))"

definition InitDefaultHelpFlag :: "parents \<Rightarrow> cmd_path \<Rightarrow> command \<Rightarrow> (unit, cli_state) action" where
  "InitDefaultHelpFlag ps p c =
     bind (mergePersistentFlags ps p c) (\<lambda>_ st.
       if Lookup (Flags st p c) ''help'' = None
       then put_flags p (AddFlag (Flags st p c) (p, BoolP ''help'' ''h'' False)) st
       else (Ok (), st))"

definition InitDefaultVersionFlag :: "parents \<Rightarrow> cmd_path \<Rightarrow> command \<Rightarrow> (unit, cli_state) action" where
  "InitDefaultVersionFlag ps p c =
     (if cm_Version c = '''' then ret ()
      else bind (mergePersistentFlags ps p c) (\<lambda>_ st.
        if Lookup (Flags st p c) ''version'' = None
        then put_flags p (AddFlag (Flags st p c) (p, BoolP ''version''
          (if ShorthandLookup (Flags st p c) (CHR ''v'') = None then ''v'' else '''') False)) st
        else (Ok (), st)))"

text \<open>Only the commands that \<^verbatim>\<open>cobra\<close> adds restrict their arguments.\<close>

definition ValidateArgs :: "cmd_path \<Rightarrow> command \<Rightarrow> string list \<Rightarrow> unit res" where
  "ValidateArgs p c args =
     (if cm_Run c = Some RunCompletion \<and> args \<noteq> [] then Err (Errorf ''unknown command %q for %q'' [hd args, join '' '' p])
      else if cm_Run c = Some RunComplete \<and> args = [] then Err (Errorf ''requires at least %d arg(s), only received %d'' [''1'', ''0''])
      else Ok ())"

text \<open>The only \<^verbatim>\<open>PersistentPreRunE\<close> is the one of the root command, so every command runs it.\<close>

definition PersistentPreRunE :: "'w sys \<Rightarrow> cmd_path \<Rightarrow> command \<Rightarrow> (unit, 'w cli) maybe_action" where
  "PersistentPreRunE S p c =
     may_bind (read_flags p c (\<lambda>fs st. wrap_err ''invalid listen args, %w'' [] (GetString fs st ''listen''))) (\<lambda>listen.
     on_world (may (preRun S listen)))"

text \<open>
  \<open>run\<close> gives the run functions their command and its arguments. The program declares no deprecated
  commands, no required flags or flag groups, and no hooks other than the one above.
\<close>

definition execute :: "'w sys \<Rightarrow> (runner \<Rightarrow> cmd_path \<Rightarrow> command \<Rightarrow> string list \<Rightarrow> (unit, 'w cli) maybe_action) \<Rightarrow>
    parents \<Rightarrow> cmd_path \<Rightarrow> command \<Rightarrow> string list \<Rightarrow> (unit, 'w cli) maybe_action" where
  "execute S run ps p c a =
     may_bind (on_cli (InitDefaultHelpFlag ps p c)) (\<lambda>_.
     may_bind (on_cli (InitDefaultVersionFlag ps p c)) (\<lambda>_.
     may_bind (on_cli (ParseFlags ps p c a)) (\<lambda>argWoFlags.
     may_bind (read_flags p c (\<lambda>fs st. GetBool fs st ''help'')) (\<lambda>helpVal.
     if helpVal then may (fail ErrHelp)
     else may_bind (read_flags p c (\<lambda>fs st. if cm_Version c = '''' then Ok False else GetBool fs st ''version'')) (\<lambda>versionVal.
     if versionVal then may (ret ())
     else case cm_Run c of
         None \<Rightarrow> may (fail ErrHelp)
       | Some r \<Rightarrow>
           may_bind (may (lift_res (ValidateArgs p c argWoFlags))) (\<lambda>_.
           may_bind (PersistentPreRunE S p c) (\<lambda>_.
           run r p c argWoFlags)))))))"

text \<open>The commands that every run adds below the root: help, and the two for shell completion.\<close>

definition help_command :: command where
  "help_command = Command ''help [command]'' '''' [] [] [] True (Some RunHelp) []"

definition completion_command :: command where
  "completion_command = Command ''completion'' '''' [] [] [] True None
     (map (\<lambda>shell. Command shell '''' [] [BoolP ''no-descriptions'' '''' False] [] True (Some RunCompletion) [])
       [''bash'', ''zsh'', ''fish'', ''powershell''])"

definition complete_command :: command where
  "complete_command = Command ''__complete [command-line]'' '''' [''__completeNoDesc''] [] [] True (Some RunComplete) []"

fun AddCommand :: "command list \<Rightarrow> command \<Rightarrow> command" where
  "AddCommand ds (Command use ver al fl pf i run cs) = Command use ver al fl pf i run (cs @ ds)"

definition with_builtin :: "command \<Rightarrow> command" where
  "with_builtin root = AddCommand [completion_command, help_command] root"

text \<open>The command for completion requests stays only when the arguments name it.\<close>

definition initCompleteCmd :: "command \<Rightarrow> string list \<Rightarrow> (command, cli_state) action" where
  "initCompleteCmd root args =
     (let all = AddCommand [complete_command] root in
      bind (Find [] [cm_Name root] all args) (\<lambda>c.
      ret (if cm_Name c = ''__complete'' then all else root)))"

text \<open>A request for help is answered with the help text and is no error.\<close>

definition help_shown :: "(unit, 'w) maybe_action \<Rightarrow> (unit, 'w) maybe_action" where
  "help_shown m = may_try m (\<lambda>e. if errors_is e ErrHelp then may (ret ()) else may (fail e)) (\<lambda>_. may (ret ()))"

definition ExecuteC :: "'w sys \<Rightarrow> (runner \<Rightarrow> cmd_path \<Rightarrow> command \<Rightarrow> string list \<Rightarrow> (unit, 'w cli) maybe_action) \<Rightarrow>
    command \<Rightarrow> string list \<Rightarrow> (unit, 'w cli) maybe_action" where
  "ExecuteC S run root args =
     may_bind (on_cli (initCompleteCmd (with_builtin root) args)) (\<lambda>root.
     may_bind (on_cli (Traverse [] [cm_Name root] root args)) (\<lambda>(ps, p, c, flags).
     help_shown (execute S run ps p c flags)))"

end
