(* ===== verification/Program.thy ===== *)
theory Program
  imports CommandLine
begin

text \<open>
  The program: the run functions with the flags they read, the run of a command line, and \<^verbatim>\<open>main\<close>.
\<close>

section \<open>Reading the flags of a command\<close>

definition postgres_flags :: "flag_set \<Rightarrow> cli_state \<Rightarrow> start_flags res" where
  "postgres_flags fs st =
     bind_res (wrap_err ''invalid port args, %w'' [] (GetUint32 fs st ''port'')) (\<lambda>port.
     bind_res (wrap_err ''invalid label args, %w'' [] (GetString fs st ''label'')) (\<lambda>label.
     bind_res (wrap_err ''invalid detach args, %w'' [] (GetBool fs st ''detach'')) (\<lambda>detach.
     bind_res (wrap_err ''invalid ui args, %w'' [] (GetBool fs st ''ui'')) (\<lambda>withUI.
     bind_res (wrap_err ''invalid name args, %w'' [] (GetString fs st ''name'')) (\<lambda>name.
     bind_res (wrap_err ''invalid pass args, %w'' [] (GetString fs st ''pass'')) (\<lambda>pass.
     bind_res (wrap_err ''invalid user args, %w'' [] (GetString fs st ''user'')) (\<lambda>user.
     bind_res (wrap_err ''invalid version args, %w'' [] (GetString fs st ''version'')) (\<lambda>pgVersion.
     bind_res (wrap_err ''invalid migrations args, %w'' [] (GetString fs st ''migrations'')) (\<lambda>migrationsPath.
     bind_res (wrap_err ''invalid fixtures args, %w'' [] (GetString fs st ''fixtures'')) (\<lambda>fixturesPath.
     Ok \<lparr>fl_port = port, fl_label = label, fl_detach = detach, fl_ui = withUI, fl_name = name, fl_pass = pass,
       fl_user = user, fl_version = pgVersion, fl_migrations = migrationsPath, fl_fixtures = fixturesPath\<rparr>))))))))))"

definition mongo_flags :: "flag_set \<Rightarrow> cli_state \<Rightarrow> start_flags res" where
  "mongo_flags fs st =
     bind_res (wrap_err ''invalid port args, %w'' [] (GetUint32 fs st ''port'')) (\<lambda>port.
     bind_res (wrap_err ''invalid label args, %w'' [] (GetString fs st ''label'')) (\<lambda>label.
     bind_res (wrap_err ''invalid detach args, %w'' [] (GetBool fs st ''detach'')) (\<lambda>detach.
     bind_res (wrap_err ''invalid ui args, %w'' [] (GetBool fs st ''ui'')) (\<lambda>withUI.
     bind_res (wrap_err ''invalid name args, %w'' [] (GetString fs st ''name'')) (\<lambda>name.
     bind_res (wrap_err ''invalid pass args, %w'' [] (GetString fs st ''pass'')) (\<lambda>pass.
     bind_res (wrap_err ''invalid user args, %w'' [] (GetString fs st ''user'')) (\<lambda>user.
     bind_res (wrap_err ''invalid version args, %w'' [] (GetString fs st ''version'')) (\<lambda>mongoVersion.
     bind_res (wrap_err ''invalid migrations args, %w'' [] (GetString fs st ''migrations'')) (\<lambda>migrationsPath.
     bind_res (wrap_err ''invalid fixtures args, %w'' [] (GetString fs st ''fixtures'')) (\<lambda>fixturesPath.
     Ok \<lparr>fl_port = port, fl_label = label, fl_detach = detach, fl_ui = withUI, fl_name = name, fl_pass = pass,
       fl_user = user, fl_version = mongoVersion, fl_migrations = migrationsPath, fl_fixtures = fixturesPath\<rparr>))))))))))"

text \<open>The database index is read beside the flags; redis has no name, migrations or UI.\<close>

definition redis_flags :: "flag_set \<Rightarrow> cli_state \<Rightarrow> (start_flags \<times> int) res" where
  "redis_flags fs st =
     bind_res (wrap_err ''invalid port args, %w'' [] (GetUint32 fs st ''port'')) (\<lambda>port.
     bind_res (wrap_err ''invalid label args, %w'' [] (GetString fs st ''label'')) (\<lambda>label.
     bind_res (wrap_err ''invalid db index args, %w'' [] (GetInt fs st ''db'')) (\<lambda>dbIndex.
     bind_res (wrap_err ''invalid detach args, %w'' [] (GetBool fs st ''detach'')) (\<lambda>detach.
     bind_res (wrap_err ''invalid pass args, %w'' [] (GetString fs st ''pass'')) (\<lambda>pass.
     bind_res (wrap_err ''invalid user args, %w'' [] (GetString fs st ''user'')) (\<lambda>user.
     bind_res (wrap_err ''invalid version args, %w'' [] (GetString fs st ''version'')) (\<lambda>redisVersion.
     bind_res (wrap_err ''invalid fixtures args, %w'' [] (GetString fs st ''fixtures'')) (\<lambda>fixturesPath.
     Ok (\<lparr>fl_port = port, fl_label = label, fl_detach = detach, fl_ui = False, fl_name = '''', fl_pass = pass,
       fl_user = user, fl_version = redisVersion, fl_migrations = '''', fl_fixtures = fixturesPath\<rparr>, dbIndex)))))))))"

definition api_flags :: "flag_set \<Rightarrow> cli_state \<Rightarrow> (string \<times> string \<times> bool) res" where
  "api_flags fs st =
     bind_res (wrap_err ''invalid port args, %w'' [] (GetString fs st ''port'')) (\<lambda>port.
     bind_res (wrap_err ''invalid label args, %w'' [] (GetString fs st ''label'')) (\<lambda>label.
     bind_res (wrap_err ''invalid testing args, %w'' [] (GetBool fs st ''testing'')) (\<lambda>testing.
     Ok (port, label, testing))))"

definition describe_flags :: "flag_set \<Rightarrow> cli_state \<Rightarrow> (string \<times> string \<times> string \<times> string) res" where
  "describe_flags fs st =
     bind_res (wrap_err ''invalid version args, %w'' [] (GetString fs st ''version'')) (\<lambda>version.
     bind_res (wrap_err ''invalid migrations args, %w'' [] (GetString fs st ''migrations'')) (\<lambda>migrations.
     bind_res (wrap_err ''invalid schema args, %w'' [] (GetString fs st ''schema'')) (\<lambda>schema.
     bind_res (wrap_err ''invalid table args, %w'' [] (GetString fs st ''table'')) (\<lambda>table.
     Ok (version, migrations, schema, table)))))"

section \<open>The run of a command line\<close>

text \<open>
  What the program is built with and runs in: its version, the services, the requests that reach its
  api server, and the help and completion commands of \<^verbatim>\<open>cobra\<close>.
\<close>

record 'w program =
  pr_version :: string
  pr_sys :: "'w sys"
  pr_sha :: "string \<Rightarrow> string"
  pr_json :: json_api
  pr_update :: "'w upd_api"
  pr_events :: "server_event list"
  pr_builtin :: "runner \<Rightarrow> string list \<Rightarrow> (unit, 'w cli) maybe_action"

text \<open>\<open>again\<close> is the run of another command line in the same process.\<close>

definition run_command :: "'w program \<Rightarrow> (string list \<Rightarrow> (unit, 'w cli) maybe_action) \<Rightarrow>
    runner \<Rightarrow> cmd_path \<Rightarrow> command \<Rightarrow> string list \<Rightarrow> (unit, 'w cli) maybe_action" where
  "run_command P again r p c args = (let S = pr_sys P in case r of
       RunPostgres \<Rightarrow> may_bind (read_flags p c postgres_flags) (\<lambda>f. on_world (runPostgres S f))
     | RunRedis \<Rightarrow> may_bind (read_flags p c redis_flags) (\<lambda>(f, dbIndex). on_world (runRedis S f dbIndex))
     | RunMongoDB \<Rightarrow> may_bind (read_flags p c mongo_flags) (\<lambda>f. on_world (runMongoDB S f))
     | RunStop \<Rightarrow>
         may_bind (if args = [] then may (ret '''')
           else read_flags p c (\<lambda>fs st. wrap_err ''invalid label args, %w'' [] (GetString fs st ''label''))) (\<lambda>label.
         on_world (may (runStop S label args)))
     | RunList \<Rightarrow> on_world (may (bind (runList S) (\<lambda>_. ret ())))
     | RunSelfUpdate \<Rightarrow> on_world (may (doSelfUpdate (pr_update P) (pr_version P)))
     | RunAPIServer \<Rightarrow> may_bind (read_flags p c api_flags) (\<lambda>(port, label, testing).
         on_world (runTestingAPIServer (pr_sha P) S (pr_json P) port label testing (pr_events P)))
     | RunDescribePostgres \<Rightarrow> may_bind (read_flags p c describe_flags) (\<lambda>(version, migrations, schema, table).
         on_world (may_bind (describePostgres S version migrations schema table) (\<lambda>_. may (ret ()))))
     | RunTesting \<Rightarrow> runTesting again args
         (read_flags p c (\<lambda>fs st. wrap_err ''invalid api-port args, %w'' [] (GetString fs st ''api-port'')))
     | _ \<Rightarrow> pr_builtin P r args)"

text \<open>Runs that contain runs: \<open>n\<close> bounds how deep.\<close>

primrec execute_depth :: "'w program \<Rightarrow> nat \<Rightarrow> string list \<Rightarrow> (unit, 'w cli) maybe_action" where
  "execute_depth P 0 args = (\<lambda>_. None)"
| "execute_depth P (Suc n) args =
     ExecuteC (pr_sys P) (run_command P (execute_depth P n)) (dbctl_root (pr_version P)) args"

definition Execute :: "'w program \<Rightarrow> string list \<Rightarrow> (unit, 'w cli) maybe_action" where
  "Execute P = execute_depth P 2"

definition fresh_cli :: cli_state where
  "fresh_cli = \<lparr>pf_vals = Map.empty, pf_sets = Map.empty\<rparr>"

text \<open>The exit code and the world that is left; a panic ends a Go program with code 2.\<close>

fun exit_code :: "'a res \<Rightarrow> nat" where
  "exit_code (Ok a) = 0"
| "exit_code (Err e) = 1"
| "exit_code (Panic p) = 2"

definition main :: "'w program \<Rightarrow> string list \<Rightarrow> 'w \<Rightarrow> (nat \<times> 'w) option" where
  "main P args w = (case Execute P args (w, fresh_cli) of
       None \<Rightarrow> None
     | Some (r, (w1, st)) \<Rightarrow> Some (exit_code r, w1))"

end
