(* ===== verification/FlagSets.thy ===== *)
theory FlagSets
  imports CommandLine
begin

text \<open>
  What a parse does to the state of the flags: flags written as \<^verbatim>\<open>--name=value\<close> are read back and set
  in their order, merging the flags of the parents is done once and leaves them as they are, and a
  command found and executed runs with exactly the values that were set.
\<close>

section \<open>Written flags\<close>

definition word_of :: "string \<times> string \<Rightarrow> string" where
  "word_of a = ''--'' @ fst a @ ''='' @ snd a"

definition plain_flag :: "flag_ref \<Rightarrow> bool" where
  "plain_flag f \<longleftrightarrow> fd_name (snd f) \<noteq> [] \<and> hd (fd_name (snd f)) \<noteq> CHR ''-'' \<and> CHR ''='' \<notin> set (fd_name (snd f))"

text \<open>An assignment that a flag set takes: its flag exists and reads the value.\<close>

definition takes_flag :: "flag_set \<Rightarrow> string \<times> string \<Rightarrow> bool" where
  "takes_flag fs a = (case Lookup fs (fst a) of None \<Rightarrow> False
     | Some f \<Rightarrow> snd (set_value (fd_value (snd f)) (snd a)) = None \<and> fst a \<noteq> ''help'')"

definition assigns :: "flag_set \<Rightarrow> (string \<times> string) list \<Rightarrow> (flag_ref \<times> string) list" where
  "assigns fs as = map (\<lambda>a. (the (Lookup fs (fst a)), snd a)) as"

type_synonym flag_env = "cmd_path \<times> string \<Rightarrow> fvalue option"

fun set_all :: "(flag_ref \<times> string) list \<Rightarrow> flag_env \<Rightarrow> flag_env" where
  "set_all [] e = e"
| "set_all (((p, d), s) # xs) e = set_all xs (e((p, fd_name d) \<mapsto> fst (set_value (fd_value d) s)))"

lemma set_all_append [simp]: "set_all (xs @ ys) e = set_all ys (set_all xs e)"
proof (induction xs arbitrary: e)
  case Nil
  then show ?case by simp
next
  case (Cons x xs)
  obtain p d s where x: "x = ((p, d), s)" by (cases x) auto
  show ?case by (simp only: x append_Cons set_all.simps Cons.IH)
qed

lemma Lookup_Some: "Lookup fs n = Some f \<Longrightarrow> f \<in> set fs \<and> fd_name (snd f) = n"
  by (auto simp: Lookup_def find_Some_iff)

lemma Lookup_append: "Lookup (xs @ ys) n = (case Lookup xs n of None \<Rightarrow> Lookup ys n | Some f \<Rightarrow> Some f)"
  unfolding Lookup_def by (induction xs) auto

lemma Lookup_None: "Lookup fs n = None \<longleftrightarrow> n \<notin> (\<lambda>f. fd_name (snd f)) ` set fs"
  unfolding Lookup_def find_None_iff image_iff by metis

lemma takes_Lookup: "takes_flag fs a \<Longrightarrow> \<exists>p d. Lookup fs (fst a) = Some (p, d) \<and> (p, d) \<in> set fs \<and> fd_name d = fst a \<and>
    fst a \<noteq> ''help'' \<and> snd (set_value (fd_value d) (snd a)) = None"
  by (auto simp: takes_flag_def split: option.splits dest: Lookup_Some)

lemma takes_append: "takes_flag fs a \<Longrightarrow> takes_flag (fs @ gs) a"
  by (auto simp: takes_flag_def Lookup_append split: option.splits)

lemma assigns_append_set: "\<forall>a\<in>set as. takes_flag fs a \<Longrightarrow> assigns (fs @ gs) as = assigns fs as"
  by (auto simp: assigns_def Lookup_append dest!: bspec takes_Lookup)

lemma str_cut_at: "c \<notin> set n \<Longrightarrow> str_cut c (n @ c # v) = (n, v)"
  by (induction n) (auto simp: str_cut_def)

lemma parseLongArg_word:
  assumes "takes_flag fs a" and "\<forall>f\<in>set fs. plain_flag f"
  shows "parseLongArg fs (word_of a) args = ([(the (Lookup fs (fst a)), snd a)], Ok False)"
proof (cases a)
  case [simp]: (Pair n v)
  obtain p d where l: "Lookup fs (fst a) = Some (p, d)" "(p, d) \<in> set fs" "fd_name d = fst a"
    using takes_Lookup[OF assms(1)] by blast
  then have "fst a \<noteq> []" "hd (fst a) \<noteq> CHR ''-''" "CHR ''='' \<notin> set (fst a)"
    using assms(2) by (auto simp: plain_flag_def)
  moreover from this have "hd (fst a) \<noteq> CHR ''=''" by (auto simp: neq_Nil_conv)
  ultimately show ?thesis
    using l by (simp add: parseLongArg_def word_of_def Let_def str_cut_at)
qed

lemma word_of_dash: "length (word_of a) \<ge> 3" "hd (word_of a) = CHR ''-''" "word_of a ! 1 = CHR ''-''" "word_of a \<noteq> ''--''"
  "CHR ''='' \<in> set (word_of a)" "word_of a \<noteq> ''-''" "word_of a \<noteq> []"
  by (simp_all add: word_of_def)

lemma parseArgs_words:
  assumes "\<forall>a\<in>set as. takes_flag fs a" and "\<forall>f\<in>set fs. plain_flag f"
  shows "parseArgs i fs (map word_of as @ rest) =
    (assigns fs as @ fst (parseArgs i fs rest), snd (parseArgs i fs rest))"
  using assms(1)
proof (induction as)
  case Nil
  then show ?case by (simp add: assigns_def)
next
  case (Cons a as)
  then show ?case
    using parseLongArg_word[of fs a "map word_of as @ rest", OF _ assms(2)] word_of_dash[of a]
    by (simp add: assigns_def case_prod_beta)
qed

lemma Set_taken:
  "snd (set_value (fd_value d) s) = None \<Longrightarrow>
    Set ((p, d), s) st = (Ok (), st\<lparr>pf_vals := (pf_vals st)((p, fd_name d) \<mapsto> fst (set_value (fd_value d) s))\<rparr>)"
  by (simp add: Set_def case_prod_beta)

lemma foreach_Set:
  assumes "\<forall>x\<in>set xs. snd (set_value (fd_value (snd (fst x))) (snd x)) = None"
  shows "foreach Set xs st = (Ok (), st\<lparr>pf_vals := set_all xs (pf_vals st)\<rparr>)"
  using assms
proof (induction xs "pf_vals st" arbitrary: st rule: set_all.induct)
  case 1
  then show ?case by simp
next
  case (2 p d s xs)
  then show ?case by (simp add: Set_taken bind_def)
qed

lemma assigns_taken: "\<forall>a\<in>set as. takes_flag fs a \<Longrightarrow>
    \<forall>x\<in>set (assigns fs as). snd (set_value (fd_value (snd (fst x))) (snd x)) = None"
  by (auto simp: assigns_def dest!: bspec takes_Lookup)

lemma Parse_words:
  assumes "\<forall>a\<in>set as. takes_flag fs a" and "\<forall>f\<in>set fs. plain_flag f" and "parseArgs i fs rest = ([], Ok out)"
  shows "Parse i fs (map word_of as @ rest) st = (Ok out, st\<lparr>pf_vals := set_all (assigns fs as) (pf_vals st)\<rparr>)"
  using foreach_Set[OF assigns_taken[OF assms(1)]]
  by (simp add: Parse_def parseArgs_words[OF assms(1,2)] assms(3) bind_def lift_res_def)

section \<open>Merging\<close>

abbreviation names :: "flag_set \<Rightarrow> string set" where
  "names fs \<equiv> (\<lambda>f. fd_name (snd f)) ` set fs"

lemma AddFlag_Ok: "AddFlag fs f = Ok gs \<Longrightarrow> gs = fs @ [f]"
  by (simp add: AddFlag_def split: if_splits)

lemma AddFlag_names: "AddFlag fs f = Ok gs \<Longrightarrow> names gs = insert (fd_name (snd f)) (names fs)"
  by (drule AddFlag_Ok) simp

lemma AddFlagSet_names: "AddFlagSet fs xs = Ok gs \<Longrightarrow> names gs = names fs \<union> names xs"
proof (induction fs xs rule: AddFlagSet.induct)
  case (1 fs)
  then show ?case by simp
next
  case (2 fs f xs)
  then show ?case by (cases "AddFlag fs f") (auto simp: Lookup_None AddFlag_names split: if_splits)
qed

lemma AddFlagSet_present: "names xs \<subseteq> names fs \<Longrightarrow> AddFlagSet fs xs = Ok fs"
  by (induction xs) (auto simp: Lookup_None)

text \<open>\<open>merges ps p c fs\<close>: the flags of the command and of its parents make up \<open>fs\<close>, without a clash.\<close>

definition merges :: "parents \<Rightarrow> cmd_path \<Rightarrow> command \<Rightarrow> flag_set \<Rightarrow> bool" where
  "merges ps p c fs \<longleftrightarrow>
     bind_res (AddFlagSet (declared p (cm_Flags c)) (declared p (cm_PersistentFlags c))) (\<lambda>fs.
     bind_res (parentsPflags [] ps) (AddFlagSet fs)) = Ok fs"

definition help_flag :: "cmd_path \<Rightarrow> flag_ref" where
  "help_flag p = (p, BoolP ''help'' ''h'' False)"

text \<open>A flag set as an earlier run left it: not merged yet, merged, or merged with the help flag.\<close>

definition flags_kept :: "cli_state \<Rightarrow> cmd_path \<Rightarrow> flag_set \<Rightarrow> bool" where
  "flags_kept st p fs \<longleftrightarrow> pf_sets st p = None \<or> pf_sets st p = Some fs \<or> pf_sets st p = Some (fs @ [help_flag p])"

definition flags_merged :: "cli_state \<Rightarrow> cmd_path \<Rightarrow> flag_set \<Rightarrow> bool" where
  "flags_merged st p fs \<longleftrightarrow> pf_sets st p = Some fs \<or> pf_sets st p = Some (fs @ [help_flag p])"

text \<open>Two states with the same values, whose flag sets differ at \<open>p\<close> only.\<close>

definition only_at :: "cmd_path \<Rightarrow> cli_state \<Rightarrow> cli_state \<Rightarrow> bool" where
  "only_at p st st1 \<longleftrightarrow> pf_vals st1 = pf_vals st \<and> (\<forall>q. q \<noteq> p \<longrightarrow> pf_sets st1 q = pf_sets st q)"

lemma merges_again:
  assumes "merges ps p c fs" and "names fs \<subseteq> names gs"
  shows "bind_res (AddFlagSet gs (declared p (cm_PersistentFlags c))) (\<lambda>fs.
     bind_res (parentsPflags [] ps) (AddFlagSet fs)) = Ok gs"
proof -
  obtain f1 q where 1: "AddFlagSet (declared p (cm_Flags c)) (declared p (cm_PersistentFlags c)) = Ok f1"
    and 2: "parentsPflags [] ps = Ok q" and 3: "AddFlagSet f1 q = Ok fs"
    using assms(1) by (auto simp: merges_def bind_res_def split: res.splits)
  show ?thesis
    using AddFlagSet_names[OF 1] AddFlagSet_names[OF 3] assms(2)
    by (simp add: 2 AddFlagSet_present)
qed

lemma merge_keeps:
  assumes "merges ps p c fs" and "flags_kept st p fs"
  shows "\<exists>st1. mergePersistentFlags ps p c st = (Ok (), st1) \<and> flags_merged st1 p fs \<and> only_at p st st1 \<and>
    (flags_merged st p fs \<longrightarrow> pf_sets st1 = pf_sets st)"
proof (cases "pf_sets st p")
  case None
  then show ?thesis
    using assms(1) by (simp add: mergePersistentFlags_def put_flags_def merges_def Flags_def bind_def lift_res_def
        flags_merged_def only_at_def)
next
  case (Some gs)
  then have "names fs \<subseteq> names gs" using assms(2) by (auto simp: flags_kept_def)
  then show ?thesis
    using merges_again[OF assms(1)] Some assms(2)
    by (auto simp add: mergePersistentFlags_def put_flags_def Flags_def bind_def lift_res_def
        flags_merged_def flags_kept_def only_at_def)
qed

lemma merge_doc:
  assumes "merges ps p c fs" and "flags_kept st p fs"
  shows "\<exists>st1. mergePersistentFlags ps p c st = (Ok (), st1) \<and> flags_merged st1 p fs \<and> only_at p st st1"
  using merge_keeps[OF assms] by blast

lemma merged_Flags: "flags_merged st p fs \<Longrightarrow> Flags st p c = fs \<or> Flags st p c = fs @ [help_flag p]"
  by (auto simp: flags_merged_def Flags_def)

lemma flags_merged_kept: "flags_merged st p fs \<Longrightarrow> flags_kept st p fs"
  by (auto simp: flags_merged_def flags_kept_def)

section \<open>The way to a command\<close>

text \<open>An argument of flags that leaves the next argument alone.\<close>

definition switch :: "flag_set \<Rightarrow> string \<Rightarrow> bool" where
  "switch fs s \<longleftrightarrow> isFlagArg s \<and> hasPrefix s ''-'' \<and> s \<noteq> ''--'' \<and> \<not> takes_value fs s"

definition plain_word :: "string \<Rightarrow> bool" where
  "plain_word n \<longleftrightarrow> n \<noteq> [] \<and> hd n \<noteq> CHR ''-''"

lemma switch_word: "switch fs (word_of a)"
  using word_of_dash[of a] by (simp add: switch_def isFlagArg_def takes_value_def) (simp add: word_of_def)

text \<open>
  \<open>parses i fs p args sets out\<close>: the arguments set \<open>sets\<close> and leave \<open>out\<close>, whether the help flag is
  there or not; \<open>sw_sets\<close>: and they are flags that take no value from the next argument.
\<close>

definition parses :: "bool \<Rightarrow> flag_set \<Rightarrow> cmd_path \<Rightarrow> string list \<Rightarrow> (flag_ref \<times> string) list \<Rightarrow> string list \<Rightarrow> bool" where
  "parses i fs p args sets out \<longleftrightarrow>
     (\<forall>gs\<in>{fs, fs @ [help_flag p]}. parseArgs i gs args = (sets, Ok out)) \<and>
     (\<forall>x\<in>set sets. snd (set_value (fd_value (snd (fst x))) (snd x)) = None)"

definition sw_sets :: "flag_set \<Rightarrow> cmd_path \<Rightarrow> bool \<Rightarrow> string list \<Rightarrow> (flag_ref \<times> string) list \<Rightarrow> bool" where
  "sw_sets fs p i sw sets \<longleftrightarrow> parses i fs p sw sets [] \<and> (\<forall>gs\<in>{fs, fs @ [help_flag p]}. \<forall>s\<in>set sw. switch gs s)"

lemma parses_Nil: "parses i fs p [] [] []"
  by (simp add: parses_def)

lemma sw_sets_Nil [simp]: "sw_sets fs p i [] []"
  by (simp add: sw_sets_def parses_Nil)

lemma help_flag_plain: "plain_flag (help_flag p)"
  by (simp add: plain_flag_def help_flag_def BoolP_def)

lemma parses_words:
  assumes as: "\<forall>a\<in>set as. takes_flag fs a" and pl: "\<forall>f\<in>set fs. plain_flag f"
    and out: "\<forall>gs. parseArgs i gs rest = ([], Ok out)"
  shows "parses i fs p (map word_of as @ rest) (assigns fs as) out"
proof -
  have as': "\<forall>a\<in>set as. takes_flag (fs @ [help_flag p]) a" using as takes_append by blast
  have e: "assigns (fs @ [help_flag p]) as = assigns fs as" by (rule assigns_append_set[OF as])
  have "parseArgs i gs (map word_of as @ rest) = (assigns fs as, Ok out)" if "gs \<in> {fs, fs @ [help_flag p]}" for gs
    using that parseArgs_words[OF as pl, of i rest] out e
      parseArgs_words[OF as', of i rest] pl help_flag_plain by auto
  then show ?thesis using assigns_taken[OF as] by (simp add: parses_def)
qed

lemma strip_switches:
  "\<forall>s\<in>set sw. switch fs s \<Longrightarrow> plain_word n \<Longrightarrow> \<exists>rest. stripFlags fs (sw @ n # args) = n # rest"
proof (induction sw)
  case Nil
  then show ?case by (cases n) (auto simp: plain_word_def takes_value_def)
next
  case (Cons s sw)
  then show ?case by (auto simp: switch_def)
qed

lemma strip_only_switches: "\<forall>s\<in>set sw. switch fs s \<Longrightarrow> stripFlags fs sw = []"
  by (induction sw) (auto simp: switch_def)

lemma remove1_switches: "\<forall>s\<in>set sw. switch fs s \<Longrightarrow> plain_word n \<Longrightarrow> remove1 n (sw @ n # args) = sw @ args"
proof (induction sw)
  case (Cons s sw)
  moreover from this have "s \<noteq> n" by (cases n) (auto simp: switch_def plain_word_def)
  ultimately show ?case by simp
qed simp

lemma Find_sub:
  assumes "merges ps p c fs" and "flags_kept st p fs" and sw: "sw_sets fs p i sw sets" and n: "plain_word n"
    and f: "findNext (cm_Commands c) n = Some d"
  shows "\<exists>st1. Find ps p c (sw @ n # args) st = Find ((p, c) # ps) (p @ [cm_Name d]) d (sw @ args) st1 \<and>
    flags_merged st1 p fs \<and> only_at p st st1"
proof -
  obtain st1 where m: "mergePersistentFlags ps p c st = (Ok (), st1)" and 1: "flags_merged st1 p fs" "only_at p st st1"
    using merge_doc[OF assms(1,2)] by blast
  have s: "\<forall>s\<in>set sw. switch (Flags st1 p c) s" using merged_Flags[OF 1(1), of c] sw by (auto simp: sw_sets_def)
  obtain rest where "stripFlags (Flags st1 p c) (sw @ n # args) = n # rest" using strip_switches[OF s n] by blast
  then show ?thesis using m f 1 remove1_switches[OF s n] by (subst Find.simps) (auto split del: if_split)
qed

lemma Find_leaf:
  assumes "merges ps p c fs" and "flags_kept st p fs" and "cm_Commands c = []"
  shows "\<exists>st1. Find ps p c args st = (Ok c, st1) \<and> flags_kept st1 p fs \<and> only_at p st st1"
proof (cases "args = []")
  case True
  then show ?thesis using assms(2) by (subst Find.simps) (simp add: only_at_def)
next
  case False
  obtain st1 where "mergePersistentFlags ps p c st = (Ok (), st1)" and 1: "flags_merged st1 p fs" "only_at p st st1"
    using merge_doc[OF assms(1,2)] by blast
  then show ?thesis using False assms(3) flags_merged_kept[OF 1(1)]
    by (subst Find.simps) (simp add: findNext_def split: list.splits)
qed

lemma next_command_leaf: "next_command fs [] flags b args = None"
  by (induction fs "[] :: command list" flags b args rule: next_command.induct) (simp_all add: findNext_def)

lemma Traverse_leaf: "cm_Commands c = [] \<Longrightarrow> Traverse ps p c args st = (Ok (ps, p, c, args), st)"
  by (subst Traverse.simps) (simp add: next_command_leaf)

lemma next_command_switches:
  assumes "\<forall>s\<in>set sw. switch fs s" and "plain_word n" and "findNext cs n = Some d" and "\<not> isFlagArg n"
  shows "next_command fs cs flags False (sw @ n # args) = Some (d, flags @ sw, args)"
  using assms(1)
proof (induction sw arbitrary: flags)
  case Nil
  then show ?case using assms(2-4) by (cases n) (auto simp: plain_word_def)
next
  case (Cons s sw)
  then show ?case by (auto simp: switch_def takes_value_def)
qed

lemma ParseFlags_doc:
  assumes "merges ps p c fs" and "flags_kept st p fs" and "\<not> DisableFlagParsing c"
    and "parses (cm_Interspersed c) fs p args sets out"
  shows "\<exists>st1. ParseFlags ps p c args st = (Ok out, st1\<lparr>pf_vals := set_all sets (pf_vals st)\<rparr>) \<and>
    flags_merged st1 p fs \<and> only_at p st st1 \<and> (flags_merged st p fs \<longrightarrow> pf_sets st1 = pf_sets st)"
proof -
  obtain st1 where m: "mergePersistentFlags ps p c st = (Ok (), st1)" and 1: "flags_merged st1 p fs" "only_at p st st1"
    and k: "flags_merged st p fs \<longrightarrow> pf_sets st1 = pf_sets st"
    using merge_keeps[OF assms(1,2)] by blast
  have "parseArgs (cm_Interspersed c) (Flags st1 p c) args = (sets, Ok out)"
    using merged_Flags[OF 1(1), of c] assms(4) by (auto simp: parses_def)
  then have "Parse (cm_Interspersed c) (Flags st1 p c) args st1 =
      (Ok out, st1\<lparr>pf_vals := set_all sets (pf_vals st)\<rparr>)"
    using foreach_Set[of sets st1] assms(4) 1(2) by (simp add: Parse_def bind_def lift_res_def only_at_def parses_def)
  then show ?thesis using m assms(3) 1 k by (auto simp: ParseFlags_def bind_def)
qed

lemma Traverse_sub:
  assumes "merges ps p c fs" and st: "flags_merged st p fs" and "\<not> DisableFlagParsing c"
    and sw: "sw_sets fs p (cm_Interspersed c) sw sets" and n: "plain_word n" "\<not> isFlagArg n"
    and f: "findNext (cm_Commands c) n = Some d"
  shows "Traverse ps p c (sw @ n # args) st =
    Traverse ((p, c) # ps) (p @ [cm_Name d]) d args (st\<lparr>pf_vals := set_all sets (pf_vals st)\<rparr>)"
proof -
  have "\<forall>s\<in>set sw. switch (Flags st p c) s" using merged_Flags[OF st, of c] sw by (auto simp: sw_sets_def)
  then have 1: "next_command (Flags st p c) (cm_Commands c) [] False (sw @ n # args) = Some (d, sw, args)"
    using next_command_switches[OF _ n(1) f n(2)] by simp
  obtain st1 where "ParseFlags ps p c sw st = (Ok [], st1\<lparr>pf_vals := set_all sets (pf_vals st)\<rparr>)"
    and "pf_sets st1 = pf_sets st"
    using ParseFlags_doc[OF assms(1) flags_merged_kept[OF st] assms(3), of sw sets "[]"] sw st
    by (auto simp: sw_sets_def)
  moreover from this(2) have "st1\<lparr>pf_vals := set_all sets (pf_vals st)\<rparr> = st\<lparr>pf_vals := set_all sets (pf_vals st)\<rparr>"
    by simp
  ultimately show ?thesis using 1 by (subst Traverse.simps) simp
qed

section \<open>The run of a command\<close>

lemma set_all_other: "k \<notin> (\<lambda>x. (fst (fst x), fd_name (snd (fst x)))) ` set xs \<Longrightarrow> set_all xs e k = e k"
proof (induction xs arbitrary: e)
  case Nil
  then show ?case by simp
next
  case (Cons x xs)
  obtain p d s where x: "x = ((p, d), s)" by (cases x) auto
  show ?case using Cons by (simp add: x set_all.simps(2))
qed

definition no_help :: "flag_env \<Rightarrow> bool" where
  "no_help e \<longleftrightarrow> (\<forall>p. e (p, ''help'') = None \<or> e (p, ''help'') = Some (FBool False))"

lemma no_help_set_all:
  assumes "no_help e" and "\<forall>x\<in>set xs. fd_name (snd (fst x)) \<noteq> ''help''"
  shows "no_help (set_all xs e)"
proof -
  have "set_all xs e (p, ''help'') = e (p, ''help'')" for p
    by (rule set_all_other) (use assms(2) in auto)
  then show ?thesis using assms(1) by (simp add: no_help_def)
qed

lemma InitDefaultHelpFlag_doc:
  assumes "merges ps p c fs" and "flags_kept st p fs" and "Lookup fs ''help'' = None" and "ShorthandLookup fs (CHR ''h'') = None"
  shows "\<exists>st1. InitDefaultHelpFlag ps p c st = (Ok (), st1) \<and> pf_sets st1 p = Some (fs @ [help_flag p]) \<and> only_at p st st1"
proof -
  obtain st1 where m: "mergePersistentFlags ps p c st = (Ok (), st1)" and 1: "flags_merged st1 p fs" "only_at p st st1"
    using merge_doc[OF assms(1,2)] by blast
  have h: "Lookup (fs @ [help_flag p]) ''help'' = Some (help_flag p)"
    using assms(3) by (simp add: Lookup_append) (simp add: Lookup_def help_flag_def BoolP_def)
  from 1(1) show ?thesis unfolding flags_merged_def
  proof
    assume s: "pf_sets st1 p = Some fs"
    then have "AddFlag (Flags st1 p c) (p, BoolP ''help'' ''h'' False) = Ok (fs @ [help_flag p])"
      using assms(3,4) by (simp add: AddFlag_def Flags_def BoolP_def help_flag_def)
    then show ?thesis using m s assms(3) 1(2)
      by (simp add: InitDefaultHelpFlag_def bind_def put_flags_def lift_res_def only_at_def) (simp add: Flags_def)
  next
    assume "pf_sets st1 p = Some (fs @ [help_flag p])"
    then show ?thesis using m h 1(2) by (simp add: InitDefaultHelpFlag_def bind_def Flags_def)
  qed
qed

lemma on_cli_bind: "m st = (Ok a, st1) \<Longrightarrow> may_bind (on_cli m) f (w, st) = f a (w, st1)"
  by (simp add: may_bind_def may_try_def on_cli_def)

lemma read_flags_bind: "f (Flags st p c) st = Ok a \<Longrightarrow> may_bind (read_flags p c f) g (w, st) = g a (w, st)"
  unfolding read_flags_def by (rule on_cli_bind) simp

lemma may_ret_bind: "may_bind (may (ret a)) f ws = f a ws"
  by (simp add: may_bind_def may_try_def)

lemma execute_doc:
  assumes "merges ps p c fs" and st: "flags_kept st p fs" "no_help (set_all sets (pf_vals st))" and c: "cm_Version c = ''''"
    "cm_Run c = Some r" "r \<noteq> RunComplete" "r \<noteq> RunCompletion"
    and h: "Lookup fs ''help'' = None" "ShorthandLookup fs (CHR ''h'') = None"
    and pa: "parses (cm_Interspersed c) fs p args sets out"
  shows "\<exists>st1. execute S run ps p c args (w, st) =
      may_bind (PersistentPreRunE S p c) (\<lambda>_. run r p c out) (w, st1) \<and>
    pf_sets st1 p = Some (fs @ [help_flag p]) \<and> (\<forall>q. q \<noteq> p \<longrightarrow> pf_sets st1 q = pf_sets st q) \<and>
    pf_vals st1 = set_all sets (pf_vals st)"
proof -
  obtain s1 where i: "InitDefaultHelpFlag ps p c st = (Ok (), s1)" and 1: "pf_sets s1 p = Some (fs @ [help_flag p])" "only_at p st s1"
    using InitDefaultHelpFlag_doc[OF assms(1) st(1) h] by blast
  have v: "InitDefaultVersionFlag ps p c s1 = (Ok (), s1)" using c(1) by (simp add: InitDefaultVersionFlag_def)
  have "flags_merged s1 p fs" using 1 by (simp add: flags_merged_def)
  moreover have "\<not> DisableFlagParsing c" using c by (simp add: DisableFlagParsing_def)
  ultimately obtain s2 where pf: "ParseFlags ps p c args s1 = (Ok out, s2\<lparr>pf_vals := set_all sets (pf_vals s1)\<rparr>)"
    and 2: "pf_sets s2 = pf_sets s1"
    using ParseFlags_doc[OF assms(1) flags_merged_kept _ pa, of s1] by blast
  let ?s = "s2\<lparr>pf_vals := set_all sets (pf_vals s1)\<rparr>"
  have F: "Flags ?s p c = fs @ [help_flag p]" using 1 2 by (simp add: Flags_def)
  have "no_help (pf_vals ?s)" using st(2) 1(2) by (simp add: only_at_def)
  then have hv: "GetBool (Flags ?s p c) ?s ''help'' = Ok False"
    using h(1) unfolding F GetBool_def getFlagType_def Lookup_append
    by (auto simp: Lookup_def help_flag_def BoolP_def flag_value_def no_help_def simp del: cli_state.simps dest!: spec[of _ p])
  have "execute S run ps p c args (w, st) =
      may_bind (PersistentPreRunE S p c) (\<lambda>_. run r p c out) (w, ?s)"
    using c by (simp add: execute_def on_cli_bind[where m = "InitDefaultHelpFlag ps p c", OF i]
      on_cli_bind[where m = "InitDefaultVersionFlag ps p c", OF v] on_cli_bind[where m = "ParseFlags ps p c args", OF pf]
      read_flags_bind[where f = "\<lambda>fs st. GetBool fs st ''help''", OF hv]
      read_flags_bind[where f = "\<lambda>fs st. Ok False", OF refl] ValidateArgs_def may_ret_bind lift_res_def) (simp add: may_bind_def may_try_def lift_res_def)
  then show ?thesis using 1 2 by (intro exI[of _ ?s]) (simp add: only_at_def)
qed

end
