(* ===== verification/Running.thy ===== *)
theory Running
  imports Program FlagSets
begin

text \<open>
  The flags of the program's commands and what a command line does: which run function is called with
  which flags, from any state that earlier runs in the same process left.
\<close>

section \<open>The flags of each command\<close>

abbreviation (input) root_path :: cmd_path where "root_path \<equiv> [''dbctl'']"
abbreviation (input) start_path :: cmd_path where "start_path \<equiv> [''dbctl'', ''start'']"
abbreviation (input) pg_path :: cmd_path where "pg_path \<equiv> [''dbctl'', ''start'', ''postgres'']"
abbreviation (input) rs_path :: cmd_path where "rs_path \<equiv> [''dbctl'', ''start'', ''redis'']"
abbreviation (input) mdb_path :: cmd_path where "mdb_path \<equiv> [''dbctl'', ''start'', ''mongodb'']"
abbreviation (input) api_path :: cmd_path where "api_path \<equiv> [''dbctl'', ''api-server'']"
abbreviation (input) stop_path :: cmd_path where "stop_path \<equiv> [''dbctl'', ''stop'']"
abbreviation (input) testing_path :: cmd_path where "testing_path \<equiv> [''dbctl'', ''testing'']"

definition root_flags :: flag_set where
  "root_flags = declared root_path [StringP ''label'' '''' '''', StringP ''listen'' '''' '''']"

definition start_set :: flag_set where
  "start_set = declared start_path [BoolP ''detach'' ''d'' False, BoolP ''ui'' '''' False] @ root_flags"

datatype kind = Pg | Rs | Mdb

fun kind_command :: "kind \<Rightarrow> command" where
  "kind_command Pg = GetPgCmd"
| "kind_command Rs = GetRedisCmd"
| "kind_command Mdb = GetMongoDBCmd"

definition kind_path :: "kind \<Rightarrow> cmd_path" where
  "kind_path k = start_path @ [cm_Name (kind_command k)]"

definition kind_flags :: "kind \<Rightarrow> flag_set" where
  "kind_flags k = declared (kind_path k) (cm_Flags (kind_command k)) @ start_set"

definition api_set :: flag_set where
  "api_set = declared api_path (cm_Flags GetTestingAPIServerCmd) @ root_flags"

definition testing_set :: flag_set where
  "testing_set = declared testing_path (cm_Flags GetStartTestingCmd) @ root_flags"

definition stop_set :: flag_set where
  "stop_set = declared stop_path (cm_Flags GetStopCmd) @ root_flags"

lemmas flag_sets = root_flags_def start_set_def kind_flags_def api_set_def testing_set_def stop_set_def declared_def flag_makers

definition app_tables :: "(cmd_path \<times> flag_set) list" where
  "app_tables = [(root_path, root_flags), (start_path, start_set), (kind_path Pg, kind_flags Pg), (kind_path Rs, kind_flags Rs),
     (kind_path Mdb, kind_flags Mdb), (api_path, api_set), (testing_path, testing_set), (stop_path, stop_set)]"

lemma command_names [simp]:
  "cm_Name GetPgCmd = ''postgres''" "cm_Name GetRedisCmd = ''redis''" "cm_Name GetMongoDBCmd = ''mongodb''"
  "cm_Name GetStartCmd = ''start''" "cm_Name GetStopCmd = ''stop''" "cm_Name GetListCmd = ''list''"
  "cm_Name GetSelfUpdateCmd = ''self-update''" "cm_Name GetTestingAPIServerCmd = ''api-server''"
  "cm_Name GetDescribeCmd = ''describe''" "cm_Name GetStartTestingCmd = ''testing''"
  by (simp_all add: app_commands cm_Name_def)

lemma kind_paths [simp]: "kind_path Pg = pg_path" "kind_path Rs = rs_path" "kind_path Mdb = mdb_path"
  by (simp_all add: kind_path_def)

lemma table_paths: "distinct (map fst app_tables)"
  by (simp add: app_tables_def)

text \<open>Every declared flag once.\<close>

definition app_flags :: flag_set where
  "app_flags = root_flags @ declared start_path (cm_PersistentFlags GetStartCmd) @
     concat (map (\<lambda>k. declared (kind_path k) (cm_Flags (kind_command k))) [Pg, Rs, Mdb]) @
     declared api_path (cm_Flags GetTestingAPIServerCmd) @ declared testing_path (cm_Flags GetStartTestingCmd)"

abbreviation flag_key :: "flag_ref \<Rightarrow> cmd_path \<times> string" where
  "flag_key f \<equiv> (fst f, fd_name (snd f))"

lemma app_flags_keys: "inj_on flag_key (set app_flags)"
proof -
  have "distinct (map flag_key app_flags)"
    by (simp add: app_flags_def flag_sets app_commands)
  then show ?thesis by (simp add: distinct_map)
qed

lemma app_tables_flags: "(p, fs) \<in> set app_tables \<Longrightarrow> set fs \<subseteq> set app_flags"
  by (auto simp: app_tables_def app_flags_def kind_flags_def start_set_def api_set_def testing_set_def stop_set_def GetStartCmd_def
      GetStopCmd_def declared_def)

lemma app_flags_plain: "\<forall>f\<in>set app_flags. plain_flag f \<and> fd_name (snd f) \<noteq> ''help'' \<and> fd_short (snd f) \<noteq> ''h''"
  by (simp add: app_flags_def flag_sets app_commands plain_flag_def)

lemma ShorthandLookup_None: "\<forall>f\<in>set fs. fd_short (snd f) \<noteq> [c] \<Longrightarrow> ShorthandLookup fs c = None"
  by (auto simp: ShorthandLookup_def find_None_iff)

lemma table_plain:
  assumes "(p, fs) \<in> set app_tables"
  shows "\<forall>f\<in>set fs. plain_flag f" and "Lookup fs ''help'' = None" and "ShorthandLookup fs (CHR ''h'') = None"
proof -
  have a: "\<forall>f\<in>set fs. plain_flag f \<and> fd_name (snd f) \<noteq> ''help'' \<and> fd_short (snd f) \<noteq> ''h''"
    using app_flags_plain app_tables_flags[OF assms] by blast
  then show "\<forall>f\<in>set fs. plain_flag f" and "ShorthandLookup fs (CHR ''h'') = None"
    by (simp_all add: ShorthandLookup_None)
  show "Lookup fs ''help'' = None" unfolding Lookup_None image_iff using a by metis
qed

text \<open>The flags of the root and its command tree do not clash.\<close>

definition is_root :: "command \<Rightarrow> bool" where
  "is_root r \<longleftrightarrow> cm_Flags r = [] \<and> cm_PersistentFlags r = [StringP ''label'' '''' '''', StringP ''listen'' '''' ''''] \<and>
     cm_Interspersed r \<and> cm_Run r = None"

lemmas merge_eval = merges_def Lookup_def ShorthandLookup_def AddFlag_def flag_sets app_commands

lemma merges_root: "is_root r \<Longrightarrow> merges [] root_path r root_flags"
  by (simp add: is_root_def merge_eval)

lemma merges_start: "is_root r \<Longrightarrow> merges [(root_path, r)] start_path GetStartCmd start_set"
  by (simp add: is_root_def merge_eval)

lemma merges_kind: "is_root r \<Longrightarrow>
    merges [(start_path, GetStartCmd), (root_path, r)] (kind_path k) (kind_command k) (kind_flags k)"
  by (cases k) (simp_all add: is_root_def merge_eval)

lemma merges_api: "is_root r \<Longrightarrow> merges [(root_path, r)] api_path GetTestingAPIServerCmd api_set"
  by (simp add: is_root_def merge_eval)

lemma merges_testing: "is_root r \<Longrightarrow> merges [(root_path, r)] testing_path GetStartTestingCmd testing_set"
  by (simp add: is_root_def merge_eval)

lemma merges_stop: "is_root r \<Longrightarrow> merges [(root_path, r)] stop_path GetStopCmd stop_set"
  by (simp add: is_root_def merge_eval)

section \<open>The state between runs\<close>

definition typed :: "flag_env \<Rightarrow> bool" where
  "typed e \<longleftrightarrow> (\<forall>f\<in>set app_flags. \<forall>v. e (flag_key f) = Some v \<longrightarrow> value_type v = value_type (fd_value (snd f)))"

definition cli_ok :: "cli_state \<Rightarrow> bool" where
  "cli_ok st \<longleftrightarrow> (\<forall>(p, fs)\<in>set app_tables. flags_kept st p fs) \<and> no_help (pf_vals st) \<and> typed (pf_vals st)"

lemma cli_ok_fresh [simp]: "cli_ok fresh_cli"
  by (auto simp: cli_ok_def fresh_cli_def flags_kept_def no_help_def typed_def)

lemma cli_ok_kept: "cli_ok st \<Longrightarrow> (p, fs) \<in> set app_tables \<Longrightarrow> flags_kept st p fs"
  by (auto simp: cli_ok_def)

lemma value_type_set: "value_type (fst (set_value v s)) = value_type v"
  by (cases v) (auto split: res.splits prod.splits)

lemma typed_set_all: "typed e \<Longrightarrow> \<forall>x\<in>set xs. fst x \<in> set app_flags \<Longrightarrow> typed (set_all xs e)"
proof (induction xs arbitrary: e)
  case Nil
  then show ?case by simp
next
  case (Cons x xs)
  obtain p d s where x: "x = ((p, d), s)" by (cases x) auto
  have "typed (e((p, fd_name d) \<mapsto> fst (set_value (fd_value d) s)))"
    unfolding typed_def
  proof (intro ballI allI impI)
    fix f v assume f: "f \<in> set app_flags" and v: "(e((p, fd_name d) \<mapsto> fst (set_value (fd_value d) s))) (flag_key f) = Some v"
    show "value_type v = value_type (fd_value (snd f))"
    proof (cases "flag_key f = (p, fd_name d)")
      case True
      then have "f = (p, d)" using inj_onD[OF app_flags_keys, of f "(p, d)"] f Cons.prems(2) x by auto
      then show ?thesis using v by (auto simp: value_type_set)
    next
      case False
      then show ?thesis using v f Cons.prems(1) by (auto simp: typed_def)
    qed
  qed
  then show ?case using Cons by (simp add: x set_all.simps(2))
qed

lemma assigns_app:
  assumes "(p, fs) \<in> set app_tables" and "\<forall>a\<in>set as. takes_flag fs a"
  shows "\<forall>x\<in>set (assigns fs as). fst x \<in> set app_flags"
  using assms(2) app_tables_flags[OF assms(1)] by (auto simp: assigns_def dest!: bspec takes_Lookup)

lemma cli_ok_step:
  assumes "cli_ok st" and "(p, fs) \<in> set app_tables" and "flags_kept st1 p fs" and "\<forall>q. q \<noteq> p \<longrightarrow> pf_sets st1 q = pf_sets st q"
    and "no_help (pf_vals st1)" and "typed (pf_vals st1)"
  shows "cli_ok st1"
proof -
  have "flags_kept st1 q gs" if q: "(q, gs) \<in> set app_tables" for q gs
  proof (cases "q = p")
    case True
    then have "gs = fs" using q assms(2) table_paths by (metis Some_eq_map_of_iff option.inject)
    then show ?thesis using True assms(3) by simp
  next
    case False
    then show ?thesis using cli_ok_kept[OF assms(1) q] assms(4) by (simp add: flags_kept_def)
  qed
  then show ?thesis using assms(5,6) by (auto simp: cli_ok_def)
qed

lemma cli_ok_only_at:
  "cli_ok st \<Longrightarrow> (p, fs) \<in> set app_tables \<Longrightarrow> flags_kept st1 p fs \<Longrightarrow> only_at p st st1 \<Longrightarrow> cli_ok st1"
  by (rule cli_ok_step[of st p fs]) (auto simp: only_at_def cli_ok_def)

section \<open>The values of flags\<close>

definition string_at :: "flag_env \<Rightarrow> cmd_path \<Rightarrow> string \<Rightarrow> string \<Rightarrow> string" where
  "string_at e p n d = (case e (p, n) of Some (FString s) \<Rightarrow> s | _ \<Rightarrow> d)"

definition bool_at :: "flag_env \<Rightarrow> cmd_path \<Rightarrow> string \<Rightarrow> bool \<Rightarrow> bool" where
  "bool_at e p n d = (case e (p, n) of Some (FBool b) \<Rightarrow> b | _ \<Rightarrow> d)"

definition uint32_at :: "flag_env \<Rightarrow> cmd_path \<Rightarrow> string \<Rightarrow> u32 \<Rightarrow> u32" where
  "uint32_at e p n d = (case e (p, n) of Some (FUint32 m) \<Rightarrow> m | _ \<Rightarrow> d)"

definition int_at :: "flag_env \<Rightarrow> cmd_path \<Rightarrow> string \<Rightarrow> int \<Rightarrow> int" where
  "int_at e p n d = (case e (p, n) of Some (FInt m) \<Rightarrow> m | _ \<Rightarrow> d)"

definition postgres_given :: "flag_env \<Rightarrow> start_flags" where
  "postgres_given e = \<lparr>fl_port = uint32_at e pg_path ''port'' pg_DefaultPort, fl_label = string_at e root_path ''label'' '''',
     fl_detach = bool_at e start_path ''detach'' False, fl_ui = bool_at e start_path ''ui'' False,
     fl_name = string_at e pg_path ''name'' pg_DefaultName, fl_pass = string_at e pg_path ''pass'' pg_DefaultPass,
     fl_user = string_at e pg_path ''user'' pg_DefaultUser, fl_version = string_at e pg_path ''version'' '''',
     fl_migrations = string_at e pg_path ''migrations'' '''', fl_fixtures = string_at e pg_path ''fixtures'' ''''\<rparr>"

definition mongo_given :: "flag_env \<Rightarrow> start_flags" where
  "mongo_given e = \<lparr>fl_port = uint32_at e mdb_path ''port'' mdb_DefaultPort, fl_label = string_at e root_path ''label'' '''',
     fl_detach = bool_at e start_path ''detach'' False, fl_ui = bool_at e start_path ''ui'' False,
     fl_name = string_at e mdb_path ''name'' mdb_DefaultName, fl_pass = string_at e mdb_path ''pass'' mdb_DefaultPass,
     fl_user = string_at e mdb_path ''user'' mdb_DefaultUser, fl_version = string_at e mdb_path ''version'' '''',
     fl_migrations = string_at e mdb_path ''migrations'' '''', fl_fixtures = string_at e mdb_path ''fixtures'' ''''\<rparr>"

definition redis_given :: "flag_env \<Rightarrow> start_flags \<times> int" where
  "redis_given e = (\<lparr>fl_port = uint32_at e rs_path ''port'' rs_DefaultPort, fl_label = string_at e root_path ''label'' '''',
     fl_detach = bool_at e start_path ''detach'' False, fl_ui = False, fl_name = '''',
     fl_pass = string_at e rs_path ''pass'' '''', fl_user = string_at e rs_path ''user'' '''',
     fl_version = string_at e rs_path ''version'' '''', fl_migrations = '''',
     fl_fixtures = string_at e rs_path ''fixtures'' ''''\<rparr>, int_at e rs_path ''db'' 0)"

text \<open>The flags of a command: those of the program and its own help flag.\<close>

definition readable :: "flag_set \<Rightarrow> cli_state \<Rightarrow> bool" where
  "readable fs st \<longleftrightarrow> typed (pf_vals st) \<and> no_help (pf_vals st) \<and> (\<exists>q. set fs \<subseteq> insert (help_flag q) (set app_flags))"

lemma readable_value:
  assumes "readable fs st" and "Lookup fs n = Some f"
  shows "value_type (flag_value st f) = value_type (fd_value (snd f))"
proof -
  obtain q where "f = help_flag q \<or> f \<in> set app_flags"
    using assms(1) Lookup_Some[OF assms(2)] by (auto simp: readable_def)
  then show ?thesis
  proof
    assume "f = help_flag q"
    then show ?thesis using assms(1)
      by (auto simp: readable_def no_help_def flag_value_def help_flag_def BoolP_def split: option.splits dest!: spec[of _ q])
  next
    assume f: "f \<in> set app_flags"
    obtain p d where pd: "f = (p, d)" by (cases f)
    have "value_type v = value_type (fd_value d)" if "pf_vals st (p, fd_name d) = Some v" for v
      using assms(1) f that pd by (force simp: readable_def typed_def)
    then show ?thesis using pd by (simp add: flag_value_def split: option.split)
  qed
qed

lemma GetString_at:
  assumes "readable fs st"
  shows "GetString fs st n = (case Lookup fs n of None \<Rightarrow> Err (Errorf ''flag accessed but not defined: %s'' [n])
     | Some f \<Rightarrow> (case fd_value (snd f) of FString d \<Rightarrow> Ok (string_at (pf_vals st) (fst f) n d)
         | v \<Rightarrow> Err (Errorf ''trying to get %s value of flag of type %s'' [''string'', value_type v])))"
proof (cases "Lookup fs n")
  case None
  then show ?thesis by (simp add: GetString_def getFlagType_def)
next
  case (Some f)
  obtain p d where f: "f = (p, d)" "fd_name d = n" using Lookup_Some[OF Some] by (cases f) auto
  show ?thesis using readable_value[OF assms Some] Some f
    by (cases "flag_value st f"; cases "fd_value d")
      (auto simp: GetString_def getFlagType_def flag_value_def string_at_def split: option.splits)
qed

lemma GetBool_at:
  assumes "readable fs st"
  shows "GetBool fs st n = (case Lookup fs n of None \<Rightarrow> Err (Errorf ''flag accessed but not defined: %s'' [n])
     | Some f \<Rightarrow> (case fd_value (snd f) of FBool d \<Rightarrow> Ok (bool_at (pf_vals st) (fst f) n d)
         | v \<Rightarrow> Err (Errorf ''trying to get %s value of flag of type %s'' [''bool'', value_type v])))"
proof (cases "Lookup fs n")
  case None
  then show ?thesis by (simp add: GetBool_def getFlagType_def)
next
  case (Some f)
  obtain p d where f: "f = (p, d)" "fd_name d = n" using Lookup_Some[OF Some] by (cases f) auto
  show ?thesis using readable_value[OF assms Some] Some f
    by (cases "flag_value st f"; cases "fd_value d")
      (auto simp: GetBool_def getFlagType_def flag_value_def bool_at_def split: option.splits)
qed

lemma GetUint32_at:
  assumes "readable fs st"
  shows "GetUint32 fs st n = (case Lookup fs n of None \<Rightarrow> Err (Errorf ''flag accessed but not defined: %s'' [n])
     | Some f \<Rightarrow> (case fd_value (snd f) of FUint32 d \<Rightarrow> Ok (uint32_at (pf_vals st) (fst f) n d)
         | v \<Rightarrow> Err (Errorf ''trying to get %s value of flag of type %s'' [''uint32'', value_type v])))"
proof (cases "Lookup fs n")
  case None
  then show ?thesis by (simp add: GetUint32_def getFlagType_def)
next
  case (Some f)
  obtain p d where f: "f = (p, d)" "fd_name d = n" using Lookup_Some[OF Some] by (cases f) auto
  show ?thesis using readable_value[OF assms Some] Some f
    by (cases "flag_value st f"; cases "fd_value d")
      (auto simp: GetUint32_def getFlagType_def flag_value_def uint32_at_def split: option.splits)
qed

lemma GetInt_at:
  assumes "readable fs st"
  shows "GetInt fs st n = (case Lookup fs n of None \<Rightarrow> Err (Errorf ''flag accessed but not defined: %s'' [n])
     | Some f \<Rightarrow> (case fd_value (snd f) of FInt d \<Rightarrow> Ok (int_at (pf_vals st) (fst f) n d)
         | v \<Rightarrow> Err (Errorf ''trying to get %s value of flag of type %s'' [''int'', value_type v])))"
proof (cases "Lookup fs n")
  case None
  then show ?thesis by (simp add: GetInt_def getFlagType_def)
next
  case (Some f)
  obtain p d where f: "f = (p, d)" "fd_name d = n" using Lookup_Some[OF Some] by (cases f) auto
  show ?thesis using readable_value[OF assms Some] Some f
    by (cases "flag_value st f"; cases "fd_value d")
      (auto simp: GetInt_def getFlagType_def flag_value_def int_at_def split: option.splits)
qed

lemmas Get_at = GetString_at GetBool_at GetUint32_at GetInt_at

lemma table_readable:
  assumes "(p, fs) \<in> set app_tables" and "cli_ok st"
  shows "readable (fs @ [help_flag p]) st"
  using app_tables_flags[OF assms(1)] assms(2) by (auto simp: readable_def cli_ok_def)

lemma postgres_flags_doc:
  assumes "readable (kind_flags Pg @ [help_flag p]) st"
  shows "postgres_flags (kind_flags Pg @ [help_flag p]) st = Ok (postgres_given (pf_vals st))"
  unfolding postgres_flags_def postgres_given_def Get_at[OF assms]
  by (simp add: Lookup_def flag_sets help_flag_def GetPgCmd_def)

lemma mongo_flags_doc:
  assumes "readable (kind_flags Mdb @ [help_flag p]) st"
  shows "mongo_flags (kind_flags Mdb @ [help_flag p]) st = Ok (mongo_given (pf_vals st))"
  unfolding mongo_flags_def mongo_given_def Get_at[OF assms]
  by (simp add: Lookup_def flag_sets help_flag_def GetMongoDBCmd_def)

lemma redis_flags_doc:
  assumes "readable (kind_flags Rs @ [help_flag p]) st"
  shows "redis_flags (kind_flags Rs @ [help_flag p]) st = Ok (redis_given (pf_vals st))"
  unfolding redis_flags_def redis_given_def Get_at[OF assms]
  by (simp add: Lookup_def flag_sets help_flag_def GetRedisCmd_def)

section \<open>Running a part\<close>

text \<open>The run of a start command with the values that the flags have.\<close>

fun start_run :: "'w sys \<Rightarrow> kind \<Rightarrow> flag_env \<Rightarrow> (unit, 'w) maybe_action" where
  "start_run S Pg e = runPostgres S (postgres_given e)"
| "start_run S Rs e = (case redis_given e of (f, dbIndex) \<Rightarrow> runRedis S f dbIndex)"
| "start_run S Mdb e = runMongoDB S (mongo_given e)"

definition kind_named :: "string \<Rightarrow> kind \<Rightarrow> bool" where
  "kind_named n k \<longleftrightarrow> (case k of Pg \<Rightarrow> n = ''postgres'' \<or> n = ''pg'' | Rs \<Rightarrow> n = ''redis'' \<or> n = ''rs''
     | Mdb \<Rightarrow> n = ''mongodb'' \<or> n = ''mongo'' \<or> n = ''mdb'')"

definition kind_runner :: "kind \<Rightarrow> runner" where
  "kind_runner k = (case k of Pg \<Rightarrow> RunPostgres | Rs \<Rightarrow> RunRedis | Mdb \<Rightarrow> RunMongoDB)"

lemma kind_command_props [simp]:
  "cm_Commands (kind_command k) = []" "cm_Version (kind_command k) = ''''" "cm_Interspersed (kind_command k)"
  "cm_Run (kind_command k) = Some (kind_runner k)" "kind_runner k \<noteq> RunComplete" "kind_runner k \<noteq> RunCompletion"
  "cm_Name (kind_command k) \<noteq> ''__complete''"
  by (cases k; simp add: app_commands kind_runner_def cm_Name_def)+

lemma kind_found: "kind_named n k \<Longrightarrow> findNext (cm_Commands GetStartCmd) n = Some (kind_command k)"
  by (cases k) (auto simp: kind_named_def findNext_def app_commands cm_Name_def)

lemma kind_plain: "kind_named n k \<Longrightarrow> plain_word n \<and> \<not> isFlagArg n"
  by (cases k) (auto simp: kind_named_def plain_word_def isFlagArg_def)

text \<open>Help and an error that asks for help are the same to the caller.\<close>

lemma help_shown_on_world: "help_shown (on_world m) (w, st) = on_world (help_shown m) (w, st)"
  by (simp add: help_shown_def on_world_def may_try_def may_def split: option.splits prod.splits res.splits)

definition listened :: "'w sys \<Rightarrow> flag_env \<Rightarrow> (unit, 'w) maybe_action \<Rightarrow> (unit, 'w) maybe_action" where
  "listened S e m = help_shown (may_bind (may (preRun S (string_at e root_path ''listen'' ''''))) (\<lambda>_. m))"

lemma on_world_bind: "may_bind (on_world m) (\<lambda>a. on_world (f a)) (w, st) = on_world (may_bind m f) (w, st)"
  by (simp add: may_bind_def may_try_def on_world_def may_def split: option.splits prod.splits res.splits)

lemma PersistentPreRunE_keeps: "PersistentPreRunE S p c (w, st) = Some (r, (w1, st1)) \<Longrightarrow> st1 = st"
  by (auto simp: PersistentPreRunE_def may_bind_def may_try_def read_flags_def on_cli_def on_world_def may_def fail_def
      split: option.splits prod.splits res.splits)

lemma PersistentPreRunE_doc:
  assumes "readable (Flags st p c) st" and "Lookup (Flags st p c) ''listen'' = Some (root_path, StringP ''listen'' '''' '''')"
  shows "help_shown (may_bind (PersistentPreRunE S p c) (\<lambda>_. on_world m)) (w, st) = on_world (listened S (pf_vals st) m) (w, st)"
proof -
  have g: "wrap_err ''invalid listen args, %w'' [] (GetString (Flags st p c) st ''listen'') = Ok (string_at (pf_vals st) root_path ''listen'' '''')"
    using assms(2) by (simp add: GetString_at[OF assms(1)] StringP_def)
  have "may_bind (PersistentPreRunE S p c) (\<lambda>_. on_world m) (w, st) =
      on_world (may_bind (may (preRun S (string_at (pf_vals st) root_path ''listen'' ''''))) (\<lambda>_. m)) (w, st)"
    unfolding on_world_bind[symmetric]
    by (simp add: PersistentPreRunE_def may_bind_def may_try_def read_flags_def on_cli_def g)
  then show ?thesis using help_shown_on_world
    unfolding listened_def by (simp add: help_shown_def may_try_def)
qed


lemma prerun_run:
  assumes "\<And>w1. m1 (w1, st) = on_world m (w1, st)" and "readable (Flags st p c) st"
    and "Lookup (Flags st p c) ''listen'' = Some (root_path, StringP ''listen'' '''' '''')"
  shows "help_shown (may_bind (PersistentPreRunE S p c) (\<lambda>_. m1)) (w, st) = on_world (listened S (pf_vals st) m) (w, st)"
proof -
  have "may_bind (PersistentPreRunE S p c) (\<lambda>_. m1) (w, st) = may_bind (PersistentPreRunE S p c) (\<lambda>_. on_world m) (w, st)"
    using PersistentPreRunE_keeps[of S p c w st] assms(1) by (auto simp: may_bind_def may_try_def split: option.splits res.splits)
  then have "help_shown (may_bind (PersistentPreRunE S p c) (\<lambda>_. m1)) (w, st) =
      help_shown (may_bind (PersistentPreRunE S p c) (\<lambda>_. on_world m)) (w, st)"
    by (simp only: help_shown_def may_try_def)
  then show ?thesis using PersistentPreRunE_doc[OF assms(2,3)] by simp
qed

section \<open>The root\<close>

definition full_root :: "string \<Rightarrow> command" where
  "full_root v = with_builtin (dbctl_root v)"

definition asking_root :: "string \<Rightarrow> command" where
  "asking_root v = AddCommand [complete_command] (full_root v)"

lemmas root_defs = full_root_def asking_root_def with_builtin_def dbctl_root_def GetRootCmd_def

lemma roots [simp]: "is_root (full_root v)" "is_root (asking_root v)" "cm_Name (full_root v) = ''dbctl''" "cm_Name (asking_root v) = ''dbctl''"
  "\<not> DisableFlagParsing (full_root v)" "cm_Interspersed (full_root v)" "\<not> DisableFlagParsing GetStartCmd" "cm_Interspersed GetStartCmd"
  by (simp_all add: root_defs is_root_def cm_Name_def DisableFlagParsing_def GetStartCmd_def)

lemma root_finds [simp]:
  "findNext (cm_Commands (full_root v)) ''start'' = Some GetStartCmd"
  "findNext (cm_Commands (asking_root v)) ''start'' = Some GetStartCmd"
  "findNext (cm_Commands (full_root v)) ''api-server'' = Some GetTestingAPIServerCmd"
  "findNext (cm_Commands (asking_root v)) ''api-server'' = Some GetTestingAPIServerCmd"
  "findNext (cm_Commands (full_root v)) ''testing'' = Some GetStartTestingCmd"
  "findNext (cm_Commands (asking_root v)) ''testing'' = Some GetStartTestingCmd"
  "findNext (cm_Commands (full_root v)) ''stop'' = Some GetStopCmd"
  "findNext (cm_Commands (asking_root v)) ''stop'' = Some GetStopCmd"
  by (simp_all add: root_defs findNext_def) (simp_all add: GetStartCmd_def GetStopCmd_def GetListCmd_def GetSelfUpdateCmd_def GetDescribeCmd_def GetTestingAPIServerCmd_def)

lemma root_words [simp]: "plain_word ''start''" "\<not> isFlagArg ''start''" "plain_word ''api-server''" "\<not> isFlagArg ''api-server''"
  "plain_word ''testing''" "\<not> isFlagArg ''testing''" "plain_word ''stop''" "\<not> isFlagArg ''stop''"
  by (simp_all add: plain_word_def isFlagArg_def)

lemma table_in [simp]: "(root_path, root_flags) \<in> set app_tables" "(start_path, start_set) \<in> set app_tables"
  "(kind_path k, kind_flags k) \<in> set app_tables" "(api_path, api_set) \<in> set app_tables" "(testing_path, testing_set) \<in> set app_tables"
  "(stop_path, stop_set) \<in> set app_tables"
  by (simp_all add: app_tables_def) (cases k; simp)

lemma path_append: "root_path @ [''start''] = start_path" "root_path @ [''api-server''] = api_path"
  "root_path @ [''testing''] = testing_path" "[''dbctl'', ''start'', cm_Name (kind_command k)] = kind_path k"
  by (simp_all add: kind_path_def)

lemma path_differ [simp]: "kind_path k \<noteq> root_path" "kind_path k \<noteq> start_path" "root_path \<noteq> start_path"
  "root_path \<noteq> kind_path k" "start_path \<noteq> kind_path k" "start_path \<noteq> root_path" "kind_path k \<noteq> api_path" "kind_path k \<noteq> testing_path"
  by (simp_all add: kind_path_def)

lemma flags_merged_other: "flags_merged st p fs \<Longrightarrow> only_at q st st1 \<Longrightarrow> p \<noteq> q \<Longrightarrow> flags_merged st1 p fs"
  by (simp add: flags_merged_def only_at_def)

text \<open>The completion command is not asked for; the flag sets on the way are merged.\<close>

lemma start_initComplete:
  assumes "cli_ok st" and "kind_named n k" and sw: "sw_sets start_set start_path True sw sets"
  shows "\<exists>st1. initCompleteCmd (full_root v) (''start'' # sw @ n # args) st = (Ok (full_root v), st1) \<and>
    flags_merged st1 root_path root_flags \<and> flags_merged st1 start_path start_set \<and> cli_ok st1 \<and> pf_vals st1 = pf_vals st"
proof -
  let ?R = "asking_root v"
  obtain st1 where 1: "Find [] root_path ?R (''start'' # sw @ n # args) st =
      Find [(root_path, ?R)] start_path GetStartCmd (sw @ n # args) st1"
    and m1: "flags_merged st1 root_path root_flags" and o1: "only_at root_path st st1"
    using Find_sub[OF merges_root[of ?R], where st = st and i = True and sw = "[]" and sets = "[]" and n = "''start''" and d = GetStartCmd and args = "sw @ n # args"] cli_ok_kept[OF assms(1)]
    by auto
  have c1: "cli_ok st1" using cli_ok_only_at[OF assms(1) _ flags_merged_kept[OF m1] o1] by simp
  obtain st2 where 2: "Find [(root_path, ?R)] start_path GetStartCmd (sw @ n # args) st1 =
      Find [(start_path, GetStartCmd), (root_path, ?R)] (kind_path k) (kind_command k) (sw @ args) st2"
    and m2: "flags_merged st2 start_path start_set" and o2: "only_at start_path st1 st2"
    using Find_sub[OF merges_start[of ?R] _ sw, where st = st1 and n = n and d = "kind_command k" and args = args] cli_ok_kept[OF c1] sw
      kind_found[OF assms(2)] kind_plain[OF assms(2)] by (auto simp: path_append)
  have c2: "cli_ok st2" using cli_ok_only_at[OF c1 _ flags_merged_kept[OF m2] o2] by simp
  obtain st3 where 3: "Find [(start_path, GetStartCmd), (root_path, ?R)] (kind_path k) (kind_command k) (sw @ args) st2 = (Ok (kind_command k), st3)"
    and k3: "flags_kept st3 (kind_path k) (kind_flags k)" and o3: "only_at (kind_path k) st2 st3"
    using Find_leaf[OF merges_kind[of ?R k], where st = st2 and args = "sw @ args"] cli_ok_kept[OF c2] by auto
  have "cli_ok st3" using cli_ok_only_at[OF c2 _ k3 o3] by simp
  moreover have "flags_merged st3 root_path root_flags" "flags_merged st3 start_path start_set"
    using flags_merged_other[OF flags_merged_other[OF m1 o2] o3] flags_merged_other[OF m2 o3] by simp_all
  moreover have "initCompleteCmd (full_root v) (''start'' # sw @ n # args) st = (Ok (full_root v), st3)"
    using 1 2 3 by (simp add: initCompleteCmd_def bind_def Let_def asking_root_def[symmetric])
  ultimately show ?thesis using o1 o2 o3 by (auto simp: only_at_def)
qed

lemma start_traverse:
  assumes "flags_merged st root_path root_flags" and "flags_merged st start_path start_set"
    and "kind_named n k" and sw: "sw_sets start_set start_path True sw sets"
  shows "Traverse [] root_path (full_root v) (''start'' # sw @ n # args) st =
    (Ok ([(start_path, GetStartCmd), (root_path, full_root v)], kind_path k, kind_command k, args),
     st\<lparr>pf_vals := set_all sets (pf_vals st)\<rparr>)"
  using Traverse_sub[OF merges_root[OF roots(1)] assms(1) roots(5), where sw = "[]" and sets = "[]" and n = "''start''" and d = GetStartCmd and args = "sw @ n # args"]
    Traverse_sub[OF merges_start[OF roots(1)] assms(2) roots(7), where sw = sw and sets = sets and n = n and d = "kind_command k" and args = args]
    sw kind_found[OF assms(3)] kind_plain[OF assms(3)]
  by (simp add: path_append Traverse_leaf)

section \<open>A start command\<close>

definition detach_flag :: flag_ref where
  "detach_flag = (start_path, BoolP ''detach'' ''d'' False)"

lemma detach_switch: "sw_sets start_set start_path True [''-d''] [(detach_flag, ''true'')]"
  by (simp add: sw_sets_def parses_def detach_flag_def start_set_def root_flags_def declared_def flag_makers ShorthandLookup_def NoOptDefVal_def
      switch_def isFlagArg_def takes_value_def shortHasNoOptDefVal_def help_flag_def) (simp add: parseBool_def)

lemma kind_listen: "Lookup (kind_flags k @ [help_flag p]) ''listen'' = Some (root_path, StringP ''listen'' '''' '''')"
  by (cases k) (simp_all add: Lookup_def flag_sets app_commands help_flag_def)

lemma kind_run:
  assumes "readable (kind_flags k @ [help_flag (kind_path k)]) st" and "Flags st p c = kind_flags k @ [help_flag (kind_path k)]"
  shows "run_command P again (kind_runner k) p c args (w, st) = on_world (start_run (pr_sys P) k (pf_vals st)) (w, st)"
proof (cases k)
  case Pg
  with assms have "postgres_flags (Flags st p c) st = Ok (postgres_given (pf_vals st))" using postgres_flags_doc[of "kind_path Pg" st] by simp
  from read_flags_bind[where f = postgres_flags, OF this] show ?thesis using Pg
    by (simp add: run_command_def kind_runner_def)
next
  case Rs
  with assms have "redis_flags (Flags st p c) st = Ok (redis_given (pf_vals st))" using redis_flags_doc[of "kind_path Rs" st] by simp
  moreover obtain f d where "redis_given (pf_vals st) = (f, d)" by (cases "redis_given (pf_vals st)")
  ultimately have "redis_flags (Flags st p c) st = Ok (f, d)" "redis_given (pf_vals st) = (f, d)" by simp_all
  then show ?thesis using Rs
    by (simp add: run_command_def kind_runner_def read_flags_bind[where f = redis_flags])
next
  case Mdb
  with assms have "mongo_flags (Flags st p c) st = Ok (mongo_given (pf_vals st))" using mongo_flags_doc[of "kind_path Mdb" st] by simp
  from read_flags_bind[where f = mongo_flags, OF this] show ?thesis using Mdb
    by (simp add: run_command_def kind_runner_def)
qed

lemma cli_ok_sets:
  assumes "cli_ok st" and "\<forall>x\<in>set sets. fst x \<in> set app_flags"
  shows "no_help (set_all sets (pf_vals st)) \<and> typed (set_all sets (pf_vals st))"
proof -
  have "\<forall>x\<in>set sets. fd_name (snd (fst x)) \<noteq> ''help''" using assms(2) app_flags_plain by blast
  then show ?thesis using assms no_help_set_all typed_set_all by (auto simp: cli_ok_def)
qed

lemma cli_ok_executed:
  assumes "cli_ok st" and "(p, fs) \<in> set app_tables" and "\<forall>x\<in>set sets. fst x \<in> set app_flags"
    and "pf_sets st1 p = Some (fs @ [help_flag p])" and "\<forall>q. q \<noteq> p \<longrightarrow> pf_sets st1 q = pf_sets st q"
    and "pf_vals st1 = set_all sets (pf_vals st)"
  shows "cli_ok st1"
  using cli_ok_sets[OF assms(1,3)] assms(4-6) by (intro cli_ok_step[OF assms(1,2)]) (auto simp: flags_kept_def)

lemma help_shown_cong: "m w = m1 w1 \<Longrightarrow> help_shown m w = help_shown m1 w1"
  by (simp add: help_shown_def may_try_def)

lemma ExecuteC_doc:
  assumes "initCompleteCmd (with_builtin root) args st = (Ok r, st1)"
    and "Traverse [] [cm_Name r] r args st1 = (Ok (ps, p, c, rest), st2)"
  shows "ExecuteC S run root args (w, st) = help_shown (execute S run ps p c rest) (w, st2)"
  by (simp add: ExecuteC_def on_cli_bind[where m = "initCompleteCmd (with_builtin root) args", OF assms(1)]
    on_cli_bind[where m = "Traverse [] [cm_Name r] r args", OF assms(2)])

text \<open>The run of a found command: its run function below the listen address.\<close>

lemma found_run:
  assumes c: "cm_Version c = ''''" "cm_Run c = Some r" "r \<noteq> RunComplete" "r \<noteq> RunCompletion"
    and m: "merges ps p c fs" "(p, fs) \<in> set app_tables" and st: "cli_ok st"
    and pa: "parses (cm_Interspersed c) fs p args sets out" "\<forall>x\<in>set sets. fst x \<in> set app_flags"
  shows "\<exists>st1. cli_ok st1 \<and> pf_vals st1 = set_all sets (pf_vals st) \<and>
    Flags st1 p c = fs @ [help_flag p] \<and> readable (fs @ [help_flag p]) st1 \<and>
    execute S run ps p c args (w, st) = may_bind (PersistentPreRunE S p c) (\<lambda>_. run r p c out) (w, st1)"
proof -
  have nh: "no_help (set_all sets (pf_vals st))" using cli_ok_sets[OF st pa(2)] by simp
  obtain st1 where e: "execute S run ps p c args (w, st) =
      may_bind (PersistentPreRunE S p c) (\<lambda>_. run r p c out) (w, st1)"
    and 1: "pf_sets st1 p = Some (fs @ [help_flag p])" "\<forall>q. q \<noteq> p \<longrightarrow> pf_sets st1 q = pf_sets st q"
      "pf_vals st1 = set_all sets (pf_vals st)"
    using execute_doc[OF m(1) cli_ok_kept[OF st m(2)] nh c table_plain(2,3)[OF m(2)] pa(1),
      where S = S and run = run and w = w] by (elim exE conjE) (rule that)
  have k: "cli_ok st1" by (rule cli_ok_executed[OF st m(2) pa(2) 1])
  have f: "Flags st1 p c = fs @ [help_flag p]" using 1(1) by (simp add: Flags_def)
  show ?thesis by (intro exI[of _ st1] conjI) (rule k 1(3) f table_readable[OF m(2) k] e)+
qed

theorem run_start_doc:
  assumes "cli_ok st" and "kind_named n k" and sw: "sw_sets start_set start_path True sw sets"
    and "\<forall>x\<in>set sets. fst x \<in> set app_flags" and as: "\<forall>a\<in>set as. takes_flag (kind_flags k) a"
  shows "\<exists>st1. ExecuteC (pr_sys P) (run_command P again) (dbctl_root v) (''start'' # sw @ n # map word_of as) (w, st) =
      on_world (listened (pr_sys P) (pf_vals st1) (start_run (pr_sys P) k (pf_vals st1))) (w, st1) \<and>
    cli_ok st1 \<and> pf_vals st1 = set_all (assigns (kind_flags k) as) (set_all sets (pf_vals st))"
proof -
  let ?S = "pr_sys P" and ?args = "''start'' # sw @ n # map word_of as"
  let ?ps = "[(start_path, GetStartCmd), (root_path, full_root v)]" and ?c = "kind_command k" and ?p = "kind_path k"
  obtain s1 where i: "initCompleteCmd (full_root v) ?args st = (Ok (full_root v), s1)"
    and m: "flags_merged s1 root_path root_flags" "flags_merged s1 start_path start_set" and ok: "cli_ok s1" and v1: "pf_vals s1 = pf_vals st"
    using start_initComplete[OF assms(1,2) sw] by blast
  let ?s = "s1\<lparr>pf_vals := set_all sets (pf_vals s1)\<rparr>"
  have t: "Traverse [] root_path (full_root v) ?args s1 = (Ok (?ps, ?p, ?c, map word_of as), ?s)"
    by (rule start_traverse[OF m assms(2) sw])
  have ok2: "cli_ok ?s" using cli_ok_sets[OF ok assms(4)] ok by (auto simp: cli_ok_def flags_kept_def)
  have pa: "parses (cm_Interspersed ?c) (kind_flags k) ?p (map word_of as) (assigns (kind_flags k) as) []"
    using parses_words[OF as table_plain(1)[OF table_in(3)], where rest = "[]" and p = ?p] by simp
  obtain st1 where 1: "cli_ok st1" "pf_vals st1 = set_all (assigns (kind_flags k) as) (pf_vals ?s)"
    "Flags st1 ?p ?c = kind_flags k @ [help_flag ?p]" "readable (kind_flags k @ [help_flag ?p]) st1"
    and e: "execute ?S (run_command P again) ?ps ?p ?c (map word_of as) (w, ?s) =
      may_bind (PersistentPreRunE ?S ?p ?c) (\<lambda>_. run_command P again (kind_runner k) ?p ?c []) (w, st1)"
    using found_run[OF _ _ _ _ merges_kind[OF roots(1)[of v]] table_in(3) ok2 pa assigns_app[OF table_in(3) as],
        where r = "kind_runner k" and S = ?S and run = "run_command P again" and w = w]
    by auto
  let ?m = "start_run ?S k (pf_vals st1)"
  have r: "run_command P again (kind_runner k) ?p ?c [] (w1, st1) = on_world ?m (w1, st1)" for w1
    by (rule kind_run[OF 1(4,3)])
  have "help_shown (may_bind (PersistentPreRunE ?S ?p ?c) (\<lambda>_. run_command P again (kind_runner k) ?p ?c [])) (w, st1) =
      on_world (listened ?S (pf_vals st1) ?m) (w, st1)"
    by (rule prerun_run[OF r]) (simp_all only: 1(3,4) kind_listen)
  then have "help_shown (execute ?S (run_command P again) ?ps ?p ?c (map word_of as)) (w, ?s) =
      on_world (listened ?S (pf_vals st1) ?m) (w, st1)"
    unfolding help_shown_def may_try_def e .
  moreover have "ExecuteC ?S (run_command P again) (dbctl_root v) ?args (w, st) =
      help_shown (execute ?S (run_command P again) ?ps ?p ?c (map word_of as)) (w, ?s)"
    by (rule ExecuteC_doc[OF i[unfolded full_root_def]]) (use t in \<open>simp add: full_root_def[symmetric]\<close>)
  ultimately show ?thesis using 1(1,2) v1 by (intro exI[of _ st1]) simp
qed

end
