(* ===== verification/Testing.thy ===== *)
theory Testing
  imports Running
begin

text \<open>
  The testing command: it runs a start command for each of its parts and then the api server, all in one
  process. Its meaning as one function of the world, and the run of the command line that has it.
\<close>

section \<open>Commands below the root\<close>

lemma leaf_initComplete:
  assumes "cli_ok st" and n: "plain_word n" and f: "findNext (cm_Commands (asking_root v)) n = Some c"
    and c: "cm_Commands c = []" "cm_Name c \<noteq> ''__complete''" and t: "(root_path @ [cm_Name c], fs) \<in> set app_tables"
    and m: "\<And>r. is_root r \<Longrightarrow> merges [(root_path, r)] (root_path @ [cm_Name c]) c fs"
  shows "\<exists>st1. initCompleteCmd (full_root v) (n # args) st = (Ok (full_root v), st1) \<and>
    flags_merged st1 root_path root_flags \<and> cli_ok st1 \<and> pf_vals st1 = pf_vals st"
proof -
  let ?R = "asking_root v" and ?p = "root_path @ [cm_Name c]"
  obtain st1 where 1: "Find [] root_path ?R (n # args) st = Find [(root_path, ?R)] ?p c args st1"
    and m1: "flags_merged st1 root_path root_flags" and o1: "only_at root_path st st1"
    using Find_sub[OF merges_root[of ?R], where st = st and i = True and sw = "[]" and sets = "[]" and n = n and d = c and args = args]
      cli_ok_kept[OF assms(1)] n f by auto
  have c1: "cli_ok st1" using cli_ok_only_at[OF assms(1) _ flags_merged_kept[OF m1] o1] by simp
  obtain st2 where 2: "Find [(root_path, ?R)] ?p c args st1 = (Ok c, st2)"
    and k2: "flags_kept st2 ?p fs" and o2: "only_at ?p st1 st2"
    using Find_leaf[OF m[OF roots(2)[of v]] cli_ok_kept[OF c1 t] c(1), of args] by blast
  have "cli_ok st2" by (rule cli_ok_only_at[OF c1 t k2 o2])
  moreover have "flags_merged st2 root_path root_flags" using flags_merged_other[OF m1 o2] by simp
  moreover have "initCompleteCmd (full_root v) (n # args) st = (Ok (full_root v), st2)"
    using 1 2 c(2) by (simp add: initCompleteCmd_def bind_def Let_def asking_root_def[symmetric])
  ultimately show ?thesis using o1 o2 by (auto simp: only_at_def)
qed

lemma leaf_run:
  assumes st: "cli_ok st" and n: "plain_word n" "\<not> isFlagArg n"
    and f: "findNext (cm_Commands (asking_root v)) n = Some c" "findNext (cm_Commands (full_root v)) n = Some c"
    and c: "cm_Commands c = []" "cm_Name c \<noteq> ''__complete''" "cm_Version c = ''''" "cm_Run c = Some r" "r \<noteq> RunComplete" "r \<noteq> RunCompletion"
    and p: "p = root_path @ [cm_Name c]" and t: "(p, fs) \<in> set app_tables"
    and m: "\<And>r. is_root r \<Longrightarrow> merges [(root_path, r)] p c fs"
    and pa: "parses (cm_Interspersed c) fs p args sets out" "\<forall>x\<in>set sets. fst x \<in> set app_flags"
  shows "\<exists>st1. ExecuteC S run (dbctl_root v) (n # args) (w, st) =
      help_shown (may_bind (PersistentPreRunE S p c) (\<lambda>_. run r p c out)) (w, st1) \<and>
    cli_ok st1 \<and> pf_vals st1 = set_all sets (pf_vals st) \<and>
    Flags st1 p c = fs @ [help_flag p] \<and> readable (fs @ [help_flag p]) st1"
proof -
  obtain s1 where i: "initCompleteCmd (full_root v) (n # args) st = (Ok (full_root v), s1)"
    and k: "flags_merged s1 root_path root_flags" "cli_ok s1" "pf_vals s1 = pf_vals st"
    using leaf_initComplete[OF st n(1) f(1) c(1,2) t[unfolded p] m[unfolded p]] by blast
  have tr: "Traverse [] root_path (full_root v) (n # args) s1 = (Ok ([(root_path, full_root v)], p, c, args), s1)"
    using Traverse_sub[OF merges_root[OF roots(1)] k(1) roots(5), where sw = "[]" and sets = "[]" and n = n and d = c and args = args]
      n f(2) by (simp add: p Traverse_leaf[OF c(1)])
  obtain st1 where 1: "cli_ok st1" "pf_vals st1 = set_all sets (pf_vals s1)"
    "Flags st1 p c = fs @ [help_flag p]" "readable (fs @ [help_flag p]) st1"
    and e: "execute S run [(root_path, full_root v)] p c args (w, s1) =
      may_bind (PersistentPreRunE S p c) (\<lambda>_. run r p c out) (w, st1)"
    using found_run[OF c(3-6) m[OF roots(1)[of v]] t k(2) pa, where S = S and run = run and w = w] by (elim exE conjE) (rule that)
  have "ExecuteC S run (dbctl_root v) (n # args) (w, st) = help_shown (execute S run [(root_path, full_root v)] p c args) (w, s1)"
    by (rule ExecuteC_doc[OF i[unfolded full_root_def]]) (use tr in \<open>simp add: full_root_def[symmetric]\<close>)
  moreover have "help_shown (execute S run [(root_path, full_root v)] p c args) (w, s1) =
      help_shown (may_bind (PersistentPreRunE S p c) (\<lambda>_. run r p c out)) (w, st1)"
    by (simp only: help_shown_def may_try_def e)
  ultimately show ?thesis using 1 k(3) by (intro exI[of _ st1]) simp
qed

section \<open>The api server\<close>

definition api_sets :: "string \<Rightarrow> (flag_ref \<times> string) list" where
  "api_sets port = [((api_path, BoolP ''testing'' ''t'' False), ''true''), ((api_path, StringP ''port'' ''p'' api_DefaultPort), port)]"

lemma api_parses: "parses True api_set api_path [''-t'', ''-p'', port] (api_sets port) []"
  by (simp add: parses_def api_set_def GetTestingAPIServerCmd_def api_sets_def root_flags_def declared_def flag_makers ShorthandLookup_def
      NoOptDefVal_def help_flag_def) (simp add: parseBool_def)

lemma api_command [simp]: "cm_Commands GetTestingAPIServerCmd = []" "cm_Version GetTestingAPIServerCmd = ''''"
  "cm_Run GetTestingAPIServerCmd = Some RunAPIServer" "cm_Interspersed GetTestingAPIServerCmd"
  by (simp_all add: GetTestingAPIServerCmd_def)

lemma api_sets_values: "set_all (api_sets port) e =
    e((api_path, ''testing'') \<mapsto> FBool True, (api_path, ''port'') \<mapsto> FString port)"
  by (simp add: api_sets_def flag_makers parseBool_def)

lemma run_api_doc:
  assumes "cli_ok st"
  shows "\<exists>st1. ExecuteC (pr_sys P) (run_command P again) (dbctl_root v) [''api-server'', ''-t'', ''-p'', port] (w, st) =
      on_world (listened (pr_sys P) (pf_vals st) (RunAPIServerContainer (pr_sys P) (pr_json P) port
        (string_at (pf_vals st) root_path ''label'' '''') ''20s'')) (w, st1)"
proof -
  let ?S = "pr_sys P" and ?c = GetTestingAPIServerCmd and ?fs = "api_set @ [help_flag api_path]"
  have p: "api_path = root_path @ [cm_Name ?c]" by simp
  have a: "\<forall>x\<in>set (api_sets port). fst x \<in> set app_flags"
    by (simp add: api_sets_def app_flags_def GetTestingAPIServerCmd_def declared_def)
  obtain st1 where e: "ExecuteC ?S (run_command P again) (dbctl_root v) [''api-server'', ''-t'', ''-p'', port] (w, st) =
      help_shown (may_bind (PersistentPreRunE ?S api_path ?c) (\<lambda>_. run_command P again RunAPIServer api_path ?c [])) (w, st1)"
    and v: "pf_vals st1 = set_all (api_sets port) (pf_vals st)" and F: "Flags st1 api_path ?c = ?fs" and r: "readable ?fs st1"
    using leaf_run[OF assms root_words(3,4) root_finds(4)[of v] root_finds(3)[of v], where r = RunAPIServer and p = api_path and fs = api_set
        and args = "[''-t'', ''-p'', port]" and sets = "api_sets port" and out = "[]" and S = ?S and run = "run_command P again" and w = w,
        OF api_command(1) _ api_command(2,3) _ _ p table_in(4) merges_api _ a] api_parses[of port]
    by (simp; blast)
  let ?m = "RunAPIServerContainer ?S (pr_json P) port (string_at (pf_vals st) root_path ''label'' '''') ''20s''"
  have af: "api_flags (Flags st1 api_path ?c) st1 = Ok (port, string_at (pf_vals st) root_path ''label'' '''', True)"
    unfolding F api_flags_def Get_at[OF r]
    by (simp add: Lookup_def flag_sets help_flag_def GetTestingAPIServerCmd_def v api_sets_values string_at_def bool_at_def)
  have r1: "run_command P again RunAPIServer api_path ?c [] (w1, st1) = on_world ?m (w1, st1)" for w1
    by (simp add: run_command_def read_flags_bind[where f = api_flags, OF af] runTestingAPIServer_def Let_def)
  have "Lookup ?fs ''listen'' = Some (root_path, StringP ''listen'' '''' '''')"
    by (simp add: Lookup_def flag_sets app_commands help_flag_def)
  then have "help_shown (may_bind (PersistentPreRunE ?S api_path ?c) (\<lambda>_. run_command P again RunAPIServer api_path ?c [])) (w, st1) =
      on_world (listened ?S (pf_vals st1) ?m) (w, st1)"
    by (intro prerun_run[OF r1]) (simp_all only: F r)
  moreover have "listened ?S (pf_vals st1) ?m = listened ?S (pf_vals st) ?m"
    by (simp add: listened_def v api_sets_values string_at_def)
  ultimately show ?thesis using e by (intro exI[of _ st1]) simp
qed

section \<open>What testing does\<close>

text \<open>A part: the name of a start command, its kind and the flags given to it.\<close>

type_synonym part = "string \<times> kind \<times> (string \<times> string) list"

fun part_words :: "part \<Rightarrow> string list" where
  "part_words (n, k, as) = n # map word_of as"

fun part_ok :: "part \<Rightarrow> bool" where
  "part_ok (n, k, as) \<longleftrightarrow> kind_named n k \<and> (\<forall>a\<in>set as. takes_flag (kind_flags k) a)"

fun part_kind :: "part \<Rightarrow> kind" where
  "part_kind (n, k, as) = k"

text \<open>The values after the flags of a part, those of the parts before it still set.\<close>

fun part_env :: "flag_env \<Rightarrow> part \<Rightarrow> flag_env" where
  "part_env e (n, k, as) = set_all (assigns (kind_flags k) as) (e((start_path, ''detach'') \<mapsto> FBool True))"

text \<open>
  The parts one after the other, each with the values that are set by then, and the api server last; the
  first failure ends it.
\<close>

fun testing_spec :: "'w sys \<Rightarrow> json_api \<Rightarrow> flag_env \<Rightarrow> part list \<Rightarrow> (unit, 'w) maybe_action" where
  "testing_spec S J e [] =
     may_try (listened S e (RunAPIServerContainer S J (string_at e testing_path ''api-port'' api_DefaultPort)
         (string_at e root_path ''label'' '''') ''20s''))
       (\<lambda>x. may (fail (Wrapf ''starting api server failed: %w'' [] x))) (\<lambda>_. may (ret ()))"
| "testing_spec S J e (part # parts) =
     may_try (listened S (part_env e part) (start_run S (part_kind part) (part_env e part)))
       (\<lambda>x. may (fail (Wrapf ''starting %s failed: %w'' [join '' '' (part_words part)] x)))
       (\<lambda>_. testing_spec S J (part_env e part) parts)"

definition world_of :: "('a res \<times> 'w cli) option \<Rightarrow> ('a res \<times> 'w) option" where
  "world_of x = map_option (\<lambda>(r, (w, st)). (r, w)) x"

lemma world_of_on_world [simp]: "world_of (on_world m (w, st)) = m w"
  by (simp add: world_of_def on_world_def split: option.split prod.split)

definition api_port :: "(string, 'w cli) maybe_action" where
  "api_port = read_flags testing_path GetStartTestingCmd
     (\<lambda>fs st. wrap_err ''invalid api-port args, %w'' [] (GetString fs st ''api-port''))"

definition api_step :: "'w program \<Rightarrow> nat \<Rightarrow> (unit, 'w cli) maybe_action" where
  "api_step P n = may_bind api_port (\<lambda>apiPort.
     may_try (execute_depth P n [''api-server'', ''-t'', ''-p'', apiPort])
       (\<lambda>e. may (fail (Wrapf ''starting api server failed: %w'' [] e)))
       (\<lambda>_. may (ret ())))"

lemma api_port_doc:
  assumes "cli_ok st"
  shows "may_bind api_port g (w, st) = g (string_at (pf_vals st) testing_path ''api-port'' api_DefaultPort) (w, st)"
proof -
  let ?fs = "Flags st testing_path GetStartTestingCmd"
  have f: "?fs \<in> {declared testing_path (cm_Flags GetStartTestingCmd), testing_set, testing_set @ [help_flag testing_path]}"
    using cli_ok_kept[OF assms table_in(5)] by (auto simp: flags_kept_def Flags_def)
  then have "set ?fs \<subseteq> insert (help_flag testing_path) (set app_flags)"
    using app_tables_flags[OF table_in(5)] by (auto simp: testing_set_def app_flags_def)
  then have r: "readable ?fs st" using assms by (auto simp: readable_def cli_ok_def)
  have "Lookup ?fs ''api-port'' = Some (testing_path, StringP ''api-port'' '''' api_DefaultPort)"
    using f by (auto simp: testing_set_def declared_def GetStartTestingCmd_def Lookup_def StringP_def)
  then have "wrap_err ''invalid api-port args, %w'' [] (GetString ?fs st ''api-port'') =
      Ok (string_at (pf_vals st) testing_path ''api-port'' api_DefaultPort)"
    by (simp add: GetString_at[OF r] StringP_def)
  from read_flags_bind[where f = "\<lambda>fs st. wrap_err ''invalid api-port args, %w'' [] (GetString fs st ''api-port'')", OF this]
  show ?thesis by (simp add: api_port_def)
qed

lemma api_step_doc:
  assumes "cli_ok st"
  shows "world_of (api_step P (Suc n) (w, st)) = testing_spec (pr_sys P) (pr_json P) (pf_vals st) [] w"
proof -
  let ?port = "string_at (pf_vals st) testing_path ''api-port'' api_DefaultPort"
  obtain st1 where "execute_depth P (Suc n) [''api-server'', ''-t'', ''-p'', ?port] (w, st) =
      on_world (listened (pr_sys P) (pf_vals st) (RunAPIServerContainer (pr_sys P) (pr_json P) ?port
        (string_at (pf_vals st) root_path ''label'' '''') ''20s'')) (w, st1)"
    using run_api_doc[OF assms, of P "execute_depth P n" "pr_version P" ?port w] by auto
  then show ?thesis
    by (simp add: api_step_def api_port_doc[OF assms] may_try_def on_world_def world_of_def may_def fail_def split: option.split prod.split res.split)
qed

lemma testing_run_step:
  "may_bind (testing_run again (c # cs)) (\<lambda>_. m) ws =
     may_try (again (''start'' # ''-d'' # c)) (\<lambda>e. may (fail (Wrapf ''starting %s failed: %w'' [join '' '' c] e)))
       (\<lambda>_. may_bind (testing_run again cs) (\<lambda>_. m)) ws"
  by (simp add: may_bind_def may_try_def may_def fail_def split: option.split prod.split res.split)

lemma detach_env: "set_all [(detach_flag, ''true'')] e = e((start_path, ''detach'') \<mapsto> FBool True)"
  by (simp add: detach_flag_def flag_makers parseBool_def)

lemma parts_doc:
  assumes "cli_ok st" and "\<forall>x\<in>set parts. part_ok x"
  shows "world_of (may_bind (testing_run (execute_depth P (Suc n)) (map part_words parts)) (\<lambda>_. api_step P (Suc n)) (w, st)) =
    testing_spec (pr_sys P) (pr_json P) (pf_vals st) parts w"
  using assms
proof (induction parts arbitrary: w st)
  case Nil
  then show ?case using api_step_doc[OF Nil(1), of P n w]
    by (simp add: may_bind_def may_try_def del: testing_spec.simps)
next
  case (Cons part parts)
  obtain name k as where p: "part = (name, k, as)" by (cases part)
  then have n: "kind_named name k" and as: "\<forall>a\<in>set as. takes_flag (kind_flags k) a" using Cons.prems(2) by auto
  have d: "\<forall>x\<in>set [(detach_flag, ''true'')]. fst x \<in> set app_flags"
    by (simp add: detach_flag_def app_flags_def GetStartCmd_def declared_def)
  let ?e = "part_env (pf_vals st) part" and ?m = "may_bind (testing_run (execute_depth P (Suc n)) (map part_words parts)) (\<lambda>_. api_step P (Suc n))"
  obtain st1 where run: "execute_depth P (Suc n) (''start'' # ''-d'' # part_words part) (w, st) =
      on_world (listened (pr_sys P) ?e (start_run (pr_sys P) k ?e)) (w, st1)"
    and 1: "cli_ok st1" "pf_vals st1 = ?e"
    using run_start_doc[OF Cons.prems(1) n detach_switch d as, where P = P and again = "execute_depth P n" and v = "pr_version P" and w = w]
    by (auto simp: p detach_env)
  have ih: "world_of (?m (w1, st1)) = testing_spec (pr_sys P) (pr_json P) ?e parts w1" for w1
    using Cons.IH[OF 1(1), of w1] Cons.prems(2) 1(2) by (simp del: execute_depth.simps)
  show ?case
    unfolding list.map testing_run_step
    by (simp only: may_try_def run) (simp add: may_try_def on_world_def may_def fail_def p world_of_def ih[unfolded world_of_def] del: execute_depth.simps part_words.simps part_env.simps split: option.split prod.split res.split)
qed

section \<open>The testing command line\<close>

definition testing_words :: "(string \<times> string) list \<Rightarrow> part list \<Rightarrow> string list" where
  "testing_words as parts = ''testing'' # map word_of as @ ''--'' # dashed (map part_words parts)"

lemma testing_command [simp]: "cm_Commands GetStartTestingCmd = []" "cm_Version GetStartTestingCmd = ''''"
  "cm_Run GetStartTestingCmd = Some RunTesting" "\<not> cm_Interspersed GetStartTestingCmd"
  by (simp_all add: GetStartTestingCmd_def)

lemma part_words_dashed: "part_ok x \<Longrightarrow> part_words x \<noteq> [] \<and> ''-'' \<notin> set (part_words x)"
  by (cases x) (auto simp: word_of_dash kind_named_def split: kind.splits dest: arg_cong[where f = length] simp: word_of_def)

theorem run_testing_doc:
  assumes st: "cli_ok st" and as: "\<forall>a\<in>set as. takes_flag testing_set a" and parts: "parts \<noteq> []" "\<forall>x\<in>set parts. part_ok x"
  shows "world_of (execute_depth P (Suc (Suc n)) (testing_words as parts) (w, st)) =
    listened (pr_sys P) (set_all (assigns testing_set as) (pf_vals st))
      (testing_spec (pr_sys P) (pr_json P) (set_all (assigns testing_set as) (pf_vals st)) parts) w"
proof -
  let ?S = "pr_sys P" and ?c = GetStartTestingCmd and ?fs = "testing_set @ [help_flag testing_path]"
  let ?e = "set_all (assigns testing_set as) (pf_vals st)" and ?args = "dashed (map part_words parts)" and ?again = "execute_depth P (Suc n)"
  have p: "testing_path = root_path @ [cm_Name ?c]" by simp
  have pa: "parses (cm_Interspersed ?c) testing_set testing_path (map word_of as @ ''--'' # ?args) (assigns testing_set as) ?args"
    using parses_words[OF as table_plain(1)[OF table_in(5)], where rest = "''--'' # ?args" and p = testing_path] by simp
  obtain st1 where e: "ExecuteC ?S (run_command P ?again) (dbctl_root (pr_version P)) (''testing'' # map word_of as @ ''--'' # ?args) (w, st) =
      help_shown (may_bind (PersistentPreRunE ?S testing_path ?c) (\<lambda>_. run_command P ?again RunTesting testing_path ?c ?args)) (w, st1)"
    and k: "cli_ok st1" and v: "pf_vals st1 = ?e" and F: "Flags st1 testing_path ?c = ?fs" and r: "readable ?fs st1"
    using leaf_run[OF st root_words(5,6) root_finds(6)[of "pr_version P"] root_finds(5), where S = ?S and run = "run_command P ?again" and w = w,
        OF testing_command(1) _ testing_command(2,3) _ _ p table_in(5) merges_testing pa assigns_app[OF table_in(5) as]]
    by (simp; blast)
  have split: "testing_split [] ?args = map part_words parts"
    using testing_split_dashed[of "map part_words parts"] parts part_words_dashed by auto
  have run: "run_command P ?again RunTesting testing_path ?c ?args =
      may_bind (testing_run ?again (map part_words parts)) (\<lambda>_. api_step P (Suc n))"
    by (simp add: run_command_def Let_def runTesting_def split api_step_def api_port_def)
  have listen: "wrap_err ''invalid listen args, %w'' [] (GetString (Flags st1 testing_path ?c) st1 ''listen'') =
      Ok (string_at ?e root_path ''listen'' '''')"
    unfolding F GetString_at[OF r] by (simp add: Lookup_def flag_sets app_commands help_flag_def v)
  have spec: "world_of (run_command P ?again RunTesting testing_path ?c ?args (w1, st1)) = testing_spec ?S (pr_json P) ?e parts w1" for w1
    using parts_doc[OF k parts(2), of P n w1] v by (simp only: run)
  have "world_of (help_shown (may_bind (PersistentPreRunE ?S testing_path ?c) (\<lambda>_. run_command P ?again RunTesting testing_path ?c ?args)) (w, st1)) =
      listened ?S ?e (testing_spec ?S (pr_json P) ?e parts) w"
    unfolding PersistentPreRunE_def listened_def help_shown_def
    by (simp add: may_bind_def may_try_def read_flags_def on_cli_def listen on_world_def may_def fail_def world_of_def
        spec[unfolded world_of_def, symmetric] split: option.split prod.split res.split)
  then show ?thesis using e by (simp add: testing_words_def)
qed

section \<open>How deep runs nest\<close>

text \<open>A set of commands that is closed under the search for subcommands holds what is found.\<close>

lemma next_command_in:
  "next_command fs cs flags b args = Some (d, fl, rest) \<Longrightarrow> \<exists>n. findNext cs n = Some d"
  by (induction fs cs flags b args rule: next_command.induct) (auto split: if_splits option.splits)

lemma Traverse_closed:
  assumes "\<And>c n d. c \<in> C \<Longrightarrow> findNext (cm_Commands c) n = Some d \<Longrightarrow> d \<in> C"
  shows "Traverse ps p c args st = (Ok (ps1, p1, c1, args1), st1) \<Longrightarrow> c \<in> C \<Longrightarrow> c1 \<in> C"
proof (induction ps p c args st rule: Traverse.induct)
  case (1 ps p c args st)
  show ?case
  proof (cases "next_command (Flags st p c) (cm_Commands c) [] False args")
    case None
    then show ?thesis using 1(2,3) by (subst (asm) Traverse.simps) simp
  next
    case (Some x)
    obtain d fl rest where x: "x = (d, fl, rest)" by (cases x)
    have "d \<in> C" using next_command_in Some x assms[OF 1(3)] by blast
    then show ?thesis using 1(1)[OF Some x[symmetric] refl] 1(2) Some x
      by (subst (asm) (2) Traverse.simps) (auto split: prod.splits res.splits)
  qed
qed

definition start_commands :: "command set" where
  "start_commands = {GetStartCmd, GetPgCmd, GetRedisCmd, GetMongoDBCmd, GetTestingAPIServerCmd}"

lemma start_commands_closed: "c \<in> start_commands \<Longrightarrow> findNext (cm_Commands c) n = Some d \<Longrightarrow> d \<in> start_commands"
proof -
  assume c: "c \<in> start_commands" and "findNext (cm_Commands c) n = Some d"
  then have "d \<in> set (cm_Commands c)" by (simp add: findNext_in)
  then show "d \<in> start_commands" using c unfolding start_commands_def by (auto simp: GetStartCmd_def GetPgCmd_def GetRedisCmd_def GetMongoDBCmd_def GetTestingAPIServerCmd_def)
qed

lemma start_commands_run: "c \<in> start_commands \<Longrightarrow> cm_Run c \<noteq> Some RunTesting"
  by (auto simp: start_commands_def app_commands)

lemma root_traverse_start:
  assumes "r = full_root v \<or> r = asking_root v" and "a = ''start'' \<or> a = ''api-server''"
    and "Traverse [] q r (a # args) st = (Ok (ps, p, c, rest), st1)"
  shows "c \<in> start_commands"
proof -
  obtain d where d: "findNext (cm_Commands r) a = Some d" "d \<in> start_commands"
    using assms(1,2) by (auto simp: start_commands_def)
  have "next_command (Flags st q r) (cm_Commands r) [] False (a # args) = Some (d, [], args)"
    using assms(2) d(1) by (auto simp: isFlagArg_def)
  then obtain ps2 p2 st2 where "Traverse ps2 p2 d args st2 = (Ok (ps, p, c, rest), st1)"
    using assms(3) by (subst (asm) Traverse.simps) (auto split: prod.splits res.splits)
  from Traverse_closed[OF start_commands_closed this d(2)] show ?thesis .
qed

lemma execute_run_cong:
  "(\<And>r. cm_Run c = Some r \<Longrightarrow> run1 r = run2 r) \<Longrightarrow> execute S run1 ps p c a = execute S run2 ps p c a"
  by (cases "cm_Run c") (simp_all add: execute_def cong: if_cong)

lemma run_command_again: "r \<noteq> RunTesting \<Longrightarrow> run_command P X r = run_command P Y r"
  by (intro ext) (cases r; simp add: run_command_def)

lemma initCompleteCmd_root: "initCompleteCmd (full_root v) args st = (Ok r, st1) \<Longrightarrow> r = full_root v \<or> r = asking_root v"
  by (auto simp: initCompleteCmd_def bind_def Let_def asking_root_def split: prod.splits res.splits if_splits)

lemma ExecuteC_again:
  assumes "a = ''start'' \<or> a = ''api-server''"
  shows "ExecuteC S (run_command P X) (dbctl_root v) (a # args) = ExecuteC S (run_command P Y) (dbctl_root v) (a # args)"
proof
  fix ws :: "'a cli"
  obtain w st where ws: "ws = (w, st)" by (cases ws)
  have "help_shown (execute S (run_command P X) ps p c rest) = help_shown (execute S (run_command P Y) ps p c rest)"
    if "initCompleteCmd (full_root v) (a # args) st = (Ok r, st1)" "Traverse [] q r (a # args) st1 = (Ok (ps, p, c, rest), st2)"
    for r st1 ps p c rest st2 q
    using execute_run_cong[of c "run_command P X" "run_command P Y" S ps p rest]
      start_commands_run[OF root_traverse_start[OF initCompleteCmd_root[OF that(1)] assms that(2)]] run_command_again[of _ P X Y] by metis
  then show "ExecuteC S (run_command P X) (dbctl_root v) (a # args) ws = ExecuteC S (run_command P Y) (dbctl_root v) (a # args) ws"
    unfolding ExecuteC_def full_root_def[symmetric] ws
    by (auto simp: may_bind_def may_try_def on_cli_def may_def fail_def split: prod.splits res.splits)
qed

lemma testing_run_cong:
  "(\<And>c. X (''start'' # c) = Y (''start'' # c)) \<Longrightarrow> testing_run X cs = testing_run Y cs"
  by (induction cs) simp_all

lemma run_command_depth: "run_command P (execute_depth P (Suc n)) = run_command P (execute_depth P 1)"
proof -
  have e: "execute_depth P (Suc n) (a # args) = execute_depth P 1 (a # args)" if "a = ''start'' \<or> a = ''api-server''" for a args
    using ExecuteC_again[OF that] by simp
  have t: "testing_run (execute_depth P (Suc n)) cs = testing_run (execute_depth P 1) cs" for cs
    using e by (intro testing_run_cong) blast
  show ?thesis
  proof (intro ext)
    fix r p c args ws
    show "run_command P (execute_depth P (Suc n)) r p c args ws = run_command P (execute_depth P 1) r p c args ws"
    proof (cases "r = RunTesting")
      case True
      then show ?thesis using t e by (simp add: run_command_def Let_def runTesting_def del: execute_depth.simps)
    next
      case False
      then show ?thesis using run_command_again by metis
    qed
  qed
qed

lemma execute_depth_enough: "execute_depth P (Suc (Suc n)) = Execute P"
proof
  fix args
  have "execute_depth P (Suc (Suc m)) args =
      ExecuteC (pr_sys P) (run_command P (execute_depth P 1)) (dbctl_root (pr_version P)) args" for m
    by (simp only: execute_depth.simps(2) run_command_depth[of P m])
  then show "execute_depth P (Suc (Suc n)) args = Execute P args"
    by (simp only: Execute_def numeral_2_eq_2)
qed

section \<open>Parts that do not share flags\<close>

text \<open>The parts as if each ran in a process of its own, with the values that testing was given.\<close>

fun parts_spec :: "'w sys \<Rightarrow> json_api \<Rightarrow> flag_env \<Rightarrow> part list \<Rightarrow> (unit, 'w) maybe_action" where
  "parts_spec S J e [] = testing_spec S J e []"
| "parts_spec S J e (part # parts) =
     may_try (listened S (part_env e part) (start_run S (part_kind part) (part_env e part)))
       (\<lambda>x. may (fail (Wrapf ''starting %s failed: %w'' [join '' '' (part_words part)] x)))
       (\<lambda>_. parts_spec S J e parts)"

text \<open>A part that is given flags of its own command only.\<close>

fun own_flags :: "part \<Rightarrow> bool" where
  "own_flags (n, k, as) \<longleftrightarrow> (\<forall>a\<in>set as. \<exists>d\<in>set (cm_Flags (kind_command k)). fd_name d = fst a)"

lemma own_Lookup:
  assumes "\<exists>d\<in>set (cm_Flags (kind_command k)). fd_name d = n"
  shows "fst (the (Lookup (kind_flags k) n)) = kind_path k"
proof -
  have "Lookup (declared p ds) n \<noteq> None" if "\<exists>d\<in>set ds. fd_name d = n" for p ds
    using that Lookup_None[of "declared p ds" n] by (auto simp: declared_def image_image)
  from this[OF assms, of "kind_path k"] obtain f where f: "Lookup (declared (kind_path k) (cm_Flags (kind_command k))) n = Some f" by auto
  then have "fst f = kind_path k" using Lookup_Some[OF f] by (auto simp: declared_def)
  then show ?thesis using f by (simp add: kind_flags_def Lookup_append)
qed

lemma own_keys:
  assumes "own_flags (m, k, as)" and "x \<in> set (assigns (kind_flags k) as)"
  shows "fst (fst x) = kind_path k"
proof -
  obtain a where "a \<in> set as" "x = (the (Lookup (kind_flags k) (fst a)), snd a)"
    using assms(2) unfolding assigns_def set_map by (rule imageE)
  then show ?thesis using assms(1) own_Lookup[of k "fst a"] by (simp del: split_paired_Ex)
qed

lemma set_all_cong: "e1 k = e2 k \<Longrightarrow> set_all xs e1 k = set_all xs e2 k"
proof (induction xs arbitrary: e1 e2)
  case Nil
  then show ?case by simp
next
  case (Cons x xs)
  obtain p d s where x: "x = ((p, d), s)" by (cases x) auto
  show ?case unfolding x set_all.simps by (rule Cons.IH) (use Cons.prems in simp)
qed

lemma part_env_other:
  assumes "own_flags part" and "q \<noteq> kind_path (part_kind part)" and "(q, n) \<noteq> (start_path, ''detach'')"
  shows "part_env e part (q, n) = e (q, n)"
proof -
  obtain m k as where p: "part = (m, k, as)" by (cases part)
  have "(q, n) \<notin> (\<lambda>x. (fst (fst x), fd_name (snd (fst x)))) ` set (assigns (kind_flags k) as)"
    using own_keys[OF assms(1)[unfolded p]] assms(2) by (force simp: p)
  from set_all_other[OF this] show ?thesis using assms(3) by (auto simp: p)
qed

text \<open>\<open>apart K e e0\<close>: the values differ for the kinds \<open>K\<close> only, and for detaching.\<close>

definition apart :: "kind set \<Rightarrow> flag_env \<Rightarrow> flag_env \<Rightarrow> bool" where
  "apart K e e0 \<longleftrightarrow> (\<forall>q n. q \<notin> kind_path ` K \<longrightarrow> (q, n) \<noteq> (start_path, ''detach'') \<longrightarrow> e (q, n) = e0 (q, n))"

lemma kind_path_inj [simp]: "kind_path k = kind_path l \<longleftrightarrow> k = l"
  by (cases k; cases l) simp_all

lemma part_env_detach:
  assumes "own_flags part"
  shows "part_env e part (start_path, ''detach'') = Some (FBool True)"
proof -
  obtain m k as where p: "part = (m, k, as)" by (cases part)
  have "(start_path, ''detach'') \<notin> (\<lambda>x. (fst (fst x), fd_name (snd (fst x)))) ` set (assigns (kind_flags k) as)"
    using own_keys[OF assms[unfolded p]] path_differ(2)[of k] by (force simp: p)
  from set_all_other[OF this] show ?thesis by (simp add: p)
qed

lemma part_env_apart:
  assumes "apart K e e0" and "own_flags part" and "q \<notin> kind_path ` K"
  shows "part_env e part (q, n) = part_env e0 part (q, n)"
proof (cases "(q, n) = (start_path, ''detach'')")
  case True
  then show ?thesis using part_env_detach[OF assms(2)] by simp
next
  case False
  obtain m k as where p: "part = (m, k, as)" by (cases part)
  show ?thesis unfolding p part_env.simps
    by (rule set_all_cong) (use assms(1,3) False in \<open>auto simp: apart_def\<close>)
qed

lemma start_run_cong:
  assumes "\<And>q n. q = kind_path k \<or> q = start_path \<or> q = root_path \<Longrightarrow> e (q, n) = e0 (q, n)"
  shows "start_run S k e = start_run S k e0" and "listened S e = listened S e0"
proof -
  have n: "e (kind_path k, n) = e0 (kind_path k, n)" "e (start_path, n) = e0 (start_path, n)" "e (root_path, n) = e0 (root_path, n)" for n
    using assms by auto
  then show "start_run S k e = start_run S k e0"
    by (cases k; simp add: postgres_given_def mongo_given_def redis_given_def string_at_def uint32_at_def bool_at_def int_at_def)
  show "listened S e = listened S e0"
    unfolding listened_def string_at_def n(3) ..
qed

lemma testing_apart:
  assumes "apart K e e0" and "\<forall>x\<in>set parts. own_flags x \<and> part_kind x \<notin> K" and "distinct (map part_kind parts)"
  shows "testing_spec S J e parts = parts_spec S J e0 parts"
  using assms
proof (induction parts arbitrary: K e)
  case Nil
  have n: "root_path \<notin> kind_path ` K" "testing_path \<notin> kind_path ` K"
    using path_differ(1,8) by (metis imageE)+
  then have "e (root_path, m) = e0 (root_path, m)" "e (testing_path, m) = e0 (testing_path, m)" for m
    using Nil(1) by (simp_all add: apart_def)
  then show ?case by (simp add: string_at_def listened_def)
next
  case (Cons part parts)
  let ?k = "part_kind part"
  have own: "own_flags part" and k: "?k \<notin> K" using Cons.prems(2) by auto
  have "q \<notin> kind_path ` K" if "q = kind_path ?k \<or> q = start_path \<or> q = root_path" for q
    using that k by auto
  then have e: "part_env e part (q, n) = part_env e0 part (q, n)" if "q = kind_path ?k \<or> q = start_path \<or> q = root_path" for q n
    using part_env_apart[OF Cons.prems(1) own] that by blast
  have "apart (insert ?k K) (part_env e part) e0"
    using Cons.prems(1) part_env_other[OF own] by (auto simp: apart_def)
  moreover have "\<forall>x\<in>set parts. own_flags x \<and> part_kind x \<notin> insert ?k K"
  proof
    fix x assume x: "x \<in> set parts"
    then have "part_kind x \<in> part_kind ` set parts" by (rule imageI)
    moreover have "?k \<notin> part_kind ` set parts" using Cons.prems(3) by simp
    ultimately have "part_kind x \<noteq> ?k" by metis
    moreover have "own_flags x \<and> part_kind x \<notin> K" using Cons.prems(2) x by (metis list.set_intros(2))
    ultimately show "own_flags x \<and> part_kind x \<notin> insert ?k K" by simp
  qed
  moreover have "distinct (map part_kind parts)" using Cons.prems(3) by simp
  ultimately have "testing_spec S J (part_env e part) parts = parts_spec S J e0 parts" by (rule Cons.IH)
  then show ?case using start_run_cong[of ?k "part_env e part" "part_env e0 part" S, OF e] by simp
qed

end
