(* ===== verification/CommandSpec.thy ===== *)
theory CommandSpec
  imports Testing CmdSpec
begin

text \<open>
  The properties of the command line: what a start command and a testing command run, and with which
  flags.
\<close>

section \<open>The program of the witnesses\<close>

text \<open>The reference world, without a network to update from.\<close>

definition upd_off :: "rworld upd_api" where
  "upd_off = \<lparr>u_GOOS = ''linux'', u_GOARCH = ''amd64'', u_executable = (\<lambda>w. Ok ''/bin/dbctl''),
     u_get = (\<lambda>u. fail ErrNotExist), u_release = (\<lambda>b. Err ErrNotExist), u_create = (\<lambda>f. fail ErrNotExist),
     u_write = (\<lambda>f s. fail ErrNotExist), u_mkdirAll = (\<lambda>d. fail ErrNotExist), u_mkdir = (\<lambda>d. fail ErrNotExist),
     u_untar = (\<lambda>f w. Err ErrNotExist), u_open = (\<lambda>f w. Err ErrNotExist), u_stat = (\<lambda>f w. Err ErrNotExist),
     u_remove = (\<lambda>f. fail ErrNotExist), u_removeAll = (\<lambda>f. fail ErrNotExist), u_rename = (\<lambda>a b. fail ErrNotExist),
     u_readLine = fail ErrNotExist\<rparr>"

definition prog0 :: "rworld program" where
  "prog0 = \<lparr>pr_version = ''snapshot'', pr_sys = ref, pr_sha = (\<lambda>s. s),
     pr_json = \<lparr>enc_instances = (\<lambda>_. ''''), dec_instances = (\<lambda>_. Ok []), enc_remove = (\<lambda>(t, u). t @ '' '' @ u),
       dec_remove = (\<lambda>b. Ok (str_cut (CHR '' '') b))\<rparr>,
     pr_update = upd_off, pr_events = [], pr_builtin = (\<lambda>r args. may (ret ()))\<rparr>"

definition exits :: "('a res \<times> 'w) option \<Rightarrow> (nat \<times> 'w) option" where
  "exits x = map_option (\<lambda>(r, w). (exit_code r, w)) x"

lemma main_exits: "main P args w = exits (world_of (Execute P args (w, fresh_cli)))"
  by (simp add: main_def exits_def world_of_def split: option.split prod.split)

lemma fresh_vals [simp]: "pf_vals fresh_cli = Map.empty"
  by (simp add: fresh_cli_def)

section \<open>start\<close>

text \<open>
  C7: a start command runs its provider with exactly the flags of the command line, each read as its type
  and the last one winning, and the declared defaults for the others; the listen address is set first. The
  exit code is 0 when that succeeds and 1 when it fails.
\<close>

theorem start_command_line:
  assumes "kind_named n k" and "\<forall>a\<in>set as. takes_flag (kind_flags k) a"
  shows "main P (''start'' # n # map word_of as) w =
    (let e = set_all (assigns (kind_flags k) as) Map.empty
     in exits (listened (pr_sys P) e (start_run (pr_sys P) k e) w))"
proof -
  obtain st1 where "ExecuteC (pr_sys P) (run_command P (execute_depth P 1)) (dbctl_root (pr_version P)) (''start'' # n # map word_of as) (w, fresh_cli) =
      on_world (listened (pr_sys P) (pf_vals st1) (start_run (pr_sys P) k (pf_vals st1))) (w, st1)"
    and "pf_vals st1 = set_all (assigns (kind_flags k) as) Map.empty"
    using run_start_doc[OF cli_ok_fresh assms(1) sw_sets_Nil _ assms(2), where P = P and again = "execute_depth P 1" and v = "pr_version P" and w = w]
    by auto
  then show ?thesis by (simp add: main_exits Execute_def numeral_2_eq_2 Let_def)
qed

lemma port_15432: "parseUint0 32 ''15432'' = (15432, None)"
  by (simp add: parseUint0_def base_of_def byte_digit_def is_digit_def letter_in_def Let_def)

lemmas take_eval = takes_flag_def assigns_def Lookup_def flag_sets app_commands

theorem start_command_line_witness:
  "main prog0 [''start'', ''pg'', ''--port=15432'', ''--migrations=m'', ''--ui=true''] w0 =
    exits (help_shown (runPostgres ref \<lparr>fl_port = 15432, fl_label = '''', fl_detach = False, fl_ui = True,
      fl_name = pg_DefaultName, fl_pass = pg_DefaultPass, fl_user = pg_DefaultUser, fl_version = '''',
      fl_migrations = ''m'', fl_fixtures = ''''\<rparr>) w0)"
proof -
  let ?as = "[(''port'', ''15432''), (''migrations'', ''m''), (''ui'', ''true'')]"
  have t: "\<forall>a\<in>set ?as. takes_flag (kind_flags Pg) a"
    by (simp add: take_eval port_15432) (simp add: parseBool_def)
  have n: "kind_named ''pg'' Pg" by (simp add: kind_named_def)
  have e: "set_all (assigns (kind_flags Pg) ?as) Map.empty =
      [(pg_path, ''port'') \<mapsto> FUint32 15432, (pg_path, ''migrations'') \<mapsto> FString ''m'', (start_path, ''ui'') \<mapsto> FBool True]"
    by (simp add: take_eval port_15432) (simp add: parseBool_def)
  show ?thesis
    using start_command_line[OF n t, of prog0 w0] unfolding e
    by (simp add: word_of_def prog0_def Let_def postgres_given_def string_at_def uint32_at_def bool_at_def listened_def preRun_def may_ret_bind)
      (simp add: help_shown_def may_try_def may_bind_def)
qed

section \<open>testing\<close>

text \<open>
  C8: the command line of testing runs its parts in their order, each in the background with the flags that
  are set by then, and then the api server with the port and label it was given; the first failure ends it.
\<close>

theorem testing_command_line:
  assumes "\<forall>a\<in>set as. takes_flag testing_set a" and "parts \<noteq> []" and "\<forall>x\<in>set parts. part_ok x"
  shows "main P (testing_words as parts) w =
    (let e = set_all (assigns testing_set as) Map.empty
     in exits (listened (pr_sys P) e (testing_spec (pr_sys P) (pr_json P) e parts) w))"
  using run_testing_doc[OF cli_ok_fresh assms, of P 0 w] by (simp add: main_exits Execute_def numeral_2_eq_2 Let_def)

lemma testing_words_eval:
  "testing_words [(''label'', ''x'')] [(''pg'', Pg, [(''migrations'', ''m'')]), (''rs'', Rs, [])] =
    [''testing'', ''--label=x'', ''--'', ''pg'', ''--migrations=m'', ''-'', ''rs'']"
  by (simp add: testing_words_def word_of_def)

lemma testing_args_ok: "\<forall>a\<in>set [(''label'', ''x'')]. takes_flag testing_set a"
  "set_all (assigns testing_set [(''label'', ''x'')]) Map.empty = [(root_path, ''label'') \<mapsto> FString ''x'']"
  by (simp_all add: take_eval)

lemma testing_parts_ok: "\<forall>x\<in>set [(''pg'', Pg, [(''migrations'', ''m'')]), (''rs'', Rs, [])]. part_ok x"
  by (simp add: kind_named_def take_eval)

theorem testing_command_line_witness:
  "main prog0 [''testing'', ''--label=x'', ''--'', ''pg'', ''--migrations=m'', ''-'', ''rs''] w0 =
    exits (help_shown (testing_spec ref (pr_json prog0) [(root_path, ''label'') \<mapsto> FString ''x'']
      [(''pg'', Pg, [(''migrations'', ''m'')]), (''rs'', Rs, [])]) w0)"
proof -
  have s: "pr_sys prog0 = ref" by (simp add: prog0_def)
  have l: "listened ref [(root_path, ''label'') \<mapsto> FString ''x''] m w0 = help_shown m w0" for m
    by (simp add: listened_def string_at_def preRun_def) (simp add: help_shown_def may_try_def may_bind_def)
  show ?thesis
    using testing_command_line[OF testing_args_ok(1) _ testing_parts_ok, of prog0 w0]
    by (simp only: testing_words_eval testing_args_ok(2) Let_def s l list.distinct simp_thms)
qed

text \<open>
  C9: when the parts of a testing command line are of different kinds and are given flags of their own
  commands only, no part sees the flags of another: each runs as in a process of its own, with the values
  given to testing itself, the label among them.
\<close>

theorem testing_parts_apart:
  assumes "\<forall>a\<in>set as. takes_flag testing_set a" and "parts \<noteq> []"
    and "\<forall>x\<in>set parts. part_ok x \<and> own_flags x" and "distinct (map part_kind parts)"
  shows "main P (testing_words as parts) w =
    (let e = set_all (assigns testing_set as) Map.empty
     in exits (listened (pr_sys P) e (parts_spec (pr_sys P) (pr_json P) e parts) w))"
proof -
  have "testing_spec (pr_sys P) (pr_json P) e parts = parts_spec (pr_sys P) (pr_json P) e parts" for e
    using assms(3,4) by (intro testing_apart[of "{}"]) (auto simp: apart_def)
  moreover have "\<forall>x\<in>set parts. part_ok x" using assms(3) by blast
  ultimately show ?thesis
    using run_testing_doc[OF cli_ok_fresh assms(1,2), of P 0 w] by (simp add: main_exits Execute_def numeral_2_eq_2 Let_def)
qed

text \<open>The parts of the witness: postgres with its migrations, and redis that is not touched by them.\<close>

theorem testing_parts_apart_witness:
  "\<exists>f g. main prog0 [''testing'', ''--label=x'', ''--'', ''pg'', ''--migrations=m'', ''-'', ''rs''] w0 =
    exits (help_shown (may_try (help_shown (runPostgres ref f))
      (\<lambda>x. may (fail (Wrapf ''starting %s failed: %w'' [''pg --migrations=m''] x)))
      (\<lambda>_. may_try (help_shown (runRedis ref g 0))
        (\<lambda>x. may (fail (Wrapf ''starting %s failed: %w'' [''rs''] x)))
        (\<lambda>_. may_try (help_shown (RunAPIServerContainer ref (pr_json prog0) api_DefaultPort ''x'' ''20s''))
          (\<lambda>x. may (fail (Wrapf ''starting api server failed: %w'' [] x))) (\<lambda>_. may (ret ()))))) w0) \<and>
    fl_migrations f = ''m'' \<and> fl_label f = ''x'' \<and> fl_detach f \<and> fl_label g = ''x'' \<and> fl_detach g \<and> fl_fixtures g = ''''"
proof -
  let ?parts = "[(''pg'', Pg, [(''migrations'', ''m'')]), (''rs'', Rs, [])]" and ?e = "[(root_path, ''label'') \<mapsto> FString ''x'']"
  have p: "\<forall>x\<in>set ?parts. part_ok x \<and> own_flags x" using testing_parts_ok by (simp add: GetPgCmd_def flag_makers)
  have s: "pr_sys prog0 = ref" by (simp add: prog0_def)
  have l: "listened ref e m = help_shown m" if "e (root_path, ''listen'') = None" for e m
    using that by (simp add: listened_def string_at_def preRun_def may_bind_def may_try_def help_shown_def fun_eq_iff)
  let ?f = "postgres_given (part_env ?e (''pg'', Pg, [(''migrations'', ''m'')]))" and ?g = "redis_given (part_env ?e (''rs'', Rs, []))"
  have e1: "part_env ?e (''pg'', Pg, [(''migrations'', ''m'')]) = ?e((start_path, ''detach'') \<mapsto> FBool True, (pg_path, ''migrations'') \<mapsto> FString ''m'')"
    and e2: "part_env ?e (''rs'', Rs, []) = ?e((start_path, ''detach'') \<mapsto> FBool True)"
    by (simp_all add: take_eval)
  have f: "fl_migrations ?f = ''m'' \<and> fl_label ?f = ''x'' \<and> fl_detach ?f"
    unfolding e1 by (simp add: postgres_given_def string_at_def bool_at_def)
  have g: "snd ?g = 0 \<and> fl_label (fst ?g) = ''x'' \<and> fl_detach (fst ?g) \<and> fl_fixtures (fst ?g) = ''''"
    unfolding e2 by (simp add: redis_given_def string_at_def bool_at_def int_at_def)
  have l1: "part_env ?e (''pg'', Pg, [(''migrations'', ''m'')]) (root_path, ''listen'') = None" unfolding e1 by simp
  have l2: "part_env ?e (''rs'', Rs, []) (root_path, ''listen'') = None" unfolding e2 by simp
  have r: "(case ?g of (f, dbIndex) \<Rightarrow> runRedis ref f dbIndex) = runRedis ref (fst ?g) 0"
    using g by (simp add: case_prod_beta)
  have m: "main prog0 [''testing'', ''--label=x'', ''--'', ''pg'', ''--migrations=m'', ''-'', ''rs''] w0 =
      exits (listened ref ?e (parts_spec ref (pr_json prog0) ?e ?parts) w0)"
    using testing_parts_apart[OF testing_args_ok(1) _ p, of prog0 w0]
    by (simp only: testing_words_eval testing_args_ok(2) Let_def s) simp
  show ?thesis
    by (rule exI[of _ ?f], rule exI[of _ "fst ?g"])
      (use f g in \<open>simp add: m l l1 l2 r word_of_def string_at_def del: part_env.simps\<close>)
qed

text \<open>
  Parts of one kind share their flags: what the first part sets, a later one that does not name it runs with.
  A label that one part is given reaches all the parts after it and the api server.
\<close>

lemma testing_flags_leak:
  "fl_migrations (postgres_given (part_env (part_env Map.empty (''pg'', Pg, [(''migrations'', m)])) (''pg'', Pg, [(''version'', v)]))) = m"
  by (simp add: take_eval postgres_given_def string_at_def)

lemma testing_label_leak:
  "fl_label (fst (redis_given (part_env (part_env Map.empty (''pg'', Pg, [(''label'', l)])) (''rs'', Rs, [])))) = l"
  by (simp add: take_eval redis_given_def string_at_def)

section \<open>stop\<close>

lemma parseArgs_plain:
  "\<forall>n\<in>set ns. plain_word n \<Longrightarrow> parseArgs True gs ns = ([], Ok ns)"
  by (induction ns) (auto simp: plain_word_def)

lemma db_type_plain: "itsDBType n \<Longrightarrow> plain_word n"
  by (auto simp: itsDBType_def plain_word_def)

lemma stop_command [simp]: "cm_Commands GetStopCmd = []" "cm_Version GetStopCmd = ''''"
  "cm_Run GetStopCmd = Some RunStop" "cm_Interspersed GetStopCmd"
  by (simp_all add: GetStopCmd_def)

lemma run_stop_doc:
  assumes args: "args \<noteq> []" "\<forall>a\<in>set args. plain_word a"
  shows "main P (''stop'' # (''--label='' @ l) # args) w = exits (help_shown (may (runStop (pr_sys P) l args)) w)"
proof -
  let ?S = "pr_sys P" and ?c = GetStopCmd and ?fs = "stop_set @ [help_flag stop_path]" and ?as = "[(''label'', l)]"
  let ?again = "execute_depth P 1"
  have p: "stop_path = root_path @ [cm_Name ?c]" by simp
  have as: "\<forall>a\<in>set ?as. takes_flag stop_set a" by (simp add: take_eval)
  have pa: "parses (cm_Interspersed ?c) stop_set stop_path (map word_of ?as @ args) (assigns stop_set ?as) args"
    using parses_words[OF as table_plain(1)[OF table_in(6)], where rest = args and p = stop_path and i = True] parseArgs_plain[OF args(2)] by simp
  obtain st1 where e: "ExecuteC ?S (run_command P ?again) (dbctl_root (pr_version P)) (''stop'' # map word_of ?as @ args) (w, fresh_cli) =
      help_shown (may_bind (PersistentPreRunE ?S stop_path ?c) (\<lambda>_. run_command P ?again RunStop stop_path ?c args)) (w, st1)"
    and v: "pf_vals st1 = set_all (assigns stop_set ?as) Map.empty" and F: "Flags st1 stop_path ?c = ?fs" and r: "readable ?fs st1"
    using leaf_run[OF cli_ok_fresh root_words(7,8) root_finds(8)[of "pr_version P"] root_finds(7), where S = ?S and run = "run_command P ?again" and w = w,
        OF stop_command(1) _ stop_command(2,3) _ _ p table_in(6) merges_stop pa assigns_app[OF table_in(6) as]]
    by (simp; blast)
  have v2: "pf_vals st1 = [(root_path, ''label'') \<mapsto> FString l]" unfolding v by (simp add: take_eval)
  have "wrap_err ''invalid label args, %w'' [] (GetString (Flags st1 stop_path ?c) st1 ''label'') = Ok l"
    unfolding F GetString_at[OF r] by (simp add: Lookup_def flag_sets app_commands help_flag_def v2 string_at_def)
  then have run: "run_command P ?again RunStop stop_path ?c args (w1, st1) = on_world (may (runStop ?S l args)) (w1, st1)" for w1
    using args(1) by (simp add: run_command_def Let_def read_flags_bind[where f = "\<lambda>fs st. wrap_err ''invalid label args, %w'' [] (GetString fs st ''label'')"])
  have "Lookup ?fs ''listen'' = Some (root_path, StringP ''listen'' '''' '''')"
    by (simp add: Lookup_def flag_sets app_commands help_flag_def)
  then have "help_shown (may_bind (PersistentPreRunE ?S stop_path ?c) (\<lambda>_. run_command P ?again RunStop stop_path ?c args)) (w, st1) =
      on_world (listened ?S (pf_vals st1) (may (runStop ?S l args))) (w, st1)"
    by (intro prerun_run[OF run]) (simp_all only: F r)
  moreover have "listened ?S (pf_vals st1) m w = help_shown m w" for m
    unfolding v2 by (simp add: listened_def string_at_def preRun_def) (simp add: help_shown_def may_try_def may_bind_def)
  ultimately show ?thesis using e by (simp add: main_exits Execute_def numeral_2_eq_2 word_of_def)
qed

text \<open>
  C10: the command line that stops database types exits with 0 and removes exactly the running containers
  that carry the program's mark, one of the types and, if a label is given, the label; instances of other
  types, with other labels, and containers of other programs keep running.
\<close>

theorem stop_command_line:
  assumes "docker_doc (pr_sys P) V" and "args \<noteq> []" and "\<forall>a\<in>set args. itsDBType a"
  shows "\<exists>w1. main P (''stop'' # (''--label='' @ l) # args) w = Some (0, w1) \<and>
    dv_running (V w1) = filter (\<lambda>c. \<not> stopped_by args l c) (dv_running (V w))"
proof -
  obtain w1 where "runStop (pr_sys P) l args w = (Ok (), w1)"
    and "dv_running (V w1) = filter (\<lambda>c. \<not> stopped_by args l c) (dv_running (V w))"
    using stop_by_types[OF assms, of l w] by blast
  moreover have "\<forall>a\<in>set args. plain_word a" using assms(3) db_type_plain by blast
  ultimately show ?thesis
    using run_stop_doc[OF assms(2), of P l w] by (simp add: help_shown_def may_try_def exits_def)
qed

theorem stop_command_line_witness:
  "\<exists>w1. main prog0 [''stop'', ''--label=x'', ''pg'', ''redis''] w_run = Some (0, w1) \<and>
    map cs_ID (dv_running (dkv w1)) = [id_of 1, id_of 2]"
proof -
  have a: "\<forall>a\<in>set [''pg'', ''redis'']. itsDBType a" by (simp add: itsDBType_def)
  have d: "docker_doc (pr_sys prog0) dkv" using ref_docker_doc by (simp add: prog0_def)
  have s: "stopped_by [''pg'', ''redis''] ''x'' c \<longleftrightarrow> map_of (cs_Labels c) LabelManagedBy = Some LabelDBctl \<and>
      map_of (cs_Labels c) LabelType \<in> {Some LabelPostgres, Some LabelRedis} \<and> map_of (cs_Labels c) LabelCustom = Some ''x''" for c
    by (auto simp: stopped_by_def stop_types_def carries_InstanceLabels)
  show ?thesis
    using stop_command_line[OF d _ a, of "''x''" w_run] unfolding s dkv_run
    by (auto simp: w_run_def label_defs LabelPostgres_def LabelMongoDB_def LabelRedis_def)
qed

section \<open>Nesting\<close>


end
