(* ===== verification/Spec2Isabelle.thy ===== *)
theory Spec2Isabelle
  imports RedisSpec PostgresSpec MongodbSpec ApiSpec CmdSpec Session PgEndToEnd MgEndToEnd RedisLoad CommandSpec
begin

text \<open>
  \<^bold>\<open>dbctl\<close>: databases for tests. The program starts postgres, redis and mongodb instances as docker
  containers, and serves an HTTP interface through which a test suite asks for a fresh database on a
  running instance and gives it back. This development models the Go program under \<^verbatim>\<open>src/\<close> and proves
  what its users rely on.

  \<^bold>\<open>How the parts interact.\<close> A command (\<^verbatim>\<open>cmd/\<close>) configures a provider
  (\<^verbatim>\<open>internal/database/{redis,postgres,mongodb}\<close>) and starts it through
  \<^verbatim>\<open>internal/container\<close>, which labels the container with its type, its user label and the
  connection details. \<^verbatim>\<open>internal/database\<close> finds instances again by these labels. The api server
  (\<^verbatim>\<open>internal/apiserver\<close>) takes a creation request with uploaded migrations and fixtures, stores them in
  temporary directories, fills in the instance it knows and calls \<^verbatim>\<open>CreateDB\<close> of the provider; a removal
  rebuilds the provider from the address and calls \<^verbatim>\<open>RemoveDB\<close>. The Go client
  (\<^verbatim>\<open>clients/dbctlgo\<close>) makes these requests. \<^verbatim>\<open>internal/selfupdate\<close>, \<^verbatim>\<open>internal/table\<close>,
  \<^verbatim>\<open>internal/logger\<close> and \<^verbatim>\<open>internal/utils\<close> serve the commands.

  \<^bold>\<open>The model.\<close> A fallible call is an \<open>action\<close>: a function from the world to a result and the next world,
  where a result is \<open>Ok\<close>, \<open>Err\<close> with a Go error (wrapping and \<^verbatim>\<open>errors.Is\<close> included) or \<open>Panic\<close>
  (\<open>Prelude\<close>); a call that may wait forever is a \<open>maybe_action\<close>, with \<open>None\<close> for not returning. The
  loops that poll (\<^verbatim>\<open>WaitForStart\<close>, \<^verbatim>\<open>waitForPort\<close>, \<^verbatim>\<open>GetAvailablePort\<close>) are
  \<open>partial_function (option)\<close>. The one bound is the depth of runs inside runs (\<open>execute_depth\<close>), which
  \<open>Execute\<close> sets to 2; \<open>nesting_bounded\<close> shows that a larger one changes nothing. What is outside the program, the operating system, the
  docker daemon and the three database servers, is the record \<open>'w sys\<close> of its calls over an arbitrary
  world \<open>'w\<close> (\<open>World\<close>), a parameter of every definition that uses it; so are the hash function
  (\<open>sha\<close>), JSON (\<open>json_api\<close>) and regular expressions. What the code relies on of them is stated by
  predicates that give their documented behaviour over a view of the world: \<open>docker_doc\<close>
  (\<open>Container\<close>), \<open>redis_doc\<close> (\<open>RedisPool\<close>), \<open>pg_doc\<close> (\<open>PostgresDB\<close>), \<open>mg_doc\<close>
  (\<open>MongodbDB\<close>), \<open>disk_doc\<close> (\<open>Uploads\<close>), \<open>tmp_doc\<close> (\<open>Handlers\<close>), \<open>rename_doc\<close>
  (\<open>Selfupdate\<close>), \<open>rand_doc\<close> (\<open>Utils\<close>). Where a property is about files, what is known of them is
  a predicate on the world that the calls in between leave alone: \<open>undisturbed\<close> and \<open>reads\<close> for the
  disk, \<open>machine_doc\<close> for the machine as a whole, \<open>redis_data\<close> for the contents of redis. \<open>RefWorld\<close>
  is a machine that computes and satisfies them together; the witnesses of the properties run on it. Go strings are byte lists, runes are
  decoded and encoded as UTF-8, ports and version numbers are machine words.

  \<^bold>\<open>The theories.\<close>
  \<^item> \<open>Prelude\<close>: results, actions, deferred calls, loops over lists, the collections of simplification
    rules (\<open>res_simps\<close>, \<open>keeps\<close>), preservation of a predicate by an action.
  \<^item> \<open>GoStrings\<close>, \<open>GoStrconv\<close>, \<open>GoPath\<close>, \<open>GoURL\<close>, \<open>GoUtf8\<close>: the functions of Go's
    standard library the program uses (\<^verbatim>\<open>strings\<close>, \<^verbatim>\<open>strconv\<close>, \<^verbatim>\<open>path/filepath\<close>,
    \<^verbatim>\<open>net/url\<close>, \<^verbatim>\<open>unicode/utf8\<close>), with the round trips of printing and parsing numbers,
    escaping and unescaping, building and parsing database URLs, joining and relating paths.
  \<^item> \<open>Utils\<close> (\<^verbatim>\<open>utils.go\<close>): port selection and membership. \<open>Container\<close>
    (\<^verbatim>\<open>models.go\<close>, \<^verbatim>\<open>docker_rest.go\<close>): creating, starting, listing and removing containers and
    running commands in them. \<open>Database\<close> (\<^verbatim>\<open>database.go\<close>): labels and instances; a started
    instance is found with the details it was started with.
  \<^item> \<open>Files\<close>: directory walks and the locale \<open>file_lister\<close>, the contract of the providers'
    \<^verbatim>\<open>getFiles\<close>, interpreted for the three of them.
  \<^item> \<open>Pool\<close>: the locale \<open>index_pool\<close>, what a pool of numbered resources promises (least free first,
    never twice, given back exactly), with its runs as an inductive relation and their invariant.
    \<open>RedisFixtures\<close> (\<^verbatim>\<open>fixtures.go\<close>), \<open>Redis\<close> (\<^verbatim>\<open>redis.go\<close>,
    \<^verbatim>\<open>config.go\<close>; the Lua scripts call by call) and \<open>RedisPool\<close>, where \<^verbatim>\<open>CreateDB\<close> and
    \<^verbatim>\<open>RemoveDB\<close> interpret the pool. \<open>RedisSpec\<close>: the properties.
  \<^item> \<open>Postgres\<close> (\<^verbatim>\<open>pg.go\<close>, \<^verbatim>\<open>config.go\<close>), \<open>PostgresDB\<close>: transactions, templates, the
    effect of \<^verbatim>\<open>CreateDB\<close> and \<^verbatim>\<open>RemoveDB\<close>; \<open>PostgresSpec\<close>: the properties.
  \<^item> \<open>Mongodb\<close> (\<^verbatim>\<open>mongodb.go\<close>, \<^verbatim>\<open>config.go\<close>), \<open>MongodbDB\<close>, \<open>MongodbSpec\<close>: likewise.
  \<^item> \<open>Apiserver\<close> (\<^verbatim>\<open>server.go\<close>, \<^verbatim>\<open>container.go\<close>), \<open>Client\<close> (\<^verbatim>\<open>client.go\<close>,
    \<^verbatim>\<open>options.go\<close>; how a request arrives is \<open>received\<close> and \<open>wire_to\<close>), \<open>Uploads\<close>: names and
    contents of files from the client's disk to the server's; \<open>Handlers\<close>: what the handlers leave
    alone, refused requests, removal by address; \<open>EndToEnd\<close>: client, server and provider composed;
    \<open>ApiSpec\<close>: the properties.
  \<^item> \<open>UploadRequest\<close> and \<open>Dirs\<close>: whole directories as the client sends and the server stores them;
    \<open>PgEndToEnd\<close>, \<open>MgEndToEnd\<close>, \<open>RedisLoad\<close>: a test from the creation with files to the cleanup, for
    each database; \<open>Session\<close>: an abstract pool of numbered databases and the simulation of it by
    clients and the server.
  \<^item> \<open>Selfupdate\<close>, \<open>Logger\<close>, \<open>Table\<close>, \<open>Cmd\<close> (the run functions of the commands),
    \<open>CmdSpec\<close>: the properties of the commands.
  \<^item> \<open>Pflag\<close>: flag sets and their parsing, from the vendored \<^verbatim>\<open>pflag\<close>. \<open>CommandLine\<close>: the commands
    the program declares with their flags (\<^verbatim>\<open>GetRootCmd\<close>, \<^verbatim>\<open>GetStartCmd\<close> and the others) and, from
    the vendored \<^verbatim>\<open>cobra\<close>, finding a command and executing it. \<open>Program\<close>: the flags each run function
    reads, the dispatch, and \<^verbatim>\<open>main\<close>. The flag values and the merged flag sets are the state
    \<open>cli_state\<close>, which one run leaves to the next in the same process. \<open>FlagSets\<close>: written flags are
    read back, merging is done once. \<open>Running\<close>: the invariant \<open>cli_ok\<close> between runs and the run of a
    start command from any such state. \<open>Testing\<close>: the run of a testing command, and how deep runs
    nest. \<open>CommandSpec\<close>: the properties of the command line.

  \<^bold>\<open>What is proved.\<close> This theory: a client gets the least free redis database through all layers, and
  its cleanup restores the claims; every session of clients is answered as by an abstract pool; a test
  with files gets a postgres, mongodb or redis database that holds them, and its cleanup removes it.
  \<open>CommandSpec\<close>: a command line runs what it says with the flags it gives and the defaults for the
  others; testing is its parts in order and then the api server, and parts of different kinds do not
  touch each other's flags; stopping types removes exactly those that are named. \<open>RedisSpec\<close>: claims are exclusive, exhaustive and recoverable,
  database 0 is safe, fixtures send what they spell and stop at the first bad line.
  \<open>PostgresSpec\<close>: a database holds its migrations and fixtures, templates are reused by content, a
  failing migration leaves nothing half done, names cannot inject SQL. \<open>MongodbSpec\<close>: documents are
  loaded by file, removal is exact. \<open>ApiSpec\<close>: uploads stay inside and arrive unchanged, no temporary
  directory is left, bad requests have no effect, instances are found by their labels. \<open>CmdSpec\<close>: stop
  removes what it names and nothing else, waiting and port selection end, ports are local by default,
  an update never loses the program. Lemmas beside the properties show where the code does not do what
  it says: \<open>template_names_collide\<close>, \<open>redis_start_panics\<close>, \<open>stop_ids_ignored\<close>,
  \<open>greater_is_less\<close>, \<open>testing_flags_leak\<close>, \<open>testing_label_leak\<close>.

  \<^bold>\<open>Conventions.\<close> Error texts are kept as format and operands; a \<^verbatim>\<open>%q\<close> operand is kept unquoted. Log
  output is left out of the model except in \<open>Logger\<close>. A map that is ranged over is an association
  list in one order.

  \<^bold>\<open>Not modelled.\<close> What help and completion print (their run functions are a parameter, \<open>pr_builtin\<close>),
  \<^verbatim>\<open>ContextWithOsSignal\<close> (operating system signals), the timing of tickers (a tick is one call), the
  streams of an interactive exec, the Python client, and the vendored packages apart from the parts of
  \<^verbatim>\<open>cobra\<close> and \<^verbatim>\<open>pflag\<close> above and the reply conversions of redigo, which the database count depends on.
\<close>

section \<open>The client, the server and the database together\<close>

lemma ref_fresh_tmp: "fresh_tmp ref rw_rd"
proof -
  have "rs_getFiles ref d w = Ok []" if "clean_dir d" "d \<in> set (rw_tmp w)" "ref_below d w = []" for d w
    using that by (auto simp: clean_dir_def rs_getFiles_def ref_os_def ref_stat_def Abs_def ref_walk_def)
  moreover have "ref_below (file_at ''/tmp'' (ref_tmp_name w)) w = []" for w
    using ref_tmp_fresh(2)[where w = w] by (auto simp: ref_below_def filter_empty_conv)
  moreover have "quiet_rd ref (\<lambda>w. rs_getFiles ref n w = Ok [])" for n
  proof -
    have "rs_getFiles ref n w = rs_getFiles ref n (w0\<lparr>rw_tmp := rw_tmp w, rw_files := rw_files w\<rparr>)" for w
      by (simp add: rs_getFiles_def ref_os_def ref_stat_def ref_walk_def ref_below_def ref_read_def Abs_def)
    then show ?thesis
      using ref_quiet_rd[of "\<lambda>t fs. rs_getFiles ref n (w0\<lparr>rw_tmp := t, rw_files := fs\<rparr>) = Ok []"] by simp
  qed
  moreover have "ref_below d (w\<lparr>rw_tmp := t\<rparr>) = ref_below d w" for d w t by (simp add: ref_below_def)
  ultimately show ?thesis
    using clean_tmp[OF ref_tmp_plain(1)] by (simp add: fresh_tmp_def) (simp add: ref_os_def)
qed

text \<open>
  C1: a client that asks a running server for a redis database gets the address of the least free
  index of the instance the server knows: the index was free, is above 0 and is claimed afterwards,
  its database is empty and no other database has changed. When every index is claimed the client
  gets an error and nothing has changed. The request goes through the client, the route, the form,
  the choice of the instance and the provider.
\<close>

theorem client_create_redis:
  assumes "rs_ready S V n (instance_redis i)" and "map_of (sv_instances s) TypeRedis = Some (Some i)"
    and "fresh_tmp S V" and "configFrom S opts w = Ok cfg" and "plain_config cfg"
  shows "\<exists>res w1. cl_CreateDB rx S (wire_to sha S J s (getHostURL cfg)) DatabaseRedis opts w = (res, w1) \<and>
    ((\<exists>k. 0 < k \<and> k < n \<and> k \<notin> claimed_in (V w) \<and> {0<..<k} \<subseteq> claimed_in (V w) \<and>
        res = Ok (rs_db_uri (instance_redis i) k) \<and> rv_dbs (V w1) = claim_db k (rv_dbs (V w))) \<or>
     ({0<..<n} \<subseteq> claimed_in (V w) \<and> (\<exists>e. res = Err e) \<and> rv_dbs (V w1) = rv_dbs (V w)))"
proof (cases "first_free n (V w)")
  case None
  then have "{0<..<n} \<subseteq> claimed_in (V w)" by (simp add: first_free_None)
  with None show ?thesis
    using cl_CreateDB_redis[OF assms, of rx sha J] by (auto simp: claim_first_def)
next
  case (Some k)
  then show ?thesis
    using cl_CreateDB_redis[OF assms, of rx sha J] first_free_Some[of n "V w" k] by (auto simp: claim_first_def)
qed

text \<open>A server that knows an instance of each type, with the defaults for the rest.\<close>

definition inst0 :: "string \<Rightarrow> Instance" where
  "inst0 t = \<lparr>in_ID = '''', in_Type = t, in_Label = '''', in_Port = 0, in_User = '''', in_Pass = '''', in_Name = ''''\<rparr>"

definition s1 :: Server where
  "s1 = \<lparr>sv_port = ''1988'', sv_label = '''',
     sv_instances = map (\<lambda>t. (t, Some (inst0 t))) [TypeRedis, TypePostgres, TypeMongoDB]\<rparr>"

lemma ready1: "rs_ready ref rw_rd 16 (instance_redis (inst0 TypeRedis))"
  by (rule rs_ready_cong[OF rs0_ready]) (simp_all add: instance_redis_def inst0_def rs0_def rs_default_def)

lemma config1: "configFrom ref [] w = Ok cl_defaultConfig" "plain_config cl_defaultConfig"
  by (simp_all add: configFrom_def cl_fromEnv_def ref_os_def plain_config_def cl_defaultConfig_def EnvHost_def EnvPort_def
      EnvListen_def Let_def)

lemma snapshot1: "t \<in> {TypeRedis, TypePostgres, TypeMongoDB} \<Longrightarrow> map_of (sv_instances s1) t = Some (Some (inst0 t))"
  by (auto simp: s1_def)

lemma removal_sent_j0: "removal_sent j0 DatabaseRedis" "removal_sent j0 DatabasePostgres" "removal_sent j0 DatabaseMongoDB"
proof -
  have "str_cut (CHR '' '') (t @ '' '' @ u) = (t, u)" if "CHR '' '' \<notin> set t" for t u
    using that by (induction t) (auto simp: str_cut_def)
  then show "removal_sent j0 DatabaseRedis" "removal_sent j0 DatabasePostgres" "removal_sent j0 DatabaseMongoDB"
    by (simp_all add: removal_sent_def j0_def DatabaseRedis_def DatabasePostgres_def DatabaseMongoDB_def del: append_Cons)
qed

theorem client_create_redis_witness:
  "\<exists>res w1. cl_CreateDB (\<lambda>_. Ok (\<lambda>_. True)) ref (wire_to (\<lambda>s. s) ref j0 s1 (getHostURL cl_defaultConfig)) DatabaseRedis []
      w0 = (res, w1) \<and> (\<exists>k. res = Ok (rs_db_uri (instance_redis (inst0 TypeRedis)) k) \<and> k \<in> claimed_in (rw_rd w1))"
proof -
  have "1 \<in> {0<..<16::nat}" by simp
  then have "\<not> {0<..<16::nat} \<subseteq> {}" by blast
  with client_create_redis[OF ready1 snapshot1[of TypeRedis, simplified] ref_fresh_tmp config1(1) config1(2),
      of "\<lambda>_. Ok (\<lambda>_. True)" "\<lambda>s. s" j0 w0]
  obtain res w1 k where c: "cl_CreateDB (\<lambda>_. Ok (\<lambda>_. True)) ref (wire_to (\<lambda>s. s) ref j0 s1 (getHostURL cl_defaultConfig))
      DatabaseRedis [] w0 = (res, w1)" and k: "0 < k" "res = Ok (rs_db_uri (instance_redis (inst0 TypeRedis)) k)"
    and v: "rv_dbs (rw_rd w1) = claim_db k (rv_dbs (rw_rd w0))"
    unfolding claimed_w0 by blast
  from v k(1) have "k \<in> claimed_in (rw_rd w1)" by (simp add: claimed_in_def claim_db_def)
  with c k show ?thesis by blast
qed

text \<open>
  C2: a test that creates a redis database through the client and runs the cleanup it gets leaves the
  claims as it found them, while the claim is held in between: nothing leaks from test to test.
\<close>

theorem client_cleanup_restores:
  assumes "rs_ready S V n (instance_redis i)" and "map_of (sv_instances s) TypeRedis = Some (Some i)"
    and "fresh_tmp S V" and "\<forall>w. configFrom S opts w = Ok cfg" and "plain_config cfg"
    and "rs_credentials_kept (rs_cfg (instance_redis i))"
    and "removal_sent J DatabaseRedis"
    and "k \<in> {0<..<n}" and "k \<notin> claimed_in (V w)"
  shows "\<exists>uri cleanup w1 w2 j.
    MustCreateRedisDB rx J S (wire_to sha S J s (getHostURL cfg)) opts w = (Ok (uri, cleanup), w1) \<and>
    claimed_in (V w1) = insert j (claimed_in (V w)) \<and> j \<notin> claimed_in (V w) \<and>
    cleanup w1 = (Ok (), w2) \<and> claimed_in (V w2) = claimed_in (V w)"
proof -
  have cfg: "configFrom S opts w = Ok cfg" for w using assms(4) by simp
  have "first_free n (V w) \<noteq> None" using assms(8,9) unfolding first_free_None by blast
  then obtain j where j: "first_free n (V w) = Some j" by blast
  then have jn: "0 < j" "j < n" "j \<notin> claimed_in (V w)" by (simp_all add: first_free_Some)
  let ?H = "wire_to sha S J s (getHostURL cfg)" and ?u = "rs_db_uri (instance_redis i) j"
  obtain w1 where c: "cl_CreateDB rx S ?H DatabaseRedis opts w = (Ok ?u, w1)"
    and v1: "rv_dbs (V w1) = claim_db j (rv_dbs (V w))"
    using cl_CreateDB_redis[OF assms(1-3) cfg assms(5), where w = w and rx = rx and sha = sha and J = J] j by (auto simp: claim_first_def)
  obtain w2 where r: "cl_RemoveDB J S ?H DatabaseRedis ?u opts w1 = (Ok (), w2)"
    and v2: "rv_dbs (V w2) = release_db j (rv_dbs (V w1))"
    using cl_RemoveDB_redis[OF assms(1,6) jn(1,2) assms(7)[unfolded removal_sent_def, rule_format] cfg] by blast
  have "claimed_in (V w1) = insert j (claimed_in (V w))"
    using v1 jn(1) by (auto simp: claimed_in_def claim_db_def)
  moreover have "claimed_in (V w2) = claimed_in (V w)"
    using v1 v2 jn by (auto simp: claimed_in_def claim_db_def release_db_def split: if_splits)
  moreover have "MustCreateRedisDB rx J S ?H opts w = (Ok (?u, cl_RemoveDB J S ?H DatabaseRedis ?u opts), w1)"
    using c by (simp add: MustCreateRedisDB_def MustCreateDB_def bind_def)
  ultimately show ?thesis using r jn(3) by blast
qed

theorem client_cleanup_restores_witness:
  "\<exists>uri cleanup w1 w2. MustCreateRedisDB (\<lambda>_. Ok (\<lambda>_. True)) j0 ref (wire_to (\<lambda>s. s) ref j0 s1 (getHostURL cl_defaultConfig)) []
      w0 = (Ok (uri, cleanup), w1) \<and> cleanup w1 = (Ok (), w2) \<and> claimed_in (rw_rd w2) = {}"
proof -
  have k: "rs_credentials_kept (rs_cfg (instance_redis (inst0 TypeRedis)))"
    by (simp add: rs_credentials_kept_def instance_redis_def inst0_def rs_DefaultPass_def)
  have cfg: "\<forall>w. configFrom ref [] w = Ok cl_defaultConfig" by (simp add: config1(1))
  from client_cleanup_restores[OF ready1 snapshot1[of TypeRedis, simplified] ref_fresh_tmp cfg config1(2) k removal_sent_j0(1), where k = 1 and w = w0
      and rx = "\<lambda>_. Ok (\<lambda>_. True)" and sha = "\<lambda>s. s"]
  show ?thesis by auto
qed

section \<open>Sessions\<close>

text \<open>
  C3: the system is a pool. Whatever sequence of creations and removals of redis databases clients
  request of a server, their answers and the databases afterwards are those of an abstract pool of
  numbered databases that hands out the least free number, refuses when there is none, empties what
  it hands out and takes back, and knows nothing of keys, connections, forms or addresses.
\<close>

theorem client_session_refines_pool:
  assumes "session_ready J S V n i s opts cfg" and "list_all (pool_op_ok n) xs"
  shows "\<exists>w1. client_session rx J S (wire_to sha S J s (getHostURL cfg)) opts (rs_db_uri (instance_redis i)) xs w =
      (map (map_outcome (rs_db_uri (instance_redis i))) (fst (pool_session n xs (pool_of (V w)))), w1) \<and>
    pool_of (V w1) = snd (pool_session n xs (pool_of (V w)))"
  by (rule client_session_sim[OF assms])

lemma session1: "session_ready j0 ref rw_rd 16 (inst0 TypeRedis) s1 [] cl_defaultConfig"
  using ready1 snapshot1 ref_fresh_tmp config1 removal_sent_j0(1)
  by (simp add: session_ready_def rs_credentials_kept_def instance_redis_def inst0_def rs_DefaultPass_def)

theorem client_session_refines_pool_witness:
  "fst (client_session (\<lambda>_. Ok (\<lambda>_. True)) j0 ref (wire_to (\<lambda>s. s) ref j0 s1 (getHostURL cl_defaultConfig)) []
      (rs_db_uri (instance_redis (inst0 TypeRedis))) [Claim, Claim, Release 1, Claim] w0) =
    map (map_outcome (rs_db_uri (instance_redis (inst0 TypeRedis)))) [Given 1, Given 2, Released, Given 1]"
proof -
  have "fst (pool_session 16 [Claim, Claim, Release 1, Claim] (pool_of (rw_rd w0))) = [Given 1, Given 2, Released, Given 1]"
    by (simp add: pool_free_def pool_clear_def pool_of_def upt_conv_Cons)
  with client_session_refines_pool[OF session1, of "[Claim, Claim, Release 1, Claim]" "\<lambda>_. Ok (\<lambda>_. True)" "\<lambda>s. s" w0]
  show ?thesis by auto
qed

section \<open>Tests with files\<close>


text \<open>A client that names two directories of the first disk.\<close>

definition cfg1 :: "string \<Rightarrow> string \<Rightarrow> cl_config" where
  "cfg1 ms fs = cl_defaultConfig\<lparr>cl_migrations := ms, cl_fixtures := fs\<rparr>"


lemma cfg1_paths [simp]: "cl_migrations (cfg1 ms fs) = ms" "cl_fixtures (cfg1 ms fs) = fs"
  by (simp_all add: cfg1_def)











end
